(* ===== verification/Prelude.thy ===== *)
theory Prelude
  imports Main "HOL-Library.List_Lexorder"
begin

text \<open>
  Shared vocabulary of the development: Python exceptions as values, the result and operation
  types the components are written in, the few string operations of Python the agent uses, and
  Python's stable sort.

  \<^item> \<open>exn\<close> lists the exception classes of the interpreter and of the agent
    (\<^verbatim>\<open>common/exception.py\<close>, \<^verbatim>\<open>ga/policy/policy_engine.py\<close>,
    \<^verbatim>\<open>ga/signature_validation_util.py\<close>); the predicates \<open>is_Exception\<close>,
    \<open>is_ExtensionError\<close> etc. are the \<^verbatim>\<open>except\<close> clauses.
  \<^item> \<open>'a res\<close> is the outcome of a call that changes no modelled state;
    \<open>('s, 'a) op\<close> is one that does: the state survives a raise, as it does in Python.
  \<^item> \<open>preserves\<close> and the collection \<open>preserves_intros\<close> carry the invariant proofs
    through the operation combinators.
\<close>

section \<open>Exceptions\<close>

datatype exn =
    TypeError | ValueError | KeyError | IndexError | AttributeError | ArithmeticError
  | OSError | DiskError | FileNotFoundError | StopIteration | OtherError string
  | CommandError int string
  | AgentUpgradeExitException string
  | AgentUpdateError string | AgentFamilyMissingError string | UpdateError string
  | ProtocolError string | ProtocolNotFoundError string
  | HttpError string | ResourceGoneError string | InvalidContainerError string | UploadError string
  | VmSettingsNotSupported | VmSettingsSupportStopped | VmSettingsParseError string string string
  | ExtensionError string int | ExtensionOperationError string int int
  | ExtensionUpdateError string int | ExtensionDownloadError string int
  | ExtensionsGoalStateError string int | ExtensionsConfigError string
  | MultiConfigExtensionEnableError string int
  | ExtensionStatusError string int
  | InvalidPolicyError string | ExtensionSignaturePolicyError | ExtensionUnsignedError
  | ExtensionSignatureNotValidatedError | ExtensionDisallowedError
  | ExtensionRuntimePolicyError string
  | SignatureValidationError string | SignatureValidationTimeoutError string
  | ManifestValidationError string

text \<open>
  \<^verbatim>\<open>ExitException\<close> derives from \<^verbatim>\<open>BaseException\<close>, so that no
  \<^verbatim>\<open>except Exception\<close> clause of the agent catches a request to leave the process.
\<close>

fun is_Exception :: "exn \<Rightarrow> bool" where
  "is_Exception (AgentUpgradeExitException _) = False"
| "is_Exception _ = True"

text \<open>
  The \<^verbatim>\<open>OSError\<close> family (\<^verbatim>\<open>IOError\<close> is the same class), by what the agent asks of
  \<^verbatim>\<open>errno\<close>: \<open>DiskError\<close> for the values in \<^verbatim>\<open>KNOWN_IOERRORS\<close> of
  \<^verbatim>\<open>common/utils/fileutil.py\<close>, \<open>FileNotFoundError\<close> for \<^verbatim>\<open>ENOENT\<close>,
  \<open>OSError\<close> for every other one.
\<close>

fun is_OSError :: "exn \<Rightarrow> bool" where
  "is_OSError OSError = True"
| "is_OSError DiskError = True"
| "is_OSError FileNotFoundError = True"
| "is_OSError _ = False"

fun is_ExtensionError :: "exn \<Rightarrow> bool" where
  "is_ExtensionError (ExtensionError _ _) = True"
| "is_ExtensionError (ExtensionOperationError _ _ _) = True"
| "is_ExtensionError (ExtensionUpdateError _ _) = True"
| "is_ExtensionError (ExtensionDownloadError _ _) = True"
| "is_ExtensionError (ExtensionsGoalStateError _ _) = True"
| "is_ExtensionError (ExtensionsConfigError _) = True"
| "is_ExtensionError (MultiConfigExtensionEnableError _ _) = True"
| "is_ExtensionError (ExtensionStatusError _ _) = True"
| "is_ExtensionError _ = False"

fun is_HttpError :: "exn \<Rightarrow> bool" where
  "is_HttpError (HttpError _) = True"
| "is_HttpError (ResourceGoneError _) = True"
| "is_HttpError (InvalidContainerError _) = True"
| "is_HttpError (UploadError _) = True"
| "is_HttpError _ = False"

fun is_SignatureValidationError :: "exn \<Rightarrow> bool" where
  "is_SignatureValidationError (SignatureValidationError _) = True"
| "is_SignatureValidationError (SignatureValidationTimeoutError _) = True"
| "is_SignatureValidationError _ = False"

fun is_ProtocolError :: "exn \<Rightarrow> bool" where
  "is_ProtocolError (ProtocolError _) = True"
| "is_ProtocolError (ProtocolNotFoundError _) = True"
| "is_ProtocolError _ = False"

section \<open>Results and operations\<close>

type_synonym 'a res = "exn + 'a"
type_synonym ('s, 'a) op = "'s \<Rightarrow> 'a res \<times> 's"

abbreviation succeeds :: "'a res \<Rightarrow> bool" where
  "succeeds r \<equiv> \<not> isl r"

definition bindR :: "'a res \<Rightarrow> ('a \<Rightarrow> 'b res) \<Rightarrow> 'b res" where
  "bindR m f = (case m of Inl e \<Rightarrow> Inl e | Inr a \<Rightarrow> f a)"

lemma bindR_simps [simp]: "bindR (Inl e) f = Inl e" "bindR (Inr a) f = f a"
  by (simp_all add: bindR_def)

lemma bindR_eq_Inr: "bindR m f = Inr b \<longleftrightarrow> (\<exists>a. m = Inr a \<and> f a = Inr b)"
  by (cases m) simp_all

lemma bindR_eq_Inl: "bindR m f = Inl e \<longleftrightarrow> m = Inl e \<or> (\<exists>a. m = Inr a \<and> f a = Inl e)"
  by (cases m) simp_all

lemma bindR_cong [fundef_cong]:
  assumes "m = m'" and "\<And>a. m' = Inr a \<Longrightarrow> f a = g a"
  shows "bindR m f = bindR m' g"
  using assms by (cases m') auto

fun mapR :: "('a \<Rightarrow> 'b res) \<Rightarrow> 'a list \<Rightarrow> 'b list res" where
  "mapR f [] = Inr []"
| "mapR f (x # xs) = bindR (f x) (\<lambda>y. bindR (mapR f xs) (\<lambda>ys. Inr (y # ys)))"

lemma mapR_Inr_iff: "mapR f xs = Inr ys \<longleftrightarrow> list_all2 (\<lambda>x y. f x = Inr y) xs ys"
  by (induction xs arbitrary: ys) (auto simp: bindR_eq_Inr list_all2_Cons1)

lemma mapR_Inr_in_set: "mapR f xs = Inr ys \<Longrightarrow> y \<in> set ys \<Longrightarrow> \<exists>x\<in>set xs. f x = Inr y"
  by (induction xs arbitrary: ys) (auto simp: bindR_eq_Inr)

lemma mapR_map: "(\<And>x. x \<in> set xs \<Longrightarrow> f x = Inr (g x)) \<Longrightarrow> mapR f xs = Inr (map g xs)"
  by (induction xs) simp_all

definition returnM :: "'a \<Rightarrow> ('s, 'a) op" where
  "returnM a = (\<lambda>s. (Inr a, s))"

definition raiseM :: "exn \<Rightarrow> ('s, 'a) op" where
  "raiseM e = (\<lambda>s. (Inl e, s))"

definition liftR :: "'a res \<Rightarrow> ('s, 'a) op" where
  "liftR r = (\<lambda>s. (r, s))"

definition getM :: "('s \<Rightarrow> 'a) \<Rightarrow> ('s, 'a) op" where
  "getM f = (\<lambda>s. (Inr (f s), s))"

definition modifyM :: "('s \<Rightarrow> 's) \<Rightarrow> ('s, unit) op" where
  "modifyM f = (\<lambda>s. (Inr (), f s))"

definition bindM :: "('s, 'a) op \<Rightarrow> ('a \<Rightarrow> ('s, 'b) op) \<Rightarrow> ('s, 'b) op" where
  "bindM m f = (\<lambda>s. case m s of (Inl e, t) \<Rightarrow> (Inl e, t) | (Inr a, t) \<Rightarrow> f a t)"

definition thenM :: "('s, 'a) op \<Rightarrow> ('s, 'b) op \<Rightarrow> ('s, 'b) op" where
  "thenM m n = bindM m (\<lambda>_. n)"

text \<open>
  \<open>tryM m h\<close> is \<^verbatim>\<open>try: m except ...: h\<close>; the handler returns \<open>None\<close> for an
  exception none of the clauses names, which then propagates.
\<close>

definition tryM :: "('s, 'a) op \<Rightarrow> (exn \<Rightarrow> ('s, 'a) op option) \<Rightarrow> ('s, 'a) op" where
  "tryM m h = (\<lambda>s. case m s of (Inr a, t) \<Rightarrow> (Inr a, t)
     | (Inl e, t) \<Rightarrow> (case h e of None \<Rightarrow> (Inl e, t) | Some k \<Rightarrow> k t))"

definition finallyM :: "('s, 'a) op \<Rightarrow> ('s, unit) op \<Rightarrow> ('s, 'a) op" where
  "finallyM m f = (\<lambda>s. case m s of (r, t) \<Rightarrow>
     (case f t of (Inl e, u) \<Rightarrow> (Inl e, u) | (Inr _, u) \<Rightarrow> (r, u)))"

definition whenM :: "bool \<Rightarrow> ('s, unit) op \<Rightarrow> ('s, unit) op" where
  "whenM b m = (if b then m else returnM ())"

fun forM :: "'a list \<Rightarrow> ('a \<Rightarrow> ('s, unit) op) \<Rightarrow> ('s, unit) op" where
  "forM [] f = returnM ()"
| "forM (x # xs) f = thenM (f x) (forM xs f)"

fun mapM :: "('a \<Rightarrow> ('s, 'b) op) \<Rightarrow> 'a list \<Rightarrow> ('s, 'b list) op" where
  "mapM f [] = returnM []"
| "mapM f (x # xs) = bindM (f x) (\<lambda>y. bindM (mapM f xs) (\<lambda>ys. returnM (y # ys)))"

fun filterR :: "('a \<Rightarrow> bool res) \<Rightarrow> 'a list \<Rightarrow> 'a list res" where
  "filterR p [] = Inr []"
| "filterR p (x # xs) = bindR (p x) (\<lambda>b. bindR (filterR p xs) (\<lambda>ys. Inr (if b then x # ys else ys)))"

lemma filterR_Inr: "filterR p xs = Inr ys \<Longrightarrow> ys = filter (\<lambda>x. p x = Inr True) xs"
  by (induction xs arbitrary: ys) (auto simp: bindR_eq_Inr)

named_theorems op_defs \<open>definitions of the operation combinators\<close>

lemmas [op_defs] = returnM_def raiseM_def liftR_def getM_def modifyM_def bindM_def thenM_def
  tryM_def finallyM_def whenM_def

lemma bindM_cong [fundef_cong]:
  assumes "m = m'" and "\<And>a s. f a s = g a s"
  shows "bindM m f = bindM m' g"
  using assms by (auto simp: bindM_def fun_eq_iff split: prod.splits sum.splits)

lemma bindM_getM: "bindM (getM g) f s = f (g s) s"
  by (simp add: bindM_def getM_def)

lemma bindM_InrE:
  assumes "bindM m f s = (Inr b, t)"
  obtains a u where "m s = (Inr a, u)" "f a u = (Inr b, t)"
  using assms by (auto simp: bindM_def split: prod.splits sum.splits)

lemma thenM_InrE:
  assumes "thenM m n s = (Inr b, t)"
  obtains a u where "m s = (Inr a, u)" "n u = (Inr b, t)"
  using assms unfolding thenM_def by (rule bindM_InrE)

section \<open>Preservation of a state predicate\<close>

definition preserves :: "('s \<Rightarrow> bool) \<Rightarrow> ('s, 'a) op \<Rightarrow> bool" where
  "preserves P m \<longleftrightarrow> (\<forall>s. P s \<longrightarrow> P (snd (m s)))"

named_theorems preserves_intros \<open>compositional rules for preserves\<close>

lemma preservesI: "(\<And>s. P s \<Longrightarrow> P (snd (m s))) \<Longrightarrow> preserves P m"
  by (simp add: preserves_def)

lemma preservesD: "preserves P m \<Longrightarrow> P s \<Longrightarrow> P (snd (m s))"
  by (simp add: preserves_def)

lemma preserves_pure [preserves_intros]:
  "preserves P (returnM a)" "preserves P (raiseM e)" "preserves P (liftR r)" "preserves P (getM g)"
  by (simp_all add: preserves_def op_defs)

lemma preserves_read [preserves_intros]: "preserves P (\<lambda>s. (f s, s))"
  by (simp add: preserves_def)

lemma preserves_modifyM [preserves_intros]:
  "(\<And>s. P s \<Longrightarrow> P (f s)) \<Longrightarrow> preserves P (modifyM f)"
  by (simp add: preserves_def op_defs)

lemma preserves_bindM [preserves_intros]:
  "preserves P m \<Longrightarrow> (\<And>a. preserves P (f a)) \<Longrightarrow> preserves P (bindM m f)"
  by (fastforce simp: preserves_def bindM_def split: prod.splits sum.splits)

lemma preserves_thenM [preserves_intros]:
  "preserves P m \<Longrightarrow> preserves P n \<Longrightarrow> preserves P (thenM m n)"
  unfolding thenM_def by (intro preserves_bindM)

lemma preserves_tryM [preserves_intros]:
  "preserves P m \<Longrightarrow> (\<And>e k. h e = Some k \<Longrightarrow> preserves P k) \<Longrightarrow> preserves P (tryM m h)"
  by (fastforce simp: preserves_def tryM_def split: prod.splits sum.splits option.splits)

lemma preserves_finallyM [preserves_intros]:
  "preserves P m \<Longrightarrow> preserves P f \<Longrightarrow> preserves P (finallyM m f)"
  by (fastforce simp: preserves_def finallyM_def split: prod.splits sum.splits)

lemma preserves_whenM [preserves_intros]: "(b \<Longrightarrow> preserves P m) \<Longrightarrow> preserves P (whenM b m)"
  by (simp add: whenM_def preserves_pure)

lemma preserves_if [preserves_intros]:
  "(b \<Longrightarrow> preserves P m) \<Longrightarrow> (\<not> b \<Longrightarrow> preserves P n) \<Longrightarrow> preserves P (if b then m else n)"
  by simp

lemma preserves_case_option [preserves_intros]:
  "(x = None \<Longrightarrow> preserves P m) \<Longrightarrow> (\<And>a. x = Some a \<Longrightarrow> preserves P (f a)) \<Longrightarrow>
   preserves P (case x of None \<Rightarrow> m | Some a \<Rightarrow> f a)"
  by (cases x) simp_all

lemma preserves_forM [preserves_intros]:
  "(\<And>x. x \<in> set xs \<Longrightarrow> preserves P (f x)) \<Longrightarrow> preserves P (forM xs f)"
  by (induction xs) (simp_all add: preserves_pure preserves_thenM)

lemma preserves_mapM [preserves_intros]:
  "(\<And>x. x \<in> set xs \<Longrightarrow> preserves P (f x)) \<Longrightarrow> preserves P (mapM f xs)"
  by (induction xs) (auto intro!: preserves_pure preserves_bindM)

section \<open>Weakest preconditions\<close>

text \<open>
  \<open>wp m Q E s\<close>: started in \<open>s\<close>, the operation \<open>m\<close> either returns a value and a state that satisfy
  \<open>Q\<close>, or raises and leaves a state that satisfy \<open>E\<close>. The equations \<open>wp_simps\<close> compute it through
  the combinators; \<open>wp_mono\<close> uses what is known of a call.
\<close>

definition wp :: "('s, 'a) op \<Rightarrow> ('a \<Rightarrow> 's \<Rightarrow> bool) \<Rightarrow> (exn \<Rightarrow> 's \<Rightarrow> bool) \<Rightarrow> 's \<Rightarrow> bool" where
  "wp m Q E s = (case m s of (Inr a, t) \<Rightarrow> Q a t | (Inl e, t) \<Rightarrow> E e t)"

named_theorems wp_simps \<open>weakest preconditions of the operation combinators\<close>

lemma wp_returnM [wp_simps]: "wp (returnM a) Q E s = Q a s"
  by (simp add: wp_def op_defs)

lemma wp_raiseM [wp_simps]: "wp (raiseM e) Q E s = E e s"
  by (simp add: wp_def op_defs)

lemma wp_getM [wp_simps]: "wp (getM f) Q E s = Q (f s) s"
  by (simp add: wp_def op_defs)

lemma wp_modifyM [wp_simps]: "wp (modifyM g) Q E s = Q () (g s)"
  by (simp add: wp_def op_defs)

lemma wp_liftR_simps [wp_simps]: "wp (liftR (Inr a)) Q E s = Q a s" "wp (liftR (Inl e)) Q E s = E e s"
  by (simp_all add: wp_def op_defs)

lemma wp_liftR: "wp (liftR r) Q E s = (case r of Inr a \<Rightarrow> Q a s | Inl e \<Rightarrow> E e s)"
  by (simp add: wp_def liftR_def split: sum.splits)

lemma wp_bindM [wp_simps]: "wp (bindM m f) Q E s = wp m (\<lambda>a. wp (f a) Q E) E s"
  by (simp add: wp_def bindM_def split: prod.splits sum.splits)

lemma wp_thenM [wp_simps]: "wp (thenM m n) Q E s = wp m (\<lambda>_. wp n Q E) E s"
  by (simp add: thenM_def wp_bindM)

lemma wp_tryM [wp_simps]:
  "wp (tryM m h) Q E s = wp m Q (\<lambda>e t. case h e of None \<Rightarrow> E e t | Some k \<Rightarrow> wp k Q E t) s"
  by (simp add: wp_def tryM_def split: prod.splits sum.splits option.splits)

lemma wp_finallyM [wp_simps]:
  "wp (finallyM m f) Q E s = wp m (\<lambda>a. wp f (\<lambda>_. Q a) E) (\<lambda>e. wp f (\<lambda>_. E e) E) s"
  by (simp add: wp_def finallyM_def split: prod.splits sum.splits)

lemma wp_whenM [wp_simps]: "wp (whenM b m) Q E s = (if b then wp m Q E s else Q () s)"
  by (simp add: whenM_def wp_returnM)

lemma wp_if [wp_simps]: "wp (if b then m else n) Q E s = (if b then wp m Q E s else wp n Q E s)"
  by simp

lemma wp_mono:
  assumes "wp m Q E s" and "\<And>a t. Q a t \<Longrightarrow> Q' a t" and "\<And>e t. E e t \<Longrightarrow> E' e t"
  shows "wp m Q' E' s"
  using assms by (auto simp: wp_def split: prod.splits sum.splits)

lemma wp_conj: "wp m (\<lambda>a t. Q a t \<and> Q' a t) (\<lambda>e t. E e t \<and> E' e t) s \<longleftrightarrow> wp m Q E s \<and> wp m Q' E' s"
  by (auto simp: wp_def split: prod.splits sum.splits)

lemma wp_Inr: "wp m Q E s \<Longrightarrow> m s = (Inr a, t) \<Longrightarrow> Q a t"
  by (simp add: wp_def)

lemma wp_Inl: "wp m Q E s \<Longrightarrow> m s = (Inl e, t) \<Longrightarrow> E e t"
  by (simp add: wp_def)

lemma wpI: "(\<And>a t. m s = (Inr a, t) \<Longrightarrow> Q a t) \<Longrightarrow> (\<And>e t. m s = (Inl e, t) \<Longrightarrow> E e t) \<Longrightarrow> wp m Q E s"
  by (auto simp: wp_def split: prod.splits sum.splits)

lemma wp_state_only: "wp m (\<lambda>_. P) (\<lambda>_. P) s \<longleftrightarrow> P (snd (m s))"
  by (simp add: wp_def split: prod.splits sum.splits)

lemma preserves_iff_wp: "preserves P m \<longleftrightarrow> (\<forall>s. P s \<longrightarrow> wp m (\<lambda>_. P) (\<lambda>_. P) s)"
  by (simp add: preserves_def wp_state_only)

text \<open>Operations that raise subclasses of \<^verbatim>\<open>Exception\<close> only, so that no \<^verbatim>\<open>except Exception\<close> misses them.\<close>

definition plain :: "('s, 'a) op \<Rightarrow> bool" where
  "plain m \<longleftrightarrow> (\<forall>s. wp m (\<lambda>_ _. True) (\<lambda>e _. is_Exception e) s)"

named_theorems plain_intros \<open>compositional rules for plain\<close>

lemma plainD: "plain m \<Longrightarrow> m s = (Inl e, t) \<Longrightarrow> is_Exception e"
  by (auto simp: plain_def wp_def split: prod.splits sum.splits)

lemma plain_returnM [plain_intros]: "plain (returnM a)"
  by (simp add: plain_def wp_simps)

lemma plain_getM [plain_intros]: "plain (getM f)"
  by (simp add: plain_def wp_simps)

lemma plain_modifyM [plain_intros]: "plain (modifyM g)"
  by (simp add: plain_def wp_simps)

lemma plain_raiseM [plain_intros]: "is_Exception e \<Longrightarrow> plain (raiseM e)"
  by (simp add: plain_def wp_simps)

definition plainR :: "'a res \<Rightarrow> bool" where
  "plainR r \<longleftrightarrow> (\<forall>e. r = Inl e \<longrightarrow> is_Exception e)"

lemma plainR_simps [simp]: "plainR (Inr a)" "plainR (Inl e) = is_Exception e"
  by (simp_all add: plainR_def)

lemma plainR_bindR [plain_intros]: "plainR r \<Longrightarrow> (\<And>a. plainR (f a)) \<Longrightarrow> plainR (bindR r f)"
  by (cases r) simp_all

lemma plainR_if [plain_intros]: "(b \<Longrightarrow> plainR r) \<Longrightarrow> (\<not> b \<Longrightarrow> plainR q) \<Longrightarrow> plainR (if b then r else q)"
  by simp

lemma plainR_mapR [plain_intros]: "(\<And>x. plainR (f x)) \<Longrightarrow> plainR (mapR f xs)"
  by (induction xs) (auto intro!: plainR_bindR)

lemma plainR_filterR [plain_intros]: "(\<And>x. plainR (f x)) \<Longrightarrow> plainR (filterR f xs)"
  by (induction xs) (auto intro!: plainR_bindR)

lemma plain_liftR [plain_intros]: "plainR r \<Longrightarrow> plain (liftR r)"
  by (cases r) (simp_all add: plain_def wp_simps)

lemma plain_read [plain_intros]: "(\<And>s. plainR (f s)) \<Longrightarrow> plain (\<lambda>s. (f s, s))"
  by (auto simp: plain_def wp_def plainR_def split: sum.splits)

lemma plain_bindM [plain_intros]: "plain m \<Longrightarrow> (\<And>a. plain (f a)) \<Longrightarrow> plain (bindM m f)"
  by (auto simp: plain_def wp_simps intro: wp_mono)

lemma plain_thenM [plain_intros]: "plain m \<Longrightarrow> plain n \<Longrightarrow> plain (thenM m n)"
  unfolding thenM_def by (rule plain_bindM)

lemma plain_tryM [plain_intros]: "plain m \<Longrightarrow> (\<And>e k. h e = Some k \<Longrightarrow> plain k) \<Longrightarrow> plain (tryM m h)"
  unfolding plain_def wp_simps by (auto split: option.splits intro: wp_mono)

lemma plain_whenM [plain_intros]: "(b \<Longrightarrow> plain m) \<Longrightarrow> plain (whenM b m)"
  by (simp add: whenM_def plain_returnM)

lemma plain_if [plain_intros]: "(b \<Longrightarrow> plain m) \<Longrightarrow> (\<not> b \<Longrightarrow> plain n) \<Longrightarrow> plain (if b then m else n)"
  by simp

lemma plain_case_option [plain_intros]:
  "(x = None \<Longrightarrow> plain m) \<Longrightarrow> (\<And>a. x = Some a \<Longrightarrow> plain (f a)) \<Longrightarrow> plain (case x of None \<Rightarrow> m | Some a \<Rightarrow> f a)"
  by (cases x) simp_all

lemma plain_forM [plain_intros]: "(\<And>x. x \<in> set xs \<Longrightarrow> plain (f x)) \<Longrightarrow> plain (forM xs f)"
  by (induction xs) (auto intro: plain_returnM plain_thenM)

lemma plain_mapM [plain_intros]: "(\<And>x. x \<in> set xs \<Longrightarrow> plain (f x)) \<Longrightarrow> plain (mapM f xs)"
  by (induction xs) (auto intro!: plain_returnM plain_bindM)

lemma bindM_exit:
  assumes "plain m" and "bindM m f s = (Inl e, t)" and "\<not> is_Exception e"
  obtains a u where "m s = (Inr a, u)" "f a u = (Inl e, t)"
  using assms by (auto simp: bindM_def dest: plainD split: prod.splits sum.splits)

lemma thenM_exit:
  assumes "plain m" and "thenM m n s = (Inl e, t)" and "\<not> is_Exception e"
  obtains a u where "m s = (Inr a, u)" "n u = (Inl e, t)"
  using assms unfolding thenM_def by (rule bindM_exit)

end
