(* ===== verification/Json.thy ===== *)
theory Json
  imports Complex_Main Py_Text "HOL-Library.AList"
begin

text \<open>
  JSON documents as \<^verbatim>\<open>json.loads\<close> returns them, and the Python operations the agent
  applies to them without checking their type first: \<^verbatim>\<open>in\<close>, \<^verbatim>\<open>[...]\<close>,
  \<^verbatim>\<open>.get\<close>, iteration, \<^verbatim>\<open>len\<close>. Each of them answers, or raises what the
  interpreter raises for a value of that type. \<^verbatim>\<open>None\<close> is \<open>JNull\<close>; a dictionary is an
  association list in insertion order; a float is the rational number it stands for.
\<close>

datatype json =
    JNull
  | JBool bool
  | JInt int
  | JFloat rat
  | JStr string
  | JList "json list"
  | JObj "(string \<times> json) list"

definition dict_get :: "(string \<times> json) list \<Rightarrow> string \<Rightarrow> json" where
  "dict_get d k = (case map_of d k of None \<Rightarrow> JNull | Some v \<Rightarrow> v)"

fun py_get :: "json \<Rightarrow> string \<Rightarrow> json res" where
  "py_get (JObj d) k = Inr (dict_get d k)"
| "py_get _ k = Inl AttributeError"

fun py_get_default :: "json \<Rightarrow> string \<Rightarrow> json \<Rightarrow> json res" where
  "py_get_default (JObj d) k v = Inr (case map_of d k of None \<Rightarrow> v | Some w \<Rightarrow> w)"
| "py_get_default _ k v = Inl AttributeError"

text \<open>\<^verbatim>\<open>key in obj\<close>: keys of a dictionary, elements of a list, substrings of a string.\<close>

fun py_in :: "string \<Rightarrow> json \<Rightarrow> bool res" where
  "py_in k (JObj d) = Inr (k \<in> set (map fst d))"
| "py_in k (JList xs) = Inr (JStr k \<in> set xs)"
| "py_in k (JStr s) = Inr (contains s k)"
| "py_in k _ = Inl TypeError"

text \<open>\<^verbatim>\<open>obj[key]\<close> with a string key.\<close>

fun py_index :: "json \<Rightarrow> string \<Rightarrow> json res" where
  "py_index (JObj d) k = (case map_of d k of None \<Rightarrow> Inl KeyError | Some v \<Rightarrow> Inr v)"
| "py_index _ k = Inl TypeError"

text \<open>\<^verbatim>\<open>for x in obj\<close>\<close>

fun py_iter :: "json \<Rightarrow> json list res" where
  "py_iter (JList xs) = Inr xs"
| "py_iter (JObj d) = Inr (map (JStr \<circ> fst) d)"
| "py_iter (JStr s) = Inr (map (\<lambda>c. JStr [c]) s)"
| "py_iter _ = Inl TypeError"

fun py_len :: "json \<Rightarrow> nat res" where
  "py_len (JList xs) = Inr (length xs)"
| "py_len (JObj d) = Inr (length d)"
| "py_len (JStr s) = Inr (length s)"
| "py_len _ = Inl TypeError"

text \<open>The truth value of an object.\<close>

fun truthy :: "json \<Rightarrow> bool" where
  "truthy JNull = False"
| "truthy (JBool b) = b"
| "truthy (JInt i) = (i \<noteq> 0)"
| "truthy (JFloat r) = (r \<noteq> 0)"
| "truthy (JStr s) = (s \<noteq> [])"
| "truthy (JList xs) = (xs \<noteq> [])"
| "truthy (JObj d) = (d \<noteq> [])"

text \<open>Numbers: booleans count as 0 and 1.\<close>

fun num_val :: "json \<Rightarrow> rat option" where
  "num_val (JBool b) = Some (if b then 1 else 0)"
| "num_val (JInt i) = Some (of_int i)"
| "num_val (JFloat r) = Some r"
| "num_val _ = None"

text \<open>\<^verbatim>\<open>max(a, b)\<close> where \<^verbatim>\<open>a\<close> is a number: \<^verbatim>\<open>b\<close> if it is greater, else \<^verbatim>\<open>a\<close>.\<close>

definition py_max :: "json \<Rightarrow> json \<Rightarrow> json res" where
  "py_max a b = (case (num_val a, num_val b) of
     (Some x, Some y) \<Rightarrow> Inr (if x < y then b else a) | _ \<Rightarrow> Inl TypeError)"

text \<open>\<^verbatim>\<open>a + 1\<close>\<close>

fun py_inc :: "json \<Rightarrow> json res" where
  "py_inc (JBool b) = Inr (JInt (if b then 2 else 1))"
| "py_inc (JInt i) = Inr (JInt (i + 1))"
| "py_inc (JFloat r) = Inr (JFloat (r + 1))"
| "py_inc _ = Inl TypeError"

text \<open>\<^verbatim>\<open>a >= n\<close>\<close>

definition py_ge :: "json \<Rightarrow> rat \<Rightarrow> bool res" where
  "py_ge a n = (case num_val a of Some x \<Rightarrow> Inr (n \<le> x) | None \<Rightarrow> Inl TypeError)"

text \<open>\<^verbatim>\<open>ustr(v)\<close>; \<open>py_repr\<close> prints floats, lists and dictionaries.\<close>

fun ustr :: "(json \<Rightarrow> string) \<Rightarrow> json \<Rightarrow> string" where
  "ustr py_repr (JStr s) = s"
| "ustr py_repr (JInt i) = int_str i"
| "ustr py_repr (JBool b) = (if b then ''True'' else ''False'')"
| "ustr py_repr JNull = ''None''"
| "ustr py_repr j = py_repr j"

text \<open>\<^verbatim>\<open>int(v)\<close>: text may have blanks around it, a sign, and single underscores between digits.\<close>

definition int_of_text :: "string \<Rightarrow> int res" where
  "int_of_text t =
     (let s = strip t;
          neg = startswith s ''-'';
          digits = (if neg \<or> startswith s ''+'' then tl s else s)
      in if list_all (\<lambda>p. p \<noteq> [] \<and> list_all is_digit p) (split_on ''_'' digits)
         then Inr ((if neg then -1 else 1) * int (str_nat (filter is_digit digits)))
         else Inl ValueError)"

fun py_int :: "json \<Rightarrow> int res" where
  "py_int (JStr t) = int_of_text t"
| "py_int (JInt i) = Inr i"
| "py_int (JBool b) = Inr (if b then 1 else 0)"
| "py_int (JFloat r) = Inr (if r < 0 then - floor (- r) else floor r)"
| "py_int _ = Inl TypeError"

lemma py_inc_num: "num_val j = Some x \<Longrightarrow> \<exists>k. py_inc j = Inr k \<and> num_val k = Some (x + 1)"
  by (cases j) auto

lemma dict_get_simps [simp]:
  "dict_get [] k = JNull"
  "dict_get ((l, v) # d) k = (if k = l then v else dict_get d k)"
  by (simp_all add: dict_get_def)

lemma dict_get_not_none: "dict_get d k \<noteq> JNull \<Longrightarrow> map_of d k = Some (dict_get d k)"
  by (simp add: dict_get_def split: option.splits)

end
