(* ===== verification/Handler_Manifest.thy ===== *)
theory Handler_Manifest
  imports Json
begin

text \<open>
  \<^verbatim>\<open>HandlerManifest\<close> of \<^verbatim>\<open>azurelinuxagent/ga/exthandlers.py\<close>: the accessors for the
  \<^verbatim>\<open>HandlerManifest.json\<close> of an extension package. The manifest is the decoded JSON document
  itself; every accessor answers or raises what indexing that document raises.
\<close>

definition HandlerManifest :: "json \<Rightarrow> json res" where
  "HandlerManifest data =
     (if data = JNull then Inl (ExtensionError ''Malformed manifest file.'' (-1))
      else bindR (py_index data ''handlerManifest'') (\<lambda>m.
        if m = JNull then Inl (ExtensionError ''Malformed manifest file.'' (-1)) else Inr data))"

definition handler_section :: "json \<Rightarrow> json res" where
  "handler_section data = py_index data ''handlerManifest''"

definition manifest_command :: "string \<Rightarrow> json \<Rightarrow> json res" where
  "manifest_command key data = bindR (handler_section data) (\<lambda>m. py_index m key)"

definition get_install_command :: "json \<Rightarrow> json res" where
  "get_install_command = manifest_command ''installCommand''"

definition get_uninstall_command :: "json \<Rightarrow> json res" where
  "get_uninstall_command = manifest_command ''uninstallCommand''"

definition get_update_command :: "json \<Rightarrow> json res" where
  "get_update_command = manifest_command ''updateCommand''"

definition get_enable_command :: "json \<Rightarrow> json res" where
  "get_enable_command = manifest_command ''enableCommand''"

definition get_disable_command :: "json \<Rightarrow> json res" where
  "get_disable_command = manifest_command ''disableCommand''"

fun parse_boolean_value :: "json \<Rightarrow> bool \<Rightarrow> bool" where
  "parse_boolean_value (JBool b) default_val = b"
| "parse_boolean_value (JStr s) default_val = (if lower s = ''true'' then True else default_val)"
| "parse_boolean_value _ default_val = default_val"

definition manifest_flag :: "string \<Rightarrow> json \<Rightarrow> bool res" where
  "manifest_flag key data =
     bindR (handler_section data) (\<lambda>m. bindR (py_get_default m key (JBool False)) (\<lambda>v.
       Inr (parse_boolean_value v False)))"

definition is_report_heartbeat :: "json \<Rightarrow> bool res" where
  "is_report_heartbeat = manifest_flag ''reportHeartbeat''"

definition is_continue_on_update_failure :: "json \<Rightarrow> bool res" where
  "is_continue_on_update_failure = manifest_flag ''continueOnUpdateFailure''"

definition supports_multiple_extensions :: "json \<Rightarrow> bool res" where
  "supports_multiple_extensions = manifest_flag ''supportsMultipleExtensions''"

definition is_update_with_install :: "json \<Rightarrow> bool res" where
  "is_update_with_install data =
     bindR (handler_section data) (\<lambda>m. bindR (py_get m ''updateMode'') (\<lambda>mode.
       case mode of JNull \<Rightarrow> Inr True
       | JStr s \<Rightarrow> Inr (lower s = ''updatewithinstall'')
       | _ \<Rightarrow> Inl AttributeError))"

text \<open>A newer property: a string is not accepted.\<close>

definition supports_policy :: "json \<Rightarrow> bool res" where
  "supports_policy data =
     bindR (handler_section data) (\<lambda>m. bindR (py_get_default m ''supportsPolicy'' (JBool False)) (\<lambda>v.
       Inr (v = JBool True)))"

definition get_resource_limits :: "json \<Rightarrow> json res" where
  "get_resource_limits data = py_get_default data ''resourceLimits'' JNull"

definition resource_limit :: "string \<Rightarrow> json \<Rightarrow> json res" where
  "resource_limit key limits = (if limits = JNull then Inr JNull else py_get_default limits key JNull)"

definition get_signing_info :: "json \<Rightarrow> json res" where
  "get_signing_info data = py_get_default data ''signingInfo'' JNull"

definition report_invalid_boolean_properties :: "json \<Rightarrow> string list res" where
  "report_invalid_boolean_properties data =
     bindR (handler_section data) (\<lambda>m.
     bindR (mapR (\<lambda>key. bindR (py_get m key) (\<lambda>v. Inr (key, v)))
              [''reportHeartbeat'', ''continueOnUpdateFailure'', ''supportsMultipleExtensions'', ''supportsPolicy''])
       (\<lambda>kvs. Inr (map fst (filter (\<lambda>(_, v). v \<noteq> JNull \<and> \<not> (\<exists>b \<in> {True, False}. v = JBool b)) kvs))))"

text \<open>An accepted manifest is a dictionary, so the flag accessors never raise for a dictionary section.\<close>

lemma HandlerManifest_obj:
  assumes "HandlerManifest data = Inr m"
  obtains d where "data = JObj d" "m = data" "dict_get d ''handlerManifest'' \<noteq> JNull"
    "handler_section data = Inr (dict_get d ''handlerManifest'')"
proof (cases data)
  case (JObj d)
  with assms that show thesis
    by (auto simp: HandlerManifest_def handler_section_def dict_get_def split: option.splits if_splits)
qed (use assms in \<open>simp_all add: HandlerManifest_def\<close>)

lemma manifest_flag_obj:
  "handler_section data = Inr (JObj h) \<Longrightarrow>
   manifest_flag key data = Inr (case map_of h key of None \<Rightarrow> False | Some v \<Rightarrow> parse_boolean_value v False)"
  by (simp add: manifest_flag_def split: option.splits)

end
