(* ===== verification/Py_Sort.thy ===== *)
theory Py_Sort
  imports Prelude "HOL-Library.Multiset"
begin

text \<open>
  Python's stable sort (\<^verbatim>\<open>list.sort\<close>, \<^verbatim>\<open>sorted\<close>) and the loop that
  keeps the largest element seen so far, over a strict order given as a function. The interface
  \<open>weak_order\<close> states what the callers of a comparison rely on: on the elements that satisfy
  \<open>ok\<close>, \<open>lt\<close> is a strict weak order. Its providers are the version order of
  \<^verbatim>\<open>FlexibleVersion\<close> and the integer keys of the dependency levels.
\<close>

fun insort_by :: "('a \<Rightarrow> 'a \<Rightarrow> bool) \<Rightarrow> 'a \<Rightarrow> 'a list \<Rightarrow> 'a list" where
  "insort_by lt x [] = [x]"
| "insort_by lt x (y # ys) = (if lt x y then x # y # ys else y # insort_by lt x ys)"

text \<open>Elements are inserted from left to right, each after those it is not smaller than: stable.\<close>

definition sort_by :: "('a \<Rightarrow> 'a \<Rightarrow> bool) \<Rightarrow> 'a list \<Rightarrow> 'a list" where
  "sort_by lt xs = foldl (\<lambda>acc x. insort_by lt x acc) [] xs"

text \<open>
  \<open>max_by\<close> is the loop \<^verbatim>\<open>if latest is None or latest < x: latest = x\<close>.
\<close>

fun max_by :: "('a \<Rightarrow> 'a \<Rightarrow> bool) \<Rightarrow> 'a option \<Rightarrow> 'a list \<Rightarrow> 'a option" where
  "max_by lt m [] = m"
| "max_by lt m (x # xs) =
     max_by lt (case m of None \<Rightarrow> Some x | Some y \<Rightarrow> if lt y x then Some x else Some y) xs"

lemma mset_insort_by [simp]: "mset (insort_by lt x xs) = add_mset x (mset xs)"
  by (induction xs) simp_all

lemma set_insort_by [simp]: "set (insort_by lt x xs) = insert x (set xs)"
  by (induction xs) auto

lemma mset_foldl_insort_by: "mset (foldl (\<lambda>acc x. insort_by lt x acc) ys xs) = mset ys + mset xs"
  by (induction xs arbitrary: ys) simp_all

lemma mset_sort_by [simp]: "mset (sort_by lt xs) = mset xs"
  by (simp add: sort_by_def mset_foldl_insort_by)

lemma set_sort_by [simp]: "set (sort_by lt xs) = set xs"
  by (metis mset_sort_by set_mset_mset)

lemma length_sort_by [simp]: "length (sort_by lt xs) = length xs"
  by (metis mset_sort_by size_mset)

lemma sort_by_eq_Nil [simp]: "sort_by lt xs = [] \<longleftrightarrow> xs = []"
  by (metis length_0_conv length_sort_by)

lemma sort_by_simps [simp]: "sort_by lt [] = []" "sort_by lt [x] = [x]"
  by (simp_all add: sort_by_def)

lemma sort_by_snoc: "sort_by lt (xs @ [x]) = insort_by lt x (sort_by lt xs)"
  by (simp add: sort_by_def)

locale weak_order =
  fixes ok :: "'v \<Rightarrow> bool" and lt :: "'v \<Rightarrow> 'v \<Rightarrow> bool"
  assumes irrefl: "ok x \<Longrightarrow> \<not> lt x x"
    and trans: "ok x \<Longrightarrow> ok y \<Longrightarrow> ok z \<Longrightarrow> lt x y \<Longrightarrow> lt y z \<Longrightarrow> lt x z"
    and ntrans: "ok x \<Longrightarrow> ok y \<Longrightarrow> ok z \<Longrightarrow> lt x z \<Longrightarrow> lt x y \<or> lt y z"
begin

lemma asym: "ok x \<Longrightarrow> ok y \<Longrightarrow> lt x y \<Longrightarrow> \<not> lt y x"
  using trans [of x y x] irrefl by blast

lemma le_trans: "ok x \<Longrightarrow> ok y \<Longrightarrow> ok z \<Longrightarrow> \<not> lt y x \<Longrightarrow> \<not> lt z y \<Longrightarrow> \<not> lt z x"
  using ntrans [of z y x] by blast

lemma sorted_insort_by:
  assumes "\<And>y. y \<in> set ys \<Longrightarrow> ok y" and "ok x"
    and "sorted_wrt (\<lambda>a b. \<not> lt b a) ys"
  shows "sorted_wrt (\<lambda>a b. \<not> lt b a) (insort_by lt x ys)"
  using assms
proof (induction ys)
  case (Cons y ys)
  show ?case
  proof (cases "lt x y")
    case True
    have "\<not> lt z x" if "z \<in> set (y # ys)" for z
    proof -
      from that Cons.prems(1) have "ok y" "ok z" by auto
      have "\<not> lt z y" using that Cons.prems(3) irrefl \<open>ok y\<close> by auto
      with True Cons.prems(2) \<open>ok y\<close> \<open>ok z\<close> show ?thesis
        using asym trans by blast
    qed
    with True Cons.prems(3) show ?thesis by simp
  next
    case False
    with Cons show ?thesis by auto
  qed
qed simp

lemma sorted_sort_by:
  assumes "\<And>y. y \<in> set xs \<Longrightarrow> ok y"
  shows "sorted_wrt (\<lambda>a b. \<not> lt b a) (sort_by lt xs)"
  using assms
proof (induction xs rule: rev_induct)
  case (snoc x xs)
  then show ?case
    by (auto simp: sort_by_snoc intro!: sorted_insort_by)
qed simp

lemma sort_by_last_max:
  assumes "\<And>y. y \<in> set xs \<Longrightarrow> ok y" and "x \<in> set xs"
  shows "\<not> lt (last (sort_by lt xs)) x"
proof -
  let ?s = "sort_by lt xs"
  from assms(2) have ne: "?s \<noteq> []" by auto
  then have s: "?s = butlast ?s @ [last ?s]" by simp
  have "x \<in> set ?s" using assms(2) by simp
  with s have "x \<in> set (butlast ?s) \<or> x = last ?s"
    by (metis Un_iff empty_iff insert_iff list.set(1) list.simps(15) set_append)
  then show ?thesis
  proof
    assume "x \<in> set (butlast ?s)"
    moreover have "sorted_wrt (\<lambda>a b. \<not> lt b a) (butlast ?s @ [last ?s])"
      using sorted_sort_by [OF assms(1)] s by simp
    ultimately show ?thesis by (simp add: sorted_wrt_append)
  next
    assume "x = last ?s"
    moreover have "last ?s \<in> set xs" using ne by (metis last_in_set set_sort_by)
    ultimately show ?thesis using assms(1) irrefl by blast
  qed
qed

lemma filter_insort_by_equiv:
  assumes "\<And>y. y \<in> set ys \<Longrightarrow> ok y" and "ok x" and "ok k"
    and "sorted_wrt (\<lambda>a b. \<not> lt b a) ys"
  shows "filter (\<lambda>y. \<not> lt k y \<and> \<not> lt y k) (insort_by lt x ys)
    = filter (\<lambda>y. \<not> lt k y \<and> \<not> lt y k) (ys @ [x])"
  using assms
proof (induction ys)
  case (Cons y ys)
  show ?case
  proof (cases "lt x y \<and> \<not> lt k x \<and> \<not> lt x k")
    case True
    have "\<not> (\<not> lt k z \<and> \<not> lt z k)" if z: "z \<in> set (y # ys)" for z
    proof -
      from z Cons.prems(1) have ok: "ok y" "ok z" by auto
      have "\<not> lt z y" using z Cons.prems(4) irrefl ok by auto
      with True have "lt x z" using ok Cons.prems(2) ntrans [of x z y] by blast
      then show ?thesis using True ntrans [of x k z] ok Cons.prems(2,3) by blast
    qed
    then have "filter (\<lambda>y. \<not> lt k y \<and> \<not> lt y k) (y # ys) = []"
      by (simp only: filter_empty_conv) blast
    with True show ?thesis by (auto split: if_splits)
  next
    case False
    with Cons show ?thesis by auto
  qed
qed simp

lemma sort_by_stable:
  assumes "\<And>y. y \<in> set xs \<Longrightarrow> ok y" and "ok k"
  shows "filter (\<lambda>y. \<not> lt k y \<and> \<not> lt y k) (sort_by lt xs) = filter (\<lambda>y. \<not> lt k y \<and> \<not> lt y k) xs"
  using assms(1)
proof (induction xs rule: rev_induct)
  case (snoc x xs)
  have oks: "\<And>y. y \<in> set xs \<Longrightarrow> ok y" and okx: "ok x" using snoc.prems by auto
  have "filter (\<lambda>y. \<not> lt k y \<and> \<not> lt y k) (insort_by lt x (sort_by lt xs))
      = filter (\<lambda>y. \<not> lt k y \<and> \<not> lt y k) (sort_by lt xs @ [x])"
    using oks okx assms(2) sorted_sort_by [OF oks] by (intro filter_insort_by_equiv) auto
  with snoc.IH [OF oks] show ?case by (simp add: sort_by_snoc)
qed simp

lemma max_by_Some:
  assumes "ok m" and "\<And>y. y \<in> set xs \<Longrightarrow> ok y"
  shows "\<exists>r. max_by lt (Some m) xs = Some r \<and> r \<in> insert m (set xs) \<and> (\<forall>x \<in> insert m (set xs). \<not> lt r x)"
  using assms
proof (induction xs arbitrary: m)
  case Nil
  then show ?case by (simp add: irrefl)
next
  case (Cons x xs)
  define m' where "m' = (if lt m x then x else m)"
  have okx: "ok x" and okm': "ok m'" using Cons.prems by (auto simp: m'_def)
  then obtain r where r: "max_by lt (Some m') xs = Some r" "r \<in> insert m' (set xs)"
      "\<forall>x \<in> insert m' (set xs). \<not> lt r x"
    using Cons.IH [of m'] Cons.prems(2) by auto
  have okr: "ok r" using r(2) okm' Cons.prems(2) by auto
  have "\<not> lt m' m" "\<not> lt m' x"
    using irrefl asym Cons.prems(1) okx by (auto simp: m'_def)
  then have "\<not> lt r m" "\<not> lt r x"
    using le_trans [of m m' r] le_trans [of x m' r] r(3) okr okx okm' Cons.prems(1) by auto
  moreover have "max_by lt (Some m) (x # xs) = max_by lt (Some m') xs"
    by (simp add: m'_def)
  ultimately show ?case using r by (auto simp: m'_def split: if_splits)
qed

lemma max_by_None_max:
  assumes "\<And>y. y \<in> set xs \<Longrightarrow> ok y" and "max_by lt None xs = Some r"
  shows "r \<in> set xs \<and> (\<forall>x \<in> set xs. \<not> lt r x)"
proof (cases xs)
  case (Cons x ys)
  with assms show ?thesis using max_by_Some [of x ys] by auto
qed (use assms in simp)

end

lemma weak_order_key:
  assumes "weak_order ok lt"
  shows "weak_order (\<lambda>x. ok (f x)) (\<lambda>x y. lt (f x) (f y))"
proof (rule weak_order.intro)
  show "\<not> lt (f x) (f x)" if "ok (f x)" for x
    using that by (rule weak_order.irrefl [OF assms])
  show "lt (f x) (f z)"
    if "ok (f x)" "ok (f y)" "ok (f z)" "lt (f x) (f y)" "lt (f y) (f z)" for x y z
    using that by (rule weak_order.trans [OF assms])
  show "lt (f x) (f y) \<or> lt (f y) (f z)"
    if "ok (f x)" "ok (f y)" "ok (f z)" "lt (f x) (f z)" for x y z
    using that by (rule weak_order.ntrans [OF assms])
qed

lemma weak_order_dual:
  assumes "weak_order ok lt"
  shows "weak_order ok (\<lambda>x y. lt y x)"
proof (rule weak_order.intro)
  show "\<not> lt x x" if "ok x" for x
    using that by (rule weak_order.irrefl [OF assms])
  show "lt z x" if "ok x" "ok y" "ok z" "lt y x" "lt z y" for x y z
    using that(3,2,1,5,4) by (rule weak_order.trans [OF assms])
  show "lt y x \<or> lt z y" if "ok x" "ok y" "ok z" "lt z x" for x y z
    using weak_order.ntrans [OF assms that(3,2,1,4)] by blast
qed

text \<open>The keys the agent sorts by that are plain integers.\<close>

interpretation int_key: weak_order "\<lambda>_ :: int. True" "(<)"
  by unfold_locales auto

end
