(* ===== verification/Flexible_Version.thy ===== *)
theory Flexible_Version
  imports Py_Text Py_Sort "HOL-Library.Product_Lexorder"
begin

text \<open>
  \<^verbatim>\<open>azurelinuxagent/common/utils/flexible_version.py\<close>: the version type used for the
  agent, extension handlers and policies. The regular expression that \<^verbatim>\<open>_compile_pattern\<close>
  builds is modelled by the list of its successes in the order the backtracking matcher tries them
  (\<open>rx_\<close> functions), for any separator and any tuple of pre-release tags.
\<close>

section \<open>The object\<close>

record flexible_version =
  fv_sep :: string
  fv_prerel_sep :: "string option"
  fv_prerel_tags :: "string list"
  fv_prerelease :: "(string \<times> nat option) option"
  fv_version :: "nat list"

section \<open>The version pattern\<close>

text \<open>\<^verbatim>\<open>\d*\<close> and \<^verbatim>\<open>\d+\<close>, greedy: the longest prefix first.\<close>

definition rx_digits_from :: "nat \<Rightarrow> string \<Rightarrow> (string \<times> string) list" where
  "rx_digits_from m s =
     map (\<lambda>k. (take k s, drop k s)) (rev [m..<Suc (length (takeWhile is_digit s))])"

text \<open>\<^verbatim>\<open>(?:SEP\d+)*\<close>\<close>

function rx_seps :: "string \<Rightarrow> string \<Rightarrow> (string \<times> string) list" where
  "rx_seps sep s =
     (if startswith s sep
      then concat (map (\<lambda>(d, r). map (\<lambda>(t, r'). (sep @ d @ t, r')) (rx_seps sep r))
             (rx_digits_from 1 (drop (length sep) s)))
      else []) @ [([], s)]"
  by pat_completeness auto
termination
proof (relation "measure (\<lambda>(sep, s). length s)")
  fix sep s x d r
  assume "startswith s sep" "x \<in> set (rx_digits_from 1 (drop (length sep) s))" "(d, r) = x"
  then obtain k where k: "1 \<le> k" "k \<le> length (takeWhile is_digit (drop (length sep) s))"
      "r = drop k (drop (length sep) s)"
    by (auto simp: rx_digits_from_def)
  have "length (takeWhile is_digit (drop (length sep) s)) \<le> length (drop (length sep) s)"
    by (rule length_takeWhile_le)
  with k have "length r < length s" by auto
  then show "((sep, r), (sep, s)) \<in> measure (\<lambda>(sep, s). length s)" by simp
qed simp

declare rx_seps.simps [simp del]

definition rx_version :: "string \<Rightarrow> string \<Rightarrow> (string \<times> string) list" where
  "rx_version sep s =
     concat (map (\<lambda>(d, r). map (\<lambda>(t, r'). (d @ t, r')) (rx_seps sep r)) (rx_digits_from 1 s))"

text \<open>
  The optional pre-release part: an optional separator (\<^verbatim>\<open>.\<close> or \<^verbatim>\<open>-\<close>), one of the
  tags, and digits. A group that takes no part in the match is \<open>None\<close>.
\<close>

definition rx_prerel_sep :: "string \<Rightarrow> (string option \<times> string) list" where
  "rx_prerel_sep s =
     (case s of [] \<Rightarrow> [] | c # r \<Rightarrow> if c = CHR ''.'' \<or> c = CHR ''-'' then [(Some [c], r)] else [])
     @ [(None, s)]"

type_synonym release_groups = "string option \<times> (string \<times> string) option"

definition rx_tagged :: "string list \<Rightarrow> string \<Rightarrow> (release_groups \<times> string) list" where
  "rx_tagged tags s =
     concat (map (\<lambda>(ps, r).
       concat (map (\<lambda>t. if startswith r t
                        then map (\<lambda>(n, r'). ((ps, Some (t, n)), r')) (rx_digits_from 0 (drop (length t) r))
                        else []) tags)) (rx_prerel_sep s))"

definition rx_release :: "string list \<Rightarrow> string \<Rightarrow> (release_groups \<times> string) list" where
  "rx_release tags s = (if tags = [] then [] else rx_tagged tags s) @ [((None, None), s)]"

text \<open>\<^verbatim>\<open>$\<close> also matches before a newline that ends the string.\<close>

definition rx_end :: "string \<Rightarrow> bool" where
  "rx_end r \<longleftrightarrow> r = [] \<or> r = [CHR 0x0A]"

definition version_successes :: "string \<Rightarrow> string list \<Rightarrow> string \<Rightarrow> (string \<times> release_groups) list" where
  "version_successes sep tags s =
     concat (map (\<lambda>(v, r). map (\<lambda>(g, r'). (v, g)) (filter (\<lambda>(g, r'). rx_end r') (rx_release tags r)))
       (rx_version sep s))"

definition version_re_match :: "string \<Rightarrow> string list \<Rightarrow> string \<Rightarrow> (string \<times> release_groups) option" where
  "version_re_match sep tags s = (case version_successes sep tags s of [] \<Rightarrow> None | x # _ \<Rightarrow> Some x)"

section \<open>Parsing and printing\<close>

text \<open>
  Without pre-release tags the pattern has no group named \<^verbatim>\<open>prerel_sep\<close>, and
  \<^verbatim>\<open>m.group\<close> raises \<^verbatim>\<open>IndexError\<close>.
\<close>

definition parse_version :: "string \<Rightarrow> string list \<Rightarrow> string \<Rightarrow> flexible_version res" where
  "parse_version sep tags vstring =
     (case version_re_match sep tags vstring of
        None \<Rightarrow> Inl ValueError
      | Some (v, ps, tag) \<Rightarrow>
          if tags = [] then Inl IndexError
          else bindR (mapR int_of_digits (split_on sep v))
            (\<lambda>ver. Inr \<lparr>fv_sep = sep, fv_prerel_sep = ps, fv_prerel_tags = tags,
               fv_prerelease = (case tag of None \<Rightarrow> None
                  | Some (t, n) \<Rightarrow> Some (t, if n = [] then None else Some (str_nat n))),
               fv_version = ver\<rparr>))"

definition fv_init :: "string option \<Rightarrow> string option \<Rightarrow> string list option \<Rightarrow> flexible_version res" where
  "fv_init vstring sep prerel_tags =
     (let sep' = (case sep of None \<Rightarrow> ''.'' | Some s \<Rightarrow> s);
          tags = (case prerel_tags of None \<Rightarrow> [] | Some ts \<Rightarrow> ts)
      in case vstring of
           Some (c # s) \<Rightarrow> parse_version sep' tags (c # s)
         | _ \<Rightarrow> Inr \<lparr>fv_sep = sep', fv_prerel_sep = Some [], fv_prerel_tags = tags,
                    fv_prerelease = None, fv_version = []\<rparr>)"

definition default_prerel_tags :: "string list" where
  "default_prerel_tags = [''alpha'', ''beta'', ''rc'']"

text \<open>\<^verbatim>\<open>FlexibleVersion(v)\<close> with the default separator and tags, as all the agent's calls.\<close>

definition FlexibleVersion :: "string \<Rightarrow> flexible_version res" where
  "FlexibleVersion v = fv_init (Some v) (Some ''.'') (Some default_prerel_tags)"

definition assemble :: "int list \<Rightarrow> string \<Rightarrow> string option \<Rightarrow> (string \<times> nat option) option \<Rightarrow> string" where
  "assemble version sep prerel_sep prerelease =
     join_with sep (map int_str version) @
     (case prerelease of None \<Rightarrow> []
      | Some (t, n) \<Rightarrow> (case prerel_sep of None \<Rightarrow> [] | Some p \<Rightarrow> p) @ t @
          (case n of None \<Rightarrow> [] | Some k \<Rightarrow> nat_str k))"

definition version_str :: "flexible_version \<Rightarrow> string" where
  "version_str v = assemble (map int (fv_version v)) (fv_sep v) (fv_prerel_sep v) (fv_prerelease v)"

definition version_major :: "flexible_version \<Rightarrow> nat" where
  "version_major v = (if length (fv_version v) > 0 then fv_version v ! 0 else 0)"

definition version_minor :: "flexible_version \<Rightarrow> nat" where
  "version_minor v = (if length (fv_version v) > 1 then fv_version v ! 1 else 0)"

definition version_patch :: "flexible_version \<Rightarrow> nat" where
  "version_patch v = (if length (fv_version v) > 2 then fv_version v ! 2 else 0)"

section \<open>Arithmetic on the last component\<close>

definition version_add :: "flexible_version \<Rightarrow> int \<Rightarrow> flexible_version res" where
  "version_add v increment =
     (if fv_version v = [] then Inl IndexError
      else let ver = map int (butlast (fv_version v)) @ [int (last (fv_version v)) + increment]
           in fv_init (Some (assemble ver (fv_sep v) (fv_prerel_sep v) (fv_prerelease v)))
                (Some (fv_sep v)) (Some (fv_prerel_tags v)))"

definition version_sub :: "flexible_version \<Rightarrow> int \<Rightarrow> flexible_version res" where
  "version_sub v decrement =
     (if fv_version v = [] then Inl IndexError
      else if last (fv_version v) \<le> 0 then Inl ArithmeticError
      else let ver = map int (butlast (fv_version v)) @ [int (last (fv_version v)) - decrement]
           in fv_init (Some (assemble ver (fv_sep v) (fv_prerel_sep v) (fv_prerelease v)))
                (Some (fv_sep v)) (Some (fv_prerel_tags v)))"

section \<open>Comparison\<close>

definition pad_to :: "nat \<Rightarrow> nat list \<Rightarrow> nat list" where
  "pad_to n xs = xs @ replicate (n - length xs) 0"

definition ensure_compatible :: "flexible_version \<Rightarrow> flexible_version \<Rightarrow> (nat list \<times> nat list) res" where
  "ensure_compatible a b =
     (if fv_prerel_tags a \<noteq> fv_prerel_tags b \<or> fv_sep a \<noteq> fv_sep b then Inl ValueError
      else Inr (pad_to (length (fv_version b)) (fv_version a), pad_to (length (fv_version a)) (fv_version b)))"

text \<open>
  \<^verbatim>\<open>prerel_tags_set\<close> is built with \<^verbatim>\<open>dict(zip(tags, range(len(tags))))\<close>: the last
  position of a tag counts.
\<close>

definition tag_index :: "string list \<Rightarrow> string \<Rightarrow> nat option" where
  "tag_index tags t = map_of (rev (zip tags [0..<length tags])) t"

definition lt_numbers :: "nat option \<Rightarrow> nat option \<Rightarrow> bool res" where
  "lt_numbers m n = (case (m, n) of (Some i, Some j) \<Rightarrow> Inr (i < j) | _ \<Rightarrow> Inl TypeError)"

text \<open>Equal components: a pre-release precedes its release; tags by position, then by number.\<close>

definition lt_prerelease ::
  "string list \<Rightarrow> (string \<times> nat option) option \<Rightarrow> (string \<times> nat option) option \<Rightarrow> bool res" where
  "lt_prerelease tags p q =
     (case (p, q) of
        (Some _, None) \<Rightarrow> Inr True
      | (None, _) \<Rightarrow> Inr False
      | (Some (t, m), Some (u, n)) \<Rightarrow>
          (case (tag_index tags t, tag_index tags u) of
             (Some i, Some j) \<Rightarrow> if i = j then lt_numbers m n else Inr (i < j)
           | _ \<Rightarrow> Inl KeyError))"

definition version_lt :: "flexible_version \<Rightarrow> flexible_version \<Rightarrow> bool res" where
  "version_lt a b = bindR (ensure_compatible a b) (\<lambda>(this, that).
     if this \<noteq> that \<or> fv_prerelease a = None \<and> fv_prerelease b = None then Inr (this < that)
     else lt_prerelease (fv_prerel_tags a) (fv_prerelease a) (fv_prerelease b))"

definition version_eq :: "flexible_version \<Rightarrow> flexible_version \<Rightarrow> bool res" where
  "version_eq a b = bindR (ensure_compatible a b) (\<lambda>(this, that).
     if this \<noteq> that then Inr False
     else if fv_prerelease a \<noteq> fv_prerelease b then Inr False
     else Inr True)"

definition version_ne :: "flexible_version \<Rightarrow> flexible_version \<Rightarrow> bool res" where
  "version_ne a b = bindR (version_eq a b) (\<lambda>r. Inr (\<not> r))"

definition version_ge :: "flexible_version \<Rightarrow> flexible_version \<Rightarrow> bool res" where
  "version_ge a b = bindR (version_lt a b) (\<lambda>r. Inr (\<not> r))"

definition version_gt :: "flexible_version \<Rightarrow> flexible_version \<Rightarrow> bool res" where
  "version_gt a b = bindR (version_lt a b) (\<lambda>r. if r then Inr False
     else bindR (version_eq a b) (\<lambda>q. Inr (\<not> q)))"

definition version_le :: "flexible_version \<Rightarrow> flexible_version \<Rightarrow> bool res" where
  "version_le a b = bindR (version_lt a b) (\<lambda>r. if r then Inr True else version_eq a b)"

text \<open>\<^verbatim>\<open>matches\<close>: the receiver's components are a prefix of the argument's.\<close>

definition version_matches :: "flexible_version \<Rightarrow> flexible_version \<Rightarrow> bool" where
  "version_matches a b =
     (if fv_sep a \<noteq> fv_sep b \<or> length (fv_version a) > length (fv_version b) then False
      else if \<not> list_all (\<lambda>i. fv_version a ! i = fv_version b ! i) [0..<length (fv_version a)] then False
      else if fv_prerel_tags a \<noteq> [] then fv_prerel_tags a = fv_prerel_tags b
      else True)"

section \<open>Sorting versions\<close>

text \<open>
  \<^verbatim>\<open>sorted\<close> and \<^verbatim>\<open>list.sort\<close> by version. A comparison sort has to compare two versions that differ in their
  pre-release number only, so it raises exactly when some pair in the list cannot be compared.
\<close>

fun pairwise_comparable :: "flexible_version list \<Rightarrow> bool" where
  "pairwise_comparable [] = True"
| "pairwise_comparable (v # vs) =
     (list_all (\<lambda>w. succeeds (version_lt v w) \<and> succeeds (version_lt w v)) vs \<and> pairwise_comparable vs)"

definition sort_versions_desc :: "('a \<Rightarrow> flexible_version) \<Rightarrow> 'a list \<Rightarrow> 'a list res" where
  "sort_versions_desc key xs =
     (if pairwise_comparable (map key xs) then Inr (sort_by (\<lambda>a b. version_lt (key b) (key a) = Inr True) xs)
      else Inl TypeError)"

definition sort_versions_asc :: "('a \<Rightarrow> flexible_version) \<Rightarrow> 'a list \<Rightarrow> 'a list res" where
  "sort_versions_asc key xs =
     (if pairwise_comparable (map key xs) then Inr (sort_by (\<lambda>a b. version_lt (key a) (key b) = Inr True) xs)
      else Inl TypeError)"

section \<open>Well-formed versions and the round trip\<close>

definition is_letter :: "char \<Rightarrow> bool" where
  "is_letter c \<longleftrightarrow> (let n = (of_char c :: nat) in 65 \<le> n \<and> n \<le> 90 \<or> 97 \<le> n \<and> n \<le> 122)"

text \<open>
  A version the constructor can return, with a one-character separator that is neither a letter nor
  a digit nor a newline and tags made of letters: the shape of every version the agent builds.
\<close>

definition wf_separator :: "string \<Rightarrow> bool" where
  "wf_separator sep \<longleftrightarrow> (case sep of [c] \<Rightarrow> \<not> is_letter c \<and> \<not> is_digit c \<and> c \<noteq> CHR 0x0A | _ \<Rightarrow> False)"

definition wf_version :: "flexible_version \<Rightarrow> bool" where
  "wf_version v \<longleftrightarrow>
     wf_separator (fv_sep v) \<and> fv_version v \<noteq> [] \<and> fv_prerel_tags v \<noteq> [] \<and>
     list_all (\<lambda>t. t \<noteq> [] \<and> list_all is_letter t) (fv_prerel_tags v) \<and>
     (case fv_prerelease v of None \<Rightarrow> fv_prerel_sep v = None
      | Some (t, n) \<Rightarrow> t \<in> set (fv_prerel_tags v) \<and>
          (fv_prerel_sep v = None \<or> fv_prerel_sep v = Some ''.'' \<or> fv_prerel_sep v = Some ''-''))"

lemma letter_not_digit: "is_letter c \<Longrightarrow> \<not> is_digit c"
  by (auto simp: is_letter_def is_digit_def Let_def)

lemma special_not_letter [simp]:
  "\<not> is_letter (CHR ''.'')" "\<not> is_letter (CHR ''-'')" "\<not> is_letter (CHR 0x0A)"
  "\<not> is_digit (CHR ''.'')" "\<not> is_digit (CHR ''-'')" "\<not> is_digit (CHR 0x0A)"
  by (simp_all add: is_letter_def is_digit_def Let_def)

lemma rx_digits_from_sound:
  "(d, r) \<in> set (rx_digits_from m s) \<Longrightarrow> s = d @ r \<and> list_all is_digit d \<and> m \<le> length d"
proof -
  assume "(d, r) \<in> set (rx_digits_from m s)"
  then obtain k where k: "m \<le> k" "k \<le> length (takeWhile is_digit s)" "d = take k s" "r = drop k s"
    by (auto simp: rx_digits_from_def)
  then have "k \<le> length s" using length_takeWhile_le [of is_digit s] by linarith
  moreover have "take k s = take k (takeWhile is_digit s)"
    using k(2) by (metis append_take_drop_id take_append takeWhile_dropWhile_id diff_is_0_eq' take_0 append_Nil2)
  then have "list_all is_digit d"
    using k(3) by (metis in_set_takeD list_all_iff set_takeWhileD)
  ultimately show ?thesis using k by simp
qed

lemma rx_digits_from_complete:
  "list_all is_digit d \<Longrightarrow> m \<le> length d \<Longrightarrow> (d, r) \<in> set (rx_digits_from m (d @ r))"
proof -
  assume d: "list_all is_digit d" "m \<le> length d"
  then have "length d \<le> length (takeWhile is_digit (d @ r))"
    by (simp add: list_all_iff takeWhile_append2)
  with d show ?thesis
    by (auto simp: rx_digits_from_def intro!: image_eqI [where x = "length d"])
qed

lemma rx_seps_sound:
  "(t, r) \<in> set (rx_seps sep s) \<Longrightarrow>
   s = t @ r \<and> (\<forall>x \<in> set t. is_digit x \<or> x \<in> set sep) \<and> (t = [] \<or> is_digit (last t))"
proof (induction sep s arbitrary: t r rule: rx_seps.induct)
  case (1 sep s)
  from "1.prems" consider "t = []" "r = s"
    | d r1 t1 where "startswith s sep" "(d, r1) \<in> set (rx_digits_from 1 (drop (length sep) s))"
        "(t1, r) \<in> set (rx_seps sep r1)" "t = sep @ d @ t1"
    by (subst (asm) rx_seps.simps) (auto split: if_splits)
  then show ?case
  proof cases
    case 2
    from rx_digits_from_sound [OF 2(2)] have d: "drop (length sep) s = d @ r1" "list_all is_digit d" "d \<noteq> []"
      by auto
    from 2(1) d(1) have s: "s = sep @ d @ r1" by (auto simp: startswith_iff)
    from "1.IH" [OF 2(1) 2(2) refl 2(3)] have IH: "r1 = t1 @ r" "\<forall>x \<in> set t1. is_digit x \<or> x \<in> set sep"
      "t1 = [] \<or> is_digit (last t1)" by auto
    have "is_digit (last d)" using d(2,3) by (simp add: list_all_iff)
    with s IH 2(4) d(2,3) show ?thesis by (auto simp: list_all_iff last_append)
  qed simp
qed

lemma rx_seps_complete:
  "\<forall>d \<in> set ds. d \<noteq> [] \<and> list_all is_digit d \<Longrightarrow>
   (concat (map (\<lambda>d. sep @ d) ds), r) \<in> set (rx_seps sep (concat (map (\<lambda>d. sep @ d) ds) @ r))"
proof (induction ds)
  case Nil
  then show ?case by (subst rx_seps.simps) simp
next
  case (Cons d ds)
  let ?t = "concat (map (\<lambda>d. sep @ d) ds)"
  have "(d, ?t @ r) \<in> set (rx_digits_from 1 (d @ ?t @ r))"
    using Cons.prems by (intro rx_digits_from_complete) (auto simp: Suc_le_eq)
  moreover have "(?t, r) \<in> set (rx_seps sep (?t @ r))" using Cons by simp
  ultimately show ?case
    by (subst rx_seps.simps) (force simp: startswith_iff)
qed

lemma rx_version_sound:
  "(v, r) \<in> set (rx_version sep s) \<Longrightarrow>
   s = v @ r \<and> (\<forall>x \<in> set v. is_digit x \<or> x \<in> set sep) \<and> v \<noteq> [] \<and> is_digit (last v)"
proof -
  assume "(v, r) \<in> set (rx_version sep s)"
  then obtain d r1 t where d: "(d, r1) \<in> set (rx_digits_from 1 s)" "(t, r) \<in> set (rx_seps sep r1)" "v = d @ t"
    by (auto simp: rx_version_def)
  from rx_digits_from_sound [OF d(1)] have "s = d @ r1" "list_all is_digit d" "d \<noteq> []" by auto
  with rx_seps_sound [OF d(2)] d(3) show ?thesis
    by (auto simp: list_all_iff last_append)
qed

lemma join_with_concat: "join_with sep (x # xs) = x @ concat (map (\<lambda>y. sep @ y) xs)"
  by (simp add: join_with_def)

lemma rx_version_complete:
  "ver \<noteq> [] \<Longrightarrow> (join_with sep (map nat_str ver), r) \<in> set (rx_version sep (join_with sep (map nat_str ver) @ r))"
proof (cases ver)
  case (Cons n ns)
  let ?t = "concat (map (\<lambda>y. sep @ y) (map nat_str ns))"
  have "(nat_str n, ?t @ r) \<in> set (rx_digits_from 1 (nat_str n @ ?t @ r))"
    by (intro rx_digits_from_complete) (simp_all add: Suc_le_eq)
  moreover have "(?t, r) \<in> set (rx_seps sep (?t @ r))"
    by (rule rx_seps_complete) auto
  ultimately show ?thesis
    unfolding Cons list.map join_with_concat rx_version_def
    by (force simp: append_assoc)
qed simp

definition prerel_sep_text :: "string option \<Rightarrow> string" where
  "prerel_sep_text ps = (case ps of None \<Rightarrow> [] | Some p \<Rightarrow> p)"

lemma rx_release_sound:
  assumes "((ps, tg), r) \<in> set (rx_release tags s)"
  shows "ps = None \<and> tg = None \<and> r = s \<or>
    (\<exists>t n. tg = Some (t, n) \<and> t \<in> set tags \<and> list_all is_digit n \<and>
       (ps = None \<or> ps = Some ''.'' \<or> ps = Some ''-'') \<and> s = prerel_sep_text ps @ t @ n @ r)"
proof -
  have tagged: "\<exists>t n. tg = Some (t, n) \<and> t \<in> set tags \<and> list_all is_digit n \<and>
       (ps = None \<or> ps = Some ''.'' \<or> ps = Some ''-'') \<and> s = prerel_sep_text ps @ t @ n @ r"
    if tagged: "((ps, tg), r) \<in> set (rx_tagged tags s)"
  proof -
    from tagged obtain r0 t n where ps: "(ps, r0) \<in> set (rx_prerel_sep s)" and t: "t \<in> set tags" "startswith r0 t"
      and n: "(n, r) \<in> set (rx_digits_from 0 (drop (length t) r0))" "tg = Some (t, n)"
      by (auto simp: rx_tagged_def split: if_splits)
    from rx_digits_from_sound [OF n(1)] t(2) have "r0 = t @ n @ r" "list_all is_digit n"
      by (auto simp: startswith_iff)
    moreover from ps have "(ps = None \<or> ps = Some ''.'' \<or> ps = Some ''-'') \<and> s = prerel_sep_text ps @ r0"
      by (auto simp: rx_prerel_sep_def prerel_sep_text_def split: list.splits if_splits)
    ultimately show ?thesis using t(1) n(2) by auto
  qed
  from assms tagged show ?thesis by (auto simp: rx_release_def split: if_splits)
qed

lemma rx_release_complete_tag:
  assumes "t \<in> set tags" and "list_all is_digit n" and "ps = None \<or> ps = Some ''.'' \<or> ps = Some ''-''"
  shows "((ps, Some (t, n)), r) \<in> set (rx_release tags (prerel_sep_text ps @ t @ n @ r))"
proof -
  have "(ps, t @ n @ r) \<in> set (rx_prerel_sep (prerel_sep_text ps @ t @ n @ r))"
    using assms(3) by (auto simp: rx_prerel_sep_def prerel_sep_text_def)
  moreover have "(n, r) \<in> set (rx_digits_from 0 (n @ r))"
    using assms(2) by (intro rx_digits_from_complete) auto
  ultimately show ?thesis
    using assms(1) by (force simp: rx_release_def rx_tagged_def)
qed

lemma split_at_first_letter:
  assumes "\<forall>x \<in> set a. \<not> is_letter x" and "t \<noteq> []" and "list_all is_letter t"
  shows "takeWhile (\<lambda>x. \<not> is_letter x) (a @ t @ n) = a" "dropWhile (\<lambda>x. \<not> is_letter x) (a @ t @ n) = t @ n"
  using assms by (cases t; simp add: takeWhile_append2 dropWhile_append2)+

lemma takeWhile_letters:
  "list_all is_letter t \<Longrightarrow> list_all is_digit n \<Longrightarrow> takeWhile is_letter (t @ n) = t"
  by (cases n) (auto simp: takeWhile_append2 list_all_iff dest: letter_not_digit)

lemma prerel_sep_text_unique:
  assumes "v1 @ prerel_sep_text p1 = v2 @ prerel_sep_text p2"
    and "p1 = None \<or> p1 = Some ''.'' \<or> p1 = Some ''-''" and "p2 = None \<or> p2 = Some ''.'' \<or> p2 = Some ''-''"
    and "is_digit (last v1)" and "is_digit (last v2)"
  shows "v1 = v2 \<and> p1 = p2"
  using assms by (auto simp: prerel_sep_text_def)

lemma tagged_text_unique:
  assumes eq: "v1 @ prerel_sep_text p1 @ t1 @ n1 = v2 @ prerel_sep_text p2 @ t2 @ n2"
    and v: "\<forall>x \<in> set v1. \<not> is_letter x" "\<forall>x \<in> set v2. \<not> is_letter x"
      "is_digit (last v1)" "is_digit (last v2)"
    and p: "p1 = None \<or> p1 = Some ''.'' \<or> p1 = Some ''-''" "p2 = None \<or> p2 = Some ''.'' \<or> p2 = Some ''-''"
    and t: "t1 \<noteq> []" "list_all is_letter t1" "t2 \<noteq> []" "list_all is_letter t2"
    and n: "list_all is_digit n1" "list_all is_digit n2"
  shows "v1 = v2 \<and> p1 = p2 \<and> t1 = t2 \<and> n1 = n2"
proof -
  have pl: "\<forall>x \<in> set (v1 @ prerel_sep_text p1). \<not> is_letter x" "\<forall>x \<in> set (v2 @ prerel_sep_text p2). \<not> is_letter x"
    using v(1,2) p by (auto simp: prerel_sep_text_def)
  have "v1 @ prerel_sep_text p1 = v2 @ prerel_sep_text p2" and tn: "t1 @ n1 = t2 @ n2"
    using eq split_at_first_letter [OF pl(1) t(1,2)] split_at_first_letter [OF pl(2) t(3,4)]
    by (metis append_assoc)+
  then have "v1 = v2" "p1 = p2" using prerel_sep_text_unique p v(3,4) by blast+
  moreover have "t1 = t2" using takeWhile_letters [OF t(2) n(1)] takeWhile_letters [OF t(4) n(2)] tn by simp
  ultimately show ?thesis using tn by simp
qed

definition release_text :: "flexible_version \<Rightarrow> string" where
  "release_text v = (case fv_prerelease v of None \<Rightarrow> []
     | Some (t, n) \<Rightarrow> prerel_sep_text (fv_prerel_sep v) @ t @ (case n of None \<Rightarrow> [] | Some k \<Rightarrow> nat_str k))"

definition release_groups_of :: "flexible_version \<Rightarrow> release_groups" where
  "release_groups_of v = (fv_prerel_sep v, map_option (\<lambda>(t, n). (t, case n of None \<Rightarrow> [] | Some k \<Rightarrow> nat_str k)) (fv_prerelease v))"

lemma version_str_split:
  "version_str v = join_with (fv_sep v) (map nat_str (fv_version v)) @ release_text v"
  by (simp add: version_str_def assemble_def release_text_def prerel_sep_text_def comp_def split: option.splits)

lemma in_successes_iff:
  "(v, g) \<in> set (version_successes sep tags s) \<longleftrightarrow>
   (\<exists>r r'. (v, r) \<in> set (rx_version sep s) \<and> (g, r') \<in> set (rx_release tags r) \<and> rx_end r')"
  by (force simp: version_successes_def)

lemma number_text_digits: "list_all is_digit (case n of None \<Rightarrow> [] | Some k \<Rightarrow> nat_str k)"
  by (cases n) simp_all

lemma version_text_chars:
  assumes "ver \<noteq> []"
  shows "\<forall>x \<in> set (join_with sep (map nat_str ver)). is_digit x \<or> x \<in> set sep"
    "is_digit (last (join_with sep (map nat_str ver)))"
  using rx_version_sound [OF rx_version_complete [OF assms, of sep "[]"]] by auto

lemma version_str_in_successes:
  assumes "wf_version v"
  shows "(join_with (fv_sep v) (map nat_str (fv_version v)), release_groups_of v)
    \<in> set (version_successes (fv_sep v) (fv_prerel_tags v) (version_str v))"
proof -
  have ver: "fv_version v \<noteq> []" using assms by (simp add: wf_version_def)
  have "(release_groups_of v, []) \<in> set (rx_release (fv_prerel_tags v) (release_text v))"
  proof (cases "fv_prerelease v")
    case None
    with assms show ?thesis
      by (simp add: release_groups_of_def release_text_def wf_version_def rx_release_def)
  next
    case (Some tn)
    then obtain t n where tn: "fv_prerelease v = Some (t, n)" by (cases tn) auto
    with assms show ?thesis
      using rx_release_complete_tag [of t "fv_prerel_tags v" "case n of None \<Rightarrow> [] | Some k \<Rightarrow> nat_str k" "fv_prerel_sep v" "[]"]
      by (simp add: release_groups_of_def release_text_def wf_version_def number_text_digits)
  qed
  then show ?thesis
    unfolding in_successes_iff version_str_split
    using rx_version_complete [OF ver] by (auto simp: rx_end_def)
qed

lemma version_str_no_newline:
  assumes "wf_version v"
  shows "CHR 0x0A \<notin> set (version_str v)"
proof -
  have ver: "fv_version v \<noteq> []" and sep: "CHR 0x0A \<notin> set (fv_sep v)"
    using assms by (auto simp: wf_version_def wf_separator_def split: list.splits)
  have "CHR 0x0A \<notin> set (join_with (fv_sep v) (map nat_str (fv_version v)))"
    using version_text_chars(1) [OF ver, of "fv_sep v"] sep by fastforce
  moreover have "CHR 0x0A \<notin> set (release_text v)"
    using assms
    by (fastforce simp: release_text_def wf_version_def prerel_sep_text_def list_all_iff
        split: option.splits dest: nat_str_set_digit)
  ultimately show ?thesis by (simp add: version_str_split)
qed

lemma wf_version_letters:
  assumes "wf_version v"
  shows "\<forall>x \<in> set (join_with (fv_sep v) (map nat_str (fv_version v))). \<not> is_letter x"
    and "\<forall>x \<in> set (fv_sep v). \<not> is_letter x"
    and "is_digit (last (join_with (fv_sep v) (map nat_str (fv_version v))))"
    and "t \<in> set (fv_prerel_tags v) \<Longrightarrow> t \<noteq> []" and "t \<in> set (fv_prerel_tags v) \<Longrightarrow> list_all is_letter t"
proof -
  have ver: "fv_version v \<noteq> []" using assms by (simp add: wf_version_def)
  show sepc: "\<forall>x \<in> set (fv_sep v). \<not> is_letter x"
    using assms by (auto simp: wf_version_def wf_separator_def split: list.splits)
  show "\<forall>x \<in> set (join_with (fv_sep v) (map nat_str (fv_version v))). \<not> is_letter x"
    using version_text_chars(1) [OF ver, of "fv_sep v"] sepc letter_not_digit by blast
  show "is_digit (last (join_with (fv_sep v) (map nat_str (fv_version v))))"
    using version_text_chars(2) [OF ver] .
  show "t \<in> set (fv_prerel_tags v) \<Longrightarrow> t \<noteq> []" "t \<in> set (fv_prerel_tags v) \<Longrightarrow> list_all is_letter t"
    using assms by (auto simp: wf_version_def list_all_iff)
qed

lemma success_shape:
  assumes wf: "wf_version v"
    and mem: "(t', ps, tg) \<in> set (version_successes (fv_sep v) (fv_prerel_tags v) (version_str v))"
  shows "(\<forall>x \<in> set t'. \<not> is_letter x) \<and> is_digit (last t') \<and>
    (ps = None \<and> tg = None \<and> version_str v = t' \<or>
     (\<exists>t n. tg = Some (t, n) \<and> t \<in> set (fv_prerel_tags v) \<and> list_all is_digit n \<and>
        (ps = None \<or> ps = Some ''.'' \<or> ps = Some ''-'') \<and> version_str v = t' @ prerel_sep_text ps @ t @ n))"
proof -
  from mem obtain r r' where r: "(t', r) \<in> set (rx_version (fv_sep v) (version_str v))"
      "((ps, tg), r') \<in> set (rx_release (fv_prerel_tags v) r)" "rx_end r'"
    by (auto simp: in_successes_iff)
  from rx_version_sound [OF r(1)] have t': "version_str v = t' @ r"
    "\<forall>x \<in> set t'. is_digit x \<or> x \<in> set (fv_sep v)" "is_digit (last t')" by auto
  have "\<forall>x \<in> set t'. \<not> is_letter x" using t'(2) wf_version_letters(2) [OF wf] letter_not_digit by blast
  moreover have "r' = []"
    using rx_release_sound [OF r(2)] r(3) version_str_no_newline [OF wf] t'(1) by (auto simp: rx_end_def)
  ultimately show ?thesis using rx_release_sound [OF r(2)] t'(1,3) by auto
qed

lemma letters_in_letter_free:
  assumes "t \<noteq> []" and "list_all is_letter t" and "a @ t @ b = s" and "\<forall>x \<in> set s. \<not> is_letter x"
  shows False
  using assms by (cases t) auto

lemma version_successes_unique:
  assumes wf: "wf_version v"
    and mem: "(t', ps, tg) \<in> set (version_successes (fv_sep v) (fv_prerel_tags v) (version_str v))"
  shows "(t', ps, tg) = (join_with (fv_sep v) (map nat_str (fv_version v)), release_groups_of v)"
proof -
  let ?T = "join_with (fv_sep v) (map nat_str (fv_version v))"
  note shape = success_shape [OF wf mem] and letters = wf_version_letters [OF wf]
  show ?thesis
  proof (cases "fv_prerelease v")
    case None
    with wf have str: "version_str v = ?T" and g: "release_groups_of v = (None, None)"
      by (auto simp: version_str_split release_text_def release_groups_of_def wf_version_def)
    have "\<not> (\<exists>t n. t \<in> set (fv_prerel_tags v) \<and> version_str v = t' @ prerel_sep_text ps @ t @ n)"
      using letters_in_letter_free [of _ "t' @ prerel_sep_text ps"] letters str by (metis append_assoc)
    with shape str g show ?thesis by auto
  next
    case (Some tn)
    then obtain t n where tn: "fv_prerelease v = Some (t, n)" by (cases tn) auto
    let ?n = "case n of None \<Rightarrow> [] | Some k \<Rightarrow> nat_str k"
    have str: "?T @ prerel_sep_text (fv_prerel_sep v) @ t @ ?n = version_str v"
      by (simp add: version_str_split release_text_def tn)
    have t: "t \<in> set (fv_prerel_tags v)"
      and ps: "fv_prerel_sep v = None \<or> fv_prerel_sep v = Some ''.'' \<or> fv_prerel_sep v = Some ''-''"
      using wf tn by (auto simp: wf_version_def)
    have "version_str v \<noteq> t'"
      using letters_in_letter_free [of t "?T @ prerel_sep_text (fv_prerel_sep v)" ?n] letters(4,5) [OF t] str shape
      by (metis append_assoc)
    with shape obtain t1 n1 where t1: "tg = Some (t1, n1)" "t1 \<in> set (fv_prerel_tags v)" "list_all is_digit n1"
        "ps = None \<or> ps = Some ''.'' \<or> ps = Some ''-''" "t' @ prerel_sep_text ps @ t1 @ n1 = version_str v" by auto
    from t1(5) [folded str] have "t' = ?T \<and> ps = fv_prerel_sep v \<and> t1 = t \<and> n1 = ?n"
      using conjunct1 [OF shape] letters(1) conjunct1 [OF conjunct2 [OF shape]] letters(3) t1(4) ps
        letters(4,5) [OF t1(2)] letters(4,5) [OF t] t1(3) number_text_digits
      by (rule tagged_text_unique)
    with tn t1(1) show ?thesis by (simp add: release_groups_of_def)
  qed
qed

lemma version_re_match_str:
  assumes "wf_version v"
  shows "version_re_match (fv_sep v) (fv_prerel_tags v) (version_str v)
    = Some (join_with (fv_sep v) (map nat_str (fv_version v)), release_groups_of v)"
proof (cases "version_successes (fv_sep v) (fv_prerel_tags v) (version_str v)")
  case Nil
  with version_str_in_successes [OF assms] show ?thesis by simp
next
  case (Cons x xs)
  then have "x \<in> set (version_successes (fv_sep v) (fv_prerel_tags v) (version_str v))" by simp
  with version_successes_unique [OF assms, of "fst x" "fst (snd x)" "snd (snd x)"] Cons show ?thesis
    by (simp add: version_re_match_def)
qed

lemma parse_version_str:
  assumes "wf_version v"
  shows "parse_version (fv_sep v) (fv_prerel_tags v) (version_str v) = Inr v"
proof -
  obtain c where sep: "fv_sep v = [c]" "\<not> is_digit c"
    using assms by (auto simp: wf_version_def wf_separator_def split: list.splits)
  have "split_on [c] (join_with [c] (map nat_str (fv_version v))) = map nat_str (fv_version v)"
    using assms sep(2) by (intro split_on_join_with) (auto simp: wf_version_def dest: nat_str_set_digit)
  moreover have "mapR int_of_digits (map nat_str (fv_version v)) = Inr (fv_version v)"
    by (induction "fv_version v") (simp_all add: mapR_Inr_iff list_all2_map1 list_all2_same)
  moreover have "fv_prerelease v = (case snd (release_groups_of v) of None \<Rightarrow> None
      | Some (t, n) \<Rightarrow> Some (t, if n = [] then None else Some (str_nat n)))"
    by (auto simp: release_groups_of_def split: option.splits)
  ultimately show ?thesis
    using version_re_match_str [OF assms] assms sep(1)
    by (simp add: parse_version_def release_groups_of_def wf_version_def)
qed

section \<open>Versions made of numbers only\<close>

text \<open>
  A dotted sequence of digit strings, leading zeros and a final newline included, is accepted and
  stands for the numbers it spells.
\<close>

definition numeric_version :: "nat list \<Rightarrow> flexible_version" where
  "numeric_version ns = \<lparr>fv_sep = ''.'', fv_prerel_sep = None, fv_prerel_tags = default_prerel_tags,
     fv_prerelease = None, fv_version = ns\<rparr>"

definition digit_piece :: "string \<Rightarrow> bool" where
  "digit_piece d \<longleftrightarrow> d \<noteq> [] \<and> list_all is_digit d"

lemma rx_version_complete_pieces:
  assumes "ds \<noteq> []" and "list_all digit_piece ds"
  shows "(join_with sep ds, r) \<in> set (rx_version sep (join_with sep ds @ r))"
proof (cases ds)
  case (Cons d es)
  let ?t = "concat (map (\<lambda>y. sep @ y) es)"
  have "(d, ?t @ r) \<in> set (rx_digits_from 1 (d @ ?t @ r))"
    using assms Cons by (intro rx_digits_from_complete) (auto simp: Suc_le_eq digit_piece_def)
  moreover have "(?t, r) \<in> set (rx_seps sep (?t @ r))"
    using assms Cons by (intro rx_seps_complete) (auto simp: list_all_iff digit_piece_def)
  ultimately show ?thesis
    unfolding Cons join_with_concat rx_version_def by (force simp: append_assoc)
qed (use assms in simp)

lemma default_tag_letters: "t \<in> set default_prerel_tags \<Longrightarrow> t \<noteq> [] \<and> list_all is_letter t"
  by (auto simp: default_prerel_tags_def is_letter_def Let_def)

lemma digits_before_end:
  assumes "s @ r = t @ r'" and "rx_end r" and "rx_end r'" and "is_digit (last s)" and "is_digit (last t)"
  shows "s = t"
  using assms by (auto simp: rx_end_def)

lemma numeric_successes_unique:
  assumes ds: "ds \<noteq> []" "list_all digit_piece ds" and r: "rx_end r"
    and mem: "(v, ps, tg) \<in> set (version_successes ''.'' default_prerel_tags (join_with ''.'' ds @ r))"
  shows "(v, ps, tg) = (join_with ''.'' ds, None, None)"
proof -
  let ?T = "join_with ''.'' ds"
  note T = rx_version_sound [OF rx_version_complete_pieces [OF ds, of "''.''" "[]"]]
  have "\<forall>x \<in> set ?T. is_digit x \<or> x = CHR ''.''" using T by simp
  then have nl: "\<forall>x \<in> set (?T @ r). \<not> is_letter x"
    using r by (auto simp: rx_end_def dest: letter_not_digit)
  from mem obtain q r' where q: "(v, q) \<in> set (rx_version ''.'' (?T @ r))"
      "((ps, tg), r') \<in> set (rx_release default_prerel_tags q)" "rx_end r'"
    by (auto simp: in_successes_iff)
  note v = rx_version_sound [OF q(1)]
  have "False" if "t \<in> set default_prerel_tags" "q = prerel_sep_text ps @ t @ n @ r'" for t n
    using letters_in_letter_free [of t "v @ prerel_sep_text ps" "n @ r'" "?T @ r"] default_tag_letters [OF that(1)]
      conjunct1 [OF v] that(2) nl by simp
  with rx_release_sound [OF q(2)] have n: "ps = None \<and> tg = None \<and> r' = q" by blast
  then have "?T @ r = v @ r'" "is_digit (last ?T)" "is_digit (last v)" using v T by simp_all
  then have "?T = v" using digits_before_end r q(3) by blast
  with n show ?thesis by simp
qed

lemma parse_version_numeric:
  assumes ds: "ds \<noteq> []" "list_all digit_piece ds" and r: "rx_end r"
  shows "parse_version ''.'' default_prerel_tags (join_with ''.'' ds @ r) = Inr (numeric_version (map str_nat ds))"
proof -
  let ?S = "version_successes ''.'' default_prerel_tags (join_with ''.'' ds @ r)"
  have "(join_with ''.'' ds, None, None) \<in> set ?S"
    unfolding in_successes_iff using rx_version_complete_pieces [OF ds] r by (force simp: rx_release_def)
  then obtain x xs where S: "?S = x # xs" by (cases ?S) auto
  with numeric_successes_unique [OF ds r, of "fst x" "fst (snd x)" "snd (snd x)"]
  have "version_re_match ''.'' default_prerel_tags (join_with ''.'' ds @ r) = Some (join_with ''.'' ds, None, None)"
    by (simp add: version_re_match_def)
  moreover have "split_on ''.'' (join_with ''.'' ds) = ds"
    using ds by (intro split_on_join_with) (fastforce simp: list_all_iff digit_piece_def)+
  moreover have "mapR int_of_digits ds = Inr (map str_nat ds)"
    using ds(2) by (intro mapR_map) (simp add: list_all_iff digit_piece_def int_of_digits_def)
  ultimately show ?thesis
    by (simp add: parse_version_def numeric_version_def default_prerel_tags_def)
qed

lemma FlexibleVersion_numeric:
  assumes "ds \<noteq> []" and "list_all digit_piece ds" and "rx_end r"
  shows "FlexibleVersion (join_with ''.'' ds @ r) = Inr (numeric_version (map str_nat ds))"
proof -
  have "join_with ''.'' ds \<noteq> []"
    using rx_version_sound [OF rx_version_complete_pieces [OF assms(1,2), of "''.''" "[]"]] by simp
  then obtain c s where "join_with ''.'' ds @ r = c # s" by (cases "join_with ''.'' ds") auto
  with parse_version_numeric [OF assms] show ?thesis
    by (simp add: FlexibleVersion_def fv_init_def)
qed

lemma numeric_version_lt:
  "version_lt (numeric_version ms) (numeric_version ns) =
   Inr (pad_to (length ns) ms < pad_to (length ms) ns)"
  by (simp add: version_lt_def ensure_compatible_def numeric_version_def)

section \<open>The version order\<close>

text \<open>
  The versions on which every comparison of the class answers: default separator and tags, and a
  number on every pre-release tag. On them \<^verbatim>\<open>__lt__\<close> is the strict order of
  \<open>version_key\<close>, whatever length \<open>N\<close> the components are padded to.
\<close>

definition ordered_version :: "flexible_version \<Rightarrow> bool" where
  "ordered_version v \<longleftrightarrow> fv_sep v = ''.'' \<and> fv_prerel_tags v = default_prerel_tags \<and>
     (case fv_prerelease v of None \<Rightarrow> True
      | Some (t, n) \<Rightarrow> t \<in> set default_prerel_tags \<and> n \<noteq> None)"

definition prerelease_key :: "flexible_version \<Rightarrow> nat \<times> nat" where
  "prerelease_key v = (case fv_prerelease v of None \<Rightarrow> (3, 0)
     | Some (t, n) \<Rightarrow> (the (tag_index default_prerel_tags t), the n))"

definition version_key :: "nat \<Rightarrow> flexible_version \<Rightarrow> nat list \<times> nat \<times> nat" where
  "version_key n v = (pad_to n (fv_version v), prerelease_key v)"

lemma same_length_append_less:
  "length xs = length ys \<Longrightarrow> xs @ zs < ys @ (zs :: nat list) \<longleftrightarrow> xs < ys"
  by (induction xs ys rule: list_induct2) auto

lemma pad_to_same: "length xs \<le> n \<Longrightarrow> n \<le> m \<Longrightarrow> pad_to m xs = pad_to n xs @ replicate (m - n) 0"
  by (simp add: pad_to_def flip: replicate_add)

lemma length_pad_to [simp]: "length (pad_to n xs) = max n (length xs)"
  by (simp add: pad_to_def)

lemma pad_to_cmp:
  assumes "length xs \<le> n" and "length ys \<le> n"
  shows "pad_to n xs < pad_to n ys \<longleftrightarrow> pad_to (length ys) xs < pad_to (length xs) ys"
    and "pad_to n xs = pad_to n ys \<longleftrightarrow> pad_to (length ys) xs = pad_to (length xs) ys"
proof -
  let ?m = "max (length xs) (length ys)"
  have m: "pad_to (length ys) xs = pad_to ?m xs" "pad_to (length xs) ys = pad_to ?m ys"
    by (simp_all add: pad_to_def max_def)
  have n: "pad_to n xs = pad_to ?m xs @ replicate (n - ?m) 0" "pad_to n ys = pad_to ?m ys @ replicate (n - ?m) 0"
    using assms by (intro pad_to_same; simp)+
  show "pad_to n xs < pad_to n ys \<longleftrightarrow> pad_to (length ys) xs < pad_to (length xs) ys"
    unfolding m n by (rule same_length_append_less) simp
  show "pad_to n xs = pad_to n ys \<longleftrightarrow> pad_to (length ys) xs = pad_to (length xs) ys"
    unfolding m n by simp
qed

lemma tag_index_default [simp]:
  "tag_index default_prerel_tags ''alpha'' = Some 0"
  "tag_index default_prerel_tags ''beta'' = Some 1"
  "tag_index default_prerel_tags ''rc'' = Some 2"
  by (simp_all add: tag_index_def default_prerel_tags_def)

lemma default_tag_cases:
  assumes "t \<in> set default_prerel_tags"
  obtains "t = ''alpha''" | "t = ''beta''" | "t = ''rc''"
  using assms by (auto simp: default_prerel_tags_def)

lemma lt_prerelease_key:
  assumes "ordered_version a" and "ordered_version b"
    and "\<not> (fv_prerelease a = None \<and> fv_prerelease b = None)"
  shows "lt_prerelease (fv_prerel_tags a) (fv_prerelease a) (fv_prerelease b)
    = Inr (prerelease_key a < prerelease_key b)"
  using assms
  by (auto simp: lt_prerelease_def ordered_version_def prerelease_key_def lt_numbers_def elim!: default_tag_cases
      split: option.splits prod.splits)

lemma prerelease_key_inject:
  "ordered_version a \<Longrightarrow> ordered_version b \<Longrightarrow>
   prerelease_key a = prerelease_key b \<longleftrightarrow> fv_prerelease a = fv_prerelease b"
  by (auto simp: ordered_version_def prerelease_key_def elim!: default_tag_cases split: option.splits prod.splits)

lemma version_lt_key:
  assumes "ordered_version a" and "ordered_version b"
    and "length (fv_version a) \<le> n" and "length (fv_version b) \<le> n"
  shows "version_lt a b = Inr (version_key n a < version_key n b)"
proof -
  have compat: "ensure_compatible a b
      = Inr (pad_to (length (fv_version b)) (fv_version a), pad_to (length (fv_version a)) (fv_version b))"
    using assms(1,2) by (simp add: ensure_compatible_def ordered_version_def)
  have key: "version_key n a < version_key n b \<longleftrightarrow>
      pad_to (length (fv_version b)) (fv_version a) < pad_to (length (fv_version a)) (fv_version b) \<or>
      pad_to (length (fv_version b)) (fv_version a) = pad_to (length (fv_version a)) (fv_version b)
        \<and> prerelease_key a < prerelease_key b"
    by (auto simp: version_key_def le_less pad_to_cmp [OF assms(3,4)])
  show ?thesis
  proof (cases "fv_prerelease a = None \<and> fv_prerelease b = None")
    case True
    then show ?thesis
      unfolding key by (auto simp: version_lt_def compat prerelease_key_def)
  next
    case False
    then show ?thesis
      unfolding key by (auto simp: version_lt_def compat lt_prerelease_key [OF assms(1,2) False])
  qed
qed

lemma version_eq_key:
  assumes "ordered_version a" and "ordered_version b"
    and "length (fv_version a) \<le> n" and "length (fv_version b) \<le> n"
  shows "version_eq a b = Inr (version_key n a = version_key n b)"
  using assms
  by (simp add: version_eq_def ensure_compatible_def ordered_version_def version_key_def
      pad_to_cmp(2) [OF assms(3,4)] prerelease_key_inject)

text \<open>The boolean order that the sorting and selection loops of the agent see.\<close>

definition version_less :: "flexible_version \<Rightarrow> flexible_version \<Rightarrow> bool" where
  "version_less a b \<longleftrightarrow> version_lt a b = Inr True"

lemma version_less_key:
  assumes "ordered_version a" and "ordered_version b"
    and "length (fv_version a) \<le> n" and "length (fv_version b) \<le> n"
  shows "version_less a b \<longleftrightarrow> version_key n a < version_key n b"
  by (simp add: version_less_def version_lt_key [OF assms])

lemma version_less_trans:
  assumes "ordered_version x" and "ordered_version y" and "ordered_version z"
    and "version_less x y" and "version_less y z"
  shows "version_less x z"
proof -
  let ?n = "max (length (fv_version x)) (max (length (fv_version y)) (length (fv_version z)))"
  show ?thesis
    using assms version_less_key [of x y ?n] version_less_key [of y z ?n] version_less_key [of x z ?n]
    by (auto intro: order.strict_trans)
qed

lemma version_less_ntrans:
  assumes "ordered_version x" and "ordered_version y" and "ordered_version z"
    and "version_less x z"
  shows "version_less x y \<or> version_less y z"
proof -
  let ?n = "max (length (fv_version x)) (max (length (fv_version y)) (length (fv_version z)))"
  show ?thesis
    using assms version_less_key [of x y ?n] version_less_key [of y z ?n] version_less_key [of x z ?n]
    by (auto intro: le_less_trans)
qed

interpretation version_order: weak_order ordered_version version_less
proof
  show "\<not> version_less x x" if "ordered_version x" for x
    using that version_less_key [of x x "length (fv_version x)"] by simp
qed (fact version_less_trans version_less_ntrans)+

section \<open>Properties\<close>

lemma version_str_Cons:
  assumes "wf_version v"
  shows "\<exists>c s. version_str v = c # s"
proof -
  obtain n ns where "fv_version v = n # ns" using assms by (cases "fv_version v") (auto simp: wf_version_def)
  then show ?thesis
    using nat_str_nonempty [of n] by (cases "nat_str n") (auto simp: version_str_split join_with_concat)
qed

lemma fv_init_str:
  assumes "wf_version v"
  shows "fv_init (Some (version_str v)) (Some (fv_sep v)) (Some (fv_prerel_tags v)) = Inr v"
  using version_str_Cons [OF assms] parse_version_str [OF assms] by (auto simp: fv_init_def)

lemma ordered_wf_str:
  assumes "ordered_version v" and "wf_version v"
  shows "FlexibleVersion (version_str v) = Inr v"
  using fv_init_str [OF assms(2)] assms(1) by (simp add: FlexibleVersion_def ordered_version_def)

lemma assemble_updated_version:
  "assemble (map int ver) (fv_sep v) (fv_prerel_sep v) (fv_prerelease v) = version_str (v\<lparr>fv_version := ver\<rparr>)"
  by (simp add: version_str_def)

lemma wf_version_update: "wf_version v \<Longrightarrow> ver \<noteq> [] \<Longrightarrow> wf_version (v\<lparr>fv_version := ver\<rparr>)"
  by (auto simp: wf_version_def split: option.splits)

lemma fv_init_updated:
  assumes "wf_version v" and "ver \<noteq> []"
  shows "fv_init (Some (assemble (map int ver) (fv_sep v) (fv_prerel_sep v) (fv_prerelease v)))
    (Some (fv_sep v)) (Some (fv_prerel_tags v)) = Inr (v\<lparr>fv_version := ver\<rparr>)"
  using fv_init_str [OF wf_version_update [OF assms]] by (simp add: assemble_updated_version)

lemma version_add_nat:
  assumes "wf_version v"
  shows "version_add v (int n) = Inr (v\<lparr>fv_version := butlast (fv_version v) @ [last (fv_version v) + n]\<rparr>)"
proof -
  have ne: "fv_version v \<noteq> []" using assms by (simp add: wf_version_def)
  show ?thesis
    using fv_init_updated [OF assms, of "butlast (fv_version v) @ [last (fv_version v) + n]"] ne
    by (simp add: version_add_def)
qed

lemma version_sub_nat:
  assumes "wf_version v" and "n \<le> last (fv_version v)" and "0 < last (fv_version v)"
  shows "version_sub v (int n) = Inr (v\<lparr>fv_version := butlast (fv_version v) @ [last (fv_version v) - n]\<rparr>)"
proof -
  have ne: "fv_version v \<noteq> []" using assms by (simp add: wf_version_def)
  show ?thesis
    using fv_init_updated [OF assms(1), of "butlast (fv_version v) @ [last (fv_version v) - n]"] ne assms(2,3)
    by (simp add: version_sub_def)
qed

text \<open>
  C36: parsing the printed form of a well-formed version with the same separator and tags gives the
  version back, pre-release part included.
\<close>

theorem version_str_roundtrip:
  assumes "wf_version v"
  shows "fv_init (Some (version_str v)) (Some (fv_sep v)) (Some (fv_prerel_tags v)) = Inr v"
  by (rule fv_init_str [OF assms])

definition sample_version :: flexible_version where
  "sample_version = \<lparr>fv_sep = ''.'', fv_prerel_sep = Some ''-'', fv_prerel_tags = default_prerel_tags,
     fv_prerelease = Some (''rc'', Some 2), fv_version = [2, 13, 0, 1]\<rparr>"

lemma sample_version_wf: "wf_version sample_version"
  by code_simp

theorem version_str_roundtrip_witness:
  "fv_init (Some ''2.13.0.1-rc2'') (Some ''.'') (Some default_prerel_tags) = Inr sample_version"
proof -
  have "version_str sample_version = ''2.13.0.1-rc2''" by code_simp
  then show ?thesis
    using version_str_roundtrip [OF sample_version_wf] by (simp add: sample_version_def)
qed

text \<open>
  C37: on versions with the default structure whose pre-release tags carry a number, comparison never
  raises, exactly one of \<^verbatim>\<open><\<close>, \<^verbatim>\<open>==\<close>, \<^verbatim>\<open>>\<close> answers True, \<^verbatim>\<open><\<close> is transitive, and
  the derived operators agree with it.
\<close>

theorem version_order_total:
  assumes "ordered_version x" and "ordered_version y" and "ordered_version z"
  shows "(version_lt x y, version_eq x y, version_gt x y)
      \<in> {(Inr True, Inr False, Inr False), (Inr False, Inr True, Inr False), (Inr False, Inr False, Inr True)}
    \<and> (version_lt x y = Inr True \<and> version_lt y z = Inr True \<longrightarrow> version_lt x z = Inr True)
    \<and> version_le x y = Inr (\<not> version_less y x) \<and> version_ge x y = Inr (\<not> version_less x y)
    \<and> version_ne x y = Inr (version_less x y \<or> version_less y x)"
proof -
  let ?n = "max (length (fv_version x)) (length (fv_version y))"
  have keys: "version_lt x y = Inr (version_key ?n x < version_key ?n y)"
    "version_eq x y = Inr (version_key ?n x = version_key ?n y)"
    "version_less y x \<longleftrightarrow> version_key ?n y < version_key ?n x"
    "version_less x y \<longleftrightarrow> version_key ?n x < version_key ?n y"
    using assms by (simp_all add: version_lt_key version_eq_key version_less_key)
  moreover have "version_lt x y = Inr True \<and> version_lt y z = Inr True \<longrightarrow> version_lt x z = Inr True"
    using version_less_trans [OF assms] by (simp add: version_less_def)
  ultimately show ?thesis
    by (auto simp: version_gt_def version_le_def version_ge_def version_ne_def)
qed

theorem version_order_total_witness:
  "ordered_version sample_version \<and>
   version_le sample_version sample_version = Inr (\<not> version_less sample_version sample_version)"
proof -
  have ok: "ordered_version sample_version" by code_simp
  show ?thesis using version_order_total [OF ok ok ok] ok by simp
qed

text \<open>
  Adding \<open>n\<close> to the last component of a well-formed version and subtracting \<open>n\<close> again is the
  identity, for every positive \<open>n\<close>.
\<close>

theorem version_add_sub:
  assumes "wf_version v" and "0 < n"
  shows "bindR (version_add v (int n)) (\<lambda>w. version_sub w (int n)) = Inr v"
proof -
  let ?w = "v\<lparr>fv_version := butlast (fv_version v) @ [last (fv_version v) + n]\<rparr>"
  have ne: "fv_version v \<noteq> []" using assms(1) by (simp add: wf_version_def)
  have "version_sub ?w (int n) = Inr v"
    using version_sub_nat [OF wf_version_update [OF assms(1)], of "butlast (fv_version v) @ [last (fv_version v) + n]" n]
      assms(2) ne by simp
  then show ?thesis by (simp add: version_add_nat [OF assms(1)])
qed

theorem version_add_sub_witness:
  "bindR (version_add sample_version 3) (\<lambda>w. version_sub w 3) = Inr sample_version"
  using version_add_sub [OF sample_version_wf, of 3] by simp

text \<open>
  a version with an unnumbered pre-release tag (such as \<^verbatim>\<open>1.0-alpha\<close>, which the pattern
  accepts) equals itself, but each of \<^verbatim>\<open><\<close>, \<^verbatim>\<open><=\<close>, \<^verbatim>\<open>>\<close>, \<^verbatim>\<open>>=\<close> on it raises
  \<^verbatim>\<open>TypeError\<close>, because \<^verbatim>\<open>None < None\<close> is not defined in Python 3.
\<close>

theorem unnumbered_prerelease_not_comparable:
  assumes "fv_prerelease v = Some (t, None)" and "t \<in> set (fv_prerel_tags v)"
  shows "version_eq v v = Inr True \<and> version_lt v v = Inl TypeError \<and> version_le v v = Inl TypeError \<and>
    version_gt v v = Inl TypeError \<and> version_ge v v = Inl TypeError"
proof -
  from assms(2) obtain i where "tag_index (fv_prerel_tags v) t = Some i"
    by (metis tag_index_def length_map map_nth map_of_eq_None_iff option.exhaust list.set_map set_rev
        map_fst_zip length_upt diff_zero)
  with assms(1) have "version_lt v v = Inl TypeError"
    by (simp add: version_lt_def ensure_compatible_def lt_prerelease_def lt_numbers_def)
  then show ?thesis
    by (simp add: version_le_def version_gt_def version_ge_def version_eq_def ensure_compatible_def)
qed

theorem unnumbered_prerelease_not_comparable_witness:
  "bindR (FlexibleVersion ''1.0-alpha'') (\<lambda>v. version_le v v) = Inl TypeError"
proof -
  let ?v = "\<lparr>fv_sep = ''.'', fv_prerel_sep = Some ''-'', fv_prerel_tags = default_prerel_tags,
     fv_prerelease = Some (''alpha'', None), fv_version = [1, 0]\<rparr>"
  have "FlexibleVersion ''1.0-alpha'' = Inr ?v" by code_simp
  moreover have "''alpha'' \<in> set (fv_prerel_tags ?v)" by (simp add: default_prerel_tags_def)
  ultimately show ?thesis
    using unnumbered_prerelease_not_comparable [of ?v "''alpha''"] by simp
qed

text \<open>
  although the constructor takes \<^verbatim>\<open>prerel_tags=None\<close> or an empty tuple to mean "no
  pre-release tags", every non-empty version string is then refused: the text of a plain version
  raises \<^verbatim>\<open>IndexError\<close> (the pattern has no group of that name), any other raises
  \<^verbatim>\<open>IndexError\<close> or \<^verbatim>\<open>ValueError\<close>.
\<close>

theorem version_without_tags_never_parses:
  "fv_init (Some (c # s)) sep None \<in> {Inl ValueError, Inl IndexError} \<and>
   (ver \<noteq> [] \<longrightarrow> fv_init (Some (join_with ''.'' (map nat_str ver))) None None = Inl IndexError)"
proof (intro conjI impI)
  show "fv_init (Some (c # s)) sep None \<in> {Inl ValueError, Inl IndexError}"
    by (auto simp: fv_init_def parse_version_def Let_def split: option.splits)
  assume ver: "ver \<noteq> []"
  let ?t = "join_with ''.'' (map nat_str ver)"
  have "(?t, (None, None)) \<in> set (version_successes ''.'' [] ?t)"
    using rx_version_complete [OF ver, of "''.''" "[]"]
    by (auto simp: in_successes_iff rx_release_def rx_end_def)
  then have "\<exists>x. version_re_match ''.'' [] ?t = Some x"
    by (cases "version_successes ''.'' [] ?t") (auto simp: version_re_match_def)
  moreover obtain d ds where "?t = d # ds"
    using rx_version_sound [OF rx_version_complete [OF ver, of "''.''" "[]"]] by (cases ?t) auto
  ultimately show "fv_init (Some ?t) None None = Inl IndexError"
    by (auto simp: fv_init_def parse_version_def)
qed

theorem version_without_tags_never_parses_witness:
  "fv_init (Some ''1.2.3'') None None = Inl IndexError"
proof -
  have "join_with ''.'' (map nat_str [1, 2, 3]) = ''1.2.3''" by code_simp
  then show ?thesis using version_without_tags_never_parses [where ver = "[1, 2, 3]"] by simp
qed

end
