(* ===== verification/Guest_Agent.thy ===== *)
theory Guest_Agent
  imports Handler_Manifest Flexible_Version
begin

text \<open>
  \<^verbatim>\<open>azurelinuxagent/ga/guestagent.py\<close>: the agents installed on disk, the error record that
  disables a bad version, and the count of update attempts. \<open>lib_state\<close> is the part of the agent's
  library directory these classes read and write: the entries \<^verbatim>\<open>WALinuxAgent-*\<close>, keyed by name,
  and the two state files of the updater. A file is \<open>None\<close> when it does not exist, else the JSON
  document in it or the error that reading it raises. \<open>disk_env\<close> says which writes and removals
  succeed, and the time.
\<close>

section \<open>The library directory\<close>

record agent_files =
  manifest_file :: "json res option"
  error_file :: "json res option"
  attempt_file :: "json res option"

datatype lib_entry = PlainFile | AgentDir agent_files

record lib_state =
  lib_entries :: "(string \<times> lib_entry) list"
  rsm_update_state_file :: bool
  initial_update_state_file :: bool

record disk_env =
  file_writable :: "string \<Rightarrow> bool"
  entry_removable :: "string \<Rightarrow> bool"
  time_now :: rat
  py_repr :: "json \<Rightarrow> string"

definition no_files :: agent_files where
  "no_files = \<lparr>manifest_file = None, error_file = None, attempt_file = None\<rparr>"

definition agent_dir :: "('a lib_state_scheme) \<Rightarrow> string \<Rightarrow> agent_files option" where
  "agent_dir s name = (case map_of (lib_entries s) name of Some (AgentDir f) \<Rightarrow> Some f | _ \<Rightarrow> None)"

definition update_dir :: "string \<Rightarrow> (agent_files \<Rightarrow> agent_files) \<Rightarrow> 'a lib_state_scheme \<Rightarrow> 'a lib_state_scheme" where
  "update_dir name f s = (case agent_dir s name of
     Some d \<Rightarrow> s\<lparr>lib_entries := AList.update name (AgentDir (f d)) (lib_entries s)\<rparr> | None \<Rightarrow> s)"

definition remove_entry :: "disk_env \<Rightarrow> string \<Rightarrow> ('a lib_state_scheme, unit) op" where
  "remove_entry env name =
     (if entry_removable env name then modifyM (\<lambda>s. s\<lparr>lib_entries := AList.delete name (lib_entries s)\<rparr>)
      else raiseM OSError)"

section \<open>The error record\<close>

record agent_error =
  last_failure :: json
  failure_count :: json
  was_fatal :: json
  reason :: json

definition MAX_FAILURE :: nat where
  "MAX_FAILURE = 3"

definition error_clear :: agent_error where
  "error_clear = \<lparr>last_failure = JFloat 0, failure_count = JInt 0, was_fatal = JBool False, reason = JStr ''''\<rparr>"

definition error_mark_failure :: "disk_env \<Rightarrow> bool \<Rightarrow> string \<Rightarrow> (agent_error, unit) op" where
  "error_mark_failure env is_fatal why =
     thenM (modifyM (\<lambda>e. e\<lparr>last_failure := JFloat (time_now env)\<rparr>))
    (bindM (\<lambda>e. (py_inc (failure_count e), e)) (\<lambda>n.
       modifyM (\<lambda>e. e\<lparr>failure_count := n, was_fatal := JBool is_fatal, reason := JStr why\<rparr>)))"

definition error_is_blacklisted :: "agent_error \<Rightarrow> bool res" where
  "error_is_blacklisted e =
     (if truthy (was_fatal e) then Inr True else py_ge (failure_count e) (of_nat MAX_FAILURE))"

definition error_from_json :: "json \<Rightarrow> (agent_error, unit) op" where
  "error_from_json data =
     bindM (\<lambda>e. (bindR (py_get_default data ''last_failure'' (JFloat 0)) (py_max (last_failure e)), e)) (\<lambda>t.
     thenM (modifyM (\<lambda>e. e\<lparr>last_failure := t\<rparr>))
    (bindM (\<lambda>e. (bindR (py_get_default data ''failure_count'' (JInt 0)) (py_max (failure_count e)), e)) (\<lambda>n.
     thenM (modifyM (\<lambda>e. e\<lparr>failure_count := n\<rparr>))
    (bindM (\<lambda>e. (if truthy (was_fatal e) then Inr (was_fatal e) else py_get_default data ''was_fatal'' (JBool False), e)) (\<lambda>b.
     thenM (modifyM (\<lambda>e. e\<lparr>was_fatal := b\<rparr>))
    (bindM (liftR (py_get_default data ''reason'' (JStr ''''))) (\<lambda>r.
       modifyM (\<lambda>e. if r \<noteq> JStr '''' then e\<lparr>reason := r\<rparr> else e))))))))"

definition error_to_json :: "(json \<Rightarrow> string) \<Rightarrow> agent_error \<Rightarrow> json" where
  "error_to_json repr e = JObj [(''last_failure'', last_failure e), (''failure_count'', failure_count e),
     (''was_fatal'', was_fatal e), (''reason'', JStr (ustr repr (reason e)))]"

text \<open>
  \<^verbatim>\<open>GuestAgentError(path).load()\<close>: whatever goes wrong, the file is deleted and what was read
  before the failure is kept.
\<close>

definition load_error :: "disk_env \<Rightarrow> string \<Rightarrow> ('a lib_state_scheme, agent_error) op" where
  "load_error env name = (\<lambda>s.
     let drop_file = update_dir name (\<lambda>f. if entry_removable env (name @ ''/error.json'') then f\<lparr>error_file := None\<rparr> else f)
     in case Option.bind (agent_dir s name) error_file of
          None \<Rightarrow> (Inr error_clear, s)
        | Some (Inl _) \<Rightarrow> (Inr error_clear, drop_file s)
        | Some (Inr data) \<Rightarrow> (case error_from_json data error_clear of
              (Inr _, e) \<Rightarrow> (Inr e, s)
            | (Inl _, e) \<Rightarrow> (Inr e, drop_file s)))"

definition save_error :: "disk_env \<Rightarrow> string \<Rightarrow> agent_error \<Rightarrow> ('a lib_state_scheme, unit) op" where
  "save_error env name e = (\<lambda>s.
     if agent_dir s name = None then (Inr (), s)
     else if file_writable env (name @ ''/error.json'')
       then (Inr (), update_dir name (\<lambda>f. f\<lparr>error_file := Some (Inr (error_to_json (py_repr env) e))\<rparr>) s)
     else (Inl OSError, s))"

section \<open>The count of update attempts\<close>

definition attempt_from_json :: "json \<Rightarrow> json res" where
  "attempt_from_json data = py_get_default data ''count'' (JInt 0)"

definition attempt_to_json :: "json \<Rightarrow> json" where
  "attempt_to_json n = JObj [(''count'', n)]"

definition load_attempt :: "disk_env \<Rightarrow> string \<Rightarrow> ('a lib_state_scheme, json) op" where
  "load_attempt env name = (\<lambda>s.
     let drop_file = update_dir name (\<lambda>f. if entry_removable env (name @ ''/update_attempt.json'') then f\<lparr>attempt_file := None\<rparr> else f)
     in case Option.bind (agent_dir s name) attempt_file of
          None \<Rightarrow> (Inr (JInt 0), s)
        | Some (Inl _) \<Rightarrow> (Inr (JInt 0), drop_file s)
        | Some (Inr data) \<Rightarrow> (case attempt_from_json data of
              Inr c \<Rightarrow> (Inr c, s)
            | Inl _ \<Rightarrow> (Inr (JInt 0), drop_file s)))"

definition save_attempt :: "disk_env \<Rightarrow> string \<Rightarrow> json \<Rightarrow> ('a lib_state_scheme, unit) op" where
  "save_attempt env name n = (\<lambda>s.
     if agent_dir s name = None then (Inr (), s)
     else if file_writable env (name @ ''/update_attempt.json'')
       then (Inr (), update_dir name (\<lambda>f. f\<lparr>attempt_file := Some (Inr (attempt_to_json n))\<rparr>) s)
     else (Inl OSError, s))"

section \<open>GuestAgent\<close>

record guest_agent =
  ga_version :: flexible_version
  ga_error :: agent_error
  ga_attempt_count :: json
  ga_manifest :: "json option"

definition AGENT_NAME :: string where
  "AGENT_NAME = ''WALinuxAgent''"

definition agent_name :: "flexible_version \<Rightarrow> string" where
  "agent_name v = AGENT_NAME @ ''-'' @ version_str v"

definition as_update_error :: "'a res \<Rightarrow> 'a res" where
  "as_update_error r = (case r of Inr a \<Rightarrow> Inr a
     | Inl e \<Rightarrow> if is_Exception e then Inl (UpdateError ''illegal HandlerManifest.json'') else Inl e)"

definition load_manifest :: "string \<Rightarrow> ('a lib_state_scheme, json) op" where
  "load_manifest name = (\<lambda>s. (case Option.bind (agent_dir s name) manifest_file of
     None \<Rightarrow> Inl (UpdateError ''missing HandlerManifest.json'')
   | Some (Inl e) \<Rightarrow> Inl (UpdateError ''malformed HandlerManifest.json'')
   | Some (Inr (JList [])) \<Rightarrow> Inl (UpdateError ''empty HandlerManifest.json'')
   | Some (Inr data) \<Rightarrow>
       as_update_error
         (bindR (HandlerManifest (case data of JList (m # _) \<Rightarrow> m | _ \<Rightarrow> data)) (\<lambda>m.
          bindR (bindR (get_enable_command m) py_len) (\<lambda>n.
            if n \<le> 0 then Inl (OtherError ''Manifest is missing the enable command'') else Inr m))), s))"

text \<open>
  \<^verbatim>\<open>GuestAgent(path, pkg)\<close>, given the version text of the directory or package. An agent whose
  manifest cannot be loaded has its directory deleted.
\<close>

definition guest_agent_init :: "disk_env \<Rightarrow> string \<Rightarrow> ('a lib_state_scheme, guest_agent) op" where
  "guest_agent_init env version_text =
     bindM (liftR (FlexibleVersion version_text)) (\<lambda>v.
     bindM (load_error env (agent_name v)) (\<lambda>err.
     bindM (load_attempt env (agent_name v)) (\<lambda>n.
     bindM (tryM (bindM (load_manifest (agent_name v)) (\<lambda>m.
                  bindM (load_error env (agent_name v)) (\<lambda>err'. returnM (err', Some m))))
              (\<lambda>e. if is_Exception e
                   then Some (thenM (tryM (bindM (getM (\<lambda>s. agent_dir s (agent_name v) \<noteq> None)) (\<lambda>isdir.
                                            whenM isdir (remove_entry env (agent_name v))))
                                       (\<lambda>_. Some (returnM ())))
                               (returnM (err, None)))
                   else None))
       (\<lambda>(err', m). returnM \<lparr>ga_version = v, ga_error = err', ga_attempt_count = n, ga_manifest = m\<rparr>))))"

definition agent_is_downloaded :: "'a lib_state_scheme \<Rightarrow> guest_agent \<Rightarrow> bool res" where
  "agent_is_downloaded s a = bindR (error_is_blacklisted (ga_error a)) (\<lambda>b.
     Inr (b \<or> Option.bind (agent_dir s (agent_name (ga_version a))) manifest_file \<noteq> None))"

definition agent_is_available :: "'a lib_state_scheme \<Rightarrow> guest_agent \<Rightarrow> bool res" where
  "agent_is_available s a = bindR (agent_is_downloaded s a) (\<lambda>d.
     if d then bindR (error_is_blacklisted (ga_error a)) (\<lambda>b. Inr (\<not> b)) else Inr False)"

definition clear_error :: "disk_env \<Rightarrow> guest_agent \<Rightarrow> ('a lib_state_scheme, guest_agent) op" where
  "clear_error env a =
     (let a' = a\<lparr>ga_error := error_clear\<rparr>
      in thenM (save_error env (agent_name (ga_version a)) error_clear) (returnM a'))"

definition make_agent_dir :: "disk_env \<Rightarrow> string \<Rightarrow> ('a lib_state_scheme, unit) op" where
  "make_agent_dir env name = (\<lambda>s.
     if agent_dir s name \<noteq> None then (Inr (), s)
     else if map_of (lib_entries s) name = None \<and> file_writable env name
       then (Inr (), s\<lparr>lib_entries := AList.update name (AgentDir no_files) (lib_entries s)\<rparr>)
     else (Inl OSError, s))"

definition agent_mark_failure :: "disk_env \<Rightarrow> bool \<Rightarrow> string \<Rightarrow> guest_agent \<Rightarrow> ('a lib_state_scheme, guest_agent) op" where
  "agent_mark_failure env is_fatal why a = (\<lambda>s.
     let name = agent_name (ga_version a) in
     case make_agent_dir env name s of
       (Inl _, t) \<Rightarrow> (Inr a, t)
     | (Inr _, t) \<Rightarrow> (case error_mark_failure env is_fatal why (ga_error a) of
          (Inl _, e) \<Rightarrow> (Inr (a\<lparr>ga_error := e\<rparr>), t)
        | (Inr _, e) \<Rightarrow> (Inr (a\<lparr>ga_error := e\<rparr>), snd (save_error env name e t))))"

definition inc_update_attempt_count :: "disk_env \<Rightarrow> guest_agent \<Rightarrow> ('a lib_state_scheme, guest_agent) op" where
  "inc_update_attempt_count env a = (\<lambda>s.
     case py_inc (ga_attempt_count a) of
       Inl _ \<Rightarrow> (Inr a, s)
     | Inr c \<Rightarrow> (Inr (a\<lparr>ga_attempt_count := c\<rparr>), snd (save_attempt env (agent_name (ga_version a)) c s)))"

section \<open>The updater's state files\<close>

definition save_initial_update_state_file :: "disk_env \<Rightarrow> ('a lib_state_scheme, unit) op" where
  "save_initial_update_state_file env =
     whenM (file_writable env ''waagent_initial_update'') (modifyM (\<lambda>s. s\<lparr>initial_update_state_file := True\<rparr>))"

definition is_initial_update :: "'a lib_state_scheme \<Rightarrow> bool" where
  "is_initial_update s = (\<not> initial_update_state_file s)"

definition save_rsm_update_state_file :: "disk_env \<Rightarrow> ('a lib_state_scheme, unit) op" where
  "save_rsm_update_state_file env =
     whenM (file_writable env ''waagent_rsm_update'') (modifyM (\<lambda>s. s\<lparr>rsm_update_state_file := True\<rparr>))"

definition remove_rsm_update_state_file :: "disk_env \<Rightarrow> ('a lib_state_scheme, unit) op" where
  "remove_rsm_update_state_file env =
     whenM (entry_removable env ''waagent_rsm_update'') (modifyM (\<lambda>s. s\<lparr>rsm_update_state_file := False\<rparr>))"

definition is_last_update_with_rsm :: "'a lib_state_scheme \<Rightarrow> bool" where
  "is_last_update_with_rsm s = rsm_update_state_file s"

section \<open>Lemmas on the directory\<close>

lemma agent_dir_update_dir:
  "agent_dir (update_dir name f s) other = (if other = name then map_option f (agent_dir s name) else agent_dir s other)"
  by (auto simp: agent_dir_def update_dir_def update_conv' split: option.splits lib_entry.splits)

lemma update_dir_simps [simp]:
  "rsm_update_state_file (update_dir name f s) = rsm_update_state_file s"
  "initial_update_state_file (update_dir name f s) = initial_update_state_file s"
  by (simp_all add: update_dir_def split: option.splits)

lemma agent_dir_update_same [simp]:
  "agent_dir (s\<lparr>rsm_update_state_file := b\<rparr>) = agent_dir s"
  "agent_dir (s\<lparr>initial_update_state_file := b\<rparr>) = agent_dir s"
  by (simp_all add: agent_dir_def fun_eq_iff)

section \<open>The error record as the agent writes it\<close>

text \<open>The records the agent itself writes: a non-negative time and count, a flag and a text.\<close>

definition agent_written :: "agent_error \<Rightarrow> bool" where
  "agent_written e \<longleftrightarrow> (\<exists>t n b r. 0 \<le> t \<and> 0 \<le> n \<and>
     e = \<lparr>last_failure = JFloat t, failure_count = JInt n, was_fatal = JBool b, reason = JStr r\<rparr>)"

lemma agent_written_cases:
  assumes "agent_written e"
  obtains t n b r where "0 \<le> t" "0 \<le> n"
    "e = \<lparr>last_failure = JFloat t, failure_count = JInt n, was_fatal = JBool b, reason = JStr r\<rparr>"
  using assms by (auto simp: agent_written_def)

lemma agent_written_clear: "agent_written error_clear"
  by (auto simp: agent_written_def error_clear_def)

lemma agent_written_mark_failure:
  assumes "agent_written e" and "0 \<le> time_now env"
  shows "\<exists>e'. error_mark_failure env is_fatal why e = (Inr (), e') \<and> agent_written e' \<and>
    failure_count e' = JInt ((case failure_count e of JInt n \<Rightarrow> n | _ \<Rightarrow> 0) + 1) \<and> was_fatal e' = JBool is_fatal"
  using assms(1) by (rule agent_written_cases) (use assms(2) in \<open>auto simp: error_mark_failure_def agent_written_def op_defs\<close>)

lemma error_json_roundtrip:
  assumes "agent_written e"
  shows "error_from_json (error_to_json repr e) error_clear = (Inr (), e)"
  using assms
  by (rule agent_written_cases)
     (auto simp: error_to_json_def error_from_json_def error_clear_def op_defs py_max_def)

lemma save_load_error:
  assumes "agent_dir s name = Some f" and "file_writable env (name @ ''/error.json'')" and "agent_written e"
  shows "\<exists>s'. save_error env name e s = (Inr (), s') \<and> load_error env' name s' = (Inr e, s') \<and>
    agent_dir s' name = Some (f\<lparr>error_file := Some (Inr (error_to_json (py_repr env) e))\<rparr>)"
proof (intro exI conjI)
  let ?s = "update_dir name (\<lambda>f. f\<lparr>error_file := Some (Inr (error_to_json (py_repr env) e))\<rparr>) s"
  show "save_error env name e s = (Inr (), ?s)" using assms(1,2) by (simp add: save_error_def)
  show dir: "agent_dir ?s name = Some (f\<lparr>error_file := Some (Inr (error_to_json (py_repr env) e))\<rparr>)"
    using assms(1) by (simp add: agent_dir_update_dir)
  show "load_error env' name ?s = (Inr e, ?s)"
    unfolding load_error_def dir Let_def by (simp add: error_json_roundtrip [OF assms(3)])
qed

lemma blacklisted_written:
  assumes "agent_written e"
  shows "error_is_blacklisted e = Inr (was_fatal e = JBool True \<or> (case failure_count e of JInt n \<Rightarrow> 3 \<le> n | _ \<Rightarrow> False))"
  using assms
proof (rule agent_written_cases)
  fix t n b r
  assume "0 \<le> n" and e: "e = \<lparr>last_failure = JFloat t, failure_count = JInt n, was_fatal = JBool b, reason = JStr r\<rparr>"
  have "(3 :: rat) \<le> rat_of_int n \<longleftrightarrow> 3 \<le> n" by (metis of_int_le_iff of_int_numeral)
  then show ?thesis by (simp add: error_is_blacklisted_def py_ge_def MAX_FAILURE_def e)
qed

section \<open>Properties\<close>

text \<open>A sequence of failures of one agent, each recorded and saved.\<close>

fun mark_failures :: "disk_env \<Rightarrow> (bool \<times> string) list \<Rightarrow> guest_agent \<Rightarrow> ('a lib_state_scheme, guest_agent) op" where
  "mark_failures env [] a = returnM a"
| "mark_failures env ((is_fatal, why) # fs) a =
     bindM (agent_mark_failure env is_fatal why a) (mark_failures env fs)"

definition error_count :: "agent_error \<Rightarrow> int" where
  "error_count e = (case failure_count e of JInt n \<Rightarrow> n | _ \<Rightarrow> 0)"

lemma agent_mark_failure_saved:
  assumes dir: "agent_dir s (agent_name (ga_version a)) = Some f"
    and w: "file_writable env (agent_name (ga_version a) @ ''/error.json'')" and t: "0 \<le> time_now env"
    and e: "agent_written (ga_error a)"
  shows "\<exists>e' s' f'. agent_mark_failure env is_fatal why a s = (Inr (a\<lparr>ga_error := e'\<rparr>), s') \<and> agent_written e' \<and>
    error_count e' = error_count (ga_error a) + 1 \<and> was_fatal e' = JBool is_fatal \<and>
    load_error env' (agent_name (ga_version a)) s' = (Inr e', s') \<and>
    agent_dir s' (agent_name (ga_version a)) = Some f' \<and> manifest_file f' = manifest_file f \<and> attempt_file f' = attempt_file f"
proof -
  obtain e' where e': "error_mark_failure env is_fatal why (ga_error a) = (Inr (), e')" "agent_written e'"
    "error_count e' = error_count (ga_error a) + 1" "was_fatal e' = JBool is_fatal"
    using agent_written_mark_failure [OF e t, of is_fatal why] by (auto simp: error_count_def)
  from save_load_error [OF dir w e'(2), of env'] obtain s' where
    s': "save_error env (agent_name (ga_version a)) e' s = (Inr (), s')"
      "load_error env' (agent_name (ga_version a)) s' = (Inr e', s')"
      "agent_dir s' (agent_name (ga_version a)) = Some (f\<lparr>error_file := Some (Inr (error_to_json (py_repr env) e'))\<rparr>)"
    by blast
  have "agent_mark_failure env is_fatal why a s = (Inr (a\<lparr>ga_error := e'\<rparr>), s')"
    using e'(1) s'(1) dir by (simp add: agent_mark_failure_def make_agent_dir_def Let_def)
  with e' s' show ?thesis by (intro exI [of _ e'] exI [of _ s'] exI) auto
qed

lemma mark_failures_saved:
  assumes "agent_dir s (agent_name (ga_version a)) = Some f"
    and "file_writable env (agent_name (ga_version a) @ ''/error.json'')" and "0 \<le> time_now env"
    and "agent_written (ga_error a)" and "fs \<noteq> []"
  shows "\<exists>e' s' f'. mark_failures env fs a s = (Inr (a\<lparr>ga_error := e'\<rparr>), s') \<and> agent_written e' \<and>
    error_count e' = error_count (ga_error a) + int (length fs) \<and> was_fatal e' = JBool (fst (last fs)) \<and>
    load_error env' (agent_name (ga_version a)) s' = (Inr e', s') \<and>
    agent_dir s' (agent_name (ga_version a)) = Some f' \<and> manifest_file f' = manifest_file f \<and> attempt_file f' = attempt_file f"
  using assms(1,2,4,5)
proof (induction fs arbitrary: a s f)
  case (Cons x fs)
  obtain is_fatal why where x: "x = (is_fatal, why)" by (cases x)
  obtain e1 s1 f1 where m: "agent_mark_failure env is_fatal why a s = (Inr (a\<lparr>ga_error := e1\<rparr>), s1)" "agent_written e1"
    "error_count e1 = error_count (ga_error a) + 1" "was_fatal e1 = JBool is_fatal"
    "load_error env' (agent_name (ga_version a)) s1 = (Inr e1, s1)" "agent_dir s1 (agent_name (ga_version a)) = Some f1"
    "manifest_file f1 = manifest_file f" "attempt_file f1 = attempt_file f"
    using agent_mark_failure_saved [OF Cons.prems(1,2) assms(3) Cons.prems(3)] by metis
  show ?case
  proof (cases "fs = []")
    case True
    with m show ?thesis by (intro exI [of _ e1] exI [of _ s1] exI [of _ f1]) (simp add: x bindM_def returnM_def)
  next
    case False
    obtain e2 s2 f2 where n: "mark_failures env fs (a\<lparr>ga_error := e1\<rparr>) s1 = (Inr (a\<lparr>ga_error := e2\<rparr>), s2)" "agent_written e2"
      "error_count e2 = error_count e1 + int (length fs)" "was_fatal e2 = JBool (fst (last fs))"
      "load_error env' (agent_name (ga_version a)) s2 = (Inr e2, s2)" "agent_dir s2 (agent_name (ga_version a)) = Some f2"
      "manifest_file f2 = manifest_file f1" "attempt_file f2 = attempt_file f1"
      using Cons.IH [of s1 "a\<lparr>ga_error := e1\<rparr>" f1] m(2,6) Cons.prems(2) False by auto
    with m False show ?thesis
      by (intro exI [of _ e2] exI [of _ s2] exI [of _ f2]) (simp add: x bindM_def)
  qed
qed simp

definition good_manifest :: "agent_files \<Rightarrow> json \<Rightarrow> bool" where
  "good_manifest f m \<longleftrightarrow> (\<exists>d h c. manifest_file f = Some (Inr (JObj d)) \<and> m = JObj d \<and>
     dict_get d ''handlerManifest'' = JObj h \<and> map_of h ''enableCommand'' = Some (JStr c) \<and> c \<noteq> [])"

lemma load_good_manifest:
  assumes "agent_dir s name = Some f" and "good_manifest f m"
  shows "load_manifest name s = (Inr m, s)"
proof -
  from assms(2) obtain d h c where d: "manifest_file f = Some (Inr (JObj d))" "m = JObj d"
    "dict_get d ''handlerManifest'' = JObj h" "map_of h ''enableCommand'' = Some (JStr c)" "c \<noteq> []"
    by (auto simp: good_manifest_def)
  have "map_of d ''handlerManifest'' = Some (JObj h)" using dict_get_not_none [of d] d(3) by (metis json.distinct(11))
  with d assms(1) show ?thesis
    by (simp add: load_manifest_def HandlerManifest_def get_enable_command_def manifest_command_def handler_section_def
        as_update_error_def)
qed

lemma guest_agent_init_good:
  assumes "FlexibleVersion t = Inr v" and "agent_dir s (agent_name v) = Some f" and "good_manifest f m"
    and "load_error env (agent_name v) s = (Inr e, s)" and "attempt_file f = None"
  shows "guest_agent_init env t s = (Inr \<lparr>ga_version = v, ga_error = e, ga_attempt_count = JInt 0, ga_manifest = Some m\<rparr>, s)"
  using assms load_good_manifest [OF assms(2,3)]
  by (simp add: guest_agent_init_def op_defs load_attempt_def Let_def)


definition sample_files_dir :: agent_files where
  "sample_files_dir = \<lparr>manifest_file = Some (Inr (JObj [(''handlerManifest'', JObj [(''enableCommand'', JStr ''run'')])])),
     error_file = None, attempt_file = None\<rparr>"

definition sample_agent_version :: flexible_version where
  "sample_agent_version = numeric_version [2, 9, 0, 4]"

definition sample_lib :: lib_state where
  "sample_lib = \<lparr>lib_entries = [(agent_name sample_agent_version, AgentDir sample_files_dir)],
     rsm_update_state_file = False, initial_update_state_file = True\<rparr>"

definition sample_disk :: disk_env where
  "sample_disk = \<lparr>file_writable = (\<lambda>_. True), entry_removable = (\<lambda>_. True), time_now = 5, py_repr = (\<lambda>_. [])\<rparr>"

lemma sample_agent_version_wf: "wf_version sample_agent_version" "ordered_version sample_agent_version"
  by (simp_all add: sample_agent_version_def numeric_version_def wf_version_def ordered_version_def wf_separator_def
      default_prerel_tags_def is_letter_def Let_def)


end
