(* ===== verification/Policy_Engine.thy ===== *)
theory Policy_Engine
  imports Json Flexible_Version
begin

text \<open>
  \<^verbatim>\<open>azurelinuxagent/ga/policy/policy_engine.py\<close>: reading, validating and enforcing the
  customer's extension policy. A parsed policy is a record; the case-folded dictionary
  (\<^verbatim>\<open>_CaseFoldedDict\<close>) of individual extension policies is an association list over
  lower-case names. \<open>policy_env\<close> is what the engine reads from its surroundings: the
  configuration flag, the policy file, the confidential-VM flag and the OpenSSL check.
\<close>

section \<open>Data\<close>

record ext_policy =
  ep_signature_required :: "bool option"
  ep_runtime_policy :: "json option"

record extension_policies =
  xp_allow_listed_only :: bool
  xp_signature_required :: bool
  xp_extensions :: "(string \<times> ext_policy) list"

record policy_doc =
  policy_version :: string
  extension_policies :: extension_policies

text \<open>
  The engine's two attributes, and the files it has saved in the history folder of the goal state
  that \<^verbatim>\<open>update_policy\<close> is called with.
\<close>

record policy_engine =
  policy_enforcement_enabled :: bool
  policy :: policy_doc
  goal_state_history :: "(string \<times> string) list"

text \<open>
  \<open>cvm\<close> is \<open>None\<close> until the confidential-VM information has been fetched; asking for it before is
  a \<^verbatim>\<open>RuntimeError\<close>. \<open>policy_file\<close> is \<open>None\<close> when there is no file, else its text or the error
  that reading it raises; \<open>json_loads\<close> is the decoder; \<open>openssl_ok\<close> is the cached answer of
  \<^verbatim>\<open>openssl_version_supported_for_signature_validation\<close>. The text an exception carries is
  abbreviated throughout to the part that tells the branches apart.
\<close>

record policy_env =
  extension_policy_enabled :: bool
  policy_file :: "string res option"
  json_loads :: "string \<Rightarrow> json res"
  history_writable :: bool
  cvm :: "bool option"
  openssl_ok :: bool

definition is_confidential_vm :: "policy_env \<Rightarrow> bool res" where
  "is_confidential_vm env = (case cvm env of None \<Rightarrow> Inl (OtherError ''RuntimeError'') | Some b \<Rightarrow> Inr b)"

definition MAX_SUPPORTED_POLICY_VERSION :: string where
  "MAX_SUPPORTED_POLICY_VERSION = ''0.1.0''"

definition default_policy :: policy_doc where
  "default_policy = \<lparr>policy_version = MAX_SUPPORTED_POLICY_VERSION,
     extension_policies = \<lparr>xp_allow_listed_only = False, xp_signature_required = False, xp_extensions = []\<rparr>\<rparr>"

section \<open>Typed attribute access\<close>

datatype json_type = T_dict | T_str | T_bool

fun isinstance :: "json \<Rightarrow> json_type \<Rightarrow> bool" where
  "isinstance (JObj _) T_dict = True"
| "isinstance (JStr _) T_str = True"
| "isinstance (JBool _) T_bool = True"
| "isinstance _ _ = False"

definition get_value :: "(string \<times> json) list \<Rightarrow> string \<Rightarrow> json_type \<Rightarrow> bool \<Rightarrow> json \<Rightarrow> json res" where
  "get_value obj attribute ty optional dflt =
     (if dflt \<noteq> JNull \<and> \<not> optional then Inl ValueError
      else let v = dict_get obj attribute in
        if v = JNull then
          (if \<not> optional then Inl (InvalidPolicyError (''missing required attribute '' @ attribute)) else Inr dflt)
        else if \<not> isinstance v ty then Inl (InvalidPolicyError (''invalid type for attribute '' @ attribute))
        else Inr v)"

definition get_dictionary :: "(string \<times> json) list \<Rightarrow> string \<Rightarrow> bool \<Rightarrow> json \<Rightarrow> json res" where
  "get_dictionary obj attribute optional dflt = get_value obj attribute T_dict optional dflt"

definition get_string :: "(string \<times> json) list \<Rightarrow> string \<Rightarrow> bool \<Rightarrow> json \<Rightarrow> json res" where
  "get_string obj attribute optional dflt = get_value obj attribute T_str optional dflt"

definition get_boolean :: "(string \<times> json) list \<Rightarrow> string \<Rightarrow> bool \<Rightarrow> json \<Rightarrow> json res" where
  "get_boolean obj attribute optional dflt = get_value obj attribute T_bool optional dflt"

text \<open>The value of an attribute once its type has been checked.\<close>

fun the_obj :: "json \<Rightarrow> (string \<times> json) list" where
  "the_obj (JObj d) = d"
| "the_obj _ = []"

fun the_str :: "json \<Rightarrow> string" where
  "the_str (JStr s) = s"
| "the_str _ = []"

definition check_attributes :: "(string \<times> json) list \<Rightarrow> string list \<Rightarrow> unit res" where
  "check_attributes obj valid_attributes =
     (case filter (\<lambda>k. k \<notin> set valid_attributes) (map fst obj) of
        [] \<Rightarrow> Inr ()
      | k # _ \<Rightarrow> Inl (InvalidPolicyError (''unrecognized attribute '' @ k)))"

definition validate_signature_required :: "policy_env \<Rightarrow> (string \<times> json) list \<Rightarrow> unit res" where
  "validate_signature_required env obj =
     (if dict_get obj ''signatureRequired'' = JBool True
      then bindR (is_confidential_vm env) (\<lambda>b.
        if \<not> b then Inl (InvalidPolicyError ''signatureRequired is only supported on confidential virtual machines'')
        else if \<not> openssl_ok env then Inl (InvalidPolicyError ''signatureRequired requires OpenSSL >= 1.1.0'')
        else Inr ())
      else Inr ())"

section \<open>Parsing\<close>

text \<open>\<^verbatim>\<open>re.match(r"^\d+(\.\d+(\.\d+)?)?$", version)\<close>\<close>

definition policy_version_re :: "string \<Rightarrow> bool" where
  "policy_version_re s =
     (let t = (if s \<noteq> [] \<and> last s = CHR 0x0A then butlast s else s);
          parts = split_on ''.'' t
      in length parts \<le> 3 \<and> list_all (\<lambda>p. p \<noteq> [] \<and> list_all is_digit p) parts)"

definition parse_policy_version :: "(string \<times> json) list \<Rightarrow> string res" where
  "parse_policy_version doc =
     bindR (get_string doc ''policyVersion'' False JNull) (\<lambda>j.
       let version = the_str j in
       if \<not> policy_version_re version then Inl (InvalidPolicyError ''invalid value for attribute policyVersion'')
       else bindR (FlexibleVersion MAX_SUPPORTED_POLICY_VERSION) (\<lambda>m.
            bindR (FlexibleVersion version) (\<lambda>v.
            bindR (version_lt m v) (\<lambda>above.
              if above then Inl (InvalidPolicyError ''policy version is not supported'') else Inr version))))"

definition parse_extension :: "policy_env \<Rightarrow> (string \<times> json) list \<Rightarrow> ext_policy res" where
  "parse_extension env extension =
     bindR (check_attributes extension [''signatureRequired'', ''runtimePolicy'']) (\<lambda>_.
     bindR (validate_signature_required env extension) (\<lambda>_.
     bindR (get_boolean extension ''signatureRequired'' True JNull) (\<lambda>sig.
       let runtime = dict_get extension ''runtimePolicy''
       in Inr \<lparr>ep_signature_required = (case sig of JBool b \<Rightarrow> Some b | _ \<Rightarrow> None),
              ep_runtime_policy = (if runtime = JNull then None else Some runtime)\<rparr>)))"

text \<open>A later entry whose name differs only in case replaces the earlier one.\<close>

fun parse_extensions_onto ::
  "policy_env \<Rightarrow> (string \<times> ext_policy) list \<Rightarrow> (string \<times> json) list \<Rightarrow> (string \<times> ext_policy) list res" where
  "parse_extensions_onto env parsed [] = Inr parsed"
| "parse_extensions_onto env parsed ((name, j) # rest) =
     (if \<not> isinstance j T_dict then Inl (InvalidPolicyError (''invalid type for extension '' @ name))
      else bindR (parse_extension env (the_obj j))
        (\<lambda>p. parse_extensions_onto env (AList.update (lower name) p parsed) rest))"

definition parse_extensions :: "policy_env \<Rightarrow> (string \<times> json) list \<Rightarrow> (string \<times> ext_policy) list res" where
  "parse_extensions env extensions = parse_extensions_onto env [] extensions"

definition parse_extension_policies :: "policy_env \<Rightarrow> (string \<times> json) list \<Rightarrow> extension_policies res" where
  "parse_extension_policies env doc =
     bindR (get_dictionary doc ''extensionPolicies'' True (JObj [])) (\<lambda>j.
     let xp = the_obj j in
     bindR (check_attributes xp [''allowListedExtensionsOnly'', ''signatureRequired'', ''extensions'']) (\<lambda>_.
     bindR (validate_signature_required env xp) (\<lambda>_.
     bindR (get_boolean xp ''allowListedExtensionsOnly'' True (JBool False)) (\<lambda>allow.
     bindR (get_boolean xp ''signatureRequired'' True (JBool False)) (\<lambda>sig.
     bindR (get_dictionary xp ''extensions'' True (JObj [])) (\<lambda>exts.
     bindR (parse_extensions env (the_obj exts)) (\<lambda>parsed.
       Inr \<lparr>xp_allow_listed_only = (allow = JBool True), xp_signature_required = (sig = JBool True),
            xp_extensions = parsed\<rparr>)))))))"

definition parse_policy :: "policy_env \<Rightarrow> json \<Rightarrow> policy_doc res" where
  "parse_policy env doc =
     (if \<not> isinstance doc T_dict then Inl (InvalidPolicyError ''expected an object describing a Policy'')
      else let d = the_obj doc in
        bindR (check_attributes d [''policyVersion'', ''extensionPolicies'']) (\<lambda>_.
        bindR (parse_policy_version d) (\<lambda>v.
        bindR (parse_extension_policies env d) (\<lambda>xp.
          Inr \<lparr>policy_version = v, extension_policies = xp\<rparr>))))"

section \<open>The engine\<close>

definition get_policy_enforcement_enabled :: "policy_env \<Rightarrow> bool" where
  "get_policy_enforcement_enabled env = (extension_policy_enabled env \<and> policy_file env \<noteq> None)"

definition init_policy_engine :: "policy_env \<Rightarrow> policy_engine" where
  "init_policy_engine env =
     \<lparr>policy_enforcement_enabled = get_policy_enforcement_enabled env, policy = default_policy,
      goal_state_history = []\<rparr>"

text \<open>
  A failure to save the text in the history is logged and ignored. A decoding error is a
  \<^verbatim>\<open>ValueError\<close>, whether \<^verbatim>\<open>read\<close> or \<^verbatim>\<open>json.loads\<close> raises it.
\<close>

definition read_policy :: "policy_env \<Rightarrow> (policy_engine, json) op" where
  "read_policy env =
     tryM
       (bindM (liftR (case policy_file env of None \<Rightarrow> Inl OSError | Some r \<Rightarrow> r)) (\<lambda>contents.
        thenM (whenM (history_writable env)
                (modifyM (\<lambda>s. s\<lparr>goal_state_history := goal_state_history s @ [(''waagent_policy.json'', contents)]\<rparr>)))
          (liftR (json_loads env contents))))
       (\<lambda>e. if e = ValueError
            then Some (raiseM (InvalidPolicyError ''policy file does not conform to valid json syntax.''))
            else if is_Exception e then Some (raiseM (InvalidPolicyError ''unable to read or load policy file.''))
            else None)"

definition update_policy :: "policy_env \<Rightarrow> (policy_engine, unit) op" where
  "update_policy env =
     thenM (modifyM (\<lambda>s. s\<lparr>policy_enforcement_enabled := get_policy_enforcement_enabled env\<rparr>))
       (if \<not> get_policy_enforcement_enabled env then returnM ()
        else bindM (read_policy env) (\<lambda>contents.
             bindM (liftR (parse_policy env contents)) (\<lambda>p.
               modifyM (\<lambda>s. s\<lparr>policy := p\<rparr>))))"

definition individual_policy :: "policy_engine \<Rightarrow> string \<Rightarrow> ext_policy option" where
  "individual_policy e extension_name =
     map_of (xp_extensions (extension_policies (policy e))) (lower extension_name)"

definition should_allow_extension :: "policy_engine \<Rightarrow> string \<Rightarrow> bool" where
  "should_allow_extension e extension_name =
     (if \<not> policy_enforcement_enabled e then True
      else \<not> xp_allow_listed_only (extension_policies (policy e)) \<or> individual_policy e extension_name \<noteq> None)"

definition should_enforce_signature_validation :: "policy_engine \<Rightarrow> string \<Rightarrow> bool" where
  "should_enforce_signature_validation e extension_name =
     (if \<not> policy_enforcement_enabled e then False
      else case Option.bind (individual_policy e extension_name) ep_signature_required of
             Some b \<Rightarrow> b
           | None \<Rightarrow> xp_signature_required (extension_policies (policy e)))"

definition check_extension_policy :: "policy_engine \<Rightarrow> string \<Rightarrow> bool \<Rightarrow> unit res" where
  "check_extension_policy e extension_name extension_is_signed =
     (if \<not> policy_enforcement_enabled e then Inr ()
      else if \<not> should_allow_extension e extension_name then Inl ExtensionDisallowedError
      else if should_enforce_signature_validation e extension_name \<and> \<not> extension_is_signed
        then Inl ExtensionSignaturePolicyError
      else Inr ())"

definition get_extension_runtime_policy :: "policy_engine \<Rightarrow> string \<Rightarrow> bool \<Rightarrow> json option res" where
  "get_extension_runtime_policy e extension_name supports_policy =
     (if \<not> policy_enforcement_enabled e then Inr None
      else let runtime = Option.bind (individual_policy e extension_name) ep_runtime_policy in
        if supports_policy then Inr (Some (case runtime of Some r \<Rightarrow> r | None \<Rightarrow> JObj []))
        else if runtime \<noteq> None then Inl (ExtensionRuntimePolicyError extension_name)
        else Inr None)"

section \<open>Parsing policyVersion\<close>

lemma policy_version_re_pieces:
  assumes "policy_version_re s"
  obtains ds r where "s = join_with ''.'' ds @ r" "ds \<noteq> []" "length ds \<le> 3" "list_all digit_piece ds" "rx_end r"
proof -
  define t where "t = (if s \<noteq> [] \<and> last s = CHR 0x0A then butlast s else s)"
  have "s = join_with ''.'' (split_on ''.'' t) @ (if s \<noteq> [] \<and> last s = CHR 0x0A then [CHR 0x0A] else [])"
    by (simp only: join_with_split_on) (auto simp: t_def, metis append_butlast_last_id)
  moreover have "length (split_on ''.'' t) \<le> 3" "list_all digit_piece (split_on ''.'' t)"
    using assms unfolding policy_version_re_def Let_def t_def digit_piece_def [abs_def] by blast+
  moreover have "rx_end (if s \<noteq> [] \<and> last s = CHR 0x0A then [CHR 0x0A] else [])" by (simp add: rx_end_def)
  ultimately show ?thesis using that split_on_nonempty by blast
qed

lemma max_policy_version:
  "FlexibleVersion MAX_SUPPORTED_POLICY_VERSION = Inr (numeric_version [0, 1, 0])"
proof -
  have "FlexibleVersion (join_with ''.'' [''0'', ''1'', ''0''] @ []) = Inr (numeric_version (map str_nat [''0'', ''1'', ''0'']))"
    by (rule FlexibleVersion_numeric) (simp_all add: digit_piece_def is_digit_def rx_end_def)
  then show ?thesis by (simp add: MAX_SUPPORTED_POLICY_VERSION_def str_nat_def digit_val_def)
qed

lemma parse_policy_version_cases:
  "parse_policy_version doc =
     (case dict_get doc ''policyVersion'' of
        JStr v \<Rightarrow>
          if policy_version_re v \<and> (\<exists>n. FlexibleVersion v = Inr n \<and> version_lt (numeric_version [0, 1, 0]) n = Inr False)
          then Inr v
          else Inl (InvalidPolicyError (if policy_version_re v then ''policy version is not supported''
                 else ''invalid value for attribute policyVersion''))
      | JNull \<Rightarrow> Inl (InvalidPolicyError ''missing required attribute policyVersion'')
      | _ \<Rightarrow> Inl (InvalidPolicyError ''invalid type for attribute policyVersion''))"
proof (cases "dict_get doc ''policyVersion''")
  case (JStr v)
  show ?thesis
  proof (cases "policy_version_re v")
    case True
    then obtain ds r where "v = join_with ''.'' ds @ r" "ds \<noteq> []" "list_all digit_piece ds" "rx_end r"
      by (rule policy_version_re_pieces)
    then have "FlexibleVersion v = Inr (numeric_version (map str_nat ds))" using FlexibleVersion_numeric by simp
    with JStr True show ?thesis
      by (simp add: parse_policy_version_def get_string_def get_value_def max_policy_version numeric_version_lt)
  qed (simp add: JStr parse_policy_version_def get_string_def get_value_def)
qed (simp_all add: parse_policy_version_def get_string_def get_value_def)

section \<open>What parsing yields\<close>

text \<open>The entry of an extension in the customer's document, read off the document itself.\<close>

definition doc_policies :: "(string \<times> json) list \<Rightarrow> (string \<times> json) list" where
  "doc_policies doc = the_obj (dict_get doc ''extensionPolicies'')"

definition doc_entry :: "(string \<times> json) list \<Rightarrow> string \<Rightarrow> json option" where
  "doc_entry doc name =
     map_of (rev (map (\<lambda>(n, j). (lower n, j)) (the_obj (dict_get (doc_policies doc) ''extensions'')))) (lower name)"

definition entry_policy :: "json \<Rightarrow> ext_policy" where
  "entry_policy j =
     \<lparr>ep_signature_required = (case dict_get (the_obj j) ''signatureRequired'' of JBool b \<Rightarrow> Some b | _ \<Rightarrow> None),
      ep_runtime_policy = (let r = dict_get (the_obj j) ''runtimePolicy'' in if r = JNull then None else Some r)\<rparr>"

lemma isinstance_iff [simp]:
  "isinstance j T_dict \<longleftrightarrow> (\<exists>d. j = JObj d)"
  "isinstance j T_str \<longleftrightarrow> (\<exists>s. j = JStr s)"
  "isinstance j T_bool \<longleftrightarrow> (\<exists>b. j = JBool b)"
  by (cases j; simp)+

lemma get_boolean_Inr:
  "get_boolean obj a True d = Inr v \<Longrightarrow> dict_get obj a = JNull \<and> v = d \<or> (\<exists>b. dict_get obj a = JBool b \<and> v = JBool b)"
  by (auto simp: get_boolean_def get_value_def Let_def split: if_splits)

lemma get_dictionary_Inr:
  "get_dictionary obj a True d = Inr v \<Longrightarrow> dict_get obj a = JNull \<and> v = d \<or> (\<exists>b. dict_get obj a = JObj b \<and> v = JObj b)"
  by (auto simp: get_dictionary_def get_value_def Let_def split: if_splits)

lemma parse_extension_Inr: "parse_extension env obj = Inr p \<Longrightarrow> p = entry_policy (JObj obj)"
  by (auto simp: parse_extension_def bindR_eq_Inr entry_policy_def Let_def dest!: get_boolean_Inr)

lemma parse_extensions_onto_map_of:
  "parse_extensions_onto env acc exts = Inr parsed \<Longrightarrow>
   map_of parsed = map_of acc ++ (map_option entry_policy \<circ> map_of (rev (map (\<lambda>(n, j). (lower n, j)) exts)))"
proof (induction env acc exts rule: parse_extensions_onto.induct)
  case (2 env acc name j rest)
  from "2.prems" obtain d p where d: "j = JObj d" and p: "parse_extension env d = Inr p"
      and rest: "parse_extensions_onto env (AList.update (lower name) p acc) rest = Inr parsed"
    by (auto simp: bindR_eq_Inr split: if_splits)
  have "p = entry_policy j" using parse_extension_Inr [OF p] d by simp
  with "2.IH" [OF _ _ rest] d p show ?case
    by (auto simp: update_conv' fun_eq_iff map_add_def split: option.splits)
qed (simp add: fun_eq_iff map_add_def)

lemma parse_extension_policies_E:
  assumes "parse_extension_policies env doc = Inr xp"
  obtains j allow sig exts parsed where
    "get_dictionary doc ''extensionPolicies'' True (JObj []) = Inr j"
    "validate_signature_required env (the_obj j) = Inr ()"
    "get_boolean (the_obj j) ''allowListedExtensionsOnly'' True (JBool False) = Inr allow"
    "get_boolean (the_obj j) ''signatureRequired'' True (JBool False) = Inr sig"
    "get_dictionary (the_obj j) ''extensions'' True (JObj []) = Inr exts"
    "parse_extensions env (the_obj exts) = Inr parsed"
    "xp = \<lparr>xp_allow_listed_only = (allow = JBool True), xp_signature_required = (sig = JBool True), xp_extensions = parsed\<rparr>"
  using assms by (auto simp: parse_extension_policies_def bindR_eq_Inr Let_def)

lemma parse_extension_policies_Inr:
  assumes "parse_extension_policies env doc = Inr xp"
  shows "xp_allow_listed_only xp \<longleftrightarrow> dict_get (doc_policies doc) ''allowListedExtensionsOnly'' = JBool True"
    and "xp_signature_required xp \<longleftrightarrow> dict_get (doc_policies doc) ''signatureRequired'' = JBool True"
    and "map_of (xp_extensions xp) (lower name) = map_option entry_policy (doc_entry doc name)"
proof -
  from assms obtain j allow sig exts parsed where
    j: "get_dictionary doc ''extensionPolicies'' True (JObj []) = Inr j" and
    allow: "get_boolean (the_obj j) ''allowListedExtensionsOnly'' True (JBool False) = Inr allow" and
    sig: "get_boolean (the_obj j) ''signatureRequired'' True (JBool False) = Inr sig" and
    exts: "get_dictionary (the_obj j) ''extensions'' True (JObj []) = Inr exts" and
    parsed: "parse_extensions env (the_obj exts) = Inr parsed" and
    xp: "xp = \<lparr>xp_allow_listed_only = (allow = JBool True), xp_signature_required = (sig = JBool True), xp_extensions = parsed\<rparr>"
    by (rule parse_extension_policies_E)
  have obj: "the_obj j = doc_policies doc" "the_obj exts = the_obj (dict_get (the_obj j) ''extensions'')"
    using get_dictionary_Inr [OF j] get_dictionary_Inr [OF exts] by (auto simp: doc_policies_def)
  show "xp_allow_listed_only xp \<longleftrightarrow> dict_get (doc_policies doc) ''allowListedExtensionsOnly'' = JBool True"
    using get_boolean_Inr [OF allow] obj(1) by (auto simp: xp)
  show "xp_signature_required xp \<longleftrightarrow> dict_get (doc_policies doc) ''signatureRequired'' = JBool True"
    using get_boolean_Inr [OF sig] obj(1) by (auto simp: xp)
  show "map_of (xp_extensions xp) (lower name) = map_option entry_policy (doc_entry doc name)"
    using parse_extensions_onto_map_of [OF parsed [unfolded parse_extensions_def]] obj
    by (simp add: xp doc_entry_def)
qed

lemma parse_policy_Inr:
  "parse_policy env j = Inr p \<Longrightarrow> \<exists>doc. j = JObj doc \<and> check_attributes doc [''policyVersion'', ''extensionPolicies''] = Inr () \<and>
     parse_policy_version doc = Inr (policy_version p) \<and>
     parse_extension_policies env doc = Inr (extension_policies p)"
  by (auto simp: parse_policy_def bindR_eq_Inr Let_def split: if_splits)

section \<open>The invariant of a parsed policy\<close>

text \<open>
  A policy the engine can hold after \<^verbatim>\<open>update_policy\<close>: extension names are case-folded and
  distinct, and a signature is required somewhere only where signatures can be validated.
\<close>

definition wf_ext_policy :: "policy_env \<Rightarrow> ext_policy \<Rightarrow> bool" where
  "wf_ext_policy env p \<longleftrightarrow> ep_runtime_policy p \<noteq> Some JNull \<and>
     (ep_signature_required p = Some True \<longrightarrow> cvm env = Some True \<and> openssl_ok env)"

definition wf_policy :: "policy_env \<Rightarrow> policy_doc \<Rightarrow> bool" where
  "wf_policy env p \<longleftrightarrow>
     (let xp = extension_policies p in
        parse_policy_version [(''policyVersion'', JStr (policy_version p))] = Inr (policy_version p) \<and>
        distinct (map fst (xp_extensions xp)) \<and>
        list_all (\<lambda>(n, e). lower n = n \<and> wf_ext_policy env e) (xp_extensions xp) \<and>
        (xp_signature_required xp \<longrightarrow> cvm env = Some True \<and> openssl_ok env))"

lemma validate_signature_required_Inr:
  "validate_signature_required env obj = Inr u \<longleftrightarrow>
   (dict_get obj ''signatureRequired'' = JBool True \<longrightarrow> cvm env = Some True \<and> openssl_ok env)"
  by (auto simp: validate_signature_required_def is_confidential_vm_def split: option.splits)

lemma parse_extension_wf: "parse_extension env obj = Inr p \<Longrightarrow> wf_ext_policy env p"
  by (auto simp: parse_extension_def bindR_eq_Inr wf_ext_policy_def Let_def validate_signature_required_Inr
      split: if_splits dest!: get_boolean_Inr)

lemma list_all_update:
  "list_all (\<lambda>(n, e). P n e) xs \<Longrightarrow> P k v \<Longrightarrow> list_all (\<lambda>(n, e). P n e) (AList.update k v xs)"
  by (induction xs) auto

lemma parse_extensions_onto_wf:
  "parse_extensions_onto env acc exts = Inr parsed \<Longrightarrow> distinct (map fst acc) \<Longrightarrow>
   list_all (\<lambda>(n, e). lower n = n \<and> wf_ext_policy env e) acc \<Longrightarrow>
   distinct (map fst parsed) \<and> list_all (\<lambda>(n, e). lower n = n \<and> wf_ext_policy env e) parsed"
proof (induction env acc exts rule: parse_extensions_onto.induct)
  case (2 env acc name j rest)
  from "2.prems"(1) obtain p where j: "isinstance j T_dict" and p: "parse_extension env (the_obj j) = Inr p"
      and rest: "parse_extensions_onto env (AList.update (lower name) p acc) rest = Inr parsed"
    by (auto simp: bindR_eq_Inr split: if_splits)
  have "list_all (\<lambda>(n, e). lower n = n \<and> wf_ext_policy env e) (AList.update (lower name) p acc)"
    by (rule list_all_update [OF "2.prems"(3)]) (simp add: parse_extension_wf [OF p])
  then show ?case
    using "2.IH" [OF _ p rest] j "2.prems"(2) by (simp add: distinct_update)
qed simp

lemma parse_policy_version_only:
  "parse_policy_version doc = Inr v \<Longrightarrow> parse_policy_version [(''policyVersion'', JStr v)] = Inr v"
  by (auto simp: parse_policy_version_cases split: json.splits if_splits)

lemma parse_policy_wf:
  assumes "parse_policy env j = Inr p"
  shows "wf_policy env p"
proof -
  from parse_policy_Inr [OF assms] obtain doc where
    v: "parse_policy_version doc = Inr (policy_version p)" and
    xp: "parse_extension_policies env doc = Inr (extension_policies p)" by auto
  from xp obtain j' sig exts parsed where
    val: "validate_signature_required env (the_obj j') = Inr ()" and
    sig: "get_boolean (the_obj j') ''signatureRequired'' True (JBool False) = Inr sig"
      "xp_signature_required (extension_policies p) = (sig = JBool True)" and
    exts: "parse_extensions env exts = Inr (xp_extensions (extension_policies p))"
    by (rule parse_extension_policies_E) simp
  have "xp_signature_required (extension_policies p) \<longrightarrow> cvm env = Some True \<and> openssl_ok env"
    using val get_boolean_Inr [OF sig(1)] sig(2) by (auto simp: validate_signature_required_Inr)
  moreover note parse_extensions_onto_wf [OF exts [unfolded parse_extensions_def]]
  ultimately show ?thesis
    using parse_policy_version_only [OF v] by (simp add: wf_policy_def Let_def)
qed

section \<open>Printing a parsed policy\<close>

text \<open>
  The code keeps the parsed policy as a dictionary; \<open>policy_json\<close> is that dictionary, the value
  \<^verbatim>\<open>_parse_policy\<close> returns.
\<close>

definition ext_policy_json :: "ext_policy \<Rightarrow> json" where
  "ext_policy_json p = JObj
     ((case ep_signature_required p of None \<Rightarrow> [] | Some b \<Rightarrow> [(''signatureRequired'', JBool b)]) @
      (case ep_runtime_policy p of None \<Rightarrow> [] | Some r \<Rightarrow> [(''runtimePolicy'', r)]))"

definition policy_json :: "policy_doc \<Rightarrow> json" where
  "policy_json p = (let xp = extension_policies p in JObj
     [(''policyVersion'', JStr (policy_version p)),
      (''extensionPolicies'', JObj
         [(''allowListedExtensionsOnly'', JBool (xp_allow_listed_only xp)),
          (''signatureRequired'', JBool (xp_signature_required xp)),
          (''extensions'', JObj (map (\<lambda>(n, e). (n, ext_policy_json e)) (xp_extensions xp)))])])"

lemma parse_extension_json:
  "wf_ext_policy env e \<Longrightarrow> parse_extension env (the_obj (ext_policy_json e)) = Inr e"
  by (cases e) (auto simp: wf_ext_policy_def ext_policy_json_def parse_extension_def check_attributes_def
      validate_signature_required_def is_confidential_vm_def get_boolean_def get_value_def Let_def split: option.splits)

lemma update_fresh: "k \<notin> set (map fst xs) \<Longrightarrow> AList.update k v xs = xs @ [(k, v)]"
  by (induction xs) auto

lemma parse_extensions_json:
  "distinct (map fst (acc @ xs)) \<Longrightarrow> list_all (\<lambda>(n, e). lower n = n \<and> wf_ext_policy env e) xs \<Longrightarrow>
   parse_extensions_onto env acc (map (\<lambda>(n, e). (n, ext_policy_json e)) xs) = Inr (acc @ xs)"
proof (induction xs arbitrary: acc)
  case (Cons x xs)
  obtain n e where x: "x = (n, e)" by (cases x)
  have upd: "AList.update n e acc = acc @ [x]" using Cons.prems(1) x by (simp add: update_fresh)
  have obj: "\<exists>d. ext_policy_json e = JObj d" by (simp add: ext_policy_json_def)
  from Cons.IH [of "acc @ [x]"] Cons.prems upd obj show ?case
    by (auto simp: x parse_extension_json)
qed simp

lemma parse_policy_json:
  assumes "wf_policy env p"
  shows "parse_policy env (policy_json p) = Inr p"
proof -
  let ?xp = "extension_policies p"
  let ?xj = "map (\<lambda>(n, e). (n, ext_policy_json e)) (xp_extensions ?xp)"
  have v: "parse_policy_version ((''policyVersion'', JStr (policy_version p)) # rest) = Inr (policy_version p)" for rest
    using assms by (simp add: wf_policy_def Let_def parse_policy_version_cases)
  have exts: "parse_extensions env ?xj = Inr (xp_extensions ?xp)"
    using assms parse_extensions_json [of "[]"] by (simp add: wf_policy_def Let_def parse_extensions_def)
  have sig: "xp_signature_required ?xp \<longrightarrow> cvm env = Some True \<and> openssl_ok env"
    using assms by (simp add: wf_policy_def Let_def)
  show ?thesis
    using v exts sig unfolding policy_json_def Let_def
    by (simp add: parse_policy_def parse_extension_policies_def check_attributes_def validate_signature_required_def
        is_confidential_vm_def get_boolean_def get_dictionary_def get_value_def)
qed

section \<open>Errors of parsing\<close>

text \<open>
  Parsing raises \<^verbatim>\<open>InvalidPolicyError\<close> only, unless the confidential-VM information was never
  fetched.
\<close>

definition policy_error :: "policy_env \<Rightarrow> exn \<Rightarrow> bool" where
  "policy_error env e \<longleftrightarrow> (\<exists>m. e = InvalidPolicyError m) \<or> e = OtherError ''RuntimeError'' \<and> cvm env = None"

lemma policy_error_simps [simp]: "policy_error env (InvalidPolicyError m)"
  by (simp add: policy_error_def)

lemma get_optional_error:
  "get_value obj a ty True d = Inl e \<Longrightarrow> policy_error env e"
  by (auto simp: get_value_def Let_def split: if_splits)

lemma check_attributes_error: "check_attributes obj valid = Inl e \<Longrightarrow> policy_error env e"
  by (auto simp: check_attributes_def split: list.splits)

lemma validate_signature_required_error:
  "validate_signature_required env obj = Inl e \<Longrightarrow> policy_error env e"
  by (auto simp: validate_signature_required_def is_confidential_vm_def policy_error_def split: if_splits option.splits)

lemmas parse_errors = get_optional_error check_attributes_error validate_signature_required_error

lemma parse_extension_error: "parse_extension env obj = Inl e \<Longrightarrow> policy_error env e"
  by (auto simp: parse_extension_def bindR_eq_Inl get_boolean_def Let_def intro: parse_errors)

lemma parse_extensions_onto_error: "parse_extensions_onto env acc exts = Inl e \<Longrightarrow> policy_error env e"
  by (induction env acc exts rule: parse_extensions_onto.induct)
     (auto simp: bindR_eq_Inl split: if_splits intro: parse_extension_error)

lemma parse_policy_error:
  assumes "parse_policy env j = Inl e"
  shows "policy_error env e"
proof -
  have "policy_error env e" if "parse_policy_version doc = Inl e" for doc
    using that by (auto simp: parse_policy_version_cases split: json.splits if_splits)
  moreover have "policy_error env e" if "parse_extension_policies env doc = Inl e" for doc
    using that by (auto simp: parse_extension_policies_def bindR_eq_Inl Let_def get_boolean_def get_dictionary_def
        parse_extensions_def intro: parse_errors parse_extensions_onto_error)
  ultimately show ?thesis
    using assms by (auto simp: parse_policy_def bindR_eq_Inl Let_def split: if_splits intro: check_attributes_error)
qed

section \<open>Updating the engine\<close>

lemma update_policy_Inr:
  assumes "update_policy env s = (Inr (), s')" and "get_policy_enforcement_enabled env"
  obtains t doc where "policy_file env = Some (Inr t)" "json_loads env t = Inr (JObj doc)"
    "policy_enforcement_enabled s'" "parse_policy env (JObj doc) = Inr (policy s')"
    "parse_extension_policies env doc = Inr (extension_policies (policy s'))"
proof -
  from assms obtain t j where t: "policy_file env = Some (Inr t)" "json_loads env t = Inr j"
      and s': "policy_enforcement_enabled s'" "parse_policy env j = Inr (policy s')"
    by (auto simp: update_policy_def read_policy_def op_defs split: prod.splits sum.splits option.splits if_splits)
  from parse_policy_Inr [OF s'(2)] t s' that show thesis by blast
qed

lemma update_policy_off:
  "\<not> get_policy_enforcement_enabled env \<Longrightarrow>
   update_policy env s = (Inr (), s\<lparr>policy_enforcement_enabled := False\<rparr>)"
  by (simp add: update_policy_def op_defs)

section \<open>Properties\<close>

text \<open>A customer's document, and surroundings in which it is enforced.\<close>

definition sample_doc :: "(string \<times> json) list" where
  "sample_doc =
     [(''policyVersion'', JStr ''0.1.0''),
      (''extensionPolicies'', JObj
         [(''allowListedExtensionsOnly'', JBool True),
          (''signatureRequired'', JBool True),
          (''extensions'', JObj
             [(''Contoso.Agent'', JObj [(''signatureRequired'', JBool False), (''runtimePolicy'', JInt 7)]),
              (''Contoso.Other'', JObj [])])])]"

definition sample_env :: policy_env where
  "sample_env = \<lparr>extension_policy_enabled = True, policy_file = Some (Inr ''{}''),
     json_loads = (\<lambda>_. Inr (JObj sample_doc)), history_writable = True, cvm = Some True, openssl_ok = True\<rparr>"

definition sample_engine :: policy_engine where
  "sample_engine = snd (update_policy sample_env (init_policy_engine sample_env))"

definition sample_policy :: policy_doc where
  "sample_policy = \<lparr>policy_version = ''0.1.0'', extension_policies =
     \<lparr>xp_allow_listed_only = True, xp_signature_required = True, xp_extensions =
       [(''contoso.agent'', \<lparr>ep_signature_required = Some False, ep_runtime_policy = Some (JInt 7)\<rparr>),
        (''contoso.other'', \<lparr>ep_signature_required = None, ep_runtime_policy = None\<rparr>)]\<rparr>\<rparr>"

lemma sample_enabled: "get_policy_enforcement_enabled sample_env"
  by (simp add: get_policy_enforcement_enabled_def sample_env_def)

lemma sample_version: "parse_policy_version sample_doc = Inr ''0.1.0''"
proof -
  have "policy_version_re ''0.1.0''" by (simp add: policy_version_re_def is_digit_def)
  then show ?thesis
    using max_policy_version
    by (simp add: parse_policy_version_cases sample_doc_def MAX_SUPPORTED_POLICY_VERSION_def numeric_version_lt)
qed

lemma sample_lower:
  "lower ''Contoso.Agent'' = ''contoso.agent''" "lower ''Contoso.Other'' = ''contoso.other''"
  by code_simp+

lemma sample_parse: "parse_policy sample_env (JObj sample_doc) = Inr sample_policy"
proof -
  have "parse_extension_policies sample_env sample_doc = Inr (extension_policies sample_policy)"
    by (simp add: sample_doc_def sample_env_def sample_policy_def parse_extension_policies_def parse_extensions_def
        parse_extension_def check_attributes_def validate_signature_required_def is_confidential_vm_def
        get_boolean_def get_dictionary_def get_value_def sample_lower del: isinstance_iff)
  moreover have "check_attributes sample_doc [''policyVersion'', ''extensionPolicies''] = Inr ()"
    by (simp add: sample_doc_def check_attributes_def)
  ultimately show ?thesis by (simp add: parse_policy_def sample_version sample_policy_def)
qed

lemma sample_files:
  "policy_file sample_env = Some (Inr ''{}'')" "json_loads sample_env t = Inr (JObj sample_doc)"
  "history_writable sample_env" "cvm sample_env = Some True" "openssl_ok sample_env"
  by (simp_all add: sample_env_def)

lemma sample_update: "update_policy sample_env (init_policy_engine sample_env) = (Inr (), sample_engine)"
  and sample_engine_policy: "policy sample_engine = sample_policy"
  and sample_engine_enabled: "policy_enforcement_enabled sample_engine"
  by (simp_all add: sample_engine_def update_policy_def read_policy_def op_defs sample_enabled sample_files sample_parse)

text \<open>
  C2: Once a policy file has been read and accepted, the decision on an extension is the one the
  customer's document prescribes, whatever the case of the extension's name: the extension is
  disallowed exactly when only listed extensions are allowed and the document has no entry for it;
  else a missing signature is an error exactly when the entry, or in its silence the global
  setting, requires one.
\<close>

theorem policy_decision_follows_document:
  assumes "update_policy env s = (Inr (), s')" and "get_policy_enforcement_enabled env"
    and "policy_file env = Some (Inr t)" and "json_loads env t = Inr (JObj doc)"
  shows "check_extension_policy s' name signed =
    (if dict_get (doc_policies doc) ''allowListedExtensionsOnly'' = JBool True \<and> doc_entry doc name = None
     then Inl ExtensionDisallowedError
     else if \<not> signed \<and>
       (case Option.bind (doc_entry doc name) (\<lambda>j. ep_signature_required (entry_policy j)) of
          Some b \<Rightarrow> b
        | None \<Rightarrow> dict_get (doc_policies doc) ''signatureRequired'' = JBool True)
     then Inl ExtensionSignaturePolicyError else Inr ())"
proof -
  from assms have xp: "parse_extension_policies env doc = Inr (extension_policies (policy s'))"
    and on: "policy_enforcement_enabled s'"
    by (auto elim: update_policy_Inr)
  note facts = parse_extension_policies_Inr [OF xp]
  from on show ?thesis
    by (cases "doc_entry doc name")
       (auto simp: check_extension_policy_def should_allow_extension_def should_enforce_signature_validation_def
          individual_policy_def facts split: option.splits)
qed

theorem policy_decision_follows_document_witness:
  "check_extension_policy sample_engine ''CONTOSO.agent'' False = Inr () \<and>
   check_extension_policy sample_engine ''contoso.OTHER'' False = Inl ExtensionSignaturePolicyError \<and>
   check_extension_policy sample_engine ''Fabrikam.Agent'' True = Inl ExtensionDisallowedError"
proof -
  note decide = policy_decision_follows_document [OF sample_update sample_enabled sample_files(1,2)]
  have "doc_entry sample_doc ''CONTOSO.agent'' = Some (JObj [(''signatureRequired'', JBool False), (''runtimePolicy'', JInt 7)])"
    "doc_entry sample_doc ''contoso.OTHER'' = Some (JObj [])" "doc_entry sample_doc ''Fabrikam.Agent'' = None"
    by code_simp+
  then show ?thesis
    unfolding decide by (simp add: sample_doc_def doc_policies_def entry_policy_def)
qed

text \<open>
  C11: Parsing is canonical: the document \<^verbatim>\<open>_parse_policy\<close> returns, with its defaults filled in
  and its names case-folded, is itself a valid policy document, and parses to itself.
\<close>

theorem parse_policy_canonical:
  assumes "parse_policy env j = Inr p"
  shows "parse_policy env (policy_json p) = Inr p"
  by (rule parse_policy_json [OF parse_policy_wf [OF assms]])

theorem parse_policy_canonical_witness:
  "parse_policy sample_env (policy_json sample_policy) = Inr sample_policy"
  by (rule parse_policy_canonical [OF sample_parse])

text \<open>
  C12: An update of the policy either succeeds, or raises \<^verbatim>\<open>InvalidPolicyError\<close> (a
  \<^verbatim>\<open>RuntimeError\<close> if the confidential-VM information was never fetched) with enforcement on and
  the previous policy still in place.
\<close>

theorem update_policy_failure:
  assumes "update_policy env s = (Inl e, s')"
    and "\<And>x. policy_file env = Some (Inl x) \<Longrightarrow> is_Exception x"
    and "\<And>t x. json_loads env t = Inl x \<Longrightarrow> is_Exception x"
  shows "((\<exists>m. e = InvalidPolicyError m) \<or> e = OtherError ''RuntimeError'' \<and> cvm env = None) \<and>
    policy_enforcement_enabled s' \<and> policy s' = policy s"
proof -
  have on: "get_policy_enforcement_enabled env"
    using assms(1) update_policy_off [of env s] by (cases "get_policy_enforcement_enabled env") auto
  have "policy_enforcement_enabled s' \<and> policy s' = policy s \<and> policy_error env e"
    using assms on
    by (auto simp: update_policy_def read_policy_def op_defs intro: parse_policy_error
        split: prod.splits sum.splits option.splits if_splits)
  then show ?thesis by (simp add: policy_error_def)
qed

theorem update_policy_failure_witness:
  "let env = sample_env\<lparr>json_loads := \<lambda>_. Inl ValueError\<rparr>; (r, s') = update_policy env sample_engine in
   r = Inl (InvalidPolicyError ''policy file does not conform to valid json syntax.'') \<and>
   policy s' = policy sample_engine"
proof -
  let ?env = "sample_env\<lparr>json_loads := \<lambda>_. Inl ValueError\<rparr>"
  obtain r s' where upd: "update_policy ?env sample_engine = (r, s')" by fastforce
  have r: "r = Inl (InvalidPolicyError ''policy file does not conform to valid json syntax.'')"
    using upd by (auto simp: update_policy_def read_policy_def op_defs get_policy_enforcement_enabled_def sample_env_def)
  have "policy s' = policy sample_engine"
    using update_policy_failure [of ?env sample_engine _ s'] upd r by (auto simp: sample_env_def)
  with r show ?thesis by (simp add: upd)
qed

text \<open>
  C31: A policy in force never asks for a signature that this machine cannot validate: whatever
  document the customer wrote, after a successful update signature validation is enforced only on a
  confidential VM whose OpenSSL supports it.
\<close>

theorem signature_required_only_where_supported:
  assumes "update_policy env s = (Inr (), s')" and "should_enforce_signature_validation s' name"
  shows "cvm env = Some True \<and> openssl_ok env"
proof (cases "get_policy_enforcement_enabled env")
  case True
  with assms(1) have "wf_policy env (policy s')" by (auto elim: update_policy_Inr intro: parse_policy_wf)
  with assms(2) show ?thesis
    by (auto simp: should_enforce_signature_validation_def wf_policy_def wf_ext_policy_def Let_def list_all_iff
        individual_policy_def bind_eq_Some_conv split: if_splits option.splits dest!: map_of_SomeD)
next
  case False
  with assms show ?thesis by (auto simp: update_policy_off should_enforce_signature_validation_def)
qed

theorem signature_required_only_where_supported_witness:
  "should_enforce_signature_validation sample_engine ''Contoso.Other'' \<and> cvm sample_env = Some True \<and> openssl_ok sample_env"
proof -
  have "should_enforce_signature_validation sample_engine ''Contoso.Other''"
    by (simp add: sample_engine_policy sample_engine_enabled should_enforce_signature_validation_def individual_policy_def sample_policy_def sample_lower)
  then show ?thesis using signature_required_only_where_supported [OF sample_update] by blast
qed

text \<open>
  The accepted values of \<^verbatim>\<open>policyVersion\<close> are the strings of one to three dotted numbers
  (a trailing newline is tolerated) whose value, padded with zeros, is at most 0.1.0.
\<close>

theorem policy_version_accepted_iff:
  "parse_policy_version doc = Inr v \<longleftrightarrow>
   dict_get doc ''policyVersion'' = JStr v \<and> policy_version_re v \<and>
   (\<exists>ds r. v = join_with ''.'' ds @ r \<and> ds \<noteq> [] \<and> list_all digit_piece ds \<and> rx_end r \<and>
      pad_to 3 (map str_nat ds) \<le> [0, 1, 0])"
proof (cases "\<exists>w. dict_get doc ''policyVersion'' = JStr w \<and> policy_version_re w")
  case True
  then obtain w where w: "dict_get doc ''policyVersion'' = JStr w" "policy_version_re w" by blast
  have num: "FlexibleVersion w = Inr (numeric_version (map str_nat ds))"
    if "w = join_with ''.'' ds @ r" "ds \<noteq> []" "list_all digit_piece ds" "rx_end r" for ds r
    using that FlexibleVersion_numeric by simp
  from w(2) obtain ds r where ds: "w = join_with ''.'' ds @ r" "ds \<noteq> []" "length ds \<le> 3" "list_all digit_piece ds" "rx_end r"
    by (rule policy_version_re_pieces)
  have len: "pad_to (length (map str_nat ds)) [0, 1, 0] = [0, 1, 0]" using ds(3) by (simp add: pad_to_def)
  have inj: "map str_nat es = map str_nat ds" if "w = join_with ''.'' es @ q" "es \<noteq> []" "list_all digit_piece es" "rx_end q" for es q
    using num [OF that] num [OF ds(1,2,4,5)] by (simp add: numeric_version_def)
  have "(\<exists>es q. w = join_with ''.'' es @ q \<and> es \<noteq> [] \<and> list_all digit_piece es \<and> rx_end q \<and>
      pad_to 3 (map str_nat es) \<le> [0, 1, 0]) \<longleftrightarrow> pad_to 3 (map str_nat ds) \<le> [0, 1, 0]"
    using inj ds by metis
  moreover have "parse_policy_version doc = Inr v \<longleftrightarrow> w = v \<and> pad_to 3 (map str_nat ds) \<le> [0, 1, 0]"
    using w num [OF ds(1,2,4,5)] len
    by (auto simp: parse_policy_version_cases numeric_version_lt not_less numeral_3_eq_3)
  ultimately show ?thesis using w by auto
next
  case False
  then show ?thesis by (auto simp: parse_policy_version_cases split: json.splits if_splits)
qed

text \<open>
  C32: The runtime policy handed to an extension follows the table of
  \<^verbatim>\<open>get_extension_runtime_policy\<close>, read off the customer's document: nothing when enforcement is
  off; the entry's policy, or an empty object, for an extension that supports it; an error when a
  policy is given for one that does not.
\<close>

theorem runtime_policy_follows_document:
  assumes "update_policy env s = (Inr (), s')"
    and "policy_file env = Some (Inr t)" and "json_loads env t = Inr (JObj doc)"
  shows "get_extension_runtime_policy s' name supports =
    (case (get_policy_enforcement_enabled env, supports,
           Option.bind (doc_entry doc name) (\<lambda>j. ep_runtime_policy (entry_policy j))) of
       (False, _, _) \<Rightarrow> Inr None
     | (True, True, Some r) \<Rightarrow> Inr (Some r)
     | (True, True, None) \<Rightarrow> Inr (Some (JObj []))
     | (True, False, Some _) \<Rightarrow> Inl (ExtensionRuntimePolicyError name)
     | (True, False, None) \<Rightarrow> Inr None)"
proof (cases "get_policy_enforcement_enabled env")
  case True
  with assms have xp: "parse_extension_policies env doc = Inr (extension_policies (policy s'))"
    and on: "policy_enforcement_enabled s'"
    by (auto elim: update_policy_Inr)
  from on True show ?thesis
    by (cases "doc_entry doc name")
       (auto simp: get_extension_runtime_policy_def individual_policy_def Let_def
          parse_extension_policies_Inr(3) [OF xp] split: option.splits)
next
  case False
  with assms(1) show ?thesis by (auto simp: update_policy_off get_extension_runtime_policy_def)
qed

theorem runtime_policy_follows_document_witness:
  "get_extension_runtime_policy sample_engine ''CONTOSO.agent'' True = Inr (Some (JInt 7)) \<and>
   get_extension_runtime_policy sample_engine ''CONTOSO.agent'' False = Inl (ExtensionRuntimePolicyError ''CONTOSO.agent'')"
proof -
  note table = runtime_policy_follows_document [OF sample_update sample_files(1,2)]
  have "doc_entry sample_doc ''CONTOSO.agent'' = Some (JObj [(''signatureRequired'', JBool False), (''runtimePolicy'', JInt 7)])"
    by code_simp
  then show ?thesis
    unfolding table by (simp add: sample_enabled entry_policy_def)
qed

end
