(* ===== verification/Signature_Validation.thy ===== *)
theory Signature_Validation
  imports Handler_Manifest Policy_Engine
begin

text \<open>
  \<^verbatim>\<open>azurelinuxagent/ga/signature_validation_util.py\<close>: when package signatures are validated,
  how a signature is validated with OpenSSL, and the check of the \<^verbatim>\<open>signingInfo\<close> section of a
  package's manifest. \<open>sig_state\<close> holds the module's class attributes (the cached OpenSSL check, the
  two timeout switches, the once-only report), whether cgroups are enabled, and the signature files
  on disk. \<open>sig_env\<close> is what the module reads from its surroundings: configuration, clock,
  confidential-VM flag, and the commands it runs. Instants are microseconds.
\<close>

section \<open>State and surroundings\<close>

record sig_state =
  version_supports_validation :: "bool option"
  ext_validation_disabled :: bool
  agent_validation_disabled :: bool
  expiry_error_reported :: bool
  cgroups_enabled :: bool
  signature_files :: "string list"

text \<open>What \<^verbatim>\<open>run_command\<close> does: it returns the output, or raises.\<close>

type_synonym command_runner = "string list \<Rightarrow> string option res"

record sig_env =
  ext_signature_validation_conf :: bool
  agent_signature_validation_conf :: bool
  sig_cvm :: "bool option"
  initial_delay_seconds :: int
  agent_start_time :: int
  sig_now :: int
  expiry_date :: "int res"
  openssl_cmd :: string
  lib_dir :: string
  run_cmd :: command_runner
  b64decode :: "string \<Rightarrow> string res"
  sig_open_ok :: bool
  sig_write_ok :: bool
  sig_remove_ok :: bool
  root_certificate_exists :: bool
  sig_unit_suffix :: string
  accounting_properties :: "(string \<times> string) list"

definition seconds :: "int \<Rightarrow> int" where
  "seconds n = n * 1000000"

definition disable_ext_validation :: "sig_state \<Rightarrow> sig_state" where
  "disable_ext_validation s = s\<lparr>ext_validation_disabled := True\<rparr>"

definition disable_agent_validation :: "sig_state \<Rightarrow> sig_state" where
  "disable_agent_validation s = s\<lparr>agent_validation_disabled := True\<rparr>"

definition sig_is_confidential_vm :: "sig_env \<Rightarrow> bool res" where
  "sig_is_confidential_vm env = (case sig_cvm env of None \<Rightarrow> Inl (OtherError ''RuntimeError'') | Some b \<Rightarrow> Inr b)"

section \<open>The OpenSSL version\<close>

text \<open>
  \<^verbatim>\<open>re.search(r"OpenSSL (\d+\.\d+\.\d+)", output)\<close>. A digit group that stops short of the
  longest run is followed by a digit, not by a dot, so the greedy choice is the only one.
\<close>

definition openssl_version_at :: "string \<Rightarrow> string option" where
  "openssl_version_at s =
     (if \<not> startswith s ''OpenSSL '' then None
      else let t = drop 8 s; a = takeWhile is_digit t; t1 = dropWhile is_digit t
      in if a = [] \<or> \<not> startswith t1 ''.'' then None
         else let t2 = drop 1 t1; b = takeWhile is_digit t2; t3 = dropWhile is_digit t2
         in if b = [] \<or> \<not> startswith t3 ''.'' then None
            else let c = takeWhile is_digit (drop 1 t3)
            in if c = [] then None else Some (a @ ''.'' @ b @ ''.'' @ c))"

fun search_openssl_version :: "string \<Rightarrow> string option" where
  "search_openssl_version [] = None"
| "search_openssl_version (c # s) =
     (case openssl_version_at (c # s) of Some v \<Rightarrow> Some v | None \<Rightarrow> search_openssl_version s)"

definition get_openssl_version :: "sig_env \<Rightarrow> string res" where
  "get_openssl_version env =
     (case run_cmd env [openssl_cmd env, ''version''] of
        Inr None \<Rightarrow> Inr ''0.0.0''
      | Inr (Some out) \<Rightarrow> Inr (case search_openssl_version out of Some v \<Rightarrow> v | None \<Rightarrow> ''0.0.0'')
      | Inl (CommandError _ _) \<Rightarrow> Inr ''0.0.0''
      | Inl e \<Rightarrow> Inl e)"

definition MIN_OPENSSL_VERSION_FOR_SIG_VALIDATION :: flexible_version where
  "MIN_OPENSSL_VERSION_FOR_SIG_VALIDATION = numeric_version [1, 1, 0]"

definition set_version_supports_validation :: "bool \<Rightarrow> (sig_state, unit) op" where
  "set_version_supports_validation b = modifyM (\<lambda>s. s\<lparr>version_supports_validation := Some b\<rparr>)"

definition openssl_version_supported_for_signature_validation :: "sig_env \<Rightarrow> (sig_state, bool) op" where
  "openssl_version_supported_for_signature_validation env =
     bindM (getM version_supports_validation) (\<lambda>cached.
     case cached of Some b \<Rightarrow> returnM b
     | None \<Rightarrow>
        tryM
          (bindM (liftR (bindR (get_openssl_version env) (\<lambda>v. bindR (FlexibleVersion v) (\<lambda>n.
                    version_lt n MIN_OPENSSL_VERSION_FOR_SIG_VALIDATION)))) (\<lambda>too_old.
             if too_old then thenM (set_version_supports_validation False) (returnM False)
             else thenM (set_version_supports_validation True) (returnM True)))
          (\<lambda>e. if is_Exception e then Some (thenM (set_version_supports_validation False) (returnM False)) else None))"

section \<open>When signatures are validated\<close>

definition should_delay_signature_validation :: "sig_env \<Rightarrow> bool" where
  "should_delay_signature_validation env =
     (if initial_delay_seconds env \<le> 0 then False
      else sig_now env - agent_start_time env < seconds (initial_delay_seconds env))"

definition is_signature_validation_telemetry_expired :: "sig_env \<Rightarrow> (sig_state, bool) op" where
  "is_signature_validation_telemetry_expired env =
     tryM (bindM (liftR (expiry_date env)) (\<lambda>d. returnM (d \<le> sig_now env)))
       (\<lambda>e. if is_Exception e
            then Some (thenM (modifyM (\<lambda>s. s\<lparr>expiry_error_reported := True\<rparr>)) (returnM True))
            else None)"

text \<open>\<^verbatim>\<open>a and b\<close>: \<^verbatim>\<open>b\<close> runs only when \<^verbatim>\<open>a\<close> is true.\<close>

definition andM :: "('s, bool) op \<Rightarrow> ('s, bool) op \<Rightarrow> ('s, bool) op" where
  "andM a b = bindM a (\<lambda>r. if r then b else returnM False)"

definition notM :: "('s, bool) op \<Rightarrow> ('s, bool) op" where
  "notM a = bindM a (\<lambda>r. returnM (\<not> r))"

definition ext_signature_validation_enabled :: "sig_env \<Rightarrow> (sig_state, bool) op" where
  "ext_signature_validation_enabled env =
     andM (returnM (ext_signature_validation_conf env))
    (andM (liftR (sig_is_confidential_vm env))
    (andM (notM (getM ext_validation_disabled))
    (andM (returnM (\<not> should_delay_signature_validation env))
    (andM (notM (is_signature_validation_telemetry_expired env))
          (openssl_version_supported_for_signature_validation env)))))"

definition agent_signature_validation_enabled :: "sig_env \<Rightarrow> (sig_state, bool) op" where
  "agent_signature_validation_enabled env =
     andM (returnM (agent_signature_validation_conf env))
    (andM (liftR (sig_is_confidential_vm env))
    (andM (notM (getM agent_validation_disabled))
    (andM (returnM (\<not> should_delay_signature_validation env))
    (andM (notM (is_signature_validation_telemetry_expired env))
          (openssl_version_supported_for_signature_validation env)))))"

definition agent_signature_goal_state_telemetry_enabled :: "sig_env \<Rightarrow> (sig_state, bool) op" where
  "agent_signature_goal_state_telemetry_enabled env =
     andM (returnM (agent_signature_validation_conf env))
    (andM (liftR (sig_is_confidential_vm env))
          (notM (is_signature_validation_telemetry_expired env)))"

section \<open>Validating a signature\<close>

definition is_systemd_run_failure :: "string \<Rightarrow> string \<Rightarrow> bool" where
  "is_systemd_run_failure unit_name stderr \<longleftrightarrow>
     contains stderr (''Unit '' @ unit_name @ '' not found.'') \<or> \<not> contains stderr unit_name"

definition signature_path :: "sig_env \<Rightarrow> string \<Rightarrow> string" where
  "signature_path env package_path = path_join (lib_dir env) (basename package_path @ ''_signature.pem'')"

definition write_signature_to_file :: "sig_env \<Rightarrow> string \<Rightarrow> string \<Rightarrow> (sig_state, unit) op" where
  "write_signature_to_file env sig_string output_file =
     bindM (liftR (b64decode env (strip sig_string))) (\<lambda>_.
       if \<not> sig_open_ok env then raiseM OSError
       else thenM (modifyM (\<lambda>s. s\<lparr>signature_files := List.insert output_file (signature_files s)\<rparr>))
         (if sig_write_ok env then returnM () else raiseM OSError))"

definition verify_command :: "sig_env \<Rightarrow> string \<Rightarrow> string list" where
  "verify_command env package_path =
     [openssl_cmd env, ''cms'', ''-verify'', ''-binary'', ''-inform'', ''der'',
      ''-in'', signature_path env package_path, ''-content'', package_path, ''-purpose'', ''any'',
      ''-CAfile'', path_join (lib_dir env) ''microsoft_root_certificate.pem'', ''-no_check_time'',
      ''-out'', ''/dev/null'']"

definition sig_unit_name :: "sig_env \<Rightarrow> string" where
  "sig_unit_name env = ''pkgsignaturevalidation_'' @ sig_unit_suffix env"

definition systemd_verify_command :: "sig_env \<Rightarrow> string \<Rightarrow> string list" where
  "systemd_verify_command env package_path =
     [''systemd-run'', ''--unit='' @ sig_unit_name env,
      ''--slice=azure-walinuxagent-pkgsignaturevalidation.slice'', ''--scope'', ''--property=CPUQuota=50%''] @
     map (\<lambda>(p, v). ''--property='' @ p @ ''='' @ v) (accounting_properties env) @
     verify_command env package_path"

definition run_verify :: "sig_env \<Rightarrow> string list \<Rightarrow> (sig_state, unit) op" where
  "run_verify env cmd = liftR (bindR (run_cmd env cmd) (\<lambda>_. Inr ()))"

text \<open>
  In a scope of its own when cgroups are enabled; if it is \<^verbatim>\<open>systemd-run\<close> that failed, cgroups
  are disabled and the command runs once more, directly.
\<close>

definition run_verification :: "sig_env \<Rightarrow> string \<Rightarrow> (sig_state, unit) op" where
  "run_verification env package_path =
     bindM (getM cgroups_enabled) (\<lambda>use_cgroups.
       if use_cgroups
       then tryM (run_verify env (systemd_verify_command env package_path))
              (\<lambda>e. case e of
                 CommandError rc stderr \<Rightarrow> Some
                   (if is_systemd_run_failure (sig_unit_name env) stderr
                    then thenM (modifyM (\<lambda>s. s\<lparr>cgroups_enabled := False\<rparr>)) (run_verify env (verify_command env package_path))
                    else raiseM e)
               | _ \<Rightarrow> None)
       else run_verify env (verify_command env package_path))"

definition signature_failure :: "exn \<Rightarrow> (sig_state, unit) op option" where
  "signature_failure e = (case e of
     CommandError rc stderr \<Rightarrow> Some (raiseM
       (if contains stderr ''command timeout'' then SignatureValidationTimeoutError ''Signature validation timed out''
        else SignatureValidationError ''Signature validation failed''))
   | _ \<Rightarrow> if is_Exception e then Some (raiseM (SignatureValidationError ''Signature validation failed'')) else None)"

definition cleanup_signature_file :: "sig_env \<Rightarrow> string \<Rightarrow> (sig_state, unit) op" where
  "cleanup_signature_file env path =
     whenM (sig_remove_ok env) (modifyM (\<lambda>s. s\<lparr>signature_files := filter (\<lambda>f. f \<noteq> path) (signature_files s)\<rparr>))"

definition validate_signature :: "sig_env \<Rightarrow> string \<Rightarrow> string \<Rightarrow> (sig_state, unit) op" where
  "validate_signature env package_path signature =
     finallyM
       (tryM
         (thenM (write_signature_to_file env signature (signature_path env package_path))
           (if \<not> root_certificate_exists env then raiseM (OtherError ''signing certificate was not found'')
            else run_verification env package_path))
         signature_failure)
       (cleanup_signature_file env (signature_path env package_path))"

section \<open>The signingInfo section of a manifest\<close>

text \<open>
  \<^verbatim>\<open>validate_attribute\<close> of the two functions, and the \<^verbatim>\<open>except\<close> clauses they end with:
  every exception that is not already a \<^verbatim>\<open>ManifestValidationError\<close> is turned into one.
\<close>

definition signing_attribute :: "json \<Rightarrow> string \<Rightarrow> json res" where
  "signing_attribute info attribute = bindR (py_get info attribute) (\<lambda>v.
     if v = JNull then Inl (ManifestValidationError (''HandlerManifest.json does not contain attribute signingInfo.'' @ attribute))
     else Inr v)"

definition validate_ext_attribute :: "json \<Rightarrow> string \<Rightarrow> string \<Rightarrow> unit res" where
  "validate_ext_attribute info attribute extension_value =
     bindR (signing_attribute info attribute) (\<lambda>v. case v of
         JStr s \<Rightarrow> if lower extension_value \<noteq> lower s
                   then Inl (ManifestValidationError (''extension does not match downloaded package: '' @ attribute))
                   else Inr ()
       | _ \<Rightarrow> Inl AttributeError)"

definition as_manifest_error :: "unit res \<Rightarrow> unit res" where
  "as_manifest_error r = (case r of
     Inl (ManifestValidationError m) \<Rightarrow> Inl (ManifestValidationError m)
   | Inl e \<Rightarrow> if is_Exception e then Inl (ManifestValidationError ''Error during manifest signingInfo validation'') else Inl e
   | Inr u \<Rightarrow> Inr u)"

definition validate_extension_manifest_signing_info :: "json \<Rightarrow> string \<Rightarrow> string \<Rightarrow> unit res" where
  "validate_extension_manifest_signing_info manifest ext_name ext_version = as_manifest_error
     (bindR (get_signing_info manifest) (\<lambda>info.
        if info = JNull then Inl (ManifestValidationError ''HandlerManifest.json does not contain signingInfo'')
        else case rsplit1 (CHR ''.'') ext_name of
            None \<Rightarrow> Inl ValueError
          | Some (ext_publisher, ext_type) \<Rightarrow>
              bindR (validate_ext_attribute info ''type'' ext_type) (\<lambda>_.
              bindR (validate_ext_attribute info ''publisher'' ext_publisher) (\<lambda>_.
                validate_ext_attribute info ''version'' ext_version))))"

definition AGENT_SIGNING_INFO_NAME :: string where
  "AGENT_SIGNING_INFO_NAME = ''Microsoft.OSTCLinuxAgent''"

definition validate_agent_attribute :: "(json \<Rightarrow> string) \<Rightarrow> json \<Rightarrow> string \<Rightarrow> string \<Rightarrow> unit res" where
  "validate_agent_attribute py_repr info attribute expected_value =
     bindR (signing_attribute info attribute) (\<lambda>v.
       if expected_value \<noteq> ustr py_repr v
       then Inl (ManifestValidationError (''agent does not match downloaded package: '' @ attribute))
       else Inr ())"

definition validate_agent_manifest_signing_info :: "(json \<Rightarrow> string) \<Rightarrow> json \<Rightarrow> string \<Rightarrow> unit res" where
  "validate_agent_manifest_signing_info py_repr manifest expected_agent_version = as_manifest_error
     (bindR (get_signing_info manifest) (\<lambda>info.
        if info = JNull then Inl (ManifestValidationError ''HandlerManifest.json does not contain signingInfo'')
        else bindR (validate_agent_attribute py_repr info ''name'' AGENT_SIGNING_INFO_NAME) (\<lambda>_.
               validate_agent_attribute py_repr info ''version'' expected_agent_version)))"

section \<open>The OpenSSL answer\<close>

text \<open>Running a command, decoding base64 and parsing the expiry date raise subclasses of \<^verbatim>\<open>Exception\<close> only.\<close>

definition plain_errors :: "sig_env \<Rightarrow> bool" where
  "plain_errors env \<longleftrightarrow> (\<forall>cmd e. run_cmd env cmd = Inl e \<longrightarrow> is_Exception e) \<and>
     (\<forall>t e. b64decode env t = Inl e \<longrightarrow> is_Exception e) \<and> (\<forall>e. expiry_date env = Inl e \<longrightarrow> is_Exception e)"

lemma plain_errorsD:
  assumes "plain_errors env"
  shows "run_cmd env cmd = Inl e \<Longrightarrow> is_Exception e" "b64decode env t = Inl e \<Longrightarrow> is_Exception e"
    "expiry_date env = Inl e \<Longrightarrow> is_Exception e"
  using assms by (auto simp: plain_errors_def)

lemma takeWhile_digit_piece: "takeWhile is_digit s \<noteq> [] \<Longrightarrow> digit_piece (takeWhile is_digit s)"
  by (simp add: digit_piece_def list_all_iff) (meson set_takeWhileD)

lemma openssl_version_at_pieces:
  assumes "openssl_version_at s = Some v"
  obtains a b c where "v = join_with ''.'' [a, b, c]" "list_all digit_piece [a, b, c]"
  using assms that takeWhile_digit_piece
  by (fastforce simp: openssl_version_at_def Let_def split: if_splits)

lemma search_openssl_version_pieces:
  "search_openssl_version s = Some v \<Longrightarrow> \<exists>a b c. v = join_with ''.'' [a, b, c] \<and> list_all digit_piece [a, b, c]"
proof (induction s)
  case (Cons c s)
  show ?case
  proof (cases "openssl_version_at (c # s)")
    case None
    with Cons show ?thesis by (simp del: join_with_simps)
  next
    case (Some w)
    with Cons.prems have "w = v" by simp
    with Some show ?thesis using openssl_version_at_pieces by metis
  qed
qed simp

lemma FlexibleVersion_pieces:
  assumes "list_all digit_piece [a, b, c]"
  shows "FlexibleVersion (join_with ''.'' [a, b, c]) = Inr (numeric_version (map str_nat [a, b, c]))"
  using FlexibleVersion_numeric [of "[a, b, c]" "[]"] assms by (simp add: rx_end_def)

text \<open>
  What the check answers, as a function of the output of \<^verbatim>\<open>openssl version\<close>: the first version
  number in it is at least 1.1.0.
\<close>

definition openssl_answer :: "sig_env \<Rightarrow> bool" where
  "openssl_answer env = (case run_cmd env [openssl_cmd env, ''version''] of
     Inr (Some out) \<Rightarrow> (case search_openssl_version out of
        Some v \<Rightarrow> [1, 1, 0] \<le> map str_nat (split_on ''.'' v) | None \<Rightarrow> False)
   | _ \<Rightarrow> False)"

lemma split_pieces: "list_all digit_piece [a, b, c] \<Longrightarrow> split_on ''.'' (join_with ''.'' [a, b, c]) = [a, b, c]"
  by (rule split_on_join_with) (auto simp: digit_piece_def list_all_iff dest: bspec)

lemma openssl_version_check:
  "bindR (get_openssl_version env) (\<lambda>v. bindR (FlexibleVersion v) (\<lambda>n.
     version_lt n MIN_OPENSSL_VERSION_FOR_SIG_VALIDATION)) = Inr (\<not> openssl_answer env) \<or>
   (\<exists>e. bindR (get_openssl_version env) (\<lambda>v. bindR (FlexibleVersion v) (\<lambda>n.
     version_lt n MIN_OPENSSL_VERSION_FOR_SIG_VALIDATION)) = Inl e \<and>
     run_cmd env [openssl_cmd env, ''version''] = Inl e \<and> \<not> openssl_answer env)"
proof (cases "\<exists>out v. run_cmd env [openssl_cmd env, ''version''] = Inr (Some out) \<and> search_openssl_version out = Some v")
  case True
  then obtain out v where out: "run_cmd env [openssl_cmd env, ''version''] = Inr (Some out)"
    "search_openssl_version out = Some v" by blast
  from search_openssl_version_pieces [OF out(2)] obtain a b c
    where v: "v = join_with ''.'' [a, b, c]" and d: "list_all digit_piece [a, b, c]" by blast
  show ?thesis
    using out split_pieces [OF d] FlexibleVersion_pieces [OF d]
    by (simp add: get_openssl_version_def openssl_answer_def v MIN_OPENSSL_VERSION_FOR_SIG_VALIDATION_def
        numeric_version_lt pad_to_def del: join_with_simps) linarith
next
  case False
  have "FlexibleVersion ''0.0.0'' = Inr (numeric_version [0, 0, 0])"
    using FlexibleVersion_pieces [of "''0''" "''0''" "''0''"]
    by (simp add: digit_piece_def is_digit_def str_nat_def digit_val_def)
  with False show ?thesis
    by (auto simp: get_openssl_version_def openssl_answer_def MIN_OPENSSL_VERSION_FOR_SIG_VALIDATION_def
        numeric_version_lt pad_to_def split: sum.splits option.splits exn.splits)
qed

lemma openssl_supported:
  assumes "plain_errors env"
  shows "openssl_version_supported_for_signature_validation env s =
    (let b = (case version_supports_validation s of Some b \<Rightarrow> b | None \<Rightarrow> openssl_answer env)
     in (Inr b, s\<lparr>version_supports_validation := Some b\<rparr>))"
proof (cases "version_supports_validation s")
  case None
  with openssl_version_check [of env] plain_errorsD [OF assms] show ?thesis
    by (auto simp: openssl_version_supported_for_signature_validation_def op_defs Let_def set_version_supports_validation_def)
next
  case (Some b)
  then show ?thesis
    by (simp add: openssl_version_supported_for_signature_validation_def op_defs Let_def)
qed

section \<open>Properties\<close>

definition written :: "sig_env \<Rightarrow> string \<Rightarrow> bool" where
  "written env sig \<longleftrightarrow> succeeds (b64decode env (strip sig)) \<and> sig_open_ok env \<and> sig_write_ok env"

definition verified :: "sig_env \<Rightarrow> bool \<Rightarrow> string \<Rightarrow> bool" where
  "verified env use_cgroups pkg \<longleftrightarrow>
     (if use_cgroups
      then succeeds (run_cmd env (systemd_verify_command env pkg)) \<or>
           (\<exists>rc err. run_cmd env (systemd_verify_command env pkg) = Inl (CommandError rc err) \<and>
              is_systemd_run_failure (sig_unit_name env) err \<and> succeeds (run_cmd env (verify_command env pkg)))
      else succeeds (run_cmd env (verify_command env pkg)))"

definition signature_result :: "unit res \<Rightarrow> bool" where
  "signature_result r \<longleftrightarrow> r = Inr () \<or> r = Inl (SignatureValidationError ''Signature validation failed'') \<or>
     r = Inl (SignatureValidationTimeoutError ''Signature validation timed out'')"

lemma write_signature_result:
  assumes "plain_errors env"
  shows "\<exists>r t. write_signature_to_file env sig f s = (r, t) \<and> cgroups_enabled t = cgroups_enabled s \<and>
    (r = Inr () \<longleftrightarrow> written env sig) \<and> (\<forall>e. r = Inl e \<longrightarrow> is_Exception e)"
  using plain_errorsD [OF assms] by (cases "b64decode env (strip sig)") (auto simp: write_signature_to_file_def written_def op_defs)

lemma run_verification_result:
  assumes "plain_errors env"
  shows "\<exists>r t. run_verification env pkg s = (r, t) \<and>
    (r = Inr () \<longleftrightarrow> verified env (cgroups_enabled s) pkg) \<and> (\<forall>e. r = Inl e \<longrightarrow> is_Exception e)"
proof -
  note defs = run_verification_def verified_def run_verify_def bindM_def getM_def tryM_def thenM_def modifyM_def
    liftR_def raiseM_def
  let ?sys = "run_cmd env (systemd_verify_command env pkg)" and ?direct = "run_cmd env (verify_command env pkg)"
  show ?thesis
  proof (cases "cgroups_enabled s")
    case False
    with plain_errorsD [OF assms] show ?thesis by (cases ?direct) (auto simp: defs)
  next
    case True
    show ?thesis
    proof (cases ?sys)
      case (Inl e)
      show ?thesis
      proof (cases "\<exists>rc err. e = CommandError rc err \<and> is_systemd_run_failure (sig_unit_name env) err")
        case rerun: True
        with True Inl plain_errorsD [OF assms] show ?thesis by (cases ?direct) (auto simp: defs)
      next
        case False
        with True Inl plain_errorsD(1) [OF assms Inl] show ?thesis by (cases e) (auto simp: defs)
      qed
    qed (simp add: defs True)
  qed
qed

lemma signature_failure_cases:
  "is_Exception e \<Longrightarrow> \<exists>m. signature_failure e = Some (raiseM m) \<and>
     (m = SignatureValidationError ''Signature validation failed'' \<or>
      m = SignatureValidationTimeoutError ''Signature validation timed out'')"
  by (cases e) (auto simp: signature_failure_def)

text \<open>
  C13: A signature is accepted exactly when its base64 text could be decoded and written, the root
  certificate is there, and the OpenSSL verification of the package against it succeeded, in a
  systemd scope or, only if \<^verbatim>\<open>systemd-run\<close> itself failed, directly. Otherwise the caller gets a
  \<^verbatim>\<open>SignatureValidationError\<close>, or its subclass for a timeout; in no case does the temporary
  signature file stay on disk if it can be removed.
\<close>

theorem validate_signature_outcome:
  assumes run: "validate_signature env pkg sig s = (r, s')"
    and exc: "plain_errors env"
  shows "(r = Inr () \<longleftrightarrow> written env sig \<and> root_certificate_exists env \<and> verified env (cgroups_enabled s) pkg) \<and>
    signature_result r \<and>
    (sig_remove_ok env \<longrightarrow> signature_path env pkg \<notin> set (signature_files s'))"
proof -
  define body where "body = thenM (write_signature_to_file env sig (signature_path env pkg))
    (if \<not> root_certificate_exists env then raiseM (OtherError ''signing certificate was not found'')
     else run_verification env pkg)"
  obtain q u where w: "write_signature_to_file env sig (signature_path env pkg) s = (q, u)" "cgroups_enabled u = cgroups_enabled s"
    "q = Inr () \<longleftrightarrow> written env sig" "\<forall>e. q = Inl e \<longrightarrow> is_Exception e"
    using write_signature_result [OF exc] by metis
  obtain r0 t where body: "body s = (r0, t)" by fastforce
  have "(r0 = Inr () \<longleftrightarrow> written env sig \<and> root_certificate_exists env \<and> verified env (cgroups_enabled s) pkg) \<and>
    (\<forall>e. r0 = Inl e \<longrightarrow> is_Exception e)"
  proof (cases q)
    case (Inl e)
    with w body show ?thesis by (auto simp: body_def thenM_def bindM_def)
  next
    case (Inr x)
    with w(1) have "body s = (if \<not> root_certificate_exists env then (Inl (OtherError ''signing certificate was not found''), u)
        else run_verification env pkg u)"
      by (simp add: body_def thenM_def bindM_def raiseM_def)
    with Inr w(2,3) body run_verification_result [OF exc, of pkg u] show ?thesis
      by (cases "root_certificate_exists env") auto
  qed
  then have ok: "r0 = Inr () \<longleftrightarrow> written env sig \<and> root_certificate_exists env \<and> verified env (cgroups_enabled s) pkg"
    and err: "\<And>e. r0 = Inl e \<Longrightarrow> is_Exception e" by blast+
  have "\<exists>q. tryM body signature_failure s = (q, t) \<and> (q = Inr () \<longleftrightarrow> r0 = Inr ()) \<and> signature_result q"
  proof (cases r0)
    case (Inl e)
    from signature_failure_cases [OF err [OF Inl]] obtain m
      where "signature_failure e = Some (raiseM m)" "signature_result (Inl m)" by (auto simp: signature_result_def)
    with Inl body show ?thesis by (simp add: tryM_def raiseM_def)
  qed (simp add: tryM_def body signature_result_def)
  then obtain q where q: "tryM body signature_failure s = (q, t)" "q = Inr () \<longleftrightarrow> r0 = Inr ()" "signature_result q" by blast
  have "cleanup_signature_file env (signature_path env pkg) t = (Inr (), snd (cleanup_signature_file env (signature_path env pkg) t))"
    by (simp add: cleanup_signature_file_def whenM_def modifyM_def returnM_def)
  with q(1) run have r: "r = q" and s': "s' = snd (cleanup_signature_file env (signature_path env pkg) t)"
    unfolding validate_signature_def body_def [symmetric] finallyM_def by (metis (no_types, lifting) case_prod_conv old.sum.simps(6) prod.inject)+
  have "sig_remove_ok env \<longrightarrow> signature_path env pkg \<notin> set (signature_files s')"
    by (simp add: s' cleanup_signature_file_def whenM_def modifyM_def)
  then show ?thesis using ok q r by blast
qed

definition sample_sig_env :: sig_env where
  "sample_sig_env = \<lparr>ext_signature_validation_conf = True, agent_signature_validation_conf = True, sig_cvm = Some True,
     initial_delay_seconds = 0, agent_start_time = 0, sig_now = 5, expiry_date = Inr 10, openssl_cmd = ''openssl'',
     lib_dir = ''/var/lib/waagent'',
     run_cmd = (\<lambda>cmd. if hd cmd = ''systemd-run'' then Inl (CommandError 1 ''no D-Bus'') else Inr (Some ''OpenSSL 3.0.2 15 Mar'')),
     b64decode = Inr, sig_open_ok = True, sig_write_ok = True, sig_remove_ok = True, root_certificate_exists = True,
     sig_unit_suffix = ''1'', accounting_properties = [(''CPUAccounting'', ''yes'')]\<rparr>"

definition sample_sig_state :: sig_state where
  "sample_sig_state = \<lparr>version_supports_validation = None, ext_validation_disabled = False, agent_validation_disabled = False,
     expiry_error_reported = False, cgroups_enabled = True, signature_files = []\<rparr>"

lemma sample_plain: "plain_errors sample_sig_env"
  by (simp add: plain_errors_def sample_sig_env_def)

theorem validate_signature_outcome_witness:
  "fst (validate_signature sample_sig_env ''/tmp/a.zip'' ''QUJD'' sample_sig_state) = Inr () \<and>
   signature_path sample_sig_env ''/tmp/a.zip''
     \<notin> set (signature_files (snd (validate_signature sample_sig_env ''/tmp/a.zip'' ''QUJD'' sample_sig_state)))"
proof -
  obtain r s' where run: "validate_signature sample_sig_env ''/tmp/a.zip'' ''QUJD'' sample_sig_state = (r, s')" by fastforce
  have cmds: "run_cmd sample_sig_env (systemd_verify_command sample_sig_env p) = Inl (CommandError 1 ''no D-Bus'')"
    "succeeds (run_cmd sample_sig_env (verify_command sample_sig_env p))" for p
    by (simp_all add: sample_sig_env_def systemd_verify_command_def verify_command_def)
  have "is_systemd_run_failure (sig_unit_name sample_sig_env) ''no D-Bus''" by code_simp
  with cmds have "verified sample_sig_env (cgroups_enabled sample_sig_state) ''/tmp/a.zip''"
    by (simp add: verified_def sample_sig_state_def)
  moreover have "written sample_sig_env ''QUJD''" "root_certificate_exists sample_sig_env" "sig_remove_ok sample_sig_env"
    by (simp_all add: written_def sample_sig_env_def)
  ultimately show ?thesis
    using validate_signature_outcome [OF run sample_plain] run by simp
qed

definition attribute_matches :: "(string \<times> json) list \<Rightarrow> string \<Rightarrow> string \<Rightarrow> bool" where
  "attribute_matches info a v \<longleftrightarrow> (\<exists>s. dict_get info a = JStr s \<and> lower s = lower v)"

lemma validate_ext_attribute_Inr:
  "validate_ext_attribute info a v = Inr u \<longleftrightarrow> (\<exists>d. info = JObj d \<and> attribute_matches d a v)"
  by (cases info) (auto simp: attribute_matches_def validate_ext_attribute_def signing_attribute_def split: json.splits)

lemma as_manifest_error_Inr: "as_manifest_error r = Inr u \<longleftrightarrow> r = Inr u"
proof (cases r)
  case (Inl e)
  then show ?thesis by (cases e) (simp_all add: as_manifest_error_def)
qed (simp add: as_manifest_error_def)

lemma as_manifest_error_result:
  assumes "\<forall>e. r = Inl e \<longrightarrow> is_Exception e"
  shows "as_manifest_error r = Inr () \<or> (\<exists>m. as_manifest_error r = Inl (ManifestValidationError m))"
proof (cases r)
  case (Inl e)
  with assms show ?thesis by (cases e) (simp_all add: as_manifest_error_def)
qed (simp add: as_manifest_error_def)

lemma validate_ext_attribute_error: "validate_ext_attribute info a v = Inl e \<Longrightarrow> is_Exception e"
  by (cases info) (auto simp: validate_ext_attribute_def signing_attribute_def split: json.splits if_splits)

lemma get_signing_info_error: "get_signing_info m = Inl e \<Longrightarrow> is_Exception e"
  by (cases m) (auto simp: get_signing_info_def)

lemma get_signing_info_Inr: "get_signing_info m = Inr info \<longleftrightarrow> (\<exists>d. m = JObj d \<and> info = dict_get d ''signingInfo'')"
  by (cases m) (auto simp: get_signing_info_def dict_get_def split: option.splits)

text \<open>
  C14: The manifest of a signed extension package is accepted exactly when it has a
  \<^verbatim>\<open>signingInfo\<close> object whose publisher and type, joined with a dot, spell the extension's name and
  whose version is the extension's version, all compared ignoring case; every other manifest, however
  malformed, is refused with a \<^verbatim>\<open>ManifestValidationError\<close>.
\<close>

theorem extension_manifest_accepted_iff:
  "(validate_extension_manifest_signing_info m name ver = Inr () \<longleftrightarrow>
     (\<exists>d info pub ty. m = JObj d \<and> dict_get d ''signingInfo'' = JObj info \<and>
        name = pub @ ''.'' @ ty \<and> CHR ''.'' \<notin> set ty \<and> attribute_matches info ''type'' ty \<and>
        attribute_matches info ''publisher'' pub \<and> attribute_matches info ''version'' ver)) \<and>
   (validate_extension_manifest_signing_info m name ver = Inr () \<or>
    (\<exists>e. validate_extension_manifest_signing_info m name ver = Inl (ManifestValidationError e)))"
proof
  have split: "rsplit1 (CHR ''.'') name = Some (pub, ty) \<longleftrightarrow> name = pub @ ''.'' @ ty \<and> CHR ''.'' \<notin> set ty" for pub ty
    by (simp add: rsplit1_eq_Some)
  have "validate_extension_manifest_signing_info m name ver = Inr () \<longleftrightarrow>
    (\<exists>info pub ty. get_signing_info m = Inr info \<and> info \<noteq> JNull \<and> rsplit1 (CHR ''.'') name = Some (pub, ty) \<and>
       validate_ext_attribute info ''type'' ty = Inr () \<and> validate_ext_attribute info ''publisher'' pub = Inr () \<and>
       validate_ext_attribute info ''version'' ver = Inr ())"
    by (cases "get_signing_info m"; cases "rsplit1 (CHR ''.'') name")
       (auto simp: validate_extension_manifest_signing_info_def as_manifest_error_Inr bindR_eq_Inr)
  then show "validate_extension_manifest_signing_info m name ver = Inr () \<longleftrightarrow>
     (\<exists>d info pub ty. m = JObj d \<and> dict_get d ''signingInfo'' = JObj info \<and>
        name = pub @ ''.'' @ ty \<and> CHR ''.'' \<notin> set ty \<and> attribute_matches info ''type'' ty \<and>
        attribute_matches info ''publisher'' pub \<and> attribute_matches info ''version'' ver)"
    unfolding split validate_ext_attribute_Inr get_signing_info_Inr by force
next
  show "validate_extension_manifest_signing_info m name ver = Inr () \<or>
    (\<exists>e. validate_extension_manifest_signing_info m name ver = Inl (ManifestValidationError e))"
    unfolding validate_extension_manifest_signing_info_def
    by (rule as_manifest_error_result)
       (cases "get_signing_info m"; cases "rsplit1 (CHR ''.'') name";
        auto simp: bindR_eq_Inl dest: validate_ext_attribute_error get_signing_info_error)
qed

lemma telemetry_expired:
  assumes "plain_errors env"
  shows "\<exists>t. is_signature_validation_telemetry_expired env s = (Inr (case expiry_date env of Inr d \<Rightarrow> d \<le> sig_now env | Inl _ \<Rightarrow> True), t) \<and>
    ext_validation_disabled t = ext_validation_disabled s \<and> agent_validation_disabled t = agent_validation_disabled s \<and>
    version_supports_validation t = version_supports_validation s"
  using plain_errorsD(3) [OF assms]
  by (cases "expiry_date env") (auto simp: is_signature_validation_telemetry_expired_def op_defs)

text \<open>
  C15: Extension signatures are validated exactly when the feature is switched on, on a confidential
  VM, after the initial delay and before the expiry date (an unreadable date counts as expired), no
  earlier validation has timed out, and OpenSSL is recent enough. Asking the question never re-enables
  validation after a timeout, and the OpenSSL answer, once cached, never changes.
\<close>

theorem ext_validation_enabled_iff:
  assumes run: "ext_signature_validation_enabled env s = (r, s')" and exc: "plain_errors env"
  shows "(r = Inr True \<longleftrightarrow>
      ext_signature_validation_conf env \<and> sig_cvm env = Some True \<and> \<not> ext_validation_disabled s \<and>
      (0 < initial_delay_seconds env \<longrightarrow> seconds (initial_delay_seconds env) \<le> sig_now env - agent_start_time env) \<and>
      (\<exists>d. expiry_date env = Inr d \<and> sig_now env < d) \<and>
      (case version_supports_validation s of Some b \<Rightarrow> b | None \<Rightarrow> openssl_answer env)) \<and>
    (r = Inr True \<or> r = Inr False \<or> r = Inl (OtherError ''RuntimeError'') \<and> sig_cvm env = None) \<and>
    ext_validation_disabled s' = ext_validation_disabled s \<and>
    (version_supports_validation s \<noteq> None \<longrightarrow> version_supports_validation s' = version_supports_validation s)"
proof -
  obtain t where t: "is_signature_validation_telemetry_expired env s =
      (Inr (case expiry_date env of Inr d \<Rightarrow> d \<le> sig_now env | Inl _ \<Rightarrow> True), t)"
    "ext_validation_disabled t = ext_validation_disabled s" "version_supports_validation t = version_supports_validation s"
    using telemetry_expired [OF exc] by metis
  have delay: "should_delay_signature_validation env \<longleftrightarrow>
     0 < initial_delay_seconds env \<and> \<not> seconds (initial_delay_seconds env) \<le> sig_now env - agent_start_time env"
    by (auto simp: should_delay_signature_validation_def)
  note defs = ext_signature_validation_enabled_def andM_def notM_def returnM_def liftR_def getM_def bindM_def
    sig_is_confidential_vm_def
  consider "\<not> ext_signature_validation_conf env" | "ext_signature_validation_conf env" "sig_cvm env \<noteq> Some True"
    | "ext_signature_validation_conf env" "sig_cvm env = Some True" "ext_validation_disabled s \<or> should_delay_signature_validation env"
    | "ext_signature_validation_conf env" "sig_cvm env = Some True" "\<not> ext_validation_disabled s" "\<not> should_delay_signature_validation env"
    by blast
  then show ?thesis
  proof cases
    case 1
    with run show ?thesis by (auto simp: defs)
  next
    case 2
    with run show ?thesis by (auto simp: defs split: option.splits)
  next
    case 3
    with run delay show ?thesis by (auto simp: defs split: if_splits)
  next
    case 4
    with run t openssl_supported [OF exc, of t] delay show ?thesis
      by (cases "expiry_date env") (auto simp: defs Let_def split: if_splits option.splits)
  qed
qed

theorem ext_validation_enabled_iff_witness:
  "fst (ext_signature_validation_enabled sample_sig_env sample_sig_state) = Inr True"
proof -
  obtain r s' where run: "ext_signature_validation_enabled sample_sig_env sample_sig_state = (r, s')" by fastforce
  have "openssl_answer sample_sig_env" by code_simp
  then have "r = Inr True"
    using ext_validation_enabled_iff [OF run sample_plain] by (simp add: sample_sig_env_def sample_sig_state_def)
  with run show ?thesis by simp
qed

end
