(* ===== verification/Agent_Update.thy ===== *)
theory Agent_Update
  imports Guest_Agent Signature_Validation
begin

text \<open>
  The self-update of the agent: \<^verbatim>\<open>azurelinuxagent/ga/ga_version_updater.py\<close>,
  \<^verbatim>\<open>rsm_version_updater.py\<close>, \<^verbatim>\<open>self_update_version_updater.py\<close> and
  \<^verbatim>\<open>agent_update_handler.py\<close>. \<open>update_state\<close> extends the library directory with the attributes
  of the handler and of its current updater, and with the state of signature validation. The two
  updater classes share their fields; \<open>u_mode\<close> tells which of them an object is. Downloading a
  package and fetching the agent manifest are network operations and belong to \<open>update_env\<close>. An
  instant is a number of microseconds; \<^verbatim>\<open>datetime_min_utc\<close>, the mark for "never", is \<open>None\<close>.
\<close>

section \<open>Data\<close>

record agent_package =
  pkg_version :: string
  pkg_uris :: "string list"

record agent_family =
  af_name :: string
  af_version :: "string option"
  af_from_version :: "string option"
  af_is_version_from_rsm :: "bool option"
  af_is_vm_enabled_for_rsm_upgrades :: "bool option"
  af_signatures :: "(string \<times> string) list"
  af_uris :: "string list"

record update_goal_state =
  gs_id :: string
  gs_agent_families :: "agent_family list"
  gs_supports_signature_mapping :: bool
  gs_fast_track :: bool
  gs_agent_manifest :: "agent_family \<Rightarrow> agent_package list res"

datatype update_mode = RSM | SelfUpdate

record updater =
  u_mode :: update_mode
  u_gs_id :: string
  u_version :: flexible_version
  u_manifest :: "agent_package list option"
  u_last_manifest_download :: "int option"
  u_next_update_time :: "int option"

record update_state = lib_state +
  us_sig :: sig_state
  us_gs_id :: string
  us_updater :: updater
  us_last_error :: string

record update_env =
  ue_disk :: disk_env
  ue_sig :: sig_env
  ue_now :: int
  ue_random :: "int \<Rightarrow> int"
  ue_auto_update :: bool
  ue_ga_versioning :: bool
  ue_family :: string
  ue_hotfix_frequency :: int
  ue_regular_frequency :: int
  ue_autoupdate_frequency :: int
  ue_current :: flexible_version
  ue_daemon :: flexible_version
  ue_download :: "string \<Rightarrow> string list \<Rightarrow> bool \<Rightarrow> string \<Rightarrow>
     (string \<times> lib_entry) list \<Rightarrow> unit res \<times> (string \<times> lib_entry) list"
  ue_format_exception :: "exn \<Rightarrow> string"

definition new_updater :: "update_mode \<Rightarrow> string \<Rightarrow> updater" where
  "new_updater mode gs = \<lparr>u_mode = mode, u_gs_id = gs, u_version = numeric_version [0, 0, 0, 0], u_manifest = None,
     u_last_manifest_download = None, u_next_update_time = None\<rparr>"

definition modify_updater :: "(updater \<Rightarrow> updater) \<Rightarrow> (update_state, unit) op" where
  "modify_updater f = modifyM (\<lambda>s. s\<lparr>us_updater := f (us_updater s)\<rparr>)"

definition set_version :: "flexible_version \<Rightarrow> (update_state, unit) op" where
  "set_version v = modify_updater (u_version_update (\<lambda>_. v))"

section \<open>Operations both updaters share\<close>

definition sync_new_gs_id :: "string \<Rightarrow> (update_state, unit) op" where
  "sync_new_gs_id gs = modify_updater (u_gs_id_update (\<lambda>_. gs))"

definition lift_sig :: "(sig_state, 'a) op \<Rightarrow> (update_state, 'a) op" where
  "lift_sig m = (\<lambda>s. case m (us_sig s) of (r, t) \<Rightarrow> (r, s\<lparr>us_sig := t\<rparr>))"

definition lift_entries ::
  "((string \<times> lib_entry) list \<Rightarrow> unit res \<times> (string \<times> lib_entry) list) \<Rightarrow> (update_state, unit) op" where
  "lift_entries m = (\<lambda>s. case m (lib_entries s) of (r, es) \<Rightarrow> (r, s\<lparr>lib_entries := es\<rparr>))"

definition has_manifest :: "'a lib_state_scheme \<Rightarrow> string \<Rightarrow> bool" where
  "has_manifest s name = (Option.bind (agent_dir s name) manifest_file \<noteq> None)"

text \<open>
  The check of the manifest's \<^verbatim>\<open>signingInfo\<close> at the end of the function reports telemetry and
  changes nothing, whatever it finds.
\<close>

definition download_new_agent_pkg :: "update_env \<Rightarrow> agent_package \<Rightarrow> bool \<Rightarrow> string \<Rightarrow> (update_state, unit) op" where
  "download_new_agent_pkg env pkg fast_track signature =
     (let name = AGENT_NAME @ ''-'' @ pkg_version pkg in
      bindM (getM (\<lambda>s. has_manifest s name)) (\<lambda>present.
      thenM (whenM (\<not> present)
        (tryM (lift_entries (ue_download env name (pkg_uris pkg) fast_track signature))
           (\<lambda>e. case e of
              SignatureValidationTimeoutError _ \<Rightarrow> Some (modifyM (\<lambda>s. s\<lparr>us_sig := disable_agent_validation (us_sig s)\<rparr>))
            | SignatureValidationError _ \<Rightarrow> Some (returnM ())
            | _ \<Rightarrow> None)))
     (bindM (getM (\<lambda>s. has_manifest s name)) (\<lambda>ok.
      if ok then returnM ()
      else thenM (tryM (bindM (getM (\<lambda>s. agent_dir s name \<noteq> None)) (\<lambda>isdir. whenM isdir (remove_entry (ue_disk env) name)))
                    (\<lambda>_. Some (returnM ())))
             (raiseM (AgentUpdateError ''Downloaded agent package is missing agent handler manifest file''))))))"

fun get_agent_package_to_download :: "agent_package list \<Rightarrow> flexible_version \<Rightarrow> agent_package res" where
  "get_agent_package_to_download [] v = Inl (AgentUpdateError ''No matching package found in the agent manifest'')"
| "get_agent_package_to_download (p # ps) v =
     bindR (FlexibleVersion (pkg_version p)) (\<lambda>pv. bindR (version_eq pv v) (\<lambda>e.
       if e then Inr p else get_agent_package_to_download ps v))"

definition get_agent_package_signature ::
  "update_env \<Rightarrow> flexible_version \<Rightarrow> agent_family \<Rightarrow> update_goal_state \<Rightarrow> (update_state, string) op" where
  "get_agent_package_signature env v fam gs =
     bindM (lift_sig (agent_signature_validation_enabled (ue_sig env))) (\<lambda>enabled.
       returnM (if \<not> enabled then ''''
                else if \<not> gs_supports_signature_mapping gs then ''''
                else case map_of (af_signatures fam) (version_str v) of None \<Rightarrow> '''' | Some sig \<Rightarrow> sig))"

definition fetch_manifest_if_needed :: "agent_family \<Rightarrow> update_goal_state \<Rightarrow> (update_state, agent_package list) op" where
  "fetch_manifest_if_needed fam gs =
     bindM (getM (\<lambda>s. u_manifest (us_updater s))) (\<lambda>m. case m of
         Some ps \<Rightarrow> returnM ps
       | None \<Rightarrow> bindM (liftR (gs_agent_manifest gs fam)) (\<lambda>ps.
                   thenM (modify_updater (u_manifest_update (\<lambda>_. Some ps))) (returnM ps)))"

definition download_and_get_new_agent ::
  "update_env \<Rightarrow> agent_family \<Rightarrow> update_goal_state \<Rightarrow> (update_state, guest_agent) op" where
  "download_and_get_new_agent env fam gs =
     bindM (fetch_manifest_if_needed fam gs) (\<lambda>ps.
     bindM (getM (\<lambda>s. u_version (us_updater s))) (\<lambda>v.
     bindM (liftR (get_agent_package_to_download ps v)) (\<lambda>pkg.
     bindM (tryM (get_agent_package_signature env v fam gs)
              (\<lambda>e. if is_Exception e then Some (returnM '''') else None)) (\<lambda>signature.
     thenM (download_new_agent_pkg env pkg (gs_fast_track gs) signature)
           (guest_agent_init (ue_disk env) (pkg_version pkg))))))"

definition trim_zip :: "string \<Rightarrow> string" where
  "trim_zip p = (if rev (take 4 (rev p)) = ''.zip'' then hd (split_on ''.zip'' p) else p)"

definition entry_version :: "string \<Rightarrow> string" where
  "entry_version name = drop (length AGENT_NAME + 1) name"

text \<open>
  \<^verbatim>\<open>FlexibleVersion(...) not in known_agents\<close>; an entry whose name is not a version raises, and
  is left alone.
\<close>

definition is_unknown_agent :: "flexible_version list \<Rightarrow> string \<Rightarrow> bool res" where
  "is_unknown_agent known name =
     bindR (FlexibleVersion (entry_version (trim_zip name))) (\<lambda>v.
     bindR (mapR (version_eq v) known) (\<lambda>bs. Inr (True \<notin> set bs)))"

definition purge_entry :: "disk_env \<Rightarrow> flexible_version list \<Rightarrow> string \<Rightarrow> (update_state, unit) op" where
  "purge_entry env known name =
     tryM (bindM (liftR (is_unknown_agent known name)) (\<lambda>unknown. whenM unknown (remove_entry env name)))
       (\<lambda>e. if is_Exception e then Some (returnM ()) else None)"

definition purge_unknown_agents_from_disk :: "disk_env \<Rightarrow> flexible_version list \<Rightarrow> (update_state, unit) op" where
  "purge_unknown_agents_from_disk env known =
     bindM (getM (\<lambda>s. map fst (lib_entries s))) (\<lambda>names. forM names (purge_entry env known))"

definition purge_extra_agents_from_disk :: "update_env \<Rightarrow> (update_state, unit) op" where
  "purge_extra_agents_from_disk env =
     bindM (getM (\<lambda>s. u_version (us_updater s))) (\<lambda>v.
       purge_unknown_agents_from_disk (ue_disk env) [ue_current env, v])"

section \<open>SelfUpdateVersionUpdater\<close>

datatype self_update_type = Hotfix | Regular

definition get_agent_upgrade_type :: "update_env \<Rightarrow> flexible_version \<Rightarrow> self_update_type" where
  "get_agent_upgrade_type env v =
     (if version_major v = version_major (ue_current env) \<and> version_minor v = version_minor (ue_current env) \<and>
         version_patch v = version_patch (ue_current env) then Hotfix else Regular)"

definition get_next_process_time :: "update_env \<Rightarrow> self_update_type \<Rightarrow> int" where
  "get_next_process_time env ty =
     ue_now env + seconds (ue_random env (case ty of Hotfix \<Rightarrow> ue_hotfix_frequency env | Regular \<Rightarrow> ue_regular_frequency env))"

definition new_agent_allowed_now_to_update :: "update_env \<Rightarrow> (update_state, bool) op" where
  "new_agent_allowed_now_to_update env =
     bindM (getM us_updater) (\<lambda>u.
       let next = (case u_next_update_time u of Some t \<Rightarrow> t
                   | None \<Rightarrow> get_next_process_time env (get_agent_upgrade_type env (u_version u)))
       in if next \<le> ue_now env
          then thenM (modify_updater (u_next_update_time_update (\<lambda>_. None))) (returnM True)
          else thenM (modify_updater (u_next_update_time_update (\<lambda>_. Some next))) (returnM False))"

definition should_agent_attempt_manifest_download :: "update_env \<Rightarrow> (update_state, bool) op" where
  "should_agent_attempt_manifest_download env =
     bindM (getM (\<lambda>s. u_last_manifest_download (us_updater s))) (\<lambda>last.
       let next_attempt_time = (case last of Some t \<Rightarrow> t + seconds (ue_autoupdate_frequency env) | None \<Rightarrow> ue_now env)
       in if ue_now env < next_attempt_time then returnM False
          else thenM (modify_updater (u_last_manifest_download_update (\<lambda>_. Some (ue_now env)))) (returnM True))"

definition self_is_rsm_update_enabled :: "update_env \<Rightarrow> agent_family \<Rightarrow> bool \<Rightarrow> bool res" where
  "self_is_rsm_update_enabled env fam ext_gs_updated =
     (if ext_gs_updated \<and> ue_ga_versioning env \<and> af_is_vm_enabled_for_rsm_upgrades fam = Some True
      then if af_is_version_from_rsm fam = None then Inl (AgentUpdateError ''missing isVersionFromRSM property'')
           else if af_version fam = None then Inl (AgentUpdateError ''missing version property'')
           else Inr True
      else Inr False)"

definition retrieve_sorted_agent_versions :: "agent_family \<Rightarrow> update_goal_state \<Rightarrow> (update_state, flexible_version list) op" where
  "retrieve_sorted_agent_versions fam gs =
     bindM (liftR (gs_agent_manifest gs fam)) (\<lambda>ps.
     thenM (modify_updater (u_manifest_update (\<lambda>_. Some ps)))
       (liftR (bindR (mapR (\<lambda>p. FlexibleVersion (pkg_version p)) ps) (sort_versions_desc (\<lambda>v. v)))))"

fun try_candidates ::
  "update_env \<Rightarrow> agent_family \<Rightarrow> update_goal_state \<Rightarrow> flexible_version list \<Rightarrow> (update_state, guest_agent option) op" where
  "try_candidates env fam gs [] = returnM None"
| "try_candidates env fam gs (v # vs) =
     thenM (set_version v)
       (tryM (bindM (download_and_get_new_agent env fam gs) (\<lambda>a. returnM (Some a)))
          (\<lambda>e. if is_Exception e \<and> vs \<noteq> [] then Some (try_candidates env fam gs vs) else None))"

definition self_retrieve_and_download_agent ::
  "update_env \<Rightarrow> agent_family \<Rightarrow> update_goal_state \<Rightarrow> (update_state, guest_agent option) op" where
  "self_retrieve_and_download_agent env fam gs =
     bindM (retrieve_sorted_agent_versions fam gs) (\<lambda>sorted_versions.
     let largest = (case sorted_versions of [] \<Rightarrow> numeric_version [0, 0, 0, 0] | v # _ \<Rightarrow> v) in
     thenM (set_version largest)
    (bindM (liftR (version_le largest (ue_current env))) (\<lambda>le.
     if le then returnM None
     else bindM (getM is_initial_update) (\<lambda>initial.
          bindM (if initial then returnM True else new_agent_allowed_now_to_update env) (\<lambda>allowed.
          if \<not> allowed then returnM None
          else bindM (liftR (filterR (\<lambda>v. version_gt v (ue_current env)) sorted_versions))
                 (try_candidates env fam gs))))))"

definition self_proceed_with_update :: "update_env \<Rightarrow> (update_state, unit) op" where
  "self_proceed_with_update env =
     bindM (\<lambda>s. (version_gt (u_version (us_updater s)) (ue_current env), s)) (\<lambda>newer.
       if newer then bindM (getM (\<lambda>s. u_version (us_updater s))) (\<lambda>v. raiseM (AgentUpgradeExitException (version_str v)))
       else returnM ())"

section \<open>RSMVersionUpdater\<close>

definition rsm_is_rsm_update_enabled :: "update_env \<Rightarrow> agent_family \<Rightarrow> bool \<Rightarrow> bool res" where
  "rsm_is_rsm_update_enabled env fam ext_gs_updated =
     (if ext_gs_updated
      then if \<not> ue_ga_versioning env then Inr False
           else case af_is_vm_enabled_for_rsm_upgrades fam of
               None \<Rightarrow> Inl (AgentUpdateError ''missing isVMEnabledForRSMUpgrades property'')
             | Some False \<Rightarrow> Inr False
             | Some True \<Rightarrow>
                 if af_is_version_from_rsm fam = None then Inl (AgentUpdateError ''missing isVersionFromRSM property'')
                 else if af_version fam = None then Inl (AgentUpdateError ''missing version property'')
                 else Inr True
      else Inr True)"

definition version_of_option :: "string option \<Rightarrow> flexible_version res" where
  "version_of_option t = fv_init t (Some ''.'') (Some default_prerel_tags)"

definition is_retrieved_version_allowed_to_update :: "update_env \<Rightarrow> agent_family \<Rightarrow> flexible_version \<Rightarrow> bool res" where
  "is_retrieved_version_allowed_to_update env fam v =
     (if af_is_version_from_rsm fam \<noteq> Some True then Inr False
      else bindR (version_eq v (ue_current env)) (\<lambda>same.
        if same then Inr False
        else bindR (version_lt v (ue_daemon env)) (\<lambda>below.
          if below then Inl (AgentUpdateError ''new version is below the daemon version'')
          else bindR (version_lt v (ue_current env)) (\<lambda>downgrade.
            bindR (if downgrade
                   then bindR (version_of_option (af_from_version fam)) (\<lambda>from. version_ne (ue_current env) from)
                   else Inr False)
              (\<lambda>refused. if refused then Inl (AgentUpdateError ''downgrade is not allowed'') else Inr True)))))"

definition rsm_retrieve_and_download_agent ::
  "update_env \<Rightarrow> agent_family \<Rightarrow> update_goal_state \<Rightarrow> (update_state, guest_agent option) op" where
  "rsm_retrieve_and_download_agent env fam gs =
     bindM (liftR (version_of_option (af_version fam))) (\<lambda>v.
     thenM (set_version v)
    (bindM (liftR (is_retrieved_version_allowed_to_update env fam v)) (\<lambda>allowed.
     if \<not> allowed then returnM None
     else bindM (download_and_get_new_agent env fam gs) (\<lambda>a. returnM (Some a)))))"

definition is_agent_dir :: "lib_entry \<Rightarrow> bool" where
  "is_agent_dir e = (case e of AgentDir _ \<Rightarrow> True | PlainFile \<Rightarrow> False)"

definition get_all_agents_on_disk :: "update_env \<Rightarrow> (update_state, guest_agent list) op" where
  "get_all_agents_on_disk env =
     bindM (getM (\<lambda>s. map fst (filter (\<lambda>(n, e). is_agent_dir e) (lib_entries s))))
       (mapM (\<lambda>n. guest_agent_init (ue_disk env) (entry_version n)))"

definition get_available_agents_on_disk :: "update_env \<Rightarrow> (update_state, guest_agent list) op" where
  "get_available_agents_on_disk env =
     bindM (get_all_agents_on_disk env) (\<lambda>agents.
     bindM (\<lambda>s. (filterR (agent_is_available s) agents, s)) (\<lambda>available.
       liftR (sort_versions_desc ga_version available)))"

fun next_agent :: "flexible_version \<Rightarrow> guest_agent list \<Rightarrow> guest_agent res" where
  "next_agent v [] = Inl StopIteration"
| "next_agent v (a # as) = bindR (version_eq (ga_version a) v) (\<lambda>e. if e then Inr a else next_agent v as)"

definition rsm_proceed_with_update :: "update_env \<Rightarrow> (update_state, unit) op" where
  "rsm_proceed_with_update env =
     bindM (getM (\<lambda>s. u_version (us_updater s))) (\<lambda>v.
     bindM (liftR (version_lt v (ue_current env))) (\<lambda>downgrade.
     thenM (whenM downgrade
        (tryM (bindM (get_available_agents_on_disk env) (\<lambda>agents.
               bindM (liftR (next_agent (ue_current env) agents)) (\<lambda>a.
               thenM (agent_mark_failure (ue_disk env) True ''Marking the agent as bad version since a downgrade was requested'' a)
                 (returnM ()))))
           (\<lambda>e. if e = StopIteration then Some (returnM ()) else None)))
       (raiseM (AgentUpgradeExitException (version_str v)))))"

section \<open>AgentUpdateHandler\<close>

definition get_daemon_version_for_update :: "flexible_version \<Rightarrow> flexible_version res" where
  "get_daemon_version_for_update daemon_version =
     bindR (version_ne daemon_version (numeric_version [0, 0, 0, 0])) (\<lambda>known.
       if known then Inr daemon_version else FlexibleVersion ''2.2.53'')"

definition handler_init :: "'a lib_state_scheme \<Rightarrow> sig_state \<Rightarrow> update_state" where
  "handler_init d sig =
     \<lparr>lib_entries = lib_entries d, rsm_update_state_file = rsm_update_state_file d,
      initial_update_state_file = initial_update_state_file d, us_sig = sig, us_gs_id = ''unknown'',
      us_updater = new_updater (if \<not> is_last_update_with_rsm d \<or> is_initial_update d then SelfUpdate else RSM) ''unknown'',
      us_last_error = ''''\<rparr>"

definition get_agent_family_manifest :: "update_env \<Rightarrow> update_goal_state \<Rightarrow> agent_family res" where
  "get_agent_family_manifest env gs =
     (let found = filter (\<lambda>m. af_name m = ue_family env) (gs_agent_families gs) in
      if found = [] then Inl (AgentFamilyMissingError ''Agent family not found in the goal state'')
      else case filter (\<lambda>m. length (af_uris m) > 0) found of
          [] \<Rightarrow> Inl (AgentFamilyMissingError ''No manifest links found for agent family'')
        | m # _ \<Rightarrow> Inr m)"

definition get_current_update_mode :: "update_state \<Rightarrow> update_mode" where
  "get_current_update_mode s = u_mode (us_updater s)"

definition is_rsm_update_enabled :: "update_env \<Rightarrow> update_mode \<Rightarrow> agent_family \<Rightarrow> bool \<Rightarrow> bool res" where
  "is_rsm_update_enabled env mode fam ext_gs_updated =
     (case mode of RSM \<Rightarrow> rsm_is_rsm_update_enabled env fam ext_gs_updated
      | SelfUpdate \<Rightarrow> self_is_rsm_update_enabled env fam ext_gs_updated)"

definition switch_updater :: "update_env \<Rightarrow> agent_family \<Rightarrow> bool \<Rightarrow> (update_state, unit) op" where
  "switch_updater env fam ext_gs_updated =
     bindM (getM get_current_update_mode) (\<lambda>mode.
     bindM (liftR (is_rsm_update_enabled env mode fam ext_gs_updated)) (\<lambda>enabled.
     bindM (getM us_gs_id) (\<lambda>gs.
       if \<not> enabled \<and> mode = RSM
       then thenM (modify_updater (\<lambda>_. new_updater SelfUpdate gs)) (remove_rsm_update_state_file (ue_disk env))
       else if enabled \<and> mode = SelfUpdate
       then thenM (modify_updater (\<lambda>_. new_updater RSM gs)) (save_rsm_update_state_file (ue_disk env))
       else returnM ())))"

definition is_update_allowed_this_time :: "update_env \<Rightarrow> bool \<Rightarrow> (update_state, bool) op" where
  "is_update_allowed_this_time env ext_gs_updated =
     bindM (getM get_current_update_mode) (\<lambda>mode. case mode of
         RSM \<Rightarrow> returnM ext_gs_updated
       | SelfUpdate \<Rightarrow> should_agent_attempt_manifest_download env)"

definition build_agent_signature_telemetry_data :: "agent_family \<Rightarrow> (string list \<times> string option) res" where
  "build_agent_signature_telemetry_data fam =
     bindR (mapR (FlexibleVersion \<circ> fst) (af_signatures fam)) (\<lambda>vs.
     bindR (sort_versions_asc (\<lambda>v. v) vs) (\<lambda>vs.
       Inr (map version_str vs,
            if af_is_version_from_rsm fam = Some True \<and> af_is_vm_enabled_for_rsm_upgrades fam = Some True
            then af_version fam else Some [])))"

definition send_agent_signature_event :: "update_env \<Rightarrow> update_goal_state \<Rightarrow> agent_family \<Rightarrow> (update_state, unit) op" where
  "send_agent_signature_event env gs fam =
     tryM (bindM (lift_sig (agent_signature_goal_state_telemetry_enabled (ue_sig env))) (\<lambda>enabled.
             if \<not> enabled \<or> \<not> gs_supports_signature_mapping gs then returnM ()
             else bindM (liftR (build_agent_signature_telemetry_data fam)) (\<lambda>_. returnM ())))
       (\<lambda>e. if is_Exception e then Some (returnM ()) else None)"

text \<open>
  What the handler does with the updater it has chosen: the updater's \<open>retrieve\<close> finds, checks and
  downloads a version; a version that was tried three times is given up; else its error record is
  cleared, the attempt is counted, other agents are purged, and the updater's \<open>proceed\<close> leaves the
  process.
\<close>

definition attempt_update ::
  "(update_env \<Rightarrow> agent_family \<Rightarrow> update_goal_state \<Rightarrow> (update_state, guest_agent option) op) \<Rightarrow>
   (update_env \<Rightarrow> (update_state, unit) op) \<Rightarrow> update_env \<Rightarrow> agent_family \<Rightarrow> update_goal_state \<Rightarrow> (update_state, unit) op" where
  "attempt_update retrieve proceed env fam gs =
     bindM (retrieve env fam gs) (\<lambda>agent. case agent of
         None \<Rightarrow> returnM ()
       | Some a \<Rightarrow>
           bindM (liftR (py_ge (ga_attempt_count a) 3)) (\<lambda>enough.
             if enough then raiseM (AgentUpdateError ''Attempted enough update retries'')
             else bindM (clear_error (ue_disk env) a) (\<lambda>a'.
                  thenM (inc_update_attempt_count (ue_disk env) a')
                 (thenM (purge_extra_agents_from_disk env) (proceed env)))))"

definition attempt_update_with :: "update_mode \<Rightarrow> update_env \<Rightarrow> agent_family \<Rightarrow> update_goal_state \<Rightarrow> (update_state, unit) op" where
  "attempt_update_with mode = (case mode of
      RSM \<Rightarrow> attempt_update rsm_retrieve_and_download_agent rsm_proceed_with_update
    | SelfUpdate \<Rightarrow> attempt_update self_retrieve_and_download_agent self_proceed_with_update)"

definition update_body :: "update_env \<Rightarrow> update_goal_state \<Rightarrow> bool \<Rightarrow> (update_state, unit) op" where
  "update_body env gs ext_gs_updated =
     (if \<not> ue_auto_update env
      then modifyM (\<lambda>s. s\<lparr>us_last_error := ''Auto update is disabled, skipping agent update''\<rparr>)
      else thenM (whenM ext_gs_updated
                   (thenM (modifyM (\<lambda>s. s\<lparr>us_last_error := '''', us_gs_id := gs_id gs\<rparr>)) (sync_new_gs_id (gs_id gs))))
          (bindM (liftR (get_agent_family_manifest env gs)) (\<lambda>fam.
           bindM (getM is_initial_update) (\<lambda>initial.
           thenM (whenM (\<not> initial) (switch_updater env fam ext_gs_updated))
          (thenM (whenM ext_gs_updated (send_agent_signature_event env gs fam))
          (bindM (is_update_allowed_this_time env ext_gs_updated) (\<lambda>allowed.
           if \<not> allowed then returnM ()
           else bindM (getM get_current_update_mode) (\<lambda>mode. attempt_update_with mode env fam gs))))))))"

definition mode_str :: "update_mode \<Rightarrow> string" where
  "mode_str m = (case m of RSM \<Rightarrow> ''RSM'' | SelfUpdate \<Rightarrow> ''SelfUpdate'')"

definition update_error_message :: "update_env \<Rightarrow> update_mode \<Rightarrow> bool \<Rightarrow> exn \<Rightarrow> string" where
  "update_error_message env mode ext_gs_updated e =
     (let prefix = (\<lambda>m. ''['' @ mode_str mode @ ''] '' @ m) in
      case e of
        AgentUpdateError m \<Rightarrow> prefix m
      | AgentFamilyMissingError m \<Rightarrow> if ext_gs_updated then prefix m else m
      | _ \<Rightarrow> prefix (''Unable to update Agent: '' @ ue_format_exception env e))"

definition run_update :: "update_env \<Rightarrow> update_goal_state \<Rightarrow> bool \<Rightarrow> (update_state, unit) op" where
  "run_update env gs ext_gs_updated =
     finallyM
       (tryM (update_body env gs ext_gs_updated)
          (\<lambda>e. if is_Exception e
               then Some (modifyM (\<lambda>s. s\<lparr>us_last_error := update_error_message env (get_current_update_mode s) ext_gs_updated e\<rparr>))
               else None))
       (bindM (getM is_initial_update) (\<lambda>initial. whenM initial (save_initial_update_state_file (ue_disk env))))"

datatype vm_agent_update_status = VMAgentUpdateStatus string string string int

definition get_vmagent_update_status :: "update_env \<Rightarrow> update_state \<Rightarrow> vm_agent_update_status option" where
  "get_vmagent_update_status env s =
     (if get_current_update_mode s = RSM
      then if us_last_error s = ''''
           then Some (VMAgentUpdateStatus (version_str (ue_current env)) ''Success'' (us_last_error s) 0)
           else Some (VMAgentUpdateStatus (version_str (ue_current env)) ''Error'' (us_last_error s) 1)
      else None)"

section \<open>Operations that raise plain exceptions only\<close>

text \<open>
  The parts of the surroundings that are not modelled (downloads, the fetched manifest, commands)
  raise subclasses of \<^verbatim>\<open>Exception\<close>: only the updaters ask the process to exit.
\<close>

definition plain_network :: "update_env \<Rightarrow> update_goal_state \<Rightarrow> bool" where
  "plain_network env gs \<longleftrightarrow>
     (\<forall>n us ft sig es. plainR (fst (ue_download env n us ft sig es))) \<and>
     (\<forall>fam. plainR (gs_agent_manifest gs fam)) \<and> plain_errors (ue_sig env)"

lemma plainR_fv_init [plain_intros]: "plainR (fv_init t sep tags)"
  by (auto simp: fv_init_def parse_version_def Let_def int_of_digits_def intro!: plainR_bindR plainR_mapR plainR_if
      split: option.splits list.splits)

lemma plainR_FlexibleVersion [plain_intros]: "plainR (FlexibleVersion t)"
  unfolding FlexibleVersion_def by (rule plainR_fv_init)

lemma plainR_version_of_option [plain_intros]: "plainR (version_of_option t)"
  unfolding version_of_option_def by (rule plainR_fv_init)

lemma plainR_version_lt [plain_intros]: "plainR (version_lt a b)"
  by (auto simp: version_lt_def ensure_compatible_def lt_prerelease_def lt_numbers_def split: option.splits)

lemma plainR_version_eq [plain_intros]: "plainR (version_eq a b)"
  by (auto simp: version_eq_def ensure_compatible_def)

lemma plainR_version_cmp [plain_intros]:
  "plainR (version_ne a b)" "plainR (version_gt a b)" "plainR (version_le a b)"
  by (auto simp: version_ne_def version_gt_def version_le_def intro!: plain_intros)

lemma plainR_sort_desc [plain_intros]: "plainR (sort_versions_desc key xs)"
  by (simp add: sort_versions_desc_def)

lemma plainR_sort_asc [plain_intros]: "plainR (sort_versions_asc key xs)"
  by (simp add: sort_versions_asc_def)

lemma plainR_blacklisted [plain_intros]: "plainR (error_is_blacklisted e)"
  by (simp add: error_is_blacklisted_def py_ge_def split: option.splits)

lemma plainR_py_ge [plain_intros]: "plainR (py_ge a n)"
  by (simp add: py_ge_def split: option.splits)

lemma plainR_available [plain_intros]: "plainR (agent_is_available s a)"
  unfolding agent_is_available_def agent_is_downloaded_def by (auto intro!: plain_intros)

lemma plain_load_error [plain_intros]: "plain (load_error env name)"
  by (auto simp: plain_def wp_def load_error_def Let_def split: option.splits sum.splits prod.splits)

lemma plain_load_attempt [plain_intros]: "plain (load_attempt env name)"
  by (auto simp: plain_def wp_def load_attempt_def Let_def split: option.splits sum.splits prod.splits)

lemma plain_remove_entry [plain_intros]: "plain (remove_entry env name)"
  by (auto simp: remove_entry_def intro!: plain_intros)

lemma plainR_as_update_error [plain_intros]: "plainR r \<Longrightarrow> plainR (as_update_error r)"
  by (cases r) (simp_all add: as_update_error_def)

lemma plainR_py_index [plain_intros]: "plainR (py_index j k)"
  by (cases j) (simp_all split: option.splits)

lemma plainR_py_len [plain_intros]: "plainR (py_len j)"
  by (cases j) simp_all

lemma plainR_enable_command [plain_intros]: "plainR (get_enable_command m)"
  by (auto simp: get_enable_command_def manifest_command_def handler_section_def intro!: plain_intros)

lemma plainR_HandlerManifest [plain_intros]: "plainR (HandlerManifest m)"
  by (auto simp: HandlerManifest_def intro!: plain_intros)

lemma plain_load_manifest [plain_intros]: "plain (load_manifest name)"
  unfolding load_manifest_def
  by (rule plain_read)
     (auto intro!: plainR_as_update_error plainR_bindR plainR_HandlerManifest plainR_enable_command plainR_py_len plainR_if
        split: option.splits sum.splits json.splits list.splits)

lemma plain_guest_agent_init [plain_intros]: "plain (guest_agent_init env t)"
  unfolding guest_agent_init_def
  by (intro plain_intros allI) (auto intro!: plain_intros split: if_splits)

lemma plain_lift_sig [plain_intros]: "plain m \<Longrightarrow> plain (lift_sig m)"
  by (fastforce simp: plain_def wp_def lift_sig_def split: prod.splits sum.splits)

lemma plain_lift_entries [plain_intros]: "(\<And>es. plainR (fst (m es))) \<Longrightarrow> plain (lift_entries m)"
  by (auto simp: plain_def wp_def lift_entries_def plainR_def split: prod.splits sum.splits) (metis fst_conv)

lemma plain_modify_updater [plain_intros]: "plain (modify_updater f)"
  by (simp add: modify_updater_def plain_modifyM)

lemma plain_set_version [plain_intros]: "plain (set_version v)"
  by (simp add: set_version_def plain_modify_updater)

lemma plain_expired [plain_intros]:
  "plain_errors env \<Longrightarrow> plain (is_signature_validation_telemetry_expired env)"
  unfolding is_signature_validation_telemetry_expired_def
  by (intro plain_intros) (auto simp: plainR_def plain_errors_def intro!: plain_intros split: if_splits)

lemma plain_openssl [plain_intros]:
  "plain_errors env \<Longrightarrow> plain (openssl_version_supported_for_signature_validation env)"
  by (simp add: plain_def wp_def openssl_supported Let_def)

lemma plain_cvm [plain_intros]: "plainR (sig_is_confidential_vm env)"
  by (simp add: sig_is_confidential_vm_def split: option.splits)

lemma plain_andM [plain_intros]: "plain a \<Longrightarrow> plain b \<Longrightarrow> plain (andM a b)"
  unfolding andM_def by (intro plain_intros)

lemma plain_notM [plain_intros]: "plain a \<Longrightarrow> plain (notM a)"
  unfolding notM_def by (intro plain_intros)

lemma plain_agent_signature_validation_enabled [plain_intros]:
  "plain_errors env \<Longrightarrow> plain (agent_signature_validation_enabled env)"
  unfolding agent_signature_validation_enabled_def by (intro plain_intros)

lemma plain_signature_telemetry_enabled [plain_intros]:
  "plain_errors env \<Longrightarrow> plain (agent_signature_goal_state_telemetry_enabled env)"
  unfolding agent_signature_goal_state_telemetry_enabled_def by (intro plain_intros)

lemma plain_networkD:
  assumes "plain_network env gs"
  shows "plainR (fst (ue_download env n us ft sig es))" "plainR (gs_agent_manifest gs fam)" "plain_errors (ue_sig env)"
  using assms by (auto simp: plain_network_def)

lemma plain_download_new_agent_pkg [plain_intros]:
  "plain_network env gs \<Longrightarrow> plain (download_new_agent_pkg env pkg ft sig)"
  unfolding download_new_agent_pkg_def Let_def
  by (intro plain_intros plain_networkD(1)) (auto intro!: plain_intros split: exn.splits)

lemma plainR_package [plain_intros]: "plainR (get_agent_package_to_download ps v)"
  by (induction ps) (auto intro!: plain_intros)

lemma plain_fetch_manifest [plain_intros]: "plain_network env gs \<Longrightarrow> plain (fetch_manifest_if_needed fam gs)"
  unfolding fetch_manifest_if_needed_def by (intro plain_intros plain_networkD(2))

lemma plain_download_and_get [plain_intros]: "plain_network env gs \<Longrightarrow> plain (download_and_get_new_agent env fam gs)"
  unfolding download_and_get_new_agent_def get_agent_package_signature_def
  by (intro plain_intros; auto intro!: plain_intros plain_networkD split: if_splits)

lemma plain_try_candidates [plain_intros]: "plain_network env gs \<Longrightarrow> plain (try_candidates env fam gs vs)"
  by (induction vs) (auto intro!: plain_intros split: if_splits)

lemma plain_self_retrieve [plain_intros]: "plain_network env gs \<Longrightarrow> plain (self_retrieve_and_download_agent env fam gs)"
  unfolding self_retrieve_and_download_agent_def retrieve_sorted_agent_versions_def new_agent_allowed_now_to_update_def Let_def
  by (intro plain_intros; auto intro!: plain_intros plain_networkD split: if_splits)

lemma plainR_allowed [plain_intros]: "plainR (is_retrieved_version_allowed_to_update env fam v)"
  unfolding is_retrieved_version_allowed_to_update_def by (auto intro!: plain_intros)

lemma plain_rsm_retrieve [plain_intros]: "plain_network env gs \<Longrightarrow> plain (rsm_retrieve_and_download_agent env fam gs)"
  unfolding rsm_retrieve_and_download_agent_def by (intro plain_intros)

lemma plain_clear_error [plain_intros]: "plain (clear_error env a)"
  unfolding clear_error_def Let_def by (auto simp: plain_def wp_def save_error_def thenM_def bindM_def returnM_def)

lemma plain_inc_count [plain_intros]: "plain (inc_update_attempt_count env a)"
  by (auto simp: plain_def wp_def inc_update_attempt_count_def split: sum.splits)

lemma plainR_next_agent [plain_intros]: "plainR (next_agent v as)"
  by (induction as) (auto intro!: plain_intros)

lemma plain_mark_failure [plain_intros]: "plain (agent_mark_failure env b why a)"
  by (auto simp: plain_def wp_def agent_mark_failure_def Let_def split: prod.splits sum.splits)

lemma plain_purge [plain_intros]: "plain (purge_extra_agents_from_disk env)"
  unfolding purge_extra_agents_from_disk_def purge_unknown_agents_from_disk_def purge_entry_def is_unknown_agent_def
  by (intro plain_intros; auto intro!: plain_intros split: if_splits)

section \<open>Operations that leave the updater and its state files alone\<close>

abbreviation keeps_updater :: "(update_state, 'a) op \<Rightarrow> bool" where
  "keeps_updater m \<equiv> \<forall>u. preserves (\<lambda>s. (us_updater s, rsm_update_state_file s, initial_update_state_file s) = u) m"

lemma us_updater_update_dir [simp]: "us_updater (update_dir n f s) = us_updater s"
  by (simp add: update_dir_def split: option.splits)

lemma keeps_load_error: "keeps_updater (load_error env n)"
  by (auto simp: preserves_def load_error_def Let_def split: option.splits sum.splits prod.splits)

lemma keeps_load_attempt: "keeps_updater (load_attempt env n)"
  by (auto simp: preserves_def load_attempt_def Let_def split: option.splits sum.splits prod.splits)

lemma keeps_remove_entry: "keeps_updater (remove_entry env n)"
  by (auto simp: remove_entry_def intro!: preserves_intros)

lemma keeps_load_manifest: "keeps_updater (load_manifest n)"
  by (simp add: preserves_def load_manifest_def)

lemma keeps_lift_sig: "keeps_updater (lift_sig m)"
  by (auto simp: preserves_def lift_sig_def split: prod.splits)

lemma keeps_lift_entries: "keeps_updater (lift_entries m)"
  by (auto simp: preserves_def lift_entries_def split: prod.splits)

lemma keeps_guest_agent_init: "keeps_updater (guest_agent_init env t)"
  unfolding guest_agent_init_def
  by (intro allI preserves_intros; (auto intro!: preserves_intros
      keeps_load_error [rule_format] keeps_load_attempt [rule_format] keeps_load_manifest [rule_format]
      keeps_remove_entry [rule_format] split: if_splits prod.splits)?)

lemma keeps_clear_error: "keeps_updater (clear_error env a)"
  by (auto simp: preserves_def clear_error_def Let_def save_error_def thenM_def bindM_def returnM_def)

lemma keeps_inc_count: "keeps_updater (inc_update_attempt_count env a)"
  by (auto simp: preserves_def inc_update_attempt_count_def save_attempt_def split: sum.splits)

lemma keeps_purge: "keeps_updater (purge_extra_agents_from_disk env)"
  unfolding purge_extra_agents_from_disk_def purge_unknown_agents_from_disk_def purge_entry_def
  by (intro allI preserves_intros keeps_remove_entry [rule_format]; auto intro!: preserves_intros split: if_splits)

lemma keeps_download_pkg: "keeps_updater (download_new_agent_pkg env pkg ft sig)"
  unfolding download_new_agent_pkg_def Let_def
  by (intro allI preserves_intros; (auto intro!: preserves_intros keeps_lift_entries [rule_format]
      keeps_remove_entry [rule_format] split: exn.splits)?)

text \<open>Downloading a version changes of the updater at most the cached manifest.\<close>

lemma download_keeps_version:
  "preserves (\<lambda>s. u_version (us_updater s) = v \<and> u_mode (us_updater s) = m) (download_and_get_new_agent env fam gs)"
proof -
  let ?P = "\<lambda>s. u_version (us_updater s) = v \<and> u_mode (us_updater s) = m"
  have lift: "preserves ?P k" if "keeps_updater k" for k :: "(update_state, 'b) op"
    using that by (auto simp: preserves_def)
  show ?thesis
    unfolding download_and_get_new_agent_def fetch_manifest_if_needed_def get_agent_package_signature_def modify_updater_def
    by (intro preserves_intros lift keeps_lift_sig keeps_download_pkg keeps_guest_agent_init;
        auto intro!: preserves_intros split: if_splits)
qed

section \<open>The contract of an updater\<close>

text \<open>
  What \<^verbatim>\<open>AgentUpdateHandler\<close> relies on in the class \<^verbatim>\<open>GAVersionUpdater\<close>: a version that
  \<open>retrieve\<close> hands over is one the updater may install, the agent handed over has that version, and
  \<open>proceed\<close> exits for that version and no other. \<open>permitted\<close> is each updater's own rule.
\<close>

locale version_updater =
  fixes retrieve :: "update_env \<Rightarrow> agent_family \<Rightarrow> update_goal_state \<Rightarrow> (update_state, guest_agent option) op"
    and proceed :: "update_env \<Rightarrow> (update_state, unit) op"
    and permitted :: "update_env \<Rightarrow> agent_family \<Rightarrow> update_goal_state \<Rightarrow> flexible_version \<Rightarrow> bool"
  assumes retrieve_plain: "plain_network env gs \<Longrightarrow> plain (retrieve env fam gs)"
    and retrieve_permitted: "retrieve env fam gs s = (Inr (Some a), t) \<Longrightarrow>
      permitted env fam gs (u_version (us_updater t)) \<and> version_eq (ga_version a) (u_version (us_updater t)) = Inr True"
    and proceed_exit: "proceed env s = (Inl (AgentUpgradeExitException x), t) \<Longrightarrow>
      x = version_str (u_version (us_updater s))"
begin

lemma attempt_exit:
  assumes net: "plain_network env gs"
    and exit: "attempt_update retrieve proceed env fam gs s = (Inl (AgentUpgradeExitException x), t)"
  shows "\<exists>a v t1. retrieve env fam gs s = (Inr (Some a), t1) \<and> u_version (us_updater t1) = v \<and> permitted env fam gs v \<and>
    version_eq (ga_version a) v = Inr True \<and> py_ge (ga_attempt_count a) 3 = Inr False \<and> x = version_str v"
proof -
  have ne: "\<not> is_Exception (AgentUpgradeExitException x)" by simp
  obtain r t1 where r: "retrieve env fam gs s = (Inr r, t1)"
    and rest: "(case r of None \<Rightarrow> returnM () | Some a \<Rightarrow>
           bindM (liftR (py_ge (ga_attempt_count a) 3)) (\<lambda>enough.
             if enough then raiseM (AgentUpdateError ''Attempted enough update retries'')
             else bindM (clear_error (ue_disk env) a) (\<lambda>a'.
                  thenM (inc_update_attempt_count (ue_disk env) a')
                 (thenM (purge_extra_agents_from_disk env) (proceed env))))) t1 = (Inl (AgentUpgradeExitException x), t)"
    using bindM_exit [OF retrieve_plain [OF net] exit [unfolded attempt_update_def] ne] by blast
  then obtain a where a: "r = Some a" by (cases r) (auto simp: returnM_def)
  with rest obtain b where b: "py_ge (ga_attempt_count a) 3 = Inr b" "\<not> b"
    and clear: "bindM (clear_error (ue_disk env) a) (\<lambda>a'. thenM (inc_update_attempt_count (ue_disk env) a')
       (thenM (purge_extra_agents_from_disk env) (proceed env))) t1 = (Inl (AgentUpgradeExitException x), t)"
    by (cases "py_ge (ga_attempt_count a) 3")
      (auto simp: bindM_def liftR_def raiseM_def py_ge_def split: if_splits option.splits)
  obtain a' t2 where t2: "clear_error (ue_disk env) a t1 = (Inr a', t2)"
    "thenM (inc_update_attempt_count (ue_disk env) a') (thenM (purge_extra_agents_from_disk env) (proceed env)) t2
      = (Inl (AgentUpgradeExitException x), t)"
    by (rule bindM_exit [OF plain_clear_error clear ne])
  obtain a'' t3 where t3: "inc_update_attempt_count (ue_disk env) a' t2 = (Inr a'', t3)"
    "thenM (purge_extra_agents_from_disk env) (proceed env) t3 = (Inl (AgentUpgradeExitException x), t)"
    by (rule thenM_exit [OF plain_inc_count t2(2) ne])
  obtain p t4 where t4: "purge_extra_agents_from_disk env t3 = (Inr p, t4)" "proceed env t4 = (Inl (AgentUpgradeExitException x), t)"
    by (rule thenM_exit [OF plain_purge t3(2) ne])
  have "us_updater t2 = us_updater t1" "us_updater t3 = us_updater t2" "us_updater t4 = us_updater t3"
    using preservesD [OF keeps_clear_error [rule_format] refl, of "ue_disk env" a t1] t2(1)
      preservesD [OF keeps_inc_count [rule_format] refl, of "ue_disk env" a' t2] t3(1)
      preservesD [OF keeps_purge [rule_format] refl, of env t3] t4(1) by auto
  with t4(2) show ?thesis
    using proceed_exit [of env t4 x t] retrieve_permitted [of env fam gs s a t1] r a b by auto
qed

end

section \<open>The two updaters meet the contract\<close>

lemma package_found:
  "get_agent_package_to_download ps v = Inr p \<Longrightarrow>
   p \<in> set ps \<and> (\<exists>pv. FlexibleVersion (pkg_version p) = Inr pv \<and> version_eq pv v = Inr True)"
  by (induction ps) (auto simp: bindR_eq_Inr split: if_splits)

lemma guest_agent_init_version:
  "guest_agent_init env t s = (Inr a, s') \<Longrightarrow> FlexibleVersion t = Inr (ga_version a)"
  by (auto simp: guest_agent_init_def bindM_def liftR_def returnM_def split: prod.splits sum.splits)

lemma download_result:
  assumes "download_and_get_new_agent env fam gs s = (Inr a, t)"
  shows "version_eq (ga_version a) (u_version (us_updater s)) = Inr True"
    "u_version (us_updater t) = u_version (us_updater s)" "u_mode (us_updater t) = u_mode (us_updater s)"
proof -
  have "wp (download_and_get_new_agent env fam gs) (\<lambda>a _. version_eq (ga_version a) (u_version (us_updater s)) = Inr True) (\<lambda>_ _. True) s"
  proof -
    have fetch: "wp (fetch_manifest_if_needed fam gs) (\<lambda>_ t. u_version (us_updater t) = u_version (us_updater s)) (\<lambda>_ _. True) s"
      by (auto simp: fetch_manifest_if_needed_def wp_simps wp_liftR modify_updater_def split: option.splits sum.splits)
    show ?thesis
      unfolding download_and_get_new_agent_def wp_bindM
      by (rule wp_mono [OF fetch])
         (auto simp: wp_simps wp_liftR elim!: thenM_InrE dest!: package_found guest_agent_init_version split: sum.splits intro!: wpI)
  qed
  from wp_Inr [OF this assms] show "version_eq (ga_version a) (u_version (us_updater s)) = Inr True" .
  show "u_version (us_updater t) = u_version (us_updater s)" "u_mode (us_updater t) = u_mode (us_updater s)"
    using preservesD [OF download_keeps_version, of s "u_version (us_updater s)" "u_mode (us_updater s)" env fam gs] assms by auto
qed

definition rsm_permitted :: "update_env \<Rightarrow> agent_family \<Rightarrow> update_goal_state \<Rightarrow> flexible_version \<Rightarrow> bool" where
  "rsm_permitted env fam gs v \<longleftrightarrow>
     af_is_version_from_rsm fam = Some True \<and> version_of_option (af_version fam) = Inr v \<and>
     version_eq v (ue_current env) = Inr False \<and> version_lt v (ue_daemon env) = Inr False \<and>
     (version_lt v (ue_current env) = Inr False \<or>
      (\<exists>from. version_of_option (af_from_version fam) = Inr from \<and> version_eq (ue_current env) from = Inr True))"

lemma allowed_Inr_True:
  "is_retrieved_version_allowed_to_update env fam v = Inr True \<Longrightarrow> version_of_option (af_version fam) = Inr v \<Longrightarrow>
   rsm_permitted env fam gs v"
  by (auto simp: is_retrieved_version_allowed_to_update_def rsm_permitted_def bindR_eq_Inr version_ne_def split: if_splits)

interpretation rsm_updater: version_updater rsm_retrieve_and_download_agent rsm_proceed_with_update rsm_permitted
proof
  show "plain_network env gs \<Longrightarrow> plain (rsm_retrieve_and_download_agent env fam gs)" for env gs fam
    by (rule plain_rsm_retrieve)
  show "rsm_permitted env fam gs (u_version (us_updater t)) \<and> version_eq (ga_version a) (u_version (us_updater t)) = Inr True"
    if "rsm_retrieve_and_download_agent env fam gs s = (Inr (Some a), t)" for env fam gs s a t
  proof -
    from that obtain v where v: "version_of_option (af_version fam) = Inr v"
      and ok: "is_retrieved_version_allowed_to_update env fam v = Inr True"
      and dl: "download_and_get_new_agent env fam gs (snd (set_version v s)) = (Inr a, t)"
      by (auto simp: rsm_retrieve_and_download_agent_def bindM_def thenM_def liftR_def returnM_def set_version_def
          modify_updater_def modifyM_def split: sum.splits prod.splits if_splits)
    have "u_version (us_updater t) = v"
      using download_result(2) [OF dl] by (simp add: set_version_def modify_updater_def modifyM_def)
    with download_result(1) [OF dl] allowed_Inr_True [OF ok v] show ?thesis
      by (simp add: set_version_def modify_updater_def modifyM_def)
  qed
  show "x = version_str (u_version (us_updater s))"
    if "rsm_proceed_with_update env s = (Inl (AgentUpgradeExitException x), t)" for env s x t
  proof -
    let ?v = "u_version (us_updater s)"
    let ?mark = "tryM (bindM (get_available_agents_on_disk env) (\<lambda>agents.
               bindM (liftR (next_agent (ue_current env) agents)) (\<lambda>a.
               thenM (agent_mark_failure (ue_disk env) True ''Marking the agent as bad version since a downgrade was requested'' a)
                 (returnM ()))))
           (\<lambda>e. if e = StopIteration then Some (returnM ()) else None)"
    let ?exit = "raiseM (AgentUpgradeExitException (version_str ?v)) :: (update_state, unit) op"
    have ne: "\<not> is_Exception (AgentUpgradeExitException x)" by simp
    have mark: "plain ?mark"
      unfolding get_available_agents_on_disk_def get_all_agents_on_disk_def
      by (intro plain_intros; auto intro!: plain_intros split: if_splits)
    from that have lt: "bindM (liftR (version_lt ?v (ue_current env))) (\<lambda>downgrade. thenM (whenM downgrade ?mark) ?exit) s = (Inl (AgentUpgradeExitException x), t)"
      unfolding rsm_proceed_with_update_def bindM_getM .
    obtain d u where d: "thenM (whenM d ?mark) ?exit u =
        (Inl (AgentUpgradeExitException x), t)"
      by (rule bindM_exit [OF plain_liftR [OF plainR_version_lt] lt ne]) blast
    obtain y u' where "?exit u' = (Inl (AgentUpgradeExitException x), t)"
      by (rule thenM_exit [OF plain_whenM [OF mark] d ne]) blast
    then show ?thesis by (simp add: raiseM_def)
  qed
qed


definition self_permitted :: "update_env \<Rightarrow> agent_family \<Rightarrow> update_goal_state \<Rightarrow> flexible_version \<Rightarrow> bool" where
  "self_permitted env fam gs v \<longleftrightarrow>
     (\<exists>ps. gs_agent_manifest gs fam = Inr ps \<and> (\<exists>p\<in>set ps. FlexibleVersion (pkg_version p) = Inr v)) \<and>
     version_gt v (ue_current env) = Inr True"

text \<open>The candidates before the one that was taken all failed, each tried in the state the previous one left.\<close>

fun all_fail :: "update_env \<Rightarrow> agent_family \<Rightarrow> update_goal_state \<Rightarrow> flexible_version list \<Rightarrow> update_state \<Rightarrow> update_state option" where
  "all_fail env fam gs [] s = Some s"
| "all_fail env fam gs (v # vs) s =
     (case download_and_get_new_agent env fam gs (snd (set_version v s)) of
        (Inl e, t) \<Rightarrow> if is_Exception e then all_fail env fam gs vs t else None
      | (Inr _, _) \<Rightarrow> None)"

lemma try_candidates_Some:
  "try_candidates env fam gs vs s = (Inr (Some a), t) \<Longrightarrow>
   \<exists>pre v post u. vs = pre @ v # post \<and> all_fail env fam gs pre s = Some u \<and>
     download_and_get_new_agent env fam gs (snd (set_version v u)) = (Inr a, t)"
proof (induction vs arbitrary: s)
  case (Cons v vs)
  obtain r u where dl: "download_and_get_new_agent env fam gs (snd (set_version v s)) = (r, u)" by fastforce
  have step: "try_candidates env fam gs (v # vs) s =
      tryM (bindM (download_and_get_new_agent env fam gs) (\<lambda>a. returnM (Some a)))
          (\<lambda>e. if is_Exception e \<and> vs \<noteq> [] then Some (try_candidates env fam gs vs) else None) (snd (set_version v s))"
    by (simp add: thenM_def bindM_def set_version_def modify_updater_def modifyM_def)
  show ?case
  proof (cases r)
    case (Inr b)
    then have "b = a" "u = t" using Cons.prems dl unfolding step by (simp_all add: tryM_def bindM_def returnM_def)
    then show ?thesis using Inr dl by (intro exI [of _ "[]"]) auto
  next
    case (Inl e)
    then have e: "is_Exception e" and rec: "try_candidates env fam gs vs u = (Inr (Some a), t)"
      using Cons.prems dl unfolding step by (auto simp: tryM_def bindM_def split: if_splits)
    from Cons.IH [OF rec] obtain pre w post u' where "vs = pre @ w # post" "all_fail env fam gs pre u = Some u'"
      "download_and_get_new_agent env fam gs (snd (set_version w u')) = (Inr a, t)" by blast
    then show ?thesis using e dl Inl by (intro exI [of _ "v # pre"]) auto
  qed
qed (simp add: returnM_def)

lemma sort_versions_desc_set: "sort_versions_desc key xs = Inr ys \<Longrightarrow> set ys = set xs"
  by (auto simp: sort_versions_desc_def split: if_splits)

lemma set_version_simps [simp]:
  "u_version (us_updater (snd (set_version v s))) = v" "u_mode (us_updater (snd (set_version v s))) = u_mode (us_updater s)"
  by (simp_all add: set_version_def modify_updater_def modifyM_def)

lemma retrieve_sorted_Inr:
  assumes "retrieve_sorted_agent_versions fam gs s = (Inr vs, t)"
  obtains ps ws where "gs_agent_manifest gs fam = Inr ps" "mapR (\<lambda>p. FlexibleVersion (pkg_version p)) ps = Inr ws"
    "sort_versions_desc (\<lambda>v. v) ws = Inr vs"
  using assms
  by (auto simp: retrieve_sorted_agent_versions_def bindM_def thenM_def liftR_def modify_updater_def modifyM_def bindR_eq_Inr
      split: sum.splits)

lemma self_retrieve_Some:
  assumes "self_retrieve_and_download_agent env fam gs s = (Inr (Some a), t)"
  obtains vs t1 cs u where "retrieve_sorted_agent_versions fam gs s = (Inr vs, t1)"
    "filterR (\<lambda>v. version_gt v (ue_current env)) vs = Inr cs"
    "try_candidates env fam gs cs u = (Inr (Some a), t)"
  using assms unfolding self_retrieve_and_download_agent_def Let_def
  by (elim bindM_InrE thenM_InrE) (auto simp: returnM_def liftR_def elim!: bindM_InrE split: if_splits)


lemma sorted_versions_in_manifest:
  assumes "retrieve_sorted_agent_versions fam gs s = (Inr vs, t)" and "v \<in> set vs"
  shows "\<exists>ps. gs_agent_manifest gs fam = Inr ps \<and> (\<exists>p\<in>set ps. FlexibleVersion (pkg_version p) = Inr v)"
  using assms(1)
proof (rule retrieve_sorted_Inr)
  fix ps ws
  assume ps: "gs_agent_manifest gs fam = Inr ps" and ws: "mapR (\<lambda>p. FlexibleVersion (pkg_version p)) ps = Inr ws"
    and "sort_versions_desc (\<lambda>v. v) ws = Inr vs"
  then have "v \<in> set ws" using assms(2) sort_versions_desc_set by metis
  with ws ps show ?thesis by (blast dest: mapR_Inr_in_set)
qed

interpretation self_updater: version_updater self_retrieve_and_download_agent self_proceed_with_update self_permitted
proof
  show "plain_network env gs \<Longrightarrow> plain (self_retrieve_and_download_agent env fam gs)" for env gs fam
    by (rule plain_self_retrieve)
  show "self_permitted env fam gs (u_version (us_updater t)) \<and> version_eq (ga_version a) (u_version (us_updater t)) = Inr True"
    if "self_retrieve_and_download_agent env fam gs s = (Inr (Some a), t)" for env fam gs s a t
    using that
  proof (rule self_retrieve_Some)
    fix vs t1 cs u
    assume vs: "retrieve_sorted_agent_versions fam gs s = (Inr vs, t1)"
      and cs: "filterR (\<lambda>v. version_gt v (ue_current env)) vs = Inr cs"
      and "try_candidates env fam gs cs u = (Inr (Some a), t)"
    from try_candidates_Some [OF this(3)] obtain pre v post u' where split: "cs = pre @ v # post"
      and dl: "download_and_get_new_agent env fam gs (snd (set_version v u')) = (Inr a, t)" by blast
    from split have v: "v \<in> set cs" by simp
    from v filterR_Inr [OF cs] have "v \<in> set vs" "version_gt v (ue_current env) = Inr True" by auto
    with sorted_versions_in_manifest [OF vs] download_result [OF dl] show ?thesis by (simp add: self_permitted_def)
  qed
  show "x = version_str (u_version (us_updater s))"
    if exit: "self_proceed_with_update env s = (Inl (AgentUpgradeExitException x), t)" for env s x t
  proof -
    obtain newer where "version_gt (u_version (us_updater s)) (ue_current env) = Inr newer"
      using exit plainR_version_cmp(2) [of "u_version (us_updater s)" "ue_current env"]
      by (cases "version_gt (u_version (us_updater s)) (ue_current env)") (auto simp: self_proceed_with_update_def bindM_def)
    with exit show ?thesis by (cases newer) (auto simp: self_proceed_with_update_def op_defs)
  qed
qed

section \<open>A run of the handler\<close>

lemma plain_get_family [plain_intros]: "plainR (get_agent_family_manifest env gs)"
  by (simp add: get_agent_family_manifest_def Let_def split: list.splits)

lemma plain_rsm_enabled [plain_intros]: "plainR (is_rsm_update_enabled env mode fam ext)"
  by (simp add: is_rsm_update_enabled_def rsm_is_rsm_update_enabled_def self_is_rsm_update_enabled_def
      split: update_mode.splits option.splits bool.splits)

lemma plain_switch_updater [plain_intros]: "plain (switch_updater env fam ext)"
  unfolding switch_updater_def remove_rsm_update_state_file_def save_rsm_update_state_file_def
  by (intro plain_intros)

lemma plain_signature_event [plain_intros]: "plain_errors (ue_sig env) \<Longrightarrow> plain (send_agent_signature_event env gs fam)"
  unfolding send_agent_signature_event_def build_agent_signature_telemetry_data_def comp_def
  by (intro plain_intros; auto intro!: plain_intros split: if_splits)

lemma plain_update_allowed [plain_intros]: "plain (is_update_allowed_this_time env ext)"
  unfolding is_update_allowed_this_time_def should_agent_attempt_manifest_download_def Let_def
  by (rule plain_bindM [OF plain_getM]) (auto intro!: plain_intros split: update_mode.splits)

text \<open>
  A version the handler may install: in mode RSM, the version an RSM goal state asks for, not below the
  daemon, and a downgrade only from the version the goal state names; in mode self-update, a version of
  the manifest above the running one.
\<close>

definition permitted_update :: "update_env \<Rightarrow> update_mode \<Rightarrow> agent_family \<Rightarrow> update_goal_state \<Rightarrow> flexible_version \<Rightarrow> bool" where
  "permitted_update env mode = (case mode of RSM \<Rightarrow> rsm_permitted env | SelfUpdate \<Rightarrow> self_permitted env)"

lemma attempt_update_with_exit:
  assumes "plain_network env gs" and "attempt_update_with mode env fam gs s = (Inl (AgentUpgradeExitException x), t)"
  shows "\<exists>v. permitted_update env mode fam gs v \<and> x = version_str v"
proof (cases mode)
  case RSM
  with assms show ?thesis
    using rsm_updater.attempt_exit [of env gs fam s x t] by (auto simp: attempt_update_with_def permitted_update_def)
next
  case SelfUpdate
  with assms show ?thesis
    using self_updater.attempt_exit [of env gs fam s x t] by (auto simp: attempt_update_with_def permitted_update_def)
qed


lemma update_allowed_rsm:
  assumes "is_update_allowed_this_time env ext u = (Inr True, u')"
  shows "get_current_update_mode u' = RSM \<longrightarrow> ext"
proof (cases "u_mode (us_updater u)")
  case SelfUpdate
  with assms show ?thesis
    by (auto simp: is_update_allowed_this_time_def should_agent_attempt_manifest_download_def op_defs
         modify_updater_def get_current_update_mode_def Let_def split: if_splits)
qed (use assms in \<open>auto simp: is_update_allowed_this_time_def op_defs get_current_update_mode_def\<close>)

lemma update_body_exit:
  assumes net: "plain_network env gs"
    and exit: "update_body env gs ext s = (Inl (AgentUpgradeExitException x), t)"
  shows "ue_auto_update env \<and> (\<exists>fam mode v. get_agent_family_manifest env gs = Inr fam \<and> permitted_update env mode fam gs v \<and>
    (mode = RSM \<longrightarrow> ext) \<and> x = version_str v)"
proof -
  have ne: "\<not> is_Exception (AgentUpgradeExitException x)" by simp
  have auto: "ue_auto_update env" using exit by (auto simp: update_body_def modifyM_def split: if_splits)
  have sync: "plain (whenM ext (thenM (modifyM (\<lambda>s. s\<lparr>us_last_error := '''', us_gs_id := gs_id gs\<rparr>)) (sync_new_gs_id (gs_id gs))))"
    unfolding sync_new_gs_id_def by (intro plain_intros)
  let ?tail = "\<lambda>fam b. if \<not> b then returnM () else bindM (getM get_current_update_mode) (\<lambda>mode. attempt_update_with mode env fam gs)"
  obtain s1 where s1: "bindM (liftR (get_agent_family_manifest env gs)) (\<lambda>fam.
           bindM (getM is_initial_update) (\<lambda>initial.
           thenM (whenM (\<not> initial) (switch_updater env fam ext))
          (thenM (whenM ext (send_agent_signature_event env gs fam))
          (bindM (is_update_allowed_this_time env ext) (?tail fam))))) s1 = (Inl (AgentUpgradeExitException x), t)"
    using exit auto ne by (auto simp: update_body_def elim: thenM_exit [OF sync])
  obtain fam s2 where fam: "get_agent_family_manifest env gs = Inr fam"
    and s2: "thenM (whenM (\<not> is_initial_update s2) (switch_updater env fam ext))
          (thenM (whenM ext (send_agent_signature_event env gs fam))
          (bindM (is_update_allowed_this_time env ext) (?tail fam))) s2 = (Inl (AgentUpgradeExitException x), t)"
    by (rule bindM_exit [OF plain_liftR [OF plain_get_family] s1 ne]) (auto simp: liftR_def bindM_getM)
  obtain s3 where s3: "thenM (whenM ext (send_agent_signature_event env gs fam))
          (bindM (is_update_allowed_this_time env ext) (?tail fam)) s3 = (Inl (AgentUpgradeExitException x), t)"
    by (rule thenM_exit [OF plain_whenM [OF plain_switch_updater] s2 ne])
  obtain u where u0: "bindM (is_update_allowed_this_time env ext) (?tail fam) u = (Inl (AgentUpgradeExitException x), t)"
    by (rule thenM_exit [OF plain_whenM [OF plain_signature_event [OF plain_networkD(3) [OF net]]] s3 ne])
  obtain b u' where u: "is_update_allowed_this_time env ext u = (Inr b, u')"
      "?tail fam b u' = (Inl (AgentUpgradeExitException x), t)"
    by (rule bindM_exit [OF plain_update_allowed u0 ne])
  then have allowed: "is_update_allowed_this_time env ext u = (Inr True, u')"
    and att: "attempt_update_with (get_current_update_mode u') env fam gs u' = (Inl (AgentUpgradeExitException x), t)"
    by (cases b; simp add: bindM_getM returnM_def)+
  have "get_current_update_mode u' = RSM \<longrightarrow> ext"
    using allowed by (rule update_allowed_rsm)
  then show ?thesis using auto fam attempt_update_with_exit [OF net att] by blast
qed


lemma run_update_result:
  "fst (run_update env gs ext s) = (case fst (update_body env gs ext s) of
     Inl e \<Rightarrow> if is_Exception e then Inr () else Inl e | Inr _ \<Rightarrow> Inr ())"
  by (auto simp: run_update_def finallyM_def tryM_def bindM_def getM_def whenM_def modifyM_def returnM_def
      save_initial_update_state_file_def split: prod.splits sum.splits)

section \<open>Properties\<close>



definition sample_update_env :: update_env where
  "sample_update_env = \<lparr>ue_disk = sample_disk, ue_sig = sample_sig_env, ue_now = 5, ue_random = (\<lambda>_. 0), ue_auto_update = True,
     ue_ga_versioning = True, ue_family = ''Prod'', ue_hotfix_frequency = 14400, ue_regular_frequency = 86400,
     ue_autoupdate_frequency = 3600, ue_current = sample_agent_version, ue_daemon = numeric_version [2, 2, 53],
     ue_download = (\<lambda>name _ _ _ es. (Inr (), (name, AgentDir sample_files_dir) # es)), ue_format_exception = (\<lambda>_. [])\<rparr>"

definition sample_family :: agent_family where
  "sample_family = \<lparr>af_name = ''Prod'', af_version = Some ''2.8.0.0'', af_from_version = Some ''2.9.0.4'',
     af_is_version_from_rsm = Some True, af_is_vm_enabled_for_rsm_upgrades = Some True, af_signatures = [],
     af_uris = [''https://host/manifest'']\<rparr>"

definition sample_update_gs :: update_goal_state where
  "sample_update_gs = \<lparr>gs_id = ''gs1'', gs_agent_families = [sample_family], gs_supports_signature_mapping = False,
     gs_fast_track = True,
     gs_agent_manifest = (\<lambda>_. Inr [\<lparr>pkg_version = ''2.8.0.0'', pkg_uris = []\<rparr>, \<lparr>pkg_version = ''2.9.1.1'', pkg_uris = []\<rparr>])\<rparr>"

definition sample_update_state :: update_state where
  "sample_update_state = handler_init sample_lib sample_sig_state"

lemma sample_network: "plain_network sample_update_env sample_update_gs"
  using sample_plain by (simp add: plain_network_def sample_update_env_def sample_update_gs_def)

lemma sample_rsm_exit: "fst (run_update sample_update_env sample_update_gs True sample_update_state) = Inl (AgentUpgradeExitException ''2.8.0.0'')"
  by code_simp

lemma sample_self_exit: "fst (run_update sample_update_env sample_update_gs False sample_update_state) = Inl (AgentUpgradeExitException ''2.9.1.1'')"
  by code_simp



text \<open>
  The states of the handler's process over time: it starts on a disk with no updater state file, runs with
  any goal states and surroundings in which the two state files can be written, and is restarted from what is on disk.
\<close>

definition state_files_work :: "update_env \<Rightarrow> bool" where
  "state_files_work env \<longleftrightarrow> file_writable (ue_disk env) ''waagent_rsm_update'' \<and> entry_removable (ue_disk env) ''waagent_rsm_update''"

inductive handler_reach :: "update_state \<Rightarrow> bool" where
  first_boot: "\<not> rsm_update_state_file d \<Longrightarrow> handler_reach (handler_init (d :: lib_state) sig)"
| run: "handler_reach s \<Longrightarrow> state_files_work env \<Longrightarrow> handler_reach (snd (run_update env gs ext s))"
| restart: "handler_reach s \<Longrightarrow> handler_reach (handler_init s sig)"

definition mode_recorded :: "update_state \<Rightarrow> bool" where
  "mode_recorded s \<longleftrightarrow> (u_mode (us_updater s) = RSM \<longleftrightarrow> rsm_update_state_file s) \<and>
     (\<not> initial_update_state_file s \<longrightarrow> \<not> rsm_update_state_file s)"

lemma mode_recorded_frame: "keeps_updater m \<Longrightarrow> preserves mode_recorded m"
  by (auto simp: preserves_def mode_recorded_def)

lemma mode_recorded_updater: "(\<And>u. u_mode (f u) = u_mode u) \<Longrightarrow> preserves mode_recorded (modify_updater f)"
  by (simp add: preserves_def mode_recorded_def modify_updater_def modifyM_def)

lemma recorded_set_version: "preserves mode_recorded (set_version v)"
  unfolding set_version_def by (rule mode_recorded_updater) simp

lemma recorded_download: "preserves mode_recorded (download_and_get_new_agent env fam gs)"
  unfolding download_and_get_new_agent_def fetch_manifest_if_needed_def get_agent_package_signature_def
  by (intro preserves_intros mode_recorded_frame keeps_lift_sig keeps_download_pkg keeps_guest_agent_init mode_recorded_updater;
      auto intro!: preserves_intros split: if_splits)

lemma recorded_try_candidates: "preserves mode_recorded (try_candidates env fam gs vs)"
  by (induction vs) (auto intro!: preserves_intros recorded_set_version recorded_download split: if_splits)

lemma recorded_self_retrieve: "preserves mode_recorded (self_retrieve_and_download_agent env fam gs)"
  unfolding self_retrieve_and_download_agent_def retrieve_sorted_agent_versions_def new_agent_allowed_now_to_update_def Let_def
  by (intro preserves_intros recorded_set_version recorded_try_candidates mode_recorded_updater; simp)

lemma recorded_rsm_retrieve: "preserves mode_recorded (rsm_retrieve_and_download_agent env fam gs)"
  unfolding rsm_retrieve_and_download_agent_def
  by (intro preserves_intros recorded_set_version recorded_download)

lemma keeps_mark_failure: "keeps_updater (agent_mark_failure env b why a)"
  by (auto simp: preserves_def agent_mark_failure_def make_agent_dir_def save_error_def Let_def split: prod.splits sum.splits if_splits)

lemma recorded_rsm_proceed: "preserves mode_recorded (rsm_proceed_with_update env)"
  unfolding rsm_proceed_with_update_def get_available_agents_on_disk_def get_all_agents_on_disk_def
  by (intro preserves_intros mode_recorded_frame keeps_guest_agent_init keeps_mark_failure;
      auto intro!: preserves_intros split: if_splits)

lemma recorded_self_proceed: "preserves mode_recorded (self_proceed_with_update env)"
  unfolding self_proceed_with_update_def by (intro preserves_intros)

lemma recorded_attempt: "preserves mode_recorded (attempt_update_with mode env fam gs)"
  unfolding attempt_update_with_def
  by (cases mode; simp only: update_mode.case attempt_update_def;
      intro preserves_intros mode_recorded_frame keeps_clear_error keeps_inc_count keeps_purge
        recorded_rsm_retrieve recorded_self_retrieve recorded_rsm_proceed recorded_self_proceed)


lemma recorded_switch: "state_files_work env \<Longrightarrow> initial_update_state_file s \<Longrightarrow> mode_recorded s \<Longrightarrow>
   mode_recorded (snd (switch_updater env fam ext s)) \<and> initial_update_state_file (snd (switch_updater env fam ext s))"
  by (cases "is_rsm_update_enabled env (u_mode (us_updater s)) fam ext")
     (auto simp: switch_updater_def op_defs get_current_update_mode_def modify_updater_def new_updater_def state_files_work_def
       remove_rsm_update_state_file_def save_rsm_update_state_file_def mode_recorded_def)

lemma recorded_allowed: "preserves mode_recorded (is_update_allowed_this_time env ext)"
  unfolding is_update_allowed_this_time_def should_agent_attempt_manifest_download_def Let_def
  by (rule preserves_bindM [OF preserves_pure(4)])
     (auto intro!: preserves_intros mode_recorded_updater split: update_mode.splits)

lemma recorded_signature_event: "preserves mode_recorded (send_agent_signature_event env gs fam)"
  unfolding send_agent_signature_event_def
  by (intro preserves_intros mode_recorded_frame keeps_lift_sig) (auto intro!: preserves_intros split: if_splits)

lemma recorded_update_body:
  assumes "state_files_work env"
  shows "preserves mode_recorded (update_body env gs ext)"
proof -
  have switch: "preserves mode_recorded (bindM (getM is_initial_update) (\<lambda>initial.
      thenM (whenM (\<not> initial) (switch_updater env fam ext)) m))" if "preserves mode_recorded m" for fam and m :: "(update_state, unit) op"
  proof (rule preservesI)
    fix s
    assume s: "mode_recorded s"
    show "mode_recorded (snd (bindM (getM is_initial_update) (\<lambda>initial. thenM (whenM (\<not> initial) (switch_updater env fam ext)) m) s))"
    proof (cases "initial_update_state_file s")
      case True
      then show ?thesis using recorded_switch [OF assms True s, of fam ext] that
        by (auto simp: op_defs is_initial_update_def preserves_def split: prod.splits sum.splits)
    next
      case False
      then show ?thesis using s that by (simp add: op_defs is_initial_update_def preserves_def)
    qed
  qed
  show ?thesis
    unfolding update_body_def sync_new_gs_id_def
    by (intro preserves_intros switch recorded_signature_event recorded_allowed recorded_attempt mode_recorded_updater)
       (simp_all add: mode_recorded_def)
qed

lemma recorded_run:
  assumes "state_files_work env"
  shows "preserves mode_recorded (run_update env gs ext)"
  unfolding run_update_def save_initial_update_state_file_def
  by (intro preserves_intros recorded_update_body [OF assms]; (auto intro!: preserves_intros simp: mode_recorded_def split: if_splits)?)

lemma recorded_init: "\<not> rsm_update_state_file d \<or> initial_update_state_file d \<Longrightarrow> mode_recorded (handler_init d sig)"
  by (auto simp: handler_init_def mode_recorded_def new_updater_def is_last_update_with_rsm_def is_initial_update_def)

text \<open>
  C10: Whatever goal states the handler has processed, as long as its state files can be written, a restart
  of the process takes up the update mode it was in: the mode in memory is always the one on disk.
\<close>

theorem restart_restores_mode:
  assumes "handler_reach s"
  shows "get_current_update_mode (handler_init s sig) = get_current_update_mode s"
proof -
  from assms have "mode_recorded s"
  proof induction
    case (first_boot d sig)
    then show ?case by (simp add: recorded_init)
  next
    case (run s env gs ext)
    then show ?case using preservesD [OF recorded_run] by blast
  next
    case (restart s sig)
    then show ?case by (intro recorded_init) (auto simp: mode_recorded_def)
  qed
  then show ?thesis
    by (cases "u_mode (us_updater s)") (auto simp: handler_init_def mode_recorded_def new_updater_def is_last_update_with_rsm_def
        is_initial_update_def get_current_update_mode_def)
qed

theorem restart_restores_mode_witness:
  "get_current_update_mode (handler_init (snd (run_update sample_update_env sample_update_gs True sample_update_state)) sample_sig_state) =
   get_current_update_mode (snd (run_update sample_update_env sample_update_gs True sample_update_state))"
proof (rule restart_restores_mode)
  have "handler_reach sample_update_state"
    unfolding sample_update_state_def by (rule first_boot) (simp add: sample_lib_def)
  moreover have "state_files_work sample_update_env"
    by (simp add: state_files_work_def sample_update_env_def sample_disk_def)
  ultimately show "handler_reach (snd (run_update sample_update_env sample_update_gs True sample_update_state))" by (rule run)
qed


lemma purge_entry_state:
  assumes "entry_removable env n"
  shows "purge_entry env known n s =
    (Inr (), if is_unknown_agent known n = Inr True then s\<lparr>lib_entries := AList.delete n (lib_entries s)\<rparr> else s)"
proof -
  have "plainR (is_unknown_agent known n)" unfolding is_unknown_agent_def by (intro plain_intros) simp
  then show ?thesis using assms
    by (cases "is_unknown_agent known n") (auto simp: purge_entry_def remove_entry_def op_defs)
qed

lemma forM_purge:
  assumes "\<forall>n. entry_removable env n"
  shows "forM ns (purge_entry env known) s = (Inr (), s\<lparr>lib_entries :=
    filter (\<lambda>(n, _). n \<notin> set ns \<or> is_unknown_agent known n \<noteq> Inr True) (lib_entries s)\<rparr>)"
proof (induction ns arbitrary: s)
  case (Cons n ns)
  then show ?case using assms
    by (auto simp: thenM_def bindM_def purge_entry_state AList.delete_eq intro!: arg_cong [of _ _ "\<lambda>es. s\<lparr>lib_entries := es\<rparr>"] filter_cong)
qed (simp add: returnM_def case_prod_unfold)


definition sample_crowded :: update_state where
  "sample_crowded = sample_update_state\<lparr>us_updater := (us_updater sample_update_state)\<lparr>u_version := numeric_version [2, 9, 1, 1]\<rparr>,
     lib_entries := [(''WALinuxAgent-2.9.1.1'', AgentDir no_files), (''WALinuxAgent-2.7.0.0'', AgentDir no_files),
       (''WALinuxAgent-2.9.0.4.zip'', PlainFile), (''WALinuxAgent-2.7.0.0.zip'', PlainFile), (''WALinuxAgent-old'', PlainFile)]\<rparr>"


text \<open>The instants, of those at which the self-updater is asked, at which it may download the manifest.\<close>

fun download_times :: "update_env \<Rightarrow> int list \<Rightarrow> update_state \<Rightarrow> int list" where
  "download_times env [] s = []"
| "download_times env (t # ts) s = (case should_agent_attempt_manifest_download (env\<lparr>ue_now := t\<rparr>) s of
     (r, s') \<Rightarrow> if r = Inr True then t # download_times env ts s' else download_times env ts s')"

lemma should_attempt:
  "should_agent_attempt_manifest_download (env\<lparr>ue_now := t\<rparr>) s =
   (case u_last_manifest_download (us_updater s) of
      Some l \<Rightarrow> if t < l + seconds (ue_autoupdate_frequency env) then (Inr False, s)
                else (Inr True, snd (modify_updater (u_last_manifest_download_update (\<lambda>_. Some t)) s))
    | None \<Rightarrow> (Inr True, snd (modify_updater (u_last_manifest_download_update (\<lambda>_. Some t)) s)))"
  by (simp add: should_agent_attempt_manifest_download_def op_defs modify_updater_def Let_def split: option.splits)

lemma download_times_after:
  assumes "0 \<le> ue_autoupdate_frequency env"
  shows "u_last_manifest_download (us_updater s) = Some l \<Longrightarrow>
    sorted_wrt (\<lambda>a b. a + seconds (ue_autoupdate_frequency env) \<le> b) (l # download_times env ts s)"
proof (induction ts arbitrary: s l)
  case (Cons t ts)
  have nonneg: "0 \<le> seconds (ue_autoupdate_frequency env)" using assms by (simp add: seconds_def)
  show ?case
  proof (cases "t < l + seconds (ue_autoupdate_frequency env)")
    case False
    have "sorted_wrt (\<lambda>a b. a + seconds (ue_autoupdate_frequency env) \<le> b)
        (t # download_times env ts (snd (modify_updater (u_last_manifest_download_update (\<lambda>_. Some t)) s)))"
      by (rule Cons.IH) (simp add: modify_updater_def modifyM_def)
    then show ?thesis using False nonneg Cons.prems by (fastforce simp: should_attempt)
  qed (use Cons in \<open>simp add: should_attempt\<close>)
qed simp



end
