(* ===== verification/Text_Util.thy ===== *)
theory Text_Util
  imports Py_Text "HOL-Library.Word"
begin

unbundle bit_operations_syntax

text \<open>
  \<^verbatim>\<open>azurelinuxagent/common/utils/textutil.py\<close>: the helpers on strings and byte arrays. A byte
  array is an \<open>8 word list\<close>, so that shifts and masks are those of the interpreter on bytes; the
  numbers built from bytes are unbounded integers, as Python's are.
\<close>

section \<open>Bytes\<close>

type_synonym bytes = "8 word list"

fun unpack :: "bytes \<Rightarrow> nat \<Rightarrow> nat list \<Rightarrow> int res" where
  "unpack buf offset value_range =
     foldl (\<lambda>acc i. bindR acc (\<lambda>result.
         if offset + i < length buf then Inr (push_bit 8 result OR uint (buf ! (offset + i))) else Inl IndexError))
       (Inr 0) value_range"

definition unpack_little_endian :: "bytes \<Rightarrow> nat \<Rightarrow> nat \<Rightarrow> int res" where
  "unpack_little_endian buf offset n = unpack buf offset (rev [0..<n])"

definition unpack_big_endian :: "bytes \<Rightarrow> nat \<Rightarrow> nat \<Rightarrow> int res" where
  "unpack_big_endian buf offset n = unpack buf offset [0..<n]"

definition hex_digit :: "nat \<Rightarrow> char" where
  "hex_digit n = (if n < 10 then char_of (48 + n) else char_of (55 + n))"

definition hex_byte :: "8 word \<Rightarrow> string" where
  "hex_byte b = [hex_digit (unat b div 16), hex_digit (unat b mod 16)]"

definition hex_dump3 :: "bytes \<Rightarrow> nat \<Rightarrow> nat \<Rightarrow> string" where
  "hex_dump3 buf offset n = concat (map hex_byte (take n (drop offset buf)))"

definition hex_dump2 :: "bytes \<Rightarrow> string" where
  "hex_dump2 buf = hex_dump3 buf 0 (length buf)"

definition is_in_range :: "'a::ord \<Rightarrow> 'a \<Rightarrow> 'a \<Rightarrow> bool" where
  "is_in_range a low high \<longleftrightarrow> low \<le> a \<and> a \<le> high"

definition is_printable :: "8 word \<Rightarrow> bool" where
  "is_printable ch \<longleftrightarrow> is_in_range ch 65 90 \<or> is_in_range ch 97 122 \<or> is_in_range ch 48 57"

text \<open>\<^verbatim>\<open>"%06X" % n\<close>\<close>

fun hex_nat :: "nat \<Rightarrow> string" where
  "hex_nat n = (if n < 16 then [hex_digit n] else hex_nat (n div 16) @ [hex_digit (n mod 16)])"

declare hex_nat.simps [simp del]

definition hex_offset :: "nat \<Rightarrow> string" where
  "hex_offset n = (let h = hex_nat n in replicate (6 - length h) (CHR ''0'') @ h)"

text \<open>The blanks that fill the last line of a dump.\<close>

function hex_fill :: "nat \<Rightarrow> string" where
  "hex_fill j = (if Suc j mod 16 \<noteq> 0 then ''   '' @ (if j AND 7 = 7 then '' '' else '''') @ hex_fill (Suc j) else '''')"
  by pat_completeness auto
termination by (relation "measure (\<lambda>j. 15 - j mod 16)") (simp_all add: mod_Suc split: if_splits)

declare hex_fill.simps [simp del]

definition hex_dump_step :: "bytes \<Rightarrow> nat \<Rightarrow> nat \<Rightarrow> string" where
  "hex_dump_step buf sz i =
     (if i mod 16 = 0 then hex_offset i @ '': '' else '''') @ hex_byte (buf ! i) @ '' '' @ (if i AND 15 = 7 then '' '' else '''') @
     (if Suc i mod 16 = 0 \<or> Suc i = sz
      then hex_fill i @ '' '' @ map (\<lambda>j. if is_printable (buf ! j) then char_of (unat (buf ! j)) else CHR ''.'') [i - i mod 16..<Suc i] @
           (if Suc i \<noteq> sz then [CHR 0x0A] else '''')
      else '''')"

fun hex_dump_from :: "bytes \<Rightarrow> nat \<Rightarrow> nat list \<Rightarrow> string res" where
  "hex_dump_from buf sz [] = Inr ''''"
| "hex_dump_from buf sz (i # is) =
     (if length buf \<le> i then Inl IndexError
      else bindR (hex_dump_from buf sz is) (\<lambda>rest. Inr (hex_dump_step buf sz i @ rest)))"

definition hex_dump :: "bytes \<Rightarrow> int \<Rightarrow> string res" where
  "hex_dump buf sz = (let n = (if sz < 0 then length buf else nat sz) in hex_dump_from buf n [0..<n])"

fun compare_bytes_from :: "bytes \<Rightarrow> bytes \<Rightarrow> nat list \<Rightarrow> bool res" where
  "compare_bytes_from a b [] = Inr True"
| "compare_bytes_from a b (i # is) =
     (if length a \<le> i \<or> length b \<le> i then Inl IndexError
      else if a ! i \<noteq> b ! i then Inr False
      else compare_bytes_from a b is)"

definition compare_bytes :: "bytes \<Rightarrow> bytes \<Rightarrow> nat \<Rightarrow> nat \<Rightarrow> bool res" where
  "compare_bytes a b start n = compare_bytes_from a b [start..<start + n]"

definition int_to_ip4_addr :: "int \<Rightarrow> string" where
  "int_to_ip4_addr a =
     nat_str (nat (drop_bit 24 a AND 255)) @ ''.'' @ nat_str (nat (drop_bit 16 a AND 255)) @ ''.'' @
     nat_str (nat (drop_bit 8 a AND 255)) @ ''.'' @ nat_str (nat (a AND 255))"

text \<open>
  \<^verbatim>\<open>int(s, 16)\<close> of a two character piece. Besides two hex digits Python accepts a digit with a
  sign before it or white space around it; a negative value then does not fit \<^verbatim>\<open>struct.pack("B", ...)\<close>
  (\<^verbatim>\<open>struct.error\<close>).
\<close>

definition hex_val :: "char \<Rightarrow> nat option" where
  "hex_val c = (let n = of_char c :: nat in
     if 48 \<le> n \<and> n \<le> 57 then Some (n - 48)
     else if 65 \<le> n \<and> n \<le> 70 then Some (n - 55)
     else if 97 \<le> n \<and> n \<le> 102 then Some (n - 87) else None)"

definition hex_piece :: "char \<Rightarrow> char \<Rightarrow> int res" where
  "hex_piece c d = (case (hex_val c, hex_val d) of
     (Some h, Some l) \<Rightarrow> Inr (int (16 * h + l))
   | (None, Some l) \<Rightarrow> if c = CHR ''-'' then Inr (- int l)
                       else if c = CHR ''+'' \<or> is_space c then Inr (int l) else Inl ValueError
   | (Some h, None) \<Rightarrow> if is_space d then Inr (int h) else Inl ValueError
   | _ \<Rightarrow> Inl ValueError)"

fun hexstr_to_bytearray :: "string \<Rightarrow> bytes res" where
  "hexstr_to_bytearray (c # d # s) =
     bindR (hex_piece c d) (\<lambda>v.
       if v < 0 then Inl (OtherError ''struct.error'')
       else bindR (hexstr_to_bytearray s) (\<lambda>bs. Inr (word_of_int v # bs)))"
| "hexstr_to_bytearray _ = Inr []"

section \<open>Configuration files\<close>

text \<open>
  The loop of \<^verbatim>\<open>set_ssh_config\<close>: \<open>ms\<close> is \<^verbatim>\<open>match_start\<close> (\<open>None\<close> for
  \<^verbatim>\<open>no_match\<close>), \<open>i\<close> the index of the first of the remaining lines.
\<close>

definition ssh_line :: "string \<Rightarrow> string \<Rightarrow> nat \<Rightarrow> nat option \<Rightarrow> bool \<Rightarrow> string \<Rightarrow> string \<times> nat option \<times> bool" where
  "ssh_line name val i ms found l =
     (if startswith l name \<and> ms = None then (name @ '' '' @ val, ms, True)
      else if startswith (lower l) ''match''
        then if startswith (lower l) ''match all'' then (l, None, found)
             else if ms = None then (l, Some i, found) else (l, ms, found)
      else (l, ms, found))"

fun ssh_scan :: "string \<Rightarrow> string \<Rightarrow> nat \<Rightarrow> nat option \<Rightarrow> bool \<Rightarrow> string list \<Rightarrow> string list \<times> nat option \<times> bool" where
  "ssh_scan name val i ms found [] = ([], ms, found)"
| "ssh_scan name val i ms found (l # ls) =
     (case ssh_line name val i ms found l of (l', ms', found') \<Rightarrow>
        (case ssh_scan name val (Suc i) ms' found' ls of (ls', ms'', found'') \<Rightarrow> (l' # ls', ms'', found'')))"

definition list_insert :: "nat \<Rightarrow> 'a \<Rightarrow> 'a list \<Rightarrow> 'a list" where
  "list_insert i x xs = take i xs @ x # drop i xs"

text \<open>When nothing matched in an empty file the loop variable \<^verbatim>\<open>i\<close> is unbound.\<close>

definition set_ssh_config :: "string list \<Rightarrow> string \<Rightarrow> string \<Rightarrow> string list res" where
  "set_ssh_config config name val = (case ssh_scan name val 0 None False config of (config', ms, found) \<Rightarrow>
     if found then Inr config'
     else case ms of
         Some m \<Rightarrow> Inr (list_insert m (name @ '' '' @ val) config')
       | None \<Rightarrow> if config = [] then Inl (OtherError ''UnboundLocalError'')
                 else Inr (list_insert (length config - 1) (name @ '' '' @ val) config'))"

fun replace_first :: "('a \<Rightarrow> bool) \<Rightarrow> 'a \<Rightarrow> 'a list \<Rightarrow> 'a list option" where
  "replace_first p y [] = None"
| "replace_first p y (x # xs) = (if p x then Some (y # xs) else map_option (Cons x) (replace_first p y xs))"

definition set_ini_config :: "string list \<Rightarrow> string \<Rightarrow> string \<Rightarrow> string list" where
  "set_ini_config config name val =
     (let line = name @ ''=\"'' @ val @ ''\"'' in
      case replace_first (\<lambda>l. startswith l (name @ ''='')) line (rev config) of
        Some r \<Rightarrow> rev r
      | None \<Rightarrow> list_insert (length config - 1) line config)"

section \<open>Cleaning text\<close>

definition replace_non_ascii :: "string option \<Rightarrow> string \<Rightarrow> string" where
  "replace_non_ascii incoming replace_char = (case incoming of None \<Rightarrow> []
     | Some s \<Rightarrow> concat (map (\<lambda>c. if 128 < (of_char c :: nat) then replace_char else [c]) s))"

definition byte_is_space :: "8 word \<Rightarrow> bool" where
  "byte_is_space b \<longleftrightarrow> b = 32 \<or> 9 \<le> b \<and> b \<le> 13"

definition remove_bom :: "bytes option \<Rightarrow> bytes option" where
  "remove_bom c = (case c of None \<Rightarrow> None | Some s \<Rightarrow>
     if \<not> (s = [] \<or> list_all byte_is_space s) \<and> 2 < length s \<and> 128 < s ! 0 \<and> 128 < s ! 1 \<and> 128 < s ! 2
     then Some (drop 3 s) else Some s)"

definition is_str_none_or_whitespace :: "string option \<Rightarrow> bool" where
  "is_str_none_or_whitespace s = (case s of None \<Rightarrow> True | Some t \<Rightarrow> list_all is_space t)"

definition rstrip_blanks :: "string \<Rightarrow> string" where
  "rstrip_blanks s = rev (dropWhile (\<lambda>c. c \<in> set [CHR '' '', CHR 0x09, CHR 0x0D, CHR 0x0A, CHR 0x00]) (rev s))"

definition is_str_empty :: "string option \<Rightarrow> bool" where
  "is_str_empty s \<longleftrightarrow> is_str_none_or_whitespace s \<or> is_str_none_or_whitespace (map_option rstrip_blanks s)"

text \<open>\<open>loads\<close> is \<^verbatim>\<open>json.loads\<close>; nothing to parse gives \<^verbatim>\<open>None\<close>.\<close>

definition parse_json :: "(string \<Rightarrow> 'j res) \<Rightarrow> string option \<Rightarrow> 'j option res" where
  "parse_json loads s =
     (if is_str_empty s then Inr None
      else case s of None \<Rightarrow> Inr None | Some t \<Rightarrow> bindR (loads (rstrip_blanks t)) (\<lambda>j. Inr (Some j)))"

definition get_bytes_from_pem :: "string \<Rightarrow> string" where
  "get_bytes_from_pem pem_str = concat (filter (\<lambda>line. \<not> contains line ''----'') (split_on [CHR 0x0A] pem_str))"

definition is_hex :: "char \<Rightarrow> bool" where
  "is_hex c \<longleftrightarrow> hex_val c \<noteq> None"

function hex_pieces :: "nat \<Rightarrow> string \<Rightarrow> string list" where
  "hex_pieces w s =
     (if w = 0 \<or> length s < w then []
      else if list_all is_hex (take w s) then take w s # hex_pieces w (drop w s)
      else hex_pieces w (tl s))"
  by pat_completeness auto
termination by (relation "measure (length \<circ> snd)") auto

declare hex_pieces.simps [simp del]

definition swap_hexstring :: "string \<Rightarrow> nat \<Rightarrow> string res" where
  "swap_hexstring s width =
     (if width = 0 then Inl ArithmeticError
      else let padded = (if length s mod width \<noteq> 0 then replicate (width - length s mod width) CHR ''0'' @ s else s)
           in Inr (concat (rev (hex_pieces width padded))))"

section \<open>Redacting SAS tokens\<close>

text \<open>
  \<^verbatim>\<open>SAS_TOKEN_RE\<close>. The greedy \<^verbatim>\<open>\S+\?\<close> takes the last question mark of the word behind
  \<^verbatim>\<open>https://\<close> that a token follows. The token ends at a quote, a bracket or white space, where no
  further repetition of the group can start.
\<close>

definition sas_char :: "char \<Rightarrow> bool" where
  "sas_char c \<longleftrightarrow> c \<noteq> CHR 0x22 \<and> c \<noteq> CHR '']'' \<and> \<not> is_space c"

definition sas_token :: "string \<Rightarrow> string option" where
  "sas_token s =
     (if list_ex (\<lambda>k. startswith (lower s) (k @ ''='') \<and> takeWhile sas_char (drop (length k + 1) s) \<noteq> [])
           [''sv'', ''st'', ''se'', ''sr'', ''sp'', ''sip'', ''spr'', ''sig'']
      then Some (dropWhile sas_char s) else None)"

definition sas_match :: "string \<Rightarrow> (string \<times> string) option" where
  "sas_match s =
     (if \<not> startswith (lower s) ''https://'' then None
      else let rest = drop 8 s;
               run = takeWhile (\<lambda>c. \<not> is_space c) rest
           in case filter (\<lambda>k. run ! k = CHR ''?'' \<and> sas_token (drop (Suc k) rest) \<noteq> None) (rev [1..<length run]) of
                [] \<Rightarrow> None
              | k # _ \<Rightarrow> Some (take (9 + k) s, the (sas_token (drop (Suc k) rest))))"

lemma dropWhile_length: "length (dropWhile P xs) \<le> length xs"
  by (induction xs) auto

lemma case_filter_Some:
  "(case filter P xs of [] \<Rightarrow> None | k # _ \<Rightarrow> Some (f k)) = Some y \<Longrightarrow> \<exists>k. P k \<and> y = f k"
  by (auto split: list.splits simp: filter_eq_Cons_iff)

lemma sas_token_shorter: "sas_token t = Some r \<Longrightarrow> length r \<le> length t"
  using dropWhile_length by (auto simp: sas_token_def split: if_splits)

lemma sas_match_shorter:
  assumes "sas_match s = Some (p, r)"
  shows "length r < length s"
proof -
  have "s \<noteq> []" using assms by (auto simp: sas_match_def lower_def)
  from assms obtain k where k: "sas_token (drop (9 + k) s) = Some r"
    by (auto simp: sas_match_def Let_def split: if_splits dest!: case_filter_Some)
  from sas_token_shorter [OF k] have "length r \<le> length s - (9 + k)" by simp
  with \<open>s \<noteq> []\<close> show ?thesis by (cases s) auto
qed

function redact_sas :: "string \<Rightarrow> string" where
  "redact_sas [] = []"
| "redact_sas (c # s) = (case sas_match (c # s) of
     Some (p, r) \<Rightarrow> p @ ''<redacted>'' @ redact_sas r
   | None \<Rightarrow> c # redact_sas s)"
  by pat_completeness auto
termination by (relation "measure length") (auto dest!: sas_match_shorter)

definition redact_sas_token :: "string option \<Rightarrow> string option" where
  "redact_sas_token msg = map_option redact_sas msg"


section \<open>Lemmas\<close>

lemma unpack_append:
  "unpack buf offset (is @ [i]) = bindR (unpack buf offset is) (\<lambda>result.
     if offset + i < length buf then Inr (push_bit 8 result OR uint (buf ! (offset + i))) else Inl IndexError)"
  by simp

declare unpack.simps [simp del]

lemma byte_or: "push_bit 8 x OR uint (b :: 8 word) = 256 * x + uint b"
proof -
  have "push_bit 8 x OR uint b = push_bit 8 x + uint b"
    by (rule disjunctive_add [symmetric]) (auto simp: bit_push_bit_iff bit_uint_iff)
  then show ?thesis by (simp add: push_bit_eq_mult)
qed

definition big_endian_value :: "bytes \<Rightarrow> int" where
  "big_endian_value bs = foldl (\<lambda>acc b. 256 * acc + uint b) 0 bs"

lemma unpack_big_endian_value:
  "offset + n \<le> length buf \<Longrightarrow> unpack_big_endian buf offset n = Inr (big_endian_value (take n (drop offset buf)))"
proof (induction n)
  case (Suc n)
  then have "take (Suc n) (drop offset buf) = take n (drop offset buf) @ [buf ! (offset + n)]"
    by (simp add: take_Suc_conv_app_nth)
  with Suc show ?case
    by (simp add: unpack_big_endian_def unpack_append byte_or big_endian_value_def)
qed (simp add: unpack_big_endian_def unpack.simps big_endian_value_def)

lemma unpack_shift: "unpack buf offset (map ((+) k) is) = unpack buf (offset + k) is"
  by (simp add: unpack.simps foldl_map add.assoc cong: if_cong)

lemma rev_upt_Suc: "rev [0..<Suc n] = map ((+) 1) (rev [0..<n]) @ [0]"
  by (simp add: rev_map [symmetric] map_Suc_upt [symmetric] upt_conv_Cons del: upt_Suc)

lemma unpack_little_endian_value:
  "offset + n \<le> length buf \<Longrightarrow>
   unpack_little_endian buf offset n = Inr (big_endian_value (rev (take n (drop offset buf))))"
proof (induction n arbitrary: offset)
  case (Suc n)
  then have t: "take (Suc n) (drop offset buf) = buf ! offset # take n (drop (Suc offset) buf)"
    by (simp add: Cons_nth_drop_Suc [symmetric])
  from Suc show ?case
    unfolding unpack_little_endian_def t
    by (simp only: rev_upt_Suc unpack_append unpack_shift) (simp add: byte_or big_endian_value_def)
qed (simp add: unpack_little_endian_def unpack.simps big_endian_value_def)

lemma big_endian_value_bounds: "0 \<le> big_endian_value bs \<and> big_endian_value bs < 256 ^ length bs"
proof (induction bs rule: rev_induct)
  case (snoc b bs)
  have "uint b < 256" "0 \<le> uint b" using uint_bounded [of b] by simp_all
  with snoc show ?case by (simp add: big_endian_value_def)
qed (simp add: big_endian_value_def)

lemma hex_val_digit: "n < 16 \<Longrightarrow> hex_val (hex_digit n) = Some n"
  by (auto simp: hex_val_def hex_digit_def Let_def)

lemma hexstr_hex_bytes: "hexstr_to_bytearray (concat (map hex_byte bs)) = Inr bs"
proof (induction bs)
  case (Cons b bs)
  have b: "unat b div 16 < 16" "unat b mod 16 < 16" using unsigned_less [where ?'b = 8 and ?'a = nat, of b] by auto
  have "hex_piece (hex_digit (unat b div 16)) (hex_digit (unat b mod 16)) = Inr (uint b)"
    using b by (simp add: hex_piece_def hex_val_digit)
  then show ?case using Cons by (simp add: hex_byte_def)
qed simp


lemma and_255: "(x :: int) AND 255 = x mod 256"
  using take_bit_eq_mask [of 8 x] by (simp add: take_bit_eq_mod mask_eq_exp_minus_1)

section \<open>Properties\<close>

text \<open>Printing a byte array in hexadecimal and reading it back gives the same bytes.\<close>

theorem hex_dump_roundtrip: "hexstr_to_bytearray (hex_dump2 buf) = Inr buf"
  by (simp add: hex_dump2_def hex_dump3_def hexstr_hex_bytes)

text \<open>
  The four bytes of an address in network order, unpacked into a number and printed, give the
  dotted decimal notation of those bytes.
\<close>

theorem unpacked_address_prints_its_bytes:
  assumes "offset + 4 \<le> length buf"
  shows "\<exists>a. unpack_big_endian buf offset 4 = Inr a \<and>
    int_to_ip4_addr a = join_with ''.'' (map (\<lambda>i. nat_str (unat (buf ! (offset + i)))) [0, 1, 2, 3])"
proof -
  let ?b = "\<lambda>i. uint (buf ! (offset + i))"
  have seg: "take 4 (drop offset buf) = map (\<lambda>i. buf ! (offset + i)) [0, 1, 2, 3]"
    using assms by (intro nth_equalityI) (auto simp: less_Suc_eq numeral_eq_Suc)
  let ?a = "256 * (256 * (256 * ?b 0 + ?b 1) + ?b 2) + ?b 3"
  have a: "unpack_big_endian buf offset 4 = Inr ?a"
    using unpack_big_endian_value [OF assms] by (simp add: seg big_endian_value_def)
  have range: "0 \<le> ?b i \<and> ?b i < 256" for i using uint_bounded [of "buf ! (offset + i)"] by simp
  have div: "drop_bit 8 (256 * x + ?b i) = x" "(256 * x + ?b i) mod 256 = ?b i" "?b i mod 256 = ?b i" for x i
    using range [of i] by (simp_all add: drop_bit_eq_div)
  have shifts: "drop_bit 24 x = drop_bit 8 (drop_bit 8 (drop_bit 8 x))" "drop_bit 16 x = drop_bit 8 (drop_bit 8 x)" for x :: int
    by simp_all
  have "int_to_ip4_addr ?a = join_with ''.'' (map (\<lambda>i. nat_str (nat (?b i))) [0, 1, 2, 3])"
    unfolding int_to_ip4_addr_def shifts and_255 div by (simp add: div(3) [of 0, simplified])
  with a show ?thesis by simp
qed

theorem unpacked_address_prints_its_bytes_witness:
  "\<exists>a. unpack_big_endian [0, 168, 63, 129, 16] 1 4 = Inr a \<and> int_to_ip4_addr a = ''168.63.129.16''"
proof -
  have "join_with ''.'' (map (\<lambda>i. nat_str (unat (([0, 168, 63, 129, 16] :: bytes) ! (1 + i)))) [0, 1, 2, 3]) = ''168.63.129.16''"
    by code_simp
  then show ?thesis using unpacked_address_prints_its_bytes [of 1 "[0, 168, 63, 129, 16]"] by simp
qed

text \<open>The lines of an sshd configuration in effect for every connection: those outside conditional blocks.\<close>

fun global_lines :: "bool \<Rightarrow> string list \<Rightarrow> string list" where
  "global_lines inside [] = []"
| "global_lines inside (l # ls) =
     (if startswith (lower l) ''match'' then global_lines (\<not> startswith (lower l) ''match all'') ls
      else if inside then global_lines inside ls else l # global_lines inside ls)"


fun inside_after :: "bool \<Rightarrow> string list \<Rightarrow> bool" where
  "inside_after inside [] = inside"
| "inside_after inside (l # ls) =
     inside_after (if startswith (lower l) ''match'' then \<not> startswith (lower l) ''match all'' else inside) ls"

lemma global_lines_append: "global_lines b (xs @ ys) = global_lines b xs @ global_lines (inside_after b xs) ys"
  by (induction xs arbitrary: b) auto

lemma inside_after_append: "inside_after b (xs @ ys) = inside_after (inside_after b xs) ys"
  by (induction xs arbitrary: b) auto

lemma startswith_match_all: "startswith l ''match all'' \<Longrightarrow> startswith l ''match''"
  by (auto simp: startswith_iff)

lemma ssh_line_state:
  assumes "\<not> startswith (lower (name @ '' '' @ val)) ''match''" and "ssh_line name val i ms found l = (l', ms', found')"
  shows "(ms' \<noteq> None) = (if startswith (lower l') ''match'' then \<not> startswith (lower l') ''match all'' else ms \<noteq> None)"
    "\<not> startswith (lower l') ''match'' \<Longrightarrow> ms = None \<Longrightarrow> startswith l' name \<Longrightarrow> l' = name @ '' '' @ val"
    "found' \<Longrightarrow> \<not> found \<Longrightarrow> l' = name @ '' '' @ val \<and> ms = None"
    "\<not> found' \<Longrightarrow> \<not> found \<and> l' = l"
    "ms' = Some m \<Longrightarrow> ms = Some m \<or> ms = None \<and> m = i"
  using assms by (auto simp: ssh_line_def split: if_splits dest: startswith_match_all)

lemma ssh_scan_values:
  assumes "\<not> startswith (lower (name @ '' '' @ val)) ''match''"
  shows "ssh_scan name val i ms found ls = (ls', ms', found') \<Longrightarrow> l \<in> set (global_lines (ms \<noteq> None) ls') \<Longrightarrow>
    startswith l name \<Longrightarrow> l = name @ '' '' @ val"
proof (induction ls arbitrary: i ms found ls' ms' found')
  case (Cons k ls)
  obtain k' ms1 found1 where step: "ssh_line name val i ms found k = (k', ms1, found1)" by (metis surj_pair)
  obtain ls2 ms2 found2 where rec: "ssh_scan name val (Suc i) ms1 found1 ls = (ls2, ms2, found2)" by (metis surj_pair)
  have "ls' = k' # ls2" using Cons.prems(1) step rec by auto
  with Cons.IH [OF rec] Cons.prems(2,3) ssh_line_state(1,2) [OF assms step] show ?case by (auto split: if_splits)
qed simp

lemma ssh_scan_found:
  assumes "\<not> startswith (lower (name @ '' '' @ val)) ''match''"
  shows "ssh_scan name val i ms found ls = (ls', ms', True) \<Longrightarrow> \<not> found \<Longrightarrow> name @ '' '' @ val \<in> set (global_lines (ms \<noteq> None) ls')"
proof (induction ls arbitrary: i ms found ls' ms')
  case (Cons k ls)
  obtain k' ms1 found1 where step: "ssh_line name val i ms found k = (k', ms1, found1)" by (metis surj_pair)
  obtain ls2 ms2 where rec: "ssh_scan name val (Suc i) ms1 found1 ls = (ls2, ms2, True)" and out: "ls' = k' # ls2"
    using Cons.prems(1) step by (auto split: prod.splits)
  show ?case
  proof (cases found1)
    case True
    then show ?thesis using ssh_line_state(3) [OF assms step] Cons.prems(2) assms out by auto
  next
    case False
    with Cons.IH [OF rec] ssh_line_state(1) [OF assms step] out show ?thesis by (auto split: if_splits)
  qed
qed simp

lemma ssh_scan_keeps_found: "ssh_scan name val i ms True ls = (ls', ms', found') \<Longrightarrow> found'"
  by (induction ls arbitrary: i ms ls' ms') (auto simp: ssh_line_def split: prod.splits if_splits)

lemma ssh_scan_not_found:
  assumes "\<not> startswith (lower (name @ '' '' @ val)) ''match''"
  shows "ssh_scan name val i ms found ls = (ls', ms', False) \<Longrightarrow>
    ls' = ls \<and> (inside_after (ms \<noteq> None) ls \<longleftrightarrow> ms' \<noteq> None) \<and>
    (\<forall>m. ms' = Some m \<longrightarrow> ms = Some m \<or> i \<le> m \<and> m < i + length ls \<and> \<not> inside_after (ms \<noteq> None) (take (m - i) ls))"
proof (induction ls arbitrary: i ms found ls' ms')
  case (Cons k ls)
  obtain k' ms1 found1 where step: "ssh_line name val i ms found k = (k', ms1, found1)" by (metis surj_pair)
  obtain ls2 where rec: "ssh_scan name val (Suc i) ms1 found1 ls = (ls2, ms', False)" and out: "ls' = k' # ls2"
    using Cons.prems(1) step by (auto split: prod.splits)
  note IH = Cons.IH [OF rec]
  have "\<not> found1" using ssh_scan_keeps_found rec by (metis (full_types))
  then have k: "k' = k" using ssh_line_state(4) [OF assms step] by simp
  have inside: "inside_after (ms \<noteq> None) (k # xs) = inside_after (ms1 \<noteq> None) xs" for xs
    using ssh_line_state(1) [OF assms step] k by simp
  have "ms = Some m \<or> i \<le> m \<and> m < i + length (k # ls) \<and> \<not> inside_after (ms \<noteq> None) (take (m - i) (k # ls))"
    if m: "ms' = Some m" for m
  proof (cases "ms1 = Some m")
    case True
    then show ?thesis using ssh_line_state(5) [OF assms step] by auto
  next
    case False
    with IH m have *: "Suc i \<le> m" "m < Suc i + length ls" "\<not> inside_after (ms1 \<noteq> None) (take (m - Suc i) ls)" by auto
    then have "take (m - i) (k # ls) = k # take (m - Suc i) ls" by (simp add: take_Cons')
    with * show ?thesis by (simp only: inside) simp
  qed
  with IH inside out k show ?case by auto
qed simp

lemma inside_after_butlast:
  assumes "xs \<noteq> []" and "\<not> startswith (lower (last xs)) ''match all''" and "\<not> inside_after False xs"
  shows "\<not> inside_after False (butlast xs)"
proof -
  have "inside_after False (butlast xs @ [last xs]) = inside_after (inside_after False (butlast xs)) [last xs]"
    by (rule inside_after_append)
  then show ?thesis using assms by (simp split: if_splits)
qed

text \<open>
  Setting an option in an sshd configuration puts it in effect: the configuration has a line with the
  new value outside every conditional block, and no line outside them gives the option another value.
  (The last line must not itself close a block: the new line is inserted before it.)
\<close>

theorem ssh_option_takes_effect:
  assumes "config \<noteq> []" and "\<not> startswith (lower (last config)) ''match all''"
    and "\<not> startswith (lower (name @ '' '' @ val)) ''match''"
  shows "\<exists>config'. set_ssh_config config name val = Inr config' \<and> name @ '' '' @ val \<in> set (global_lines False config') \<and>
    (\<forall>l\<in>set (global_lines False config'). startswith l name \<longrightarrow> l = name @ '' '' @ val)"
proof -
  let ?line = "name @ '' '' @ val"
  obtain ls ms found where scan: "ssh_scan name val 0 None False config = (ls, ms, found)" by (metis surj_pair)
  have same: "\<forall>l\<in>set (global_lines False ls). startswith l name \<longrightarrow> l = ?line"
    using ssh_scan_values [OF assms(3) scan] by simp
  show ?thesis
  proof (cases found)
    case True
    with scan have "ssh_scan name val 0 None False config = (ls, ms, True)" by simp
    from ssh_scan_found [OF assms(3) this] have "?line \<in> set (global_lines False ls)" by simp
    moreover have "set_ssh_config config name val = Inr ls" using scan True by (simp add: set_ssh_config_def)
    ultimately show ?thesis using same by blast
  next
    case False
    with scan have "ssh_scan name val 0 None False config = (ls, ms, False)" by simp
    note nf = ssh_scan_not_found [OF assms(3) this]
    let ?i = "case ms of Some m \<Rightarrow> m | None \<Rightarrow> length config - 1"
    have "\<not> inside_after False (take ?i config)"
    proof (cases ms)
      case None
      with nf have "\<not> inside_after False config" by simp
      from inside_after_butlast [OF assms(1,2) this] show ?thesis using None by (simp add: butlast_conv_take)
    next
      case (Some m)
      then show ?thesis using nf by simp
    qed
    then have ins: "global_lines False (list_insert ?i ?line config) =
        global_lines False (take ?i config) @ ?line # global_lines False (drop ?i config)"
      and split: "global_lines False config = global_lines False (take ?i config) @ global_lines False (drop ?i config)"
      using assms(3) global_lines_append [of False "take ?i config" "drop ?i config"]
      by (simp_all add: list_insert_def global_lines_append)
    have "set_ssh_config config name val = Inr (list_insert ?i ?line config)"
      using scan False nf assms(1) by (cases ms) (simp_all add: set_ssh_config_def)
    moreover have "?line \<in> set (global_lines False (list_insert ?i ?line config))" unfolding ins by simp
    moreover have "\<forall>l\<in>set (global_lines False (list_insert ?i ?line config)). startswith l name \<longrightarrow> l = ?line"
      using same nf unfolding ins by (simp add: split ball_Un)
    ultimately show ?thesis by blast
  qed
qed

definition sample_sshd :: "string list" where
  "sample_sshd = [''PasswordAuthentication yes'', ''Match User git'', ''PasswordAuthentication no'', '''']"

theorem ssh_option_takes_effect_witness:
  "\<exists>config'. set_ssh_config sample_sshd ''ClientAliveInterval'' ''180'' = Inr config' \<and>
     ''ClientAliveInterval 180'' \<in> set (global_lines False config')"
  using ssh_option_takes_effect [of sample_sshd "''ClientAliveInterval''" "''180''"]
  by (auto simp: sample_sshd_def lower_def lower_char_def)

text \<open>
  \<^verbatim>\<open>remove_bom\<close>, documented to remove the UTF-8 byte order mark, removes any three leading
  bytes above 128: the first character of a text that starts with a three byte character and has no mark.
\<close>

theorem remove_bom_drops_first_character:
  "remove_bom (Some ([0xE4, 0xB8, 0xAD] @ rest)) = Some rest \<and> [0xE4, 0xB8, 0xAD] \<noteq> ([0xEF, 0xBB, 0xBF] :: bytes)"
  by (simp add: remove_bom_def byte_is_space_def)

end
