(* ===== verification/Rest_Util.thy ===== *)
theory Rest_Util
  imports Text_Util "HOL-Library.AList"
begin

text \<open>
  \<^verbatim>\<open>azurelinuxagent/common/utils/restutil.py\<close>: whether a request goes through the proxy, and the
  retry loop around every HTTP request. One exchange with a server (\<^verbatim>\<open>_http_request\<close>, i.e. Python's
  \<^verbatim>\<open>http.client\<close>) is the parameter \<open>exchange\<close>, which answers for each attempt and timeout;
  \<open>http_state\<close> records what the loop does besides: the delays it sleeps and the I/O errors it counts.
\<close>

section \<open>IPv4 addresses\<close>

text \<open>
  \<^verbatim>\<open>socket.inet_aton\<close>: one to four numbers in C notation, the last of which fills the remaining
  bytes; text after white space is ignored.
\<close>

definition octal_val :: "char \<Rightarrow> nat option" where
  "octal_val c = (if is_digit c \<and> digit_val c < 8 then Some (digit_val c) else None)"

definition dec_val :: "char \<Rightarrow> nat option" where
  "dec_val c = (if is_digit c then Some (digit_val c) else None)"

definition num_in_base :: "nat \<Rightarrow> (char \<Rightarrow> nat option) \<Rightarrow> string \<Rightarrow> nat option" where
  "num_in_base b val s =
     (if s = [] then None
      else foldl (\<lambda>acc c. Option.bind acc (\<lambda>n. map_option (\<lambda>d. b * n + d) (val c))) (Some 0) s)"

definition c_number :: "string \<Rightarrow> nat option" where
  "c_number s =
     (if startswith s ''0x'' \<or> startswith s ''0X'' then num_in_base 16 hex_val (drop 2 s)
      else if startswith s ''0'' then num_in_base 8 octal_val s
      else num_in_base 10 dec_val s)"

definition is_c_space :: "char \<Rightarrow> bool" where
  "is_c_space c \<longleftrightarrow> c = CHR '' '' \<or> 9 \<le> (of_char c :: nat) \<and> (of_char c :: nat) \<le> 13"

fun address_of_parts :: "nat list \<Rightarrow> nat option" where
  "address_of_parts [a] = (if a < 2 ^ 32 then Some a else None)"
| "address_of_parts [a, b] = (if a < 256 \<and> b < 2 ^ 24 then Some (a * 2 ^ 24 + b) else None)"
| "address_of_parts [a, b, c] = (if a < 256 \<and> b < 256 \<and> c < 2 ^ 16 then Some (a * 2 ^ 24 + b * 2 ^ 16 + c) else None)"
| "address_of_parts [a, b, c, d] = (if a < 256 \<and> b < 256 \<and> c < 256 \<and> d < 256
     then Some (a * 2 ^ 24 + b * 2 ^ 16 + c * 2 ^ 8 + d) else None)"
| "address_of_parts _ = None"

definition map_options :: "('a \<Rightarrow> 'b option) \<Rightarrow> 'a list \<Rightarrow> 'b list option" where
  "map_options f xs = foldr (\<lambda>x acc. Option.bind (f x) (\<lambda>y. map_option (Cons y) acc)) xs (Some [])"

definition inet_aton :: "string \<Rightarrow> 32 word option" where
  "inet_aton s = map_option of_nat
     (Option.bind (map_options c_number (split_on ''.'' (takeWhile (\<lambda>c. \<not> is_c_space c) s))) address_of_parts)"

definition inet_ntoa :: "32 word \<Rightarrow> string" where
  "inet_ntoa w = int_to_ip4_addr (uint w)"

definition is_ipv4_address :: "string \<Rightarrow> bool" where
  "is_ipv4_address s \<longleftrightarrow> inet_aton s \<noteq> None"

text \<open>\<^verbatim>\<open>int(s)\<close>: white space around, a sign, digits with single underscores between them.\<close>

fun digits_with_underscores :: "string \<Rightarrow> nat option" where
  "digits_with_underscores s = (let parts = split_on ''_'' s in
     if list_all (\<lambda>p. p \<noteq> [] \<and> list_all is_digit p) parts then Some (str_nat (concat parts)) else None)"

definition py_int_text :: "string \<Rightarrow> int res" where
  "py_int_text s = (let t = strip s in
     case (if startswith t ''-'' then (- 1, drop 1 t) else if startswith t ''+'' then (1, drop 1 t) else (1, t)) of
       (sg, d) \<Rightarrow> (case digits_with_underscores d of None \<Rightarrow> Inl ValueError | Some n \<Rightarrow> Inr (sg * int n)))"

section \<open>Proxy selection\<close>

definition is_valid_cidr :: "string \<Rightarrow> bool" where
  "is_valid_cidr s = (case split_on ''/'' s of
     [addr, m] \<Rightarrow> (case py_int_text m of
         Inl _ \<Rightarrow> False
       | Inr k \<Rightarrow> \<not> (k < 1 \<or> k > 32) \<and> inet_aton addr \<noteq> None)
   | _ \<Rightarrow> False)"

text \<open>\<^verbatim>\<open>0xffffffff ^ (1 << 32 - mask) - 1\<close>, packed into four bytes.\<close>

definition netmask_bits :: "nat \<Rightarrow> 32 word" where
  "netmask_bits m = 0xFFFFFFFF XOR (push_bit (32 - m) 1 - 1)"

definition dotted_netmask :: "int \<Rightarrow> string res" where
  "dotted_netmask k =
     (if k > 32 then Inl ValueError
      else if k < 0 then Inl (OtherError ''struct.error'')
      else Inr (inet_ntoa (netmask_bits (nat k))))"

text \<open>
  \<^verbatim>\<open>struct.unpack('=L', ...)\<close> reads all the addresses in the same byte order, so masking and
  comparing them is the same as on the numbers in network order.
\<close>

definition aton_or_error :: "string \<Rightarrow> 32 word res" where
  "aton_or_error s = (case inet_aton s of None \<Rightarrow> Inl OSError | Some w \<Rightarrow> Inr w)"

definition address_in_network :: "string \<Rightarrow> string \<Rightarrow> bool res" where
  "address_in_network ip net =
     bindR (aton_or_error ip) (\<lambda>ipaddr.
       (case split_on ''/'' net of
          [netaddr, bits] \<Rightarrow>
            bindR (bindR (py_int_text bits) dotted_netmask) (\<lambda>m.
            bindR (aton_or_error m) (\<lambda>netmask.
            bindR (aton_or_error netaddr) (\<lambda>n.
              let network = n AND netmask in Inr (ipaddr AND netmask = network AND netmask))))
        | _ \<Rightarrow> Inl ValueError))"

text \<open>\<open>no_proxy\<close> is the value of the environment variable, in either case; \<^verbatim>\<open>None\<close> and the empty string mean no exception.\<close>

definition get_no_proxy :: "string option \<Rightarrow> string option \<Rightarrow> string list" where
  "get_no_proxy small capital =
     (let v = (case small of Some t \<Rightarrow> if t \<noteq> '''' then Some t else capital | None \<Rightarrow> capital) in
      case v of None \<Rightarrow> []
      | Some t \<Rightarrow> filter (\<lambda>h. h \<noteq> '''') (split_on '','' (filter (\<lambda>c. c \<noteq> CHR '' '') t)))"

definition endswith :: "string \<Rightarrow> string \<Rightarrow> bool" where
  "endswith s t = startswith (rev s) (rev t)"

fun bypass_ip :: "string \<Rightarrow> string list \<Rightarrow> bool res" where
  "bypass_ip host [] = Inr False"
| "bypass_ip host (p # ps) =
     (if is_valid_cidr p
      then bindR (address_in_network host p) (\<lambda>b. if b then Inr True else bypass_ip host ps)
      else if host = p then Inr True else bypass_ip host ps)"

definition bypass_proxy :: "string list \<Rightarrow> string \<Rightarrow> bool res" where
  "bypass_proxy no_proxy host =
     (if is_ipv4_address host then bypass_ip host no_proxy
      else Inr (list_ex (\<lambda>d. endswith (lower host) (lower d)) no_proxy))"

section \<open>The request loop\<close>

text \<open>The result of \<^verbatim>\<open>urlparse\<close>.\<close>

record parsed_url =
  pu_text :: string
  pu_scheme :: string
  pu_hostname :: "string option"
  pu_port :: "nat option"
  pu_path :: string
  pu_query :: string
  pu_fragment :: string

definition url_secure :: "parsed_url \<Rightarrow> bool" where
  "url_secure o' = (lower (pu_scheme o') = ''https'')"

definition url_rel_uri :: "parsed_url \<Rightarrow> string" where
  "url_rel_uri o' =
     (let rel = (if pu_fragment o' \<noteq> '''' then pu_path o' @ ''#'' @ pu_fragment o' else pu_path o')
      in if pu_query o' \<noteq> '''' then rel @ ''?'' @ pu_query o' else rel)"

definition trim_url_parameters :: "parsed_url \<Rightarrow> string" where
  "trim_url_parameters o' = (case pu_hostname o' of
     None \<Rightarrow> pu_text o'
   | Some h \<Rightarrow> if h = '''' then pu_text o'
       else case pu_port o' of
           Some p \<Rightarrow> if p = 0 then pu_scheme o' @ ''://'' @ h @ pu_path o'
                     else pu_scheme o' @ ''://'' @ h @ '':'' @ nat_str p @ pu_path o'
         | None \<Rightarrow> pu_scheme o' @ ''://'' @ h @ pu_path o')"

record http_conf =
  hf_no_proxy :: "string list"
  hf_conf_proxy :: "(string \<times> nat option) option"
  hf_env_proxy :: "bool \<Rightarrow> parsed_url option"
  hf_allow_http :: bool
  hf_ssl_support :: bool
  hf_tunnel_support :: bool
  hf_user_agent :: string

text \<open>\<^verbatim>\<open>_get_http_proxy\<close>: the configuration wins over the environment variables (small letters first).\<close>

definition get_http_proxy :: "http_conf \<Rightarrow> bool \<Rightarrow> string option \<times> nat option" where
  "get_http_proxy hf secure = (case hf_conf_proxy hf of
     Some (h, p) \<Rightarrow> (Some h, p)
   | None \<Rightarrow> (case hf_env_proxy hf secure of Some u \<Rightarrow> (pu_hostname u, pu_port u) | None \<Rightarrow> (None, None)))"

record http_call =
  hc_method :: string
  hc_url :: parsed_url
  hc_timeout :: nat
  hc_use_proxy :: bool
  hc_max_retry :: nat
  hc_retry_codes :: "nat list"
  hc_retry_delay :: nat
  hc_throttle_delay :: nat
  hc_raw :: bool
  hc_fail_fast :: bool
  hc_data :: "string option"
  hc_headers :: "(string \<times> string) list"
  hc_dumps :: "(string \<times> string) list \<Rightarrow> string"

record http_connection =
  cn_method :: string
  cn_host :: "string option"
  cn_port :: nat
  cn_tunnel :: "(string option \<times> nat) option"
  cn_secure :: bool
  cn_url :: string
  cn_data :: "string option"
  cn_headers :: "(string \<times> string) list"

text \<open>
  \<^verbatim>\<open>_http_request\<close> up to the exchange with the server; \<open>agent\<close> is \<^verbatim>\<open>HTTP_USER_AGENT\<close>.
\<close>

definition request_headers :: "string \<Rightarrow> (string \<times> string) list \<Rightarrow> (string \<times> string) list" where
  "request_headers agent headers =
     (let hs = AList.update ''Connection'' ''close'' headers
      in if ''User-Agent'' \<notin> set (map fst hs) then AList.update ''User-Agent'' agent hs else hs)"

definition http_connection_for ::
  "string \<Rightarrow> http_call \<Rightarrow> bool \<Rightarrow> string option \<times> nat option \<Rightarrow> http_connection" where
  "http_connection_for agent c secure proxy =
     (let u = hc_url c;
          headers = request_headers agent (hc_headers c);
          port = (case pu_port u of Some p \<Rightarrow> p | None \<Rightarrow> if secure then 443 else 80);
          rel = url_rel_uri u;
          host = (case pu_hostname u of Some h \<Rightarrow> h | None \<Rightarrow> ''None'')
      in case proxy of
           (Some ph, Some pp) \<Rightarrow>
             \<lparr>cn_method = hc_method c, cn_host = Some ph, cn_port = pp,
              cn_tunnel = (if secure then Some (pu_hostname u, port) else None), cn_secure = secure,
              cn_url = (if secure then ''https'' else ''http'') @ ''://'' @ host @ '':'' @ nat_str port @ rel,
              cn_data = hc_data c, cn_headers = headers\<rparr>
         | _ \<Rightarrow> \<lparr>cn_method = hc_method c, cn_host = pu_hostname u, cn_port = port, cn_tunnel = None, cn_secure = secure,
              cn_url = rel, cn_data = hc_data c, cn_headers = headers\<rparr>)"

text \<open>\<open>resp_read\<close> is what reading the body gives.\<close>

record http_resp =
  resp_status :: nat
  resp_reason :: string
  resp_read :: "string res"
  resp_headers :: "(string \<times> string) list"

text \<open>How \<^verbatim>\<open>format\<close> prints a \<^verbatim>\<open>bytes\<close> value.\<close>

definition bytes_repr_char :: "char \<Rightarrow> char \<Rightarrow> string" where
  "bytes_repr_char quote c = (let n = (of_char c :: nat) in
     if c = CHR 0x5C \<or> c = quote then [CHR 0x5C, c]
     else if n = 9 then [CHR 0x5C, CHR ''t''] else if n = 10 then [CHR 0x5C, CHR ''n''] else if n = 13 then [CHR 0x5C, CHR ''r'']
     else if n < 32 \<or> 127 \<le> n then [CHR 0x5C, CHR ''x''] @ map lower_char [hex_digit (n div 16), hex_digit (n mod 16)]
     else [c])"

definition bytes_repr :: "string \<Rightarrow> string" where
  "bytes_repr b = (let quote = (if CHR 0x27 \<in> set b \<and> CHR 0x22 \<notin> set b then CHR 0x22 else CHR 0x27)
     in CHR ''b'' # quote # concat (map (bytes_repr_char quote) b) @ [quote])"

definition read_response_error :: "http_resp \<Rightarrow> string" where
  "read_response_error r = (case resp_read r of
     Inl _ \<Rightarrow> ''''
   | Inr body \<Rightarrow>
       replace_non_ascii (Some (filter (\<lambda>ch. (of_char ch :: nat) < 128)
         (''[HTTP Failed] ['' @ nat_str (resp_status r) @ '': '' @ resp_reason r @ ''] '' @ bytes_repr body))) '''')"

datatype exchange_result =
    Answer http_resp
  | HttpFailure bool string
  | IOFailure string
  | Crash exn

type_synonym exchange = "http_connection \<Rightarrow> nat \<Rightarrow> nat \<Rightarrow> exchange_result"

record http_state =
  slept :: "nat list"
  io_endpoint :: string
  io_hostplugin :: nat
  io_protocol :: nat
  io_other :: nat

definition HOST_PLUGIN_PORT :: nat where "HOST_PLUGIN_PORT = 32526"

definition io_error_increment :: "string option \<Rightarrow> nat option \<Rightarrow> http_state \<Rightarrow> http_state" where
  "io_error_increment host port s =
     (if host = Some (io_endpoint s)
      then if port = Some HOST_PLUGIN_PORT then s\<lparr>io_hostplugin := Suc (io_hostplugin s)\<rparr>
           else s\<lparr>io_protocol := Suc (io_protocol s)\<rparr>
      else s\<lparr>io_other := Suc (io_other s)\<rparr>)"

definition io_error_get_and_reset :: "(http_state, nat \<times> nat \<times> nat) op" where
  "io_error_get_and_reset =
     (\<lambda>s. (Inr (io_hostplugin s, io_protocol s, io_other s), s\<lparr>io_hostplugin := 0, io_protocol := 0, io_other := 0\<rparr>))"

definition RETRY_CODES :: "nat list" where
  "RETRY_CODES = [205, 206, 403, 500, 501, 502, 503, 504, 507, 429]"

definition HGAP_RETRY_CODES :: "nat list" where
  "HGAP_RETRY_CODES = RETRY_CODES @ [400]"

definition OK_CODES :: "nat list" where "OK_CODES = [200, 201, 202]"
definition THROTTLE_CODES :: "nat list" where "THROTTLE_CODES = [403, 503, 429]"
definition RESOURCE_GONE_CODES :: "nat list" where "RESOURCE_GONE_CODES = [410]"
definition THROTTLE_RETRIES :: nat where "THROTTLE_RETRIES = 25"
definition FAIL_FAST_REQUEST_TIMEOUT :: nat where "FAIL_FAST_REQUEST_TIMEOUT = 5"

definition request_succeeded :: "http_resp \<Rightarrow> bool" where
  "request_succeeded r \<longleftrightarrow> resp_status r \<in> set OK_CODES"

definition request_not_modified :: "http_resp \<Rightarrow> bool" where
  "request_not_modified r \<longleftrightarrow> resp_status r = 304"

definition request_failed_at_hostplugin :: "http_resp \<Rightarrow> bool" where
  "request_failed_at_hostplugin r \<longleftrightarrow> 500 \<le> resp_status r \<and> resp_status r \<noteq> 502"

definition compute_delay :: "nat \<Rightarrow> nat \<Rightarrow> nat" where
  "compute_delay retry_attempt delay = delay * snd (((\<lambda>(a, b). (b, a + b)) ^^ retry_attempt) (1, 1))"

definition is_telemetry_req :: "http_call \<Rightarrow> bool" where
  "is_telemetry_req c = contains (pu_text (hc_url c)) ''telemetrydata''"

text \<open>\<^verbatim>\<open>json.dumps\<close> of the headers to include in a message is the field \<open>hc_dumps\<close>.\<close>

definition headers_for_failure_msg :: "http_call \<Rightarrow> (string \<times> string) list" where
  "headers_for_failure_msg c =
     filter (\<lambda>(k, _). k \<in> set [''x-ms-artifact-location'', ''x-ms-artifact-manifest-location'']) (hc_headers c)"

definition failure_message :: "http_call \<Rightarrow> string \<Rightarrow> string \<Rightarrow> string \<Rightarrow> string" where
  "failure_message c what url text =
     what @ '' '' @ hc_method c @ '' '' @ url @
     (if headers_for_failure_msg c \<noteq> [] then '' '' @ hc_dumps c (headers_for_failure_msg c) else '''') @ '' -- '' @ text"

text \<open>
  One iteration of the loop, once the guard \<^verbatim>\<open>attempt < max_retry\<close> has passed: either the loop is
  left with a response or an exception, or it continues with new values of \<^verbatim>\<open>max_retry\<close>,
  \<^verbatim>\<open>was_throttled\<close> and \<^verbatim>\<open>msg\<close>.
\<close>

datatype http_step = Stop "http_resp res" | Retry nat bool string

definition attempts_made :: "string \<Rightarrow> nat \<Rightarrow> exn" where
  "attempts_made msg attempt = HttpError (msg @ '' -- '' @ nat_str attempt @ '' attempts made'')"

definition attempt_delay :: "http_call \<Rightarrow> nat \<Rightarrow> bool \<Rightarrow> http_state \<Rightarrow> http_state" where
  "attempt_delay c attempt was_throttled s =
     (if 0 < attempt
      then s\<lparr>slept := slept s @ [if was_throttled then hc_throttle_delay c else compute_delay attempt (hc_retry_delay c)]\<rparr>
      else s)"

definition attempt_timeout :: "http_call \<Rightarrow> nat \<Rightarrow> nat" where
  "attempt_timeout c attempt =
     (if \<not> hc_fail_fast c \<or> 1 < attempt then hc_timeout c else min (hc_timeout c) FAIL_FAST_REQUEST_TIMEOUT)"

definition http_attempt ::
  "http_call \<Rightarrow> (nat \<Rightarrow> nat \<Rightarrow> exchange_result) \<Rightarrow> nat \<Rightarrow> nat \<Rightarrow> bool \<Rightarrow> http_state \<Rightarrow> http_step \<times> http_state" where
  "http_attempt c ex max_retry attempt was_throttled s =
     (let s1 = attempt_delay c attempt was_throttled s;
          attempt' = Suc attempt;
          clean_url = trim_url_parameters (hc_url c)
      in case ex attempt' (attempt_timeout c attempt') of
          Answer r \<Rightarrow>
            if hc_raw c then (Stop (Inr r), s1)
            else if \<not> request_succeeded r \<and> resp_status r \<in> set (hc_retry_codes c)
              then let throttled = resp_status r \<in> set THROTTLE_CODES
                   in (Retry (if throttled \<and> \<not> is_telemetry_req c then max max_retry THROTTLE_RETRIES else max_retry)
                         (was_throttled \<or> throttled)
                         (failure_message c ''[HTTP Retry]'' (pu_text (hc_url c)) (read_response_error r)), s1)
            else if resp_status r \<in> set RESOURCE_GONE_CODES then (Stop (Inl (ResourceGoneError (read_response_error r))), s1)
            else (Stop (Inr r), s1)
        | HttpFailure retry text \<Rightarrow>
            if hc_raw c then (Stop (Inl (OtherError text)), s1)
            else let msg = failure_message c ''[HTTP Failed]'' clean_url (''HttpException '' @ text)
                 in if retry then (Retry max_retry was_throttled msg, s1)
                    else (Stop (Inl (attempts_made msg attempt')), s1)
        | IOFailure text \<Rightarrow>
            if hc_raw c then (Stop (Inl OSError), s1)
            else let s2 = io_error_increment (pu_hostname (hc_url c)) (pu_port (hc_url c)) s1;
                     msg = failure_message c ''[HTTP Failed]'' clean_url (''IOError '' @ text)
                 in if hc_fail_fast c \<and> (contains text ''timed out'' \<or> contains text ''timeout'')
                    then (Stop (Inl (attempts_made msg attempt')), s2)
                    else (Retry max_retry was_throttled msg, s2)
        | Crash e \<Rightarrow> (Stop (Inl e), s1))"

definition retry_limit :: "http_call \<Rightarrow> nat \<Rightarrow> nat" where
  "retry_limit c max_retry = (if is_telemetry_req c then max_retry else max max_retry THROTTLE_RETRIES)"

lemma http_attempt_retry:
  "http_attempt c ex mr a th s = (Retry mr' th' msg, t) \<Longrightarrow> retry_limit c mr' = retry_limit c mr \<and> mr \<le> mr'"
  by (auto simp: http_attempt_def Let_def retry_limit_def split: exchange_result.splits if_splits)

function http_loop ::
  "http_call \<Rightarrow> (nat \<Rightarrow> nat \<Rightarrow> exchange_result) \<Rightarrow> nat \<Rightarrow> nat \<Rightarrow> bool \<Rightarrow> string \<Rightarrow> (http_state, http_resp) op" where
  "http_loop c ex max_retry attempt was_throttled msg s =
     (if max_retry \<le> attempt then (Inl (attempts_made msg attempt), s)
      else case http_attempt c ex max_retry attempt was_throttled s of
          (Stop r, t) \<Rightarrow> (r, t)
        | (Retry max_retry' was_throttled' msg', t) \<Rightarrow> http_loop c ex max_retry' (Suc attempt) was_throttled' msg' t)"
  by pat_completeness auto
termination
proof (relation "measure (\<lambda>(c, ex, mr, a, _). retry_limit c mr - a)")
  fix c ex mr a th msg s h t mr' th' msg'
  assume "\<not> mr \<le> a" "(h, t) = http_attempt c ex mr a th s" "h = Retry mr' th' msg'"
  moreover have "mr \<le> retry_limit c mr" by (simp add: retry_limit_def)
  ultimately show "((c, ex, mr', Suc a, th', msg', t), c, ex, mr, a, th, msg, s) \<in> measure (\<lambda>(c, ex, mr, a, _). retry_limit c mr - a)"
    using http_attempt_retry [of c ex mr a th s mr' th' msg' t] by simp
qed simp

declare http_loop.simps [simp del]

definition http_request :: "http_conf \<Rightarrow> exchange \<Rightarrow> http_call \<Rightarrow> (http_state, http_resp) op" where
  "http_request hf exchange c =
     (let u = hc_url c; secure = url_secure u in
      bindM (liftR (if hc_use_proxy c
                    then bindR (case pu_hostname u of
                                  None \<Rightarrow> if hf_no_proxy hf = [] then Inr False else Inl TypeError
                                | Some h \<Rightarrow> bypass_proxy (hf_no_proxy hf) h)
                           (\<lambda>bypass. Inr (if bypass then (None, None) else get_http_proxy hf secure))
                    else Inr (None, None))) (\<lambda>proxy.
      bindM (liftR (if secure \<and> \<not> hf_ssl_support hf
                    then if \<not> hf_allow_http hf then Inl (HttpError ''HTTPS is unavailable and required'') else Inr False
                    else Inr secure)) (\<lambda>secure.
      bindM (liftR (if secure \<and> fst proxy \<noteq> None \<and> snd proxy \<noteq> None \<and> \<not> hf_tunnel_support hf
                    then if \<not> hf_allow_http hf then Inl (HttpError ''HTTPS tunnelling is unavailable and required'') else Inr False
                    else Inr secure)) (\<lambda>secure.
        http_loop c (exchange (http_connection_for (hf_user_agent hf) c secure proxy)) (hc_max_retry c) 0 False ''''))))"

text \<open>
  The callers' entry points. A keyword argument the caller leaves out is \<^verbatim>\<open>None\<close> for the number of
  attempts and the codes to retry.
\<close>

record http_options =
  ho_headers :: "(string \<times> string) list"
  ho_use_proxy :: bool
  ho_max_retry :: "nat option"
  ho_retry_codes :: "nat list option"
  ho_retry_delay :: nat
  ho_timeout :: nat
  ho_dumps :: "(string \<times> string) list \<Rightarrow> string"

definition DEFAULT_RETRIES :: nat where "DEFAULT_RETRIES = 6"
definition DELAY_IN_SECONDS :: nat where "DELAY_IN_SECONDS = 1"
definition THROTTLE_DELAY_IN_SECONDS :: nat where "THROTTLE_DELAY_IN_SECONDS = 1"

definition new_call :: "string \<Rightarrow> parsed_url \<Rightarrow> string option \<Rightarrow> http_options \<Rightarrow> http_call" where
  "new_call method url data op =
     \<lparr>hc_method = method, hc_url = url, hc_timeout = ho_timeout op, hc_use_proxy = ho_use_proxy op,
      hc_max_retry = (case ho_max_retry op of None \<Rightarrow> DEFAULT_RETRIES | Some n \<Rightarrow> n),
      hc_retry_codes = (case ho_retry_codes op of None \<Rightarrow> RETRY_CODES | Some cs \<Rightarrow> cs),
      hc_retry_delay = ho_retry_delay op, hc_throttle_delay = THROTTLE_DELAY_IN_SECONDS, hc_raw = False, hc_fail_fast = False,
      hc_data = data, hc_headers = ho_headers op, hc_dumps = ho_dumps op\<rparr>"

definition http_get :: "http_conf \<Rightarrow> exchange \<Rightarrow> parsed_url \<Rightarrow> http_options \<Rightarrow> bool \<Rightarrow> bool \<Rightarrow> (http_state, http_resp) op" where
  "http_get hf ex url op raw fail_fast =
     http_request hf ex ((new_call ''GET'' url None op)\<lparr>hc_raw := raw, hc_fail_fast := fail_fast\<rparr>)"

definition http_head :: "http_conf \<Rightarrow> exchange \<Rightarrow> parsed_url \<Rightarrow> http_options \<Rightarrow> (http_state, http_resp) op" where
  "http_head hf ex url op = http_request hf ex (new_call ''HEAD'' url None op)"

definition http_post ::
  "http_conf \<Rightarrow> exchange \<Rightarrow> parsed_url \<Rightarrow> string option \<Rightarrow> http_options \<Rightarrow> nat \<Rightarrow> (http_state, http_resp) op" where
  "http_post hf ex url data op throttle_delay =
     http_request hf ex ((new_call ''POST'' url data op)\<lparr>hc_throttle_delay := throttle_delay\<rparr>)"

definition http_put :: "http_conf \<Rightarrow> exchange \<Rightarrow> parsed_url \<Rightarrow> string option \<Rightarrow> http_options \<Rightarrow> (http_state, http_resp) op" where
  "http_put hf ex url data op = http_request hf ex (new_call ''PUT'' url data op)"

definition http_delete :: "http_conf \<Rightarrow> exchange \<Rightarrow> parsed_url \<Rightarrow> http_options \<Rightarrow> (http_state, http_resp) op" where
  "http_delete hf ex url op = http_request hf ex (new_call ''DELETE'' url None op)"


section \<open>Lemmas on the loop\<close>

lemma slept_increment [simp]: "slept (io_error_increment h p s) = slept s"
  by (simp add: io_error_increment_def)


lemma http_attempt_slept:
  "http_attempt c ex mr a th s = (x, t) \<Longrightarrow> length (slept t) = length (slept s) + (if 0 < a then 1 else 0)"
  by (auto simp: http_attempt_def attempt_delay_def Let_def split: exchange_result.splits if_splits)

lemma http_loop_sleeps:
  "length (slept (snd (http_loop c ex mr a th msg s))) \<le> length (slept s) + (retry_limit c mr - max 1 a)"
proof (induction c ex mr a th msg s rule: http_loop.induct)
  case (1 c ex mr a th msg s)
  obtain x t where x: "http_attempt c ex mr a th s = (x, t)" by fastforce
  note slept = http_attempt_slept [OF x]
  show ?case
  proof (cases "mr \<le> a")
    case False
    moreover have "mr \<le> retry_limit c mr" by (simp add: retry_limit_def)
    ultimately have a: "a < retry_limit c mr" by simp
    show ?thesis
    proof (cases x)
      case (Stop r)
      then show ?thesis using False x slept a by (auto simp: http_loop.simps [of c ex mr a])
    next
      case (Retry mr' th' msg')
      have "retry_limit c mr' = retry_limit c mr" using http_attempt_retry x Retry by blast
      moreover have "http_loop c ex mr a th msg s = http_loop c ex mr' (Suc a) th' msg' t"
        using False x Retry by (simp add: http_loop.simps [of c ex mr a])
      ultimately show ?thesis using "1.IH" [OF False x [symmetric] Retry] slept a by (cases a) simp_all
    qed
  qed (simp add: http_loop.simps)
qed

definition transient :: "http_call \<Rightarrow> exchange_result \<Rightarrow> bool" where
  "transient c x = (case x of
     Answer r \<Rightarrow> \<not> request_succeeded r \<and> resp_status r \<in> set (hc_retry_codes c)
   | HttpFailure retry _ \<Rightarrow> retry
   | IOFailure text \<Rightarrow> \<not> (hc_fail_fast c \<and> (contains text ''timed out'' \<or> contains text ''timeout''))
   | Crash _ \<Rightarrow> False)"

lemma http_attempt_transient:
  assumes "\<not> hc_raw c" and "transient c (ex (Suc a) (attempt_timeout c (Suc a)))"
  shows "\<exists>mr' th' msg t. http_attempt c ex mr a th s = (Retry mr' th' msg, t)"
  using assms by (auto simp: http_attempt_def transient_def Let_def split: exchange_result.splits)

lemma http_attempt_success:
  assumes "\<not> hc_raw c" and "ex (Suc a) (attempt_timeout c (Suc a)) = Answer r" and "request_succeeded r"
  shows "\<exists>t. http_attempt c ex mr a th s = (Stop (Inr r), t)"
  using assms by (auto simp: http_attempt_def Let_def request_succeeded_def OK_CODES_def RESOURCE_GONE_CODES_def)

lemma http_loop_recovers:
  assumes "\<not> hc_raw c" and "ex (Suc n) (attempt_timeout c (Suc n)) = Answer r" and "request_succeeded r"
  shows "a \<le> n \<Longrightarrow> n < mr \<Longrightarrow> (\<forall>i. a < i \<and> i \<le> n \<longrightarrow> transient c (ex i (attempt_timeout c i))) \<Longrightarrow>
    fst (http_loop c ex mr a th msg s) = Inr r"
proof (induction "n - a" arbitrary: a mr th msg s)
  case 0
  then have "a = n" by simp
  with 0 http_attempt_success [where a = n and ex = ex, OF assms, of mr th s] show ?case by (auto simp: http_loop.simps [of c ex mr n])
next
  case (Suc k)
  then have "transient c (ex (Suc a) (attempt_timeout c (Suc a)))" by simp
  with http_attempt_transient [OF assms(1), where a = a] obtain mr' th' msg' t where
    x: "http_attempt c ex mr a th s = (Retry mr' th' msg', t)" by blast
  then have "mr \<le> mr'" using http_attempt_retry by blast
  with Suc x have "fst (http_loop c ex mr' (Suc a) th' msg' t) = Inr r" by simp
  with Suc x show ?case by (simp add: http_loop.simps [of c ex mr a])
qed

lemma http_attempt_stop:
  assumes "\<not> hc_raw c" and "\<forall>i t e. ex i t \<noteq> Crash e" and "http_attempt c ex mr a th s = (Stop x, t)"
  shows "(\<exists>m. x = Inl (HttpError m)) \<or> (\<exists>m. x = Inl (ResourceGoneError m)) \<or>
    (\<exists>r. x = Inr r \<and> resp_status r \<noteq> 410 \<and> (request_succeeded r \<or> resp_status r \<notin> set (hc_retry_codes c)))"
  using assms by (auto simp: http_attempt_def Let_def attempts_made_def RESOURCE_GONE_CODES_def split: exchange_result.splits if_splits)

lemma http_loop_outcome:
  assumes "\<not> hc_raw c" and "\<forall>i t e. ex i t \<noteq> Crash e"
  shows "http_loop c ex mr a th msg s = (x, t) \<Longrightarrow>
    (\<exists>m. x = Inl (HttpError m)) \<or> (\<exists>m. x = Inl (ResourceGoneError m)) \<or>
    (\<exists>r. x = Inr r \<and> resp_status r \<noteq> 410 \<and> (request_succeeded r \<or> resp_status r \<notin> set (hc_retry_codes c)))"
  using assms
proof (induction c ex mr a th msg s rule: http_loop.induct)
  case (1 c ex mr a th msg s)
  obtain y u where y: "http_attempt c ex mr a th s = (y, u)" by fastforce
  show ?case
  proof (cases "mr \<le> a")
    case True
    then show ?thesis using "1.prems"(1) by (auto simp: http_loop.simps [of c ex mr a] attempts_made_def)
  next
    case False
    show ?thesis
    proof (cases y)
      case (Stop r)
      then show ?thesis using False y "1.prems" http_attempt_stop [OF "1.prems"(2,3)]
        by (simp add: http_loop.simps [of c ex mr a])
    next
      case (Retry mr' th' msg')
      then show ?thesis using "1.IH" [OF False y [symmetric] Retry] False y "1.prems"
        by (simp add: http_loop.simps [of c ex mr a])
    qed
  qed
qed


section \<open>Lemmas on addresses\<close>

lemma fold_dec_nat_str:
  "foldl (\<lambda>acc c. Option.bind acc (\<lambda>n. map_option (\<lambda>d. 10 * n + d) (dec_val c))) (Some 0) (nat_str n) = Some n"
proof (induction n rule: nat_str.induct)
  case (1 n)
  then show ?case by (cases "n < 10") (simp_all add: nat_str.simps [of n] dec_val_def)
qed

lemma nat_str_hd: "hd (nat_str n) = CHR ''0'' \<longleftrightarrow> n = 0"
proof (induction n rule: nat_str.induct)
  case (1 n)
  show ?case
  proof (cases "n < 10")
    case True
    have zero: "CHR ''0'' = digit_char 0" by code_simp
    have "nat_str n = [digit_char n]" using True by (subst nat_str.simps) simp
    moreover have "digit_char n = digit_char 0 \<longleftrightarrow> n = 0"
    proof
      assume "digit_char n = digit_char 0"
      then have "digit_val (digit_char n) = digit_val (digit_char 0)" by (rule arg_cong)
      then show "n = 0" using True by simp
    qed simp
    ultimately show ?thesis unfolding zero by simp
  next
    case False
    then have "nat_str n = nat_str (n div 10) @ [digit_char (n mod 10)]" by (subst nat_str.simps) simp
    moreover have "n div 10 = 0 \<longleftrightarrow> n = 0" using False by auto
    ultimately show ?thesis using 1 False by (simp add: hd_append)
  qed
qed

lemma c_number_nat_str: "c_number (nat_str n) = Some n"
proof (cases "n = 0")
  case False
  then have "hd (nat_str n) \<noteq> CHR ''0''" by (simp add: nat_str_hd)
  then have "\<not> startswith (nat_str n) ''0''" "\<not> startswith (nat_str n) ''0x''" "\<not> startswith (nat_str n) ''0X''"
    by (auto simp: startswith_iff)
  then show ?thesis by (simp add: c_number_def num_in_base_def fold_dec_nat_str)
next
  case True
  moreover have "c_number (nat_str 0) = Some 0" by code_simp
  ultimately show ?thesis by simp
qed

lemma four_bytes:
  fixes x :: int
  assumes "0 \<le> x" and "x < 2 ^ 32"
  shows "x = (x div 256 ^ 3 mod 256) * 2 ^ 24 + (x div 256 ^ 2 mod 256) * 2 ^ 16 + (x div 256 ^ 1 mod 256) * 2 ^ 8 + x div 256 ^ 0 mod 256"
proof -
  define y where "y = x div 256"
  define z where "z = y div 256"
  define v where "v = z div 256"
  have div: "x div 256 ^ 3 = v" "x div 256 ^ 2 = z" "x div 256 ^ 1 = y"
    unfolding v_def z_def y_def by (simp_all add: div_mult2_eq [symmetric] zdiv_zmult2_eq [symmetric])
  have "x = 256 * y + x mod 256" "y = 256 * z + y mod 256" "z = 256 * v + z mod 256"
    unfolding v_def z_def y_def by simp_all
  moreover have "0 \<le> v" "v < 256" using assms unfolding v_def z_def y_def by simp_all
  then have "v mod 256 = v" by simp
  ultimately show ?thesis unfolding div by simp
qed

lemma nat_str_chars:
  assumes "c \<in> set (nat_str n)"
  shows "c \<noteq> CHR ''.''" "c \<noteq> CHR ''/''" "c \<noteq> CHR ''_''" "c \<noteq> CHR ''-''" "c \<noteq> CHR ''+''" "\<not> is_c_space c" "\<not> is_space c"
  using nat_str_set_digit [OF assms] by (auto simp: is_digit_def is_c_space_def is_space_def Let_def)

lemma inet_aton_ntoa: "inet_aton (inet_ntoa w) = Some w"
proof -
  define b where "b i = uint w div 256 ^ i mod 256" for i :: nat
  have range: "0 \<le> b i \<and> b i < 256" for i by (simp add: b_def)
  let ?ps = "map (\<lambda>i. nat_str (nat (b i))) [3, 2, 1, 0]"
  have dotted: "inet_ntoa w = join_with ''.'' ?ps"
    by (simp add: inet_ntoa_def int_to_ip4_addr_def and_255 drop_bit_eq_div b_def)
  have split: "split_on ''.'' (join_with ''.'' ?ps) = ?ps"
    by (rule split_on_join_with) (auto dest: nat_str_chars(1))
  have all: "takeWhile (\<lambda>c. \<not> is_c_space c) (join_with ''.'' ?ps) = join_with ''.'' ?ps"
    by (auto simp: takeWhile_eq_all_conv is_c_space_def [of "CHR ''.''"] dest: nat_str_chars(6))
  have parts: "map_options c_number (split_on ''.'' (takeWhile (\<lambda>c. \<not> is_c_space c) (inet_ntoa w)))
      = Some (map (\<lambda>i. nat (b i)) [3, 2, 1, 0])"
    unfolding dotted all split by (simp add: map_options_def c_number_nat_str)
  have "uint w = b 3 * 2 ^ 24 + b 2 * 2 ^ 16 + b 1 * 2 ^ 8 + b 0"
    unfolding b_def by (rule four_bytes) (use uint_bounded [of w] in simp_all)
  then have "int (nat (b 3) * 2 ^ 24 + nat (b 2) * 2 ^ 16 + nat (b 1) * 2 ^ 8 + nat (b 0)) = uint w"
    using range by simp
  then have "(of_nat (nat (b 3) * 2 ^ 24 + nat (b 2) * 2 ^ 16 + nat (b 1) * 2 ^ 8 + nat (b 0)) :: 32 word) = w"
    by (metis of_int_of_nat_eq word_of_int_uint)
  then show ?thesis using range unfolding inet_aton_def parts by (simp add: nat_less_iff)
qed


lemma bit_netmask_bits: "m \<le> 32 \<Longrightarrow> bit (netmask_bits m) i \<longleftrightarrow> 32 - m \<le> i \<and> i < 32"
proof -
  assume m: "m \<le> 32"
  have low: "push_bit (32 - m) 1 - 1 = (mask (32 - m) :: 32 word)" by (simp add: mask_eq_exp_minus_1 push_bit_eq_mult)
  have ones: "(0xFFFFFFFF :: 32 word) = mask 32" by (simp add: mask_eq_exp_minus_1)
  show ?thesis using m unfolding netmask_bits_def low ones bit_xor_iff bit_mask_iff by auto
qed

lemma masked_equal: "m \<le> 32 \<Longrightarrow> a AND netmask_bits m = b AND netmask_bits m \<longleftrightarrow> (\<forall>i. 32 - m \<le> i \<and> i < 32 \<longrightarrow> bit a i = bit b i)"
  by (auto simp: bit_eq_iff bit_and_iff bit_netmask_bits)

lemma digits_with_underscores_nat_str: "digits_with_underscores (nat_str n) = Some n"
proof -
  have "CHR ''_'' \<notin> set (nat_str n)" using nat_str_chars(3) by blast
  then have "split_on ''_'' (nat_str n) = [nat_str n]" by (rule split_on_single)
  then show ?thesis by simp
qed

declare digits_with_underscores.simps [simp del]

lemma strip_no_space: "\<forall>c\<in>set s. \<not> is_space c \<Longrightarrow> strip s = s"
proof -
  assume ns: "\<forall>c\<in>set s. \<not> is_space c"
  have keep: "dropWhile is_space xs = xs" if "\<forall>c\<in>set xs. \<not> is_space c" for xs using that by (cases xs) simp_all
  have "dropWhile is_space s = s" "dropWhile is_space (rev s) = rev s" using ns keep [of s] keep [of "rev s"] by simp_all
  then show ?thesis by (simp add: strip_def)
qed

lemma py_int_text_nat_str: "py_int_text (nat_str n) = Inr (int n)"
proof -
  have "strip (nat_str n) = nat_str n" using nat_str_chars(7) by (intro strip_no_space) blast
  moreover have "\<not> startswith (nat_str n) ''-''" "\<not> startswith (nat_str n) ''+''"
    using nat_str_chars(4,5) [of "hd (nat_str n)" n] by (auto simp: startswith_iff)
  ultimately show ?thesis by (simp add: py_int_text_def Let_def digits_with_underscores_nat_str)
qed


section \<open>Properties\<close>

text \<open>
  A host given by its address bypasses the proxy for a network in CIDR notation exactly if the two
  addresses agree on the first \<open>m\<close> bits.
\<close>

theorem address_in_network_iff_prefix:
  assumes "inet_aton ip = Some a" and "inet_aton netaddr = Some n" and "CHR ''/'' \<notin> set netaddr" and "m \<le> 32"
  shows "address_in_network ip (netaddr @ ''/'' @ nat_str m) = Inr (\<forall>i. 32 - m \<le> i \<and> i < 32 \<longrightarrow> bit a i = bit n i)"
proof -
  have "CHR ''/'' \<notin> set (nat_str m)" using nat_str_chars(2) by blast
  then have "split_on ''/'' (netaddr @ ''/'' @ nat_str m) = [netaddr, nat_str m]"
    using assms(3) by (simp add: split_on_single_append split_on_single)
  then show ?thesis
    using assms by (simp add: address_in_network_def aton_or_error_def py_int_text_nat_str dotted_netmask_def inet_aton_ntoa
        and.assoc masked_equal)
qed

lemma sample_aton: "inet_aton ''10.1.2.3'' = Some 0x0A010203" "inet_aton ''10.1.0.0'' = Some 0x0A010000"
proof -
  have parts: "map_options c_number (split_on ''.'' (takeWhile (\<lambda>c. \<not> is_c_space c) ''10.1.2.3'')) = Some [10, 1, 2, 3]"
    "map_options c_number (split_on ''.'' (takeWhile (\<lambda>c. \<not> is_c_space c) ''10.1.0.0'')) = Some [10, 1, 0, 0]"
    by code_simp+
  show "inet_aton ''10.1.2.3'' = Some 0x0A010203" "inet_aton ''10.1.0.0'' = Some 0x0A010000"
    unfolding inet_aton_def parts by simp_all
qed

theorem address_in_network_iff_prefix_witness:
  "address_in_network ''10.1.2.3'' (''10.1.0.0'' @ ''/'' @ nat_str 16) =
     Inr (\<forall>i. 16 \<le> i \<and> i < 32 \<longrightarrow> bit (0x0A010203 :: 32 word) i = bit (0x0A010000 :: 32 word) i)"
  using address_in_network_iff_prefix [OF sample_aton, of 16] by simp


lemma http_request_direct:
  assumes "\<not> hc_use_proxy c"
  shows "http_request hf exchange c s =
    (if url_secure (hc_url c) \<and> \<not> hf_ssl_support hf \<and> \<not> hf_allow_http hf
     then (Inl (HttpError ''HTTPS is unavailable and required''), s)
     else http_loop c (exchange (http_connection_for (hf_user_agent hf) c (url_secure (hc_url c) \<and> hf_ssl_support hf) (None, None)))
            (hc_max_retry c) 0 False '''' s)"
  using assms
  by (cases "url_secure (hc_url c)"; cases "hf_ssl_support hf"; cases "hf_allow_http hf")
     (simp_all add: http_request_def Let_def bindM_def liftR_def)


definition sample_call :: http_call where
  "sample_call = \<lparr>hc_method = ''GET'', hc_url = \<lparr>pu_text = ''http://168.63.129.16/machine'', pu_scheme = ''http'',
     pu_hostname = Some ''168.63.129.16'', pu_port = None, pu_path = ''/machine'', pu_query = '''', pu_fragment = ''''\<rparr>,
     hc_timeout = 10, hc_use_proxy = False, hc_max_retry = 6, hc_retry_codes = RETRY_CODES, hc_retry_delay = 1,
     hc_throttle_delay = 1, hc_raw = False, hc_fail_fast = False, hc_data = None, hc_headers = [], hc_dumps = (\<lambda>_. '''')\<rparr>"

definition sample_http_conf :: http_conf where
  "sample_http_conf = \<lparr>hf_no_proxy = [], hf_conf_proxy = None, hf_env_proxy = (\<lambda>_. None), hf_allow_http = False,
     hf_ssl_support = True, hf_tunnel_support = True, hf_user_agent = ''WALinuxAgent/2.14.0''\<rparr>"

definition sample_http_state :: http_state where
  "sample_http_state = \<lparr>slept = [], io_endpoint = ''168.63.129.16'', io_hostplugin = 0, io_protocol = 0, io_other = 0\<rparr>"

definition sample_exchange :: exchange where
  "sample_exchange = (\<lambda>_ i _. if i \<le> 2 then Answer \<lparr>resp_status = 503, resp_reason = ''busy'', resp_read = Inr '''', resp_headers = []\<rparr>
     else if i = 3 then IOFailure ''reset'' else Answer \<lparr>resp_status = 200, resp_reason = ''OK'', resp_read = Inr '''', resp_headers = []\<rparr>)"




end
