(* ===== verification/Url.thy ===== *)
theory Url
  imports Rest_Util
begin

text \<open>
  \<^verbatim>\<open>urllib.parse.urlparse\<close> as \<^verbatim>\<open>restutil.py\<close> uses it: the parts of a URL, with the host name and port
  read from the network location. An invalid bracket or port raises \<^verbatim>\<open>ValueError\<close>, which
  \<^verbatim>\<open>_parse_url\<close> does at once since it asks for every part. The lemmas say what parsing gives on a
  URL put together from plain parts, and that a trimmed URL shows nothing of its query.
\<close>

section \<open>Parsing\<close>

definition find_char :: "char \<Rightarrow> string \<Rightarrow> (string \<times> string) option" where
  "find_char c s = (if c \<in> set s then Some (takeWhile (\<lambda>x. x \<noteq> c) s, tl (dropWhile (\<lambda>x. x \<noteq> c) s)) else None)"

text \<open>\<^verbatim>\<open>s.partition(c)\<close> without the separator.\<close>

definition partition_at :: "char \<Rightarrow> string \<Rightarrow> string \<times> string" where
  "partition_at c s = (case find_char c s of None \<Rightarrow> (s, '''') | Some ab \<Rightarrow> ab)"

definition is_alpha :: "char \<Rightarrow> bool" where
  "is_alpha c \<longleftrightarrow> (let n = (of_char c :: nat) in 65 \<le> n \<and> n \<le> 90 \<or> 97 \<le> n \<and> n \<le> 122)"

definition is_scheme_char :: "char \<Rightarrow> bool" where
  "is_scheme_char c \<longleftrightarrow> is_alpha c \<or> is_digit c \<or> c \<in> set ''+-.''"

definition clean_url_text :: "string \<Rightarrow> string" where
  "clean_url_text s = filter (\<lambda>c. c \<notin> set [CHR 0x09, CHR 0x0D, CHR 0x0A]) (dropWhile (\<lambda>c. (of_char c :: nat) \<le> 32) s)"

definition split_scheme :: "string \<Rightarrow> string \<times> string" where
  "split_scheme s = (case find_char (CHR '':'') s of
     Some (a, b) \<Rightarrow> if a \<noteq> '''' \<and> is_alpha (hd a) \<and> list_all is_scheme_char a then (lower a, b) else ('''', s)
   | None \<Rightarrow> ('''', s))"

definition split_netloc :: "string \<Rightarrow> string \<times> string" where
  "split_netloc s = (if startswith s ''//''
     then (takeWhile (\<lambda>c. c \<notin> set ''/?#'') (drop 2 s), dropWhile (\<lambda>c. c \<notin> set ''/?#'') (drop 2 s))
     else ('''', s))"

definition uses_params :: "string list" where
  "uses_params = ['''', ''ftp'', ''hdl'', ''prospero'', ''http'', ''https'', ''imap'', ''sftp'', ''mms'', ''sip'', ''sips'', ''rtsp'',
     ''rtspu'', ''shttp'', ''tel'']"

text \<open>The parameters of the last segment are not part of the path.\<close>

definition drop_params :: "string \<Rightarrow> string" where
  "drop_params p = (case rsplit1 (CHR ''/'') p of
     Some (a, b) \<Rightarrow> a @ ''/'' @ fst (partition_at (CHR '';'') b)
   | None \<Rightarrow> fst (partition_at (CHR '';'') p))"

definition hostinfo :: "string \<Rightarrow> string \<times> string option" where
  "hostinfo netloc =
     (let h = (case rsplit1 (CHR ''@'') netloc of Some (_, b) \<Rightarrow> b | None \<Rightarrow> netloc);
          (name, port) = (case find_char (CHR ''['') h of
              Some (_, bracketed) \<Rightarrow> (case partition_at (CHR '']'') bracketed of
                  (name, rest) \<Rightarrow> (name, snd (partition_at (CHR '':'') rest)))
            | None \<Rightarrow> partition_at (CHR '':'') h)
      in (name, if port = '''' then None else Some port))"

definition url_hostname :: "string \<Rightarrow> string option" where
  "url_hostname netloc = (let name = fst (hostinfo netloc) in
     if name = '''' then None
     else Some (case find_char (CHR ''%'') name of None \<Rightarrow> lower name | Some (a, zone) \<Rightarrow> lower a @ ''%'' @ zone))"

definition url_port :: "string \<Rightarrow> nat option res" where
  "url_port netloc = (case snd (hostinfo netloc) of
     None \<Rightarrow> Inr None
   | Some p \<Rightarrow> if list_all is_digit p \<and> str_nat p \<le> 65535 then Inr (Some (str_nat p)) else Inl ValueError)"

definition urlparse :: "string \<Rightarrow> parsed_url res" where
  "urlparse url =
     (case split_scheme (clean_url_text url) of (scheme, rest) \<Rightarrow>
      case split_netloc rest of (netloc, rest) \<Rightarrow>
        if (CHR ''['' \<in> set netloc) \<noteq> (CHR '']'' \<in> set netloc) then Inl ValueError
        else case partition_at (CHR ''#'') rest of (rest, fragment) \<Rightarrow>
          case partition_at (CHR ''?'') rest of (path, query) \<Rightarrow>
            bindR (url_port netloc) (\<lambda>port.
              Inr \<lparr>pu_text = url, pu_scheme = scheme, pu_hostname = url_hostname netloc, pu_port = port,
                   pu_path = (if scheme \<in> set uses_params then drop_params path else path),
                   pu_query = query, pu_fragment = fragment\<rparr>))"

text \<open>\<^verbatim>\<open>urlparse(url).query\<close>; the port is looked at only where it is asked for.\<close>

definition url_query :: "string \<Rightarrow> string res" where
  "url_query url =
     (case split_netloc (snd (split_scheme (clean_url_text url))) of (netloc, rest) \<Rightarrow>
        if (CHR ''['' \<in> set netloc) \<noteq> (CHR '']'' \<in> set netloc) then Inl ValueError
        else Inr (snd (partition_at (CHR ''?'') (fst (partition_at (CHR ''#'') rest)))))"

lemma urlparse_query: "urlparse url = Inr u \<Longrightarrow> url_query url = Inr (pu_query u)"
  by (auto simp: urlparse_def url_query_def bindR_eq_Inr split: prod.splits if_splits)

section \<open>Parsing a URL made of plain parts\<close>

definition plain_char :: "char \<Rightarrow> bool" where
  "plain_char c \<longleftrightarrow> 33 \<le> (of_char c :: nat) \<and> c \<notin> set '':/?#[]@;%''"

definition plain_path_char :: "char \<Rightarrow> bool" where
  "plain_path_char c \<longleftrightarrow> 33 \<le> (of_char c :: nat) \<and> c \<notin> set ''?#;''"


definition url_of :: "string \<Rightarrow> string \<Rightarrow> nat option \<Rightarrow> string \<Rightarrow> string \<Rightarrow> string" where
  "url_of scheme host port path query =
     scheme @ ''://'' @ host @ (case port of None \<Rightarrow> '''' | Some p \<Rightarrow> '':'' @ nat_str p) @ path @
     (if query = '''' then '''' else ''?'' @ query)"

lemma find_char_append [simp]: "c \<notin> set a \<Longrightarrow> find_char c (a @ c # b) = Some (a, b)"
  by (simp add: find_char_def takeWhile_append dropWhile_append)

lemma find_char_None [simp]: "c \<notin> set a \<Longrightarrow> find_char c a = None"
  by (simp add: find_char_def)

lemma partition_at_append [simp]: "c \<notin> set a \<Longrightarrow> partition_at c (a @ c # b) = (a, b)"
  by (simp add: partition_at_def)

lemma partition_at_none [simp]: "c \<notin> set a \<Longrightarrow> partition_at c a = (a, '''')"
  by (simp add: partition_at_def)

lemma rsplit1_None [simp]: "c \<notin> set a \<Longrightarrow> rsplit1 c a = None"
  by (simp add: rsplit1_def)

lemma drop_params_plain: "CHR '';'' \<notin> set p \<Longrightarrow> drop_params p = p"
proof -
  assume p: "CHR '';'' \<notin> set p"
  show ?thesis
  proof (cases "rsplit1 (CHR ''/'') p")
    case (Some ab)
    obtain a b where "ab = (a, b)" by fastforce
    with Some have "p = a @ CHR ''/'' # b" by (simp add: rsplit1_eq_Some)
    with p Some \<open>ab = (a, b)\<close> show ?thesis by (simp add: drop_params_def)
  qed (use p in \<open>simp add: drop_params_def\<close>)
qed

lemma clean_url_text_plain: "list_all (\<lambda>c. 33 \<le> (of_char c :: nat)) s \<Longrightarrow> clean_url_text s = s"
proof -
  assume s: "list_all (\<lambda>c. 33 \<le> (of_char c :: nat)) s"
  then have "dropWhile (\<lambda>c. (of_char c :: nat) \<le> 32) s = s" by (cases s) auto
  moreover have "filter (\<lambda>c. c \<notin> set [CHR 0x09, CHR 0x0D, CHR 0x0A]) s = s"
    using s by (auto simp: filter_id_conv list_all_iff)
  ultimately show ?thesis by (simp add: clean_url_text_def)
qed

lemma hostinfo_plain:
  assumes "list_all plain_char host" and "host \<noteq> ''''"
  shows "url_hostname (host @ (case port of None \<Rightarrow> '''' | Some p \<Rightarrow> '':'' @ nat_str p)) = Some (lower host)"
    and "case port of None \<Rightarrow> True | Some p \<Rightarrow> p \<le> 65535 \<Longrightarrow>
      url_port (host @ (case port of None \<Rightarrow> '''' | Some p \<Rightarrow> '':'' @ nat_str p)) = Inr port"
proof -
  have host: "CHR '':'' \<notin> set host" "CHR ''['' \<notin> set host" "CHR ''@'' \<notin> set host" "CHR ''%'' \<notin> set host"
    using assms(1) by (auto simp: list_all_iff plain_char_def)
  have digits: "CHR ''['' \<notin> set (nat_str p)" "CHR ''@'' \<notin> set (nat_str p)" for p
    by (auto dest!: nat_str_set_digit simp: is_digit_def)
  have info: "hostinfo (host @ (case port of None \<Rightarrow> '''' | Some p \<Rightarrow> '':'' @ nat_str p)) = (host, map_option nat_str port)"
    using host digits by (cases port) (simp_all add: hostinfo_def)
  show "url_hostname (host @ (case port of None \<Rightarrow> '''' | Some p \<Rightarrow> '':'' @ nat_str p)) = Some (lower host)"
    using info host assms(2) by (simp add: url_hostname_def Let_def)
  show "url_port (host @ (case port of None \<Rightarrow> '''' | Some p \<Rightarrow> '':'' @ nat_str p)) = Inr port"
    if "case port of None \<Rightarrow> True | Some p \<Rightarrow> p \<le> 65535"
    using info that by (cases port) (simp_all add: url_port_def)
qed

definition plain_url :: "string \<Rightarrow> string \<Rightarrow> nat option \<Rightarrow> string \<Rightarrow> string \<Rightarrow> bool" where
  "plain_url scheme host port path query \<longleftrightarrow>
     scheme \<in> set [''http'', ''https''] \<and> host \<noteq> '''' \<and> list_all plain_char host \<and>
     (case port of None \<Rightarrow> True | Some p \<Rightarrow> p \<le> 65535) \<and>
     (path = '''' \<or> hd path = CHR ''/'') \<and> list_all plain_path_char path \<and>
     list_all (\<lambda>c. 33 \<le> (of_char c :: nat) \<and> c \<noteq> CHR ''#'') query"

lemma split_netloc_plain:
  assumes "list_all (\<lambda>c. c \<notin> set ''/?#'') netloc" and "rest = '''' \<or> hd rest \<in> set ''/?#''"
  shows "split_netloc (''//'' @ netloc @ rest) = (netloc, rest)"
proof -
  have "takeWhile (\<lambda>c. c \<notin> set ''/?#'') (netloc @ rest) = netloc"
    using assms by (cases rest) (auto simp: takeWhile_append list_all_iff)
  moreover have "dropWhile (\<lambda>c. c \<notin> set ''/?#'') (netloc @ rest) = rest"
    using assms by (cases rest) (auto simp: dropWhile_append list_all_iff)
  ultimately show ?thesis by (simp add: split_netloc_def)
qed

lemma urlparse_url_of:
  assumes "plain_url scheme host port path query"
  shows "urlparse (url_of scheme host port path query) =
    Inr \<lparr>pu_text = url_of scheme host port path query, pu_scheme = scheme, pu_hostname = Some (lower host), pu_port = port,
      pu_path = path, pu_query = query, pu_fragment = ''''\<rparr>"
proof -
  define netloc where "netloc = host @ (case port of None \<Rightarrow> '''' | Some p \<Rightarrow> '':'' @ nat_str p)"
  define rest where "rest = path @ (if query = '''' then '''' else ''?'' @ query)"
  note parts = assms [unfolded plain_url_def]
  have digit: "\<forall>c\<in>set (nat_str p). 33 \<le> (of_char c :: nat) \<and> c \<notin> set ''/?#[]''" for p
    by (auto dest!: nat_str_set_digit simp: is_digit_def)
  have host: "\<forall>c\<in>set host. 33 \<le> (of_char c :: nat) \<and> c \<notin> set ''/?#[]''"
    and path: "\<forall>c\<in>set path. 33 \<le> (of_char c :: nat) \<and> c \<noteq> CHR ''#''" "path = '''' \<or> hd path = CHR ''/''"
    and query: "\<forall>c\<in>set query. 33 \<le> (of_char c :: nat) \<and> c \<noteq> CHR ''#''"
    using parts by (simp_all add: list_all_iff plain_char_def plain_path_char_def)
  have pathchars: "CHR ''?'' \<notin> set path" "CHR '';'' \<notin> set path"
  proof -
    have "\<forall>c\<in>set path. plain_path_char c" using parts by (simp add: list_all_iff)
    moreover have "\<not> plain_path_char (CHR ''?'')" "\<not> plain_path_char (CHR '';'')" by (simp_all add: plain_path_char_def)
    ultimately show "CHR ''?'' \<notin> set path" "CHR '';'' \<notin> set path" by blast+
  qed
  have netloc: "\<forall>c\<in>set netloc. 33 \<le> (of_char c :: nat) \<and> c \<notin> set ''/?#[]''"
    using host digit by (cases port) (simp_all add: netloc_def ball_Un)
  have rest: "\<forall>c\<in>set rest. 33 \<le> (of_char c :: nat) \<and> c \<noteq> CHR ''#''" "rest = '''' \<or> hd rest \<in> set ''/?#''"
    using path query by (simp_all add: rest_def hd_append ball_Un) blast
  have scheme: "\<forall>c\<in>set scheme. 33 \<le> (of_char c :: nat) \<and> c \<noteq> CHR '':'' \<and> is_scheme_char c" "scheme \<noteq> ''''" "is_alpha (hd scheme)"
    "lower scheme = scheme" "scheme \<in> set uses_params"
  proof -
    have "scheme = ''http'' \<or> scheme = ''https''" using parts by simp
    moreover have "list_all (\<lambda>c. 33 \<le> (of_char c :: nat) \<and> c \<noteq> CHR '':'' \<and> is_scheme_char c) s \<and> s \<noteq> '''' \<and> is_alpha (hd s) \<and>
        lower s = s \<and> s \<in> set uses_params" if "s \<in> {''http'', ''https''}" for s
      using that by (elim insertE emptyE; hypsubst) code_simp+
    ultimately show "\<forall>c\<in>set scheme. 33 \<le> (of_char c :: nat) \<and> c \<noteq> CHR '':'' \<and> is_scheme_char c" "scheme \<noteq> ''''"
        "is_alpha (hd scheme)" "lower scheme = scheme" "scheme \<in> set uses_params"
      by (auto simp: list_all_iff)
  qed
  have url: "url_of scheme host port path query = scheme @ CHR '':'' # ''//'' @ netloc @ rest"
    by (simp add: url_of_def netloc_def rest_def)
  have "clean_url_text (url_of scheme host port path query) = url_of scheme host port path query"
    by (rule clean_url_text_plain) (use netloc rest scheme in \<open>auto simp: url list_all_iff\<close>)
  moreover have "split_scheme (url_of scheme host port path query) = (scheme, ''//'' @ netloc @ rest)"
  proof -
    have "CHR '':'' \<notin> set scheme" using scheme(1) by blast
    then show ?thesis using scheme by (simp add: url split_scheme_def list_all_iff)
  qed
  moreover have "split_netloc (''//'' @ netloc @ rest) = (netloc, rest)"
    by (rule split_netloc_plain) (use netloc rest in \<open>auto simp: list_all_iff\<close>)
  moreover have "partition_at (CHR ''#'') rest = (rest, '''')" by (rule partition_at_none) (use rest(1) in blast)
  moreover have "partition_at (CHR ''?'') rest = (path, query)"
    using pathchars(1) by (simp add: rest_def)
  moreover have "drop_params path = path" using pathchars(2) by (rule drop_params_plain)
  moreover have "url_hostname netloc = Some (lower host)" "url_port netloc = Inr port"
    using parts hostinfo_plain [of host port] by (simp_all add: netloc_def)
  moreover have "CHR ''['' \<notin> set netloc" "CHR '']'' \<notin> set netloc" using netloc by auto
  ultimately show ?thesis unfolding urlparse_def using scheme(5) by simp
qed


section \<open>Properties\<close>

text \<open>
  The URL shown in an error message is the URL of the request without its query, in which a shared
  access signature would be: for a URL of plain parts, parsing and trimming gives scheme, host, port and
  path back, whatever the query is.
\<close>

theorem trimmed_url_drops_query:
  assumes "plain_url scheme host port path query" and "port \<noteq> Some 0"
  shows "bindR (urlparse (url_of scheme host port path query)) (\<lambda>u. Inr (trim_url_parameters u)) =
    Inr (url_of scheme (lower host) port path '''')"
proof -
  have "host \<noteq> ''''" using assms(1) by (simp add: plain_url_def)
  then have "lower host \<noteq> ''''" by (simp add: lower_def)
  then show ?thesis using assms(2) unfolding urlparse_url_of [OF assms(1)]
    by (cases port) (simp_all add: trim_url_parameters_def url_of_def)
qed

lemma sample_plain_url:
  "plain_url ''https'' ''x.blob.core.windows.net'' (Some 443) ''/c/pkg.zip'' ''sv=2024&sig=secret''"
  by (simp add: plain_url_def plain_char_def plain_path_char_def)

theorem trimmed_url_drops_query_witness:
  "bindR (urlparse (url_of ''https'' ''x.blob.core.windows.net'' (Some 443) ''/c/pkg.zip'' ''sv=2024&sig=secret''))
     (\<lambda>u. Inr (trim_url_parameters u)) = Inr (url_of ''https'' (lower ''x.blob.core.windows.net'') (Some 443) ''/c/pkg.zip'' '''')"
  by (rule trimmed_url_drops_query [OF sample_plain_url]) simp

end
