(* ===== verification/File_System.thy ===== *)
theory File_System
  imports Json
begin

text \<open>
  The part of the file system the agent's components work on, and the functions of
  \<^verbatim>\<open>azurelinuxagent/common/utils/fileutil.py\<close> and \<^verbatim>\<open>os.path\<close> they call. A path
  is the list of its components below the agent's library directory. \<open>fs\<close> holds the text of every
  file and the directories that exist; \<open>io_env\<close> says which operations fail and with what error.
  Removing a tree either removes it or leaves it alone; access modes and owners are not modelled.
\<close>

type_synonym path = "string list"

record fs =
  fs_files :: "(path \<times> string) list"
  fs_dirs :: "path list"

datatype io_op = Read | Write | Mkdir | Remove | Copy

type_synonym io_env = "io_op \<Rightarrow> path \<Rightarrow> exn option"

section \<open>Queries\<close>

definition is_file :: "'a fs_scheme \<Rightarrow> path \<Rightarrow> bool" where
  "is_file s p = (map_of (fs_files s) p \<noteq> None)"

definition is_dir :: "'a fs_scheme \<Rightarrow> path \<Rightarrow> bool" where
  "is_dir s p = (p = [] \<or> p \<in> set (fs_dirs s))"

definition path_exists :: "'a fs_scheme \<Rightarrow> path \<Rightarrow> bool" where
  "path_exists s p = (is_file s p \<or> is_dir s p)"

text \<open>The names in a directory.\<close>

definition list_dir :: "'a fs_scheme \<Rightarrow> path \<Rightarrow> string list" where
  "list_dir s p = map last (filter (\<lambda>q. q \<noteq> [] \<and> butlast q = p) (map fst (fs_files s) @ fs_dirs s))"

definition in_tree :: "path \<Rightarrow> path \<Rightarrow> bool" where
  "in_tree d p = (take (length d) p = d)"

section \<open>Operations\<close>

definition io_check :: "io_env \<Rightarrow> io_op \<Rightarrow> path \<Rightarrow> ('a fs_scheme, unit) op" where
  "io_check io k p = (case io k p of None \<Rightarrow> returnM () | Some e \<Rightarrow> raiseM e)"

definition read_file :: "io_env \<Rightarrow> path \<Rightarrow> ('a fs_scheme, string) op" where
  "read_file io p =
     thenM (io_check io Read p)
       (\<lambda>s. (case map_of (fs_files s) p of None \<Rightarrow> Inl FileNotFoundError | Some t \<Rightarrow> Inr t, s))"

definition put_file :: "path \<Rightarrow> string \<Rightarrow> 'a fs_scheme \<Rightarrow> 'a fs_scheme" where
  "put_file p t s = s\<lparr>fs_files := AList.update p t (fs_files s)\<rparr>"

definition write_file :: "io_env \<Rightarrow> path \<Rightarrow> string \<Rightarrow> ('a fs_scheme, unit) op" where
  "write_file io p t =
     thenM (io_check io Write p)
    (bindM (getM (\<lambda>s. (is_dir s (butlast p), is_dir s p))) (\<lambda>(parent, dir).
       if \<not> parent then raiseM FileNotFoundError
       else if dir then raiseM OSError
       else modifyM (put_file p t)))"

definition prefixes_of :: "path \<Rightarrow> path list" where
  "prefixes_of p = map (\<lambda>n. take n p) [1..<Suc (length p)]"

definition add_dirs :: "path list \<Rightarrow> 'a fs_scheme \<Rightarrow> 'a fs_scheme" where
  "add_dirs ps s = s\<lparr>fs_dirs := fold List.insert ps (fs_dirs s)\<rparr>"

definition mkdir :: "io_env \<Rightarrow> path \<Rightarrow> ('a fs_scheme, unit) op" where
  "mkdir io p =
     thenM (io_check io Mkdir p)
    (bindM (getM (\<lambda>s. list_ex (is_file s) (prefixes_of p))) (\<lambda>blocked.
       if blocked then raiseM OSError else modifyM (add_dirs (prefixes_of p))))"

definition drop_file :: "path \<Rightarrow> 'a fs_scheme \<Rightarrow> 'a fs_scheme" where
  "drop_file p s = s\<lparr>fs_files := AList.delete p (fs_files s)\<rparr>"

definition remove_file :: "io_env \<Rightarrow> path \<Rightarrow> ('a fs_scheme, unit) op" where
  "remove_file io p =
     bindM (getM (\<lambda>s. is_file s p)) (\<lambda>there.
       if \<not> there then raiseM FileNotFoundError
       else thenM (io_check io Remove p) (modifyM (drop_file p)))"

definition drop_tree :: "path \<Rightarrow> 'a fs_scheme \<Rightarrow> 'a fs_scheme" where
  "drop_tree p s = s\<lparr>fs_files := filter (\<lambda>(q, _). \<not> in_tree p q) (fs_files s),
                     fs_dirs := filter (\<lambda>q. \<not> in_tree p q) (fs_dirs s)\<rparr>"

definition rmtree :: "io_env \<Rightarrow> path \<Rightarrow> ('a fs_scheme, unit) op" where
  "rmtree io p =
     bindM (getM (\<lambda>s. is_dir s p)) (\<lambda>there.
       if \<not> there then raiseM FileNotFoundError
       else thenM (io_check io Remove p) (modifyM (drop_tree p)))"

text \<open>\<^verbatim>\<open>os.rename\<close> of a file: one step, which replaces a file of the new name.\<close>

definition rename_file :: "io_env \<Rightarrow> path \<Rightarrow> path \<Rightarrow> ('a fs_scheme, unit) op" where
  "rename_file io p q =
     thenM (io_check io Write q)
    (bindM (getM (\<lambda>s. (map_of (fs_files s) p, is_dir s q))) (\<lambda>(content, dir).
       case content of
         None \<Rightarrow> raiseM FileNotFoundError
       | Some t \<Rightarrow> if dir then raiseM OSError else modifyM (\<lambda>s. put_file q t (drop_file p s))))"

text \<open>\<^verbatim>\<open>rm_files\<close> on the paths a pattern stands for: those that are files are removed.\<close>

definition rm_files :: "io_env \<Rightarrow> path list \<Rightarrow> ('a fs_scheme, unit) op" where
  "rm_files io ps = forM ps (\<lambda>p. bindM (getM (\<lambda>s. is_file s p)) (\<lambda>there. whenM there (remove_file io p)))"

text \<open>\<^verbatim>\<open>clean_ioerror\<close>: after an error that tells of an unhealthy disk, best effort.\<close>

definition remove_quietly :: "io_env \<Rightarrow> path \<Rightarrow> ('a fs_scheme, unit) op" where
  "remove_quietly io p =
     tryM (bindM (getM (\<lambda>s. is_dir s p)) (\<lambda>dir. if dir then rmtree io p else remove_file io p))
       (\<lambda>e. if is_Exception e then Some (returnM ()) else None)"

definition clean_ioerror :: "io_env \<Rightarrow> exn \<Rightarrow> path list \<Rightarrow> ('a fs_scheme, unit) op" where
  "clean_ioerror io e ps = whenM (e = DiskError) (forM ps (remove_quietly io))"

text \<open>\<^verbatim>\<open>rm_dirs\<close> empties directories (there are no symbolic links here).\<close>

definition rm_dirs :: "io_env \<Rightarrow> path list \<Rightarrow> ('a fs_scheme, unit) op" where
  "rm_dirs io ps = forM ps (\<lambda>p.
     bindM (getM (\<lambda>s. if is_dir s p then list_dir s p else [])) (\<lambda>names.
       forM names (\<lambda>n.
         bindM (getM (\<lambda>s. (is_file s (p @ [n]), is_dir s (p @ [n])))) (\<lambda>(file, dir).
           if file then remove_file io (p @ [n]) else whenM dir (rmtree io (p @ [n]))))))"

subsection \<open>Text files\<close>

definition append_file :: "io_env \<Rightarrow> path \<Rightarrow> string \<Rightarrow> ('a fs_scheme, unit) op" where
  "append_file io p t =
     bindM (getM (\<lambda>s. case map_of (fs_files s) p of None \<Rightarrow> '''' | Some u \<Rightarrow> u)) (\<lambda>u. write_file io p (u @ t))"

definition newline :: string where "newline = [CHR 0x0A]"

definition get_line_startingwith :: "io_env \<Rightarrow> string \<Rightarrow> path \<Rightarrow> ('a fs_scheme, string option) op" where
  "get_line_startingwith io prefix p =
     bindM (read_file io p) (\<lambda>t. returnM (List.find (\<lambda>line. startswith line prefix) (split_on newline t)))"

definition update_conf_file :: "io_env \<Rightarrow> path \<Rightarrow> string \<Rightarrow> string \<Rightarrow> bool \<Rightarrow> ('a fs_scheme, unit) op" where
  "update_conf_file io p line_start val chk_err =
     bindM (getM (\<lambda>s. is_file s p)) (\<lambda>there.
       if \<not> there \<and> chk_err then raiseM OSError
       else bindM (read_file io p) (\<lambda>t.
         let conf = filter (\<lambda>x. 0 < length x \<and> \<not> startswith x line_start) (split_on newline t)
         in write_file io p (join_with newline (conf @ [val]) @ newline)))"

text \<open>\<^verbatim>\<open>trim_ext\<close>, and \<^verbatim>\<open>open(path, 'r').readlines()\<close>, which reads every line end as a newline.\<close>

definition trim_ext :: "string \<Rightarrow> string \<Rightarrow> string" where
  "trim_ext p ext =
     (let ext = (if \<not> startswith ext ''.'' then ''.'' @ ext else ext)
      in if startswith (rev p) (rev ext) then hd (split_on ext p) else p)"

fun universal_newlines :: "string \<Rightarrow> string" where
  "universal_newlines [] = []"
| "universal_newlines [c] = (if c = CHR 0x0D then newline else [c])"
| "universal_newlines (c # d # s) =
     (if c = CHR 0x0D
      then if d = CHR 0x0A then newline @ universal_newlines s else newline @ universal_newlines (d # s)
      else c # universal_newlines (d # s))"

definition text_lines :: "string \<Rightarrow> string list" where
  "text_lines t = (let ps = split_on newline (universal_newlines t) in if last ps = [] then butlast ps else ps)"

definition rstrip :: "string \<Rightarrow> string" where
  "rstrip s = rev (dropWhile is_space (rev s))"

definition findstr_in_file :: "io_env \<Rightarrow> path \<Rightarrow> string \<Rightarrow> ('a fs_scheme, bool) op" where
  "findstr_in_file io p line_str =
     tryM (bindM (read_file io p) (\<lambda>t. returnM (list_ex (\<lambda>line. line_str = rstrip line) (text_lines t))))
       (\<lambda>e. if is_Exception e then Some (returnM False) else None)"

section \<open>Lemmas\<close>

lemma is_file_put_file [simp]: "is_file (put_file p t s) q \<longleftrightarrow> q = p \<or> is_file s q"
  by (simp add: is_file_def put_file_def update_conv')

lemma file_put_file [simp]: "map_of (fs_files (put_file p t s)) q = (if q = p then Some t else map_of (fs_files s) q)"
  by (simp add: put_file_def update_conv')

lemma is_dir_put_file [simp]: "is_dir (put_file p t s) q = is_dir s q"
  by (simp add: is_dir_def put_file_def)

lemma set_fold_insert [simp]: "set (fold List.insert ps ds) = set ps \<union> set ds"
  by (induction ps arbitrary: ds) auto

lemma is_dir_add_dirs [simp]: "is_dir (add_dirs ps s) q \<longleftrightarrow> q \<in> set ps \<or> is_dir s q"
  by (auto simp: is_dir_def add_dirs_def)

lemma fs_files_add_dirs [simp]: "fs_files (add_dirs ps s) = fs_files s"
  by (simp add: add_dirs_def)

lemma is_file_add_dirs [simp]: "is_file (add_dirs ps s) q = is_file s q"
  by (simp add: is_file_def)

lemma path_in_prefixes [simp]: "p \<noteq> [] \<Longrightarrow> p \<in> set (prefixes_of p)"
  by (cases p) (auto simp: prefixes_of_def intro!: image_eqI [of _ _ "length p"])

lemma file_drop_file [simp]: "map_of (fs_files (drop_file p s)) q = (if q = p then None else map_of (fs_files s) q)"
  by (simp add: drop_file_def delete_conv')

lemma is_file_drop_file [simp]: "is_file (drop_file p s) q \<longleftrightarrow> q \<noteq> p \<and> is_file s q"
  by (simp add: is_file_def)

lemma is_dir_drop_file [simp]: "is_dir (drop_file p s) q = is_dir s q"
  by (simp add: drop_file_def is_dir_def)

lemma file_drop_tree [simp]: "map_of (fs_files (drop_tree p s)) q = (if in_tree p q then None else map_of (fs_files s) q)"
proof -
  have "map_of (filter (\<lambda>(q, _). \<not> in_tree p q) xs) q = (if in_tree p q then None else map_of xs q)" for xs :: "(path \<times> string) list"
    by (induction xs) auto
  then show ?thesis by (simp add: drop_tree_def)
qed

lemma is_file_drop_tree [simp]: "is_file (drop_tree p s) q \<longleftrightarrow> \<not> in_tree p q \<and> is_file s q"
  by (simp add: is_file_def)

lemma is_dir_drop_tree: "p \<noteq> [] \<Longrightarrow> is_dir (drop_tree p s) q \<longleftrightarrow> \<not> in_tree p q \<and> is_dir s q"
  by (auto simp: is_dir_def drop_tree_def in_tree_def)

lemma in_tree_append [simp]: "in_tree p (p @ q)"
  by (simp add: in_tree_def)


lemma put_file_twice [simp]: "put_file p t (put_file p u s) = put_file p t s"
proof -
  have "AList.update p t (AList.update p u xs) = AList.update p t xs" for xs :: "(path \<times> string) list"
    by (induction xs) auto
  then show ?thesis by (simp add: put_file_def)
qed

lemma split_lines_no_newline: "x \<in> set (split_on newline t) \<Longrightarrow> CHR 0x0A \<notin> set x"
proof (induction t arbitrary: x)
  case (Cons c t)
  obtain q qs where q: "split_on newline t = q # qs" by (cases "split_on newline t") simp_all
  show ?case
  proof (cases "c = CHR 0x0A")
    case True
    then show ?thesis using Cons by (auto simp: newline_def)
  next
    case False
    then have "split_on newline (c # t) = (c # q) # qs" using q by (simp add: newline_def)
    then show ?thesis using Cons q False by auto
  qed
qed (simp add: newline_def)

lemma split_on_appended_newline:
  "xs \<noteq> [] \<Longrightarrow> (\<And>x. x \<in> set xs \<Longrightarrow> CHR 0x0A \<notin> set x) \<Longrightarrow>
   split_on newline (join_with newline xs @ newline) = xs @ [[]]"
proof -
  assume xs: "xs \<noteq> []" "\<And>x. x \<in> set xs \<Longrightarrow> CHR 0x0A \<notin> set x"
  have "join_with newline xs @ newline = join_with newline (xs @ [[]])" using xs(1)
    by (induction xs rule: induct_list012) (simp_all add: newline_def)
  moreover have "split_on newline (join_with newline (xs @ [[]])) = xs @ [[]]"
    unfolding newline_def using xs(2) by (intro split_on_join_with) auto
  ultimately show ?thesis by simp
qed

lemma update_conf_file_Inr:
  "update_conf_file io p line_start val chk s = (Inr (), u) \<longleftrightarrow>
    (\<exists>t. map_of (fs_files s) p = Some t \<and> io Read p = None \<and> io Write p = None \<and> is_dir s (butlast p) \<and> \<not> is_dir s p \<and>
      u = put_file p (join_with newline (filter (\<lambda>x. 0 < length x \<and> \<not> startswith x line_start) (split_on newline t) @ [val]) @ newline) s)"
  by (cases "io Read p"; cases "io Write p"; cases "map_of (fs_files s) p")
     (auto simp: update_conf_file_def read_file_def write_file_def io_check_def is_file_def op_defs)

section \<open>Properties\<close>

text \<open>
  Updating a configuration file is idempotent: setting a line of one option a second time finds the
  line it wrote, replaces it by itself and leaves the file as it is.
\<close>

theorem update_conf_file_idempotent:
  assumes "update_conf_file io p line_start val chk s = (Inr (), u)"
    and "startswith val line_start" and "CHR 0x0A \<notin> set val"
  shows "update_conf_file io p line_start val chk u = (Inr (), u)"
proof -
  let ?keep = "filter (\<lambda>x. 0 < length x \<and> \<not> startswith x line_start)"
  obtain t where t: "map_of (fs_files s) p = Some t" "io Read p = None" "io Write p = None" "is_dir s (butlast p)" "\<not> is_dir s p"
    and u: "u = put_file p (join_with newline (?keep (split_on newline t) @ [val]) @ newline) s"
    using assms(1) by (auto simp: update_conf_file_Inr)
  have "split_on newline (join_with newline (?keep (split_on newline t) @ [val]) @ newline) = (?keep (split_on newline t) @ [val]) @ [[]]"
    using assms(3) split_lines_no_newline [of _ t] by (intro split_on_appended_newline) auto
  then have "?keep (split_on newline (join_with newline (?keep (split_on newline t) @ [val]) @ newline)) = ?keep (split_on newline t)"
    using assms(2) by simp
  then show ?thesis using t u unfolding update_conf_file_Inr by (intro exI [of _ "join_with newline (?keep (split_on newline t) @ [val]) @ newline"]) simp
qed

definition sample_conf_fs :: fs where
  "sample_conf_fs = \<lparr>fs_files = [([''waagent.conf''], ''A=1'' @ newline @ ''B=2'' @ newline)], fs_dirs = []\<rparr>"

theorem update_conf_file_idempotent_witness:
  "\<exists>u. update_conf_file (\<lambda>_ _. None) [''waagent.conf''] ''A='' ''A=3'' True sample_conf_fs = (Inr (), u) \<and>
     update_conf_file (\<lambda>_ _. None) [''waagent.conf''] ''A='' ''A=3'' True u = (Inr (), u) \<and>
     fs_files u = [([''waagent.conf''], ''B=2'' @ newline @ ''A=3'' @ newline)]"
proof -
  let ?u = "\<lparr>fs_files = [([''waagent.conf''], ''B=2'' @ newline @ ''A=3'' @ newline)], fs_dirs = []\<rparr>"
  have run: "update_conf_file (\<lambda>_ _. None) [''waagent.conf''] ''A='' ''A=3'' True sample_conf_fs = (Inr (), ?u)"
    by (simp add: update_conf_file_Inr sample_conf_fs_def is_dir_def put_file_def newline_def)
  have "startswith ''A=3'' ''A=''" "CHR 0x0A \<notin> set ''A=3''" by simp_all
  from update_conf_file_idempotent [OF run this] run show ?thesis by (intro exI [of _ ?u]) simp
qed

end
