(* ===== verification/Net.thy ===== *)
theory Net
  imports Url File_System
begin

text \<open>
  The library directory together with the network and the clock, and the small classes of
  \<^verbatim>\<open>azurelinuxagent/common\<close> that watch failures over time: \<^verbatim>\<open>ErrorState\<close> (\<^verbatim>\<open>errorstate.py\<close>) and
  \<^verbatim>\<open>HealthService\<close> (\<^verbatim>\<open>protocol/healthservice.py\<close>). The state \<open>net\<close> adds to the file system what the HTTP
  layer keeps, the number of requests made and the time in microseconds. The \<open>n\<close>-th request of a run meets
  the network \<open>ne_exchange n\<close> and takes \<open>ne_elapsed n\<close> beside the delays of the retry loop.
\<close>

section \<open>Requests\<close>

record net = fs +
  n_http :: http_state
  n_requests :: nat
  n_now :: int

record net_env =
  ne_conf :: http_conf
  ne_exchange :: "nat \<Rightarrow> exchange"
  ne_elapsed :: "nat \<Rightarrow> int"
  ne_io :: io_env
  ne_show :: "exn \<Rightarrow> string"
  ne_dumps :: "json \<Rightarrow> string"
  ne_loads :: "string \<Rightarrow> json res"
  ne_b64encode :: "string \<Rightarrow> string"
  ne_utc :: "int \<Rightarrow> string"

definition usec :: "int \<Rightarrow> int" where
  "usec n = n * 1000000"

definition net_request ::
  "'x net_env_scheme \<Rightarrow> string \<Rightarrow> (exchange \<Rightarrow> parsed_url \<Rightarrow> (http_state, http_resp) op) \<Rightarrow> ('a net_scheme, http_resp) op" where
  "net_request env url request =
     bindM (liftR (urlparse url)) (\<lambda>u s.
       case request (ne_exchange env (n_requests s)) u (n_http s) of (r, h) \<Rightarrow>
         (r, s\<lparr>n_http := h, n_requests := Suc (n_requests s),
               n_now := n_now s + ne_elapsed env (n_requests s) +
                        usec (int (sum_list (drop (length (slept (n_http s))) (slept h))))\<rparr>))"

text \<open>The keyword arguments of \<^verbatim>\<open>http_get\<close> etc. and their defaults. A header whose value is \<^verbatim>\<open>None\<close> cannot be sent.\<close>

definition default_options :: "'x net_env_scheme \<Rightarrow> http_options" where
  "default_options env = \<lparr>ho_headers = [], ho_use_proxy = False, ho_max_retry = None, ho_retry_codes = None,
     ho_retry_delay = DELAY_IN_SECONDS, ho_timeout = 10,
     ho_dumps = (\<lambda>hs. ne_dumps env (JObj (map (\<lambda>(k, v). (k, JStr v)) hs)))\<rparr>"

definition header_values :: "(string \<times> string option) list \<Rightarrow> (string \<times> string) list res" where
  "header_values hs = mapR (\<lambda>(k, v). case v of None \<Rightarrow> Inl TypeError | Some t \<Rightarrow> Inr (k, t)) hs"

definition net_get :: "'x net_env_scheme \<Rightarrow> string \<Rightarrow> http_options \<Rightarrow> bool \<Rightarrow> bool \<Rightarrow> ('a net_scheme, http_resp) op" where
  "net_get env url op raw fail_fast = net_request env url (\<lambda>ex u. http_get (ne_conf env) ex u op raw fail_fast)"

definition net_post :: "'x net_env_scheme \<Rightarrow> string \<Rightarrow> string \<Rightarrow> http_options \<Rightarrow> nat \<Rightarrow> ('a net_scheme, http_resp) op" where
  "net_post env url data op throttle_delay =
     net_request env url (\<lambda>ex u. http_post (ne_conf env) ex u (Some data) op throttle_delay)"

definition net_put :: "'x net_env_scheme \<Rightarrow> string \<Rightarrow> string \<Rightarrow> http_options \<Rightarrow> ('a net_scheme, http_resp) op" where
  "net_put env url data op = net_request env url (\<lambda>ex u. http_put (ne_conf env) ex u (Some data) op)"

section \<open>Error states\<close>

record error_state =
  es_min_timedelta :: int
  es_count :: nat
  es_timestamp :: "int option"

definition new_error_state :: "int \<Rightarrow> error_state" where
  "new_error_state d = \<lparr>es_min_timedelta = d, es_count = 0, es_timestamp = None\<rparr>"

definition error_state_incr :: "int \<Rightarrow> error_state \<Rightarrow> error_state" where
  "error_state_incr now e =
     (let e = (if es_count e = 0 then e\<lparr>es_timestamp := Some now\<rparr> else e) in e\<lparr>es_count := es_count e + 1\<rparr>)"

definition error_state_reset :: "error_state \<Rightarrow> error_state" where
  "error_state_reset e = e\<lparr>es_count := 0, es_timestamp := None\<rparr>"

definition is_triggered :: "int \<Rightarrow> error_state \<Rightarrow> bool" where
  "is_triggered now e = (case es_timestamp e of None \<Rightarrow> False | Some t \<Rightarrow> es_min_timedelta e \<le> now - t)"

section \<open>Health observations\<close>

record observation =
  ob_name :: string
  ob_is_healthy :: bool
  ob_description :: string
  ob_value :: string

definition observation_obj :: "observation \<Rightarrow> json" where
  "observation_obj ob = JObj [(''ObservationName'', JStr (take 64 (ob_name ob))), (''IsHealthy'', JBool (ob_is_healthy ob)),
     (''Description'', JStr (take 128 (ob_description ob))), (''Value'', JStr (take 128 (ob_value ob)))]"

definition MAX_OBSERVATIONS :: nat where "MAX_OBSERVATIONS = 10"

definition observe :: "observation \<Rightarrow> observation list \<Rightarrow> observation list" where
  "observe ob obs = (if MAX_OBSERVATIONS \<le> length obs then drop (MAX_OBSERVATIONS - 1) obs else obs) @ [ob]"

definition observations_json :: "observation list \<Rightarrow> json" where
  "observations_json obs = JObj [(''Api'', JStr ''reporttargethealth''), (''Version'', JStr ''1.0''), (''Source'', JStr ''WALinuxAgent''),
     (''Observations'', JList (map observation_obj obs))]"

text \<open>
  \<^verbatim>\<open>_report\<close> posts the observations; a failing request is ignored and the observations are dropped
  either way, so that the list is empty again after each report.
\<close>

definition report_observations :: "'x net_env_scheme \<Rightarrow> string \<Rightarrow> observation list \<Rightarrow> ('a net_scheme, unit) op" where
  "report_observations env endpoint obs =
     tryM (bindM (net_post env (''http://'' @ endpoint @ '':80/HealthService'') (ne_dumps env (observations_json obs))
             ((default_options env)\<lparr>ho_headers := [(''Content-Type'', ''application/json'')]\<rparr>) THROTTLE_DELAY_IN_SECONDS)
            (\<lambda>_. returnM ()))
       (\<lambda>e. if is_HttpError e then Some (returnM ()) else None)"

definition report_health :: "'x net_env_scheme \<Rightarrow> string \<Rightarrow> observation \<Rightarrow> ('a net_scheme, unit) op" where
  "report_health env endpoint ob = report_observations env endpoint (observe ob [])"

section \<open>Lemmas\<close>

lemma fs_net_request [simp]:
  "fs_files (snd (net_request env url f s)) = fs_files s" "fs_dirs (snd (net_request env url f s)) = fs_dirs s"
  by (auto simp: net_request_def op_defs split: prod.splits sum.splits)

lemma is_triggered_incr:
  "es_count e = 0 \<Longrightarrow> is_triggered later (error_state_incr now e) \<longleftrightarrow> es_min_timedelta e \<le> later - now"
  by (simp add: error_state_incr_def is_triggered_def)


text \<open>The history of an error state: successes reset it, failures increment it.\<close>

datatype watch_event = Failure int | Success

fun watch_step :: "error_state \<Rightarrow> watch_event \<Rightarrow> error_state" where
  "watch_step e (Failure now) = error_state_incr now e"
| "watch_step e Success = error_state_reset e"

text \<open>What an error state promises: the time of the first failure since the last success.\<close>

fun first_failure :: "int option \<Rightarrow> watch_event \<Rightarrow> int option" where
  "first_failure None (Failure now) = Some now"
| "first_failure (Some t) (Failure now) = Some t"
| "first_failure _ Success = None"

definition watches :: "error_state \<Rightarrow> int option \<Rightarrow> bool" where
  "watches e a \<longleftrightarrow> es_timestamp e = a \<and> (es_count e = 0 \<longleftrightarrow> a = None)"

lemma watch_step_refines: "watches e a \<Longrightarrow> watches (watch_step e ev) (first_failure a ev)"
  by (cases ev; cases a) (auto simp: watches_def error_state_incr_def error_state_reset_def)

lemma watch_step_delta: "es_min_timedelta (watch_step e ev) = es_min_timedelta e"
  by (cases ev) (simp_all add: error_state_incr_def error_state_reset_def Let_def)

section \<open>Properties\<close>

text \<open>
  C22: An error state refines its specification: over any history of failures and successes it is triggered
  exactly if there has been no success since a failure that lies at least the configured time back.
\<close>

theorem error_state_refines_first_failure:
  "is_triggered now (foldl watch_step (new_error_state d) evs) =
     (case foldl first_failure None evs of None \<Rightarrow> False | Some t \<Rightarrow> d \<le> now - t)"
proof -
  have "watches (foldl watch_step e evs) (foldl first_failure a evs)" if "watches e a" for e a
    using that by (induction evs arbitrary: e a) (simp_all add: watch_step_refines)
  from this [of "new_error_state d" None] have
    "es_timestamp (foldl watch_step (new_error_state d) evs) = foldl first_failure None evs"
    by (simp add: watches_def new_error_state_def)
  moreover have "es_min_timedelta (foldl watch_step e evs) = es_min_timedelta e" for e
    by (induction evs arbitrary: e) (simp_all add: watch_step_delta)
  from this [of "new_error_state d"] have "es_min_timedelta (foldl watch_step (new_error_state d) evs) = d"
    by (simp add: new_error_state_def)
  ultimately show ?thesis by (simp add: is_triggered_def split: option.split)
qed

end
