(* ===== verification/Host_Plugin.thy ===== *)
theory Host_Plugin
  imports Net Flexible_Version
begin

text \<open>
  \<^verbatim>\<open>azurelinuxagent/common/protocol/hostplugin.py\<close>: the client of the HostGAPlugin, the agent's second
  channel to storage. \<open>host_plugin\<close> holds the fields of \<^verbatim>\<open>HostPluginProtocol\<close>; the state \<open>hgap\<close> adds it, and
  the class attribute \<^verbatim>\<open>is_default_channel\<close>, to the network. The list of API versions is the text of the
  answer, empty when there is none, in which \<^verbatim>\<open>API_VERSION\<close> is searched. What \<^verbatim>\<open>uuid4\<close> returns is the
  parameter \<open>uuid\<close>.
\<close>

section \<open>State\<close>

record host_plugin =
  hp_initialized :: bool
  hp_available :: bool
  hp_api_versions :: string
  hp_endpoint :: string
  hp_container_id :: "string option"
  hp_deployment_id :: "string option"
  hp_role_config_name :: "string option"
  hp_manifest_uri :: "string option"
  hp_fetch_error :: error_state
  hp_status_error :: error_state
  hp_fetch_last :: "int option"
  hp_status_last :: "int option"

record hgap = net +
  g_plugin :: host_plugin
  g_default_channel :: bool

definition minutes :: "int \<Rightarrow> int" where
  "minutes n = usec (60 * n)"

definition new_host_plugin :: "string \<Rightarrow> host_plugin" where
  "new_host_plugin endpoint = \<lparr>hp_initialized = False, hp_available = False, hp_api_versions = '''', hp_endpoint = endpoint,
     hp_container_id = None, hp_deployment_id = None, hp_role_config_name = None, hp_manifest_uri = None,
     hp_fetch_error = new_error_state (minutes 5), hp_status_error = new_error_state (minutes 5),
     hp_fetch_last = None, hp_status_last = None\<rparr>"

definition modify_plugin :: "(host_plugin \<Rightarrow> host_plugin) \<Rightarrow> ('a hgap_scheme, unit) op" where
  "modify_plugin f = modifyM (\<lambda>s. s\<lparr>g_plugin := f (g_plugin s)\<rparr>)"

definition API_VERSION :: string where "API_VERSION = ''2015-09-01''"

definition plugin_uri :: "host_plugin \<Rightarrow> string \<Rightarrow> string" where
  "plugin_uri hp api = ''http://'' @ hp_endpoint hp @ '':'' @ nat_str HOST_PLUGIN_PORT @ ''/'' @ api"

definition extract_deployment_id :: "string option \<Rightarrow> string option" where
  "extract_deployment_id name = map_option (\<lambda>t. hd (split_on ''.'' t)) name"

definition update_container_id :: "string option \<Rightarrow> ('a hgap_scheme, unit) op" where
  "update_container_id c = modify_plugin (\<lambda>hp. hp\<lparr>hp_container_id := c\<rparr>)"

definition update_role_config_name :: "string option \<Rightarrow> ('a hgap_scheme, unit) op" where
  "update_role_config_name n = modify_plugin (\<lambda>hp. hp\<lparr>hp_role_config_name := n, hp_deployment_id := extract_deployment_id n\<rparr>)"

definition update_manifest_uri :: "string option \<Rightarrow> ('a hgap_scheme, unit) op" where
  "update_manifest_uri u = modify_plugin (\<lambda>hp. hp\<lparr>hp_manifest_uri := u\<rparr>)"

section \<open>Availability\<close>

definition text_of_bytes :: "string \<Rightarrow> string" where
  "text_of_bytes body = (case remove_bom (Some (map (\<lambda>c. of_nat (of_char c)) body)) of
     None \<Rightarrow> '''' | Some bs \<Rightarrow> map (\<lambda>b. char_of (unat b)) bs)"

definition get_api_versions :: "'x net_env_scheme \<Rightarrow> ('a hgap_scheme, string) op" where
  "get_api_versions env =
     bindM (getM g_plugin) (\<lambda>hp.
     bindM (tryM
       (bindM (liftR (header_values [(''x-ms-containerid'', hp_container_id hp)])) (\<lambda>headers.
        bindM (net_get env (plugin_uri hp ''versions'') ((default_options env)\<lparr>ho_headers := headers\<rparr>) False False) (\<lambda>response.
          if \<not> request_succeeded response
          then returnM ('''', read_response_error response, \<not> request_failed_at_hostplugin response)
          else bindM (liftR (resp_read response)) (\<lambda>body. returnM (text_of_bytes body, '''', True)))))
       (\<lambda>e. if is_HttpError e then Some (returnM ('''', '''', False)) else None))
     (\<lambda>(versions, error_response, is_healthy).
     thenM (report_health env (hp_endpoint hp)
              \<lparr>ob_name = ''GuestAgentPluginVersions'', ob_is_healthy = is_healthy, ob_description = '''', ob_value = error_response\<rparr>)
       (returnM versions)))"

definition ensure_initialized :: "'x net_env_scheme \<Rightarrow> ('a hgap_scheme, bool) op" where
  "ensure_initialized env =
     bindM (getM (\<lambda>s. hp_initialized (g_plugin s))) (\<lambda>initialized.
     thenM (whenM (\<not> initialized)
       (bindM (get_api_versions env) (\<lambda>versions.
          let available = contains versions API_VERSION in
          modify_plugin (\<lambda>hp. hp\<lparr>hp_api_versions := versions, hp_available := available, hp_initialized := available\<rparr>))))
     (getM (\<lambda>s. hp_available (g_plugin s))))"

definition get_health :: "'x net_env_scheme \<Rightarrow> ('a hgap_scheme, bool) op" where
  "get_health env =
     bindM (getM g_plugin) (\<lambda>hp.
     bindM (net_get env (plugin_uri hp ''health'') ((default_options env)\<lparr>ho_max_retry := Some 1\<rparr>) False False) (\<lambda>response.
       returnM (request_succeeded response)))"

section \<open>Requests for artifacts\<close>

definition get_artifact_request ::
  "'x net_env_scheme \<Rightarrow> string option \<Rightarrow> bool \<Rightarrow> string option \<Rightarrow> ('a hgap_scheme, string \<times> (string \<times> string option) list) op" where
  "get_artifact_request env artifact_url use_verify_header artifact_manifest_url =
     bindM (ensure_initialized env) (\<lambda>available.
       if \<not> available then raiseM (ProtocolError ''HostGAPlugin: Host plugin channel is not available'')
       else if is_str_none_or_whitespace artifact_url then raiseM (ProtocolError ''HostGAPlugin: No extension artifact url was provided'')
       else bindM (getM g_plugin) (\<lambda>hp.
         returnM (plugin_uri hp ''extensionArtifact'',
           [(''x-ms-version'', Some API_VERSION), (''x-ms-containerid'', hp_container_id hp),
            (''x-ms-host-config-name'', hp_role_config_name hp), (''x-ms-artifact-location'', artifact_url)] @
           (if use_verify_header then [(''x-ms-verify-from-artifacts-blob'', Some ''true'')] else []) @
           (if artifact_manifest_url \<noteq> None then [(''x-ms-artifact-manifest-location'', artifact_manifest_url)] else []))))"

section \<open>Health of the plugin\<close>

text \<open>\<^verbatim>\<open>should_report\<close> updates the error state; both instants it reads are the same here.\<close>

definition should_report :: "int \<Rightarrow> bool \<Rightarrow> error_state \<Rightarrow> int option \<Rightarrow> int \<Rightarrow> error_state \<times> bool" where
  "should_report now is_healthy es last_timestamp period =
     ((if is_healthy then error_state_reset es else error_state_incr now es),
      (case last_timestamp of None \<Rightarrow> now - period | Some t \<Rightarrow> t) + period \<le> now)"

definition REPORTING_PERIOD :: int where "REPORTING_PERIOD = minutes 1"

definition report_fetch_health :: "'x net_env_scheme \<Rightarrow> string \<Rightarrow> bool \<Rightarrow> string \<Rightarrow> string \<Rightarrow> ('a hgap_scheme, unit) op" where
  "report_fetch_health env uri is_healthy source response =
     bindM (getM (\<lambda>s. (g_plugin s, n_now s))) (\<lambda>(hp, now).
       if uri \<noteq> plugin_uri hp ''extensionArtifact'' then returnM ()
       else case should_report now is_healthy (hp_fetch_error hp) (hp_fetch_last hp) REPORTING_PERIOD of (es, due) \<Rightarrow>
         thenM (modify_plugin (\<lambda>hp. hp\<lparr>hp_fetch_error := es\<rparr>))
         (whenM due
           (thenM (modify_plugin (\<lambda>hp. hp\<lparr>hp_fetch_last := Some now\<rparr>))
             (report_health env (hp_endpoint hp)
                \<lparr>ob_name = ''GuestAgentPluginArtifact'', ob_is_healthy = \<not> is_triggered now es, ob_description = source, ob_value = response\<rparr>))))"

definition report_status_health :: "'x net_env_scheme \<Rightarrow> bool \<Rightarrow> string \<Rightarrow> ('a hgap_scheme, unit) op" where
  "report_status_health env is_healthy response =
     bindM (getM (\<lambda>s. (g_plugin s, n_now s))) (\<lambda>(hp, now).
       case should_report now is_healthy (hp_status_error hp) (hp_status_last hp) REPORTING_PERIOD of (es, due) \<Rightarrow>
         thenM (modify_plugin (\<lambda>hp. hp\<lparr>hp_status_error := es\<rparr>))
         (whenM due
           (thenM (modify_plugin (\<lambda>hp. hp\<lparr>hp_status_last := Some now\<rparr>))
             (report_health env (hp_endpoint hp)
                \<lparr>ob_name = ''GuestAgentPluginStatus'', ob_is_healthy = \<not> is_triggered now es, ob_description = '''', ob_value = response\<rparr>))))"


section \<open>Uploads\<close>

definition build_log_headers :: "host_plugin \<Rightarrow> string \<Rightarrow> string \<Rightarrow> (string \<times> string option) list" where
  "build_log_headers hp agent_version uuid =
     [(''x-ms-version'', Some API_VERSION), (''x-ms-containerid'', hp_container_id hp),
      (''x-ms-vmagentlog-deploymentid'', hp_deployment_id hp), (''x-ms-client-name'', Some ''WALinuxAgent''),
      (''x-ms-client-version'', Some agent_version), (''x-ms-client-correlationid'', Some uuid)]"

definition put_vm_log :: "'x net_env_scheme \<Rightarrow> string \<Rightarrow> string \<Rightarrow> string option \<Rightarrow> ('a hgap_scheme, http_resp) op" where
  "put_vm_log env agent_version uuid content =
     bindM (ensure_initialized env) (\<lambda>available.
       if \<not> available then raiseM (ProtocolError ''HostGAPlugin: HostGAPlugin is not available'')
       else case content of
         None \<Rightarrow> raiseM (ProtocolError ''HostGAPlugin: Invalid argument passed to upload VM logs. Content was not provided.'')
       | Some c \<Rightarrow>
           bindM (getM g_plugin) (\<lambda>hp.
           bindM (liftR (header_values (build_log_headers hp agent_version uuid))) (\<lambda>headers.
           bindM (net_put env (plugin_uri hp ''vmAgentLog'') c ((default_options env)\<lparr>ho_headers := headers, ho_timeout := 30\<rparr>)) (\<lambda>response.
             if \<not> request_succeeded response
             then raiseM (HttpError (''HostGAPlugin: Upload VM logs failed: '' @ read_response_error response))
             else returnM response))))"

text \<open>
  The status blob (\<^verbatim>\<open>StatusBlob\<close> of \<^verbatim>\<open>wire.py\<close>) and the headers it puts on a blob; \<open>date\<close> is the formatted
  time.
\<close>

record status_blob =
  sb_has_vm_status :: bool
  sb_type :: "string option"
  sb_data :: "string option"

definition get_block_blob_headers :: "string \<Rightarrow> nat \<Rightarrow> (string \<times> string) list" where
  "get_block_blob_headers date blob_size =
     [(''Content-Length'', nat_str blob_size), (''x-ms-blob-type'', ''BlockBlob''), (''x-ms-date'', date), (''x-ms-version'', ''2014-02-14'')]"

definition get_page_blob_create_headers :: "string \<Rightarrow> nat \<Rightarrow> (string \<times> string) list" where
  "get_page_blob_create_headers date blob_size =
     [(''Content-Length'', ''0''), (''x-ms-blob-content-length'', nat_str blob_size), (''x-ms-blob-type'', ''PageBlob''),
      (''x-ms-date'', date), (''x-ms-version'', ''2014-02-14'')]"

definition get_page_blob_page_headers :: "string \<Rightarrow> nat \<Rightarrow> nat \<Rightarrow> (string \<times> string) list" where
  "get_page_blob_page_headers date start stop =
     [(''Content-Length'', nat_str (stop - start)), (''x-ms-date'', date),
      (''x-ms-range'', ''bytes='' @ nat_str start @ ''-'' @ nat_str (stop - 1)),
      (''x-ms-page-write'', ''update''), (''x-ms-version'', ''2014-02-14'')]"

text \<open>\<^verbatim>\<open>json.dumps(data, sort_keys=True)\<close>\<close>

definition build_status_data :: "'x net_env_scheme \<Rightarrow> string \<Rightarrow> (string \<times> string) list \<Rightarrow> string option \<Rightarrow> string" where
  "build_status_data env sas_url blob_headers content =
     ne_dumps env (JObj
       ((case content of None \<Rightarrow> [] | Some c \<Rightarrow> [(''content'', JStr (ne_b64encode env c))]) @
        [(''headers'', JList (map (\<lambda>(n, v). JObj [(''headerName'', JStr n), (''headerValue'', JStr v)]) blob_headers)),
         (''requestUri'', JStr sas_url)]))"

definition build_status_headers :: "host_plugin \<Rightarrow> (string \<times> string option) list" where
  "build_status_headers hp = [(''x-ms-version'', Some API_VERSION), (''Content-type'', Some ''application/json''),
     (''x-ms-containerid'', hp_container_id hp), (''x-ms-host-config-name'', hp_role_config_name hp)]"

definition put_status :: "'x net_env_scheme \<Rightarrow> string \<Rightarrow> (string \<times> string) list \<Rightarrow> string option \<Rightarrow> ('a hgap_scheme, http_resp) op" where
  "put_status env sas_url blob_headers content =
     bindM (getM g_plugin) (\<lambda>hp.
     bindM (liftR (header_values (build_status_headers hp))) (\<lambda>headers.
       net_put env (plugin_uri hp ''status'') (build_status_data env sas_url blob_headers content)
         ((default_options env)\<lparr>ho_headers := headers\<rparr>)))"

definition check_status_response :: "'x net_env_scheme \<Rightarrow> string \<Rightarrow> http_resp \<Rightarrow> ('a hgap_scheme, unit) op" where
  "check_status_response env failure response =
     whenM (\<not> request_succeeded response)
       (thenM (report_status_health env (\<not> request_failed_at_hostplugin response) (read_response_error response))
          (raiseM (HttpError (failure @ read_response_error response))))"

definition put_block_blob_status :: "'x net_env_scheme \<Rightarrow> string \<Rightarrow> string \<Rightarrow> ('a hgap_scheme, unit) op" where
  "put_block_blob_status env sas_url data =
     bindM (getM (\<lambda>s. ne_utc env (n_now s))) (\<lambda>date.
     bindM (put_status env sas_url (get_block_blob_headers date (length data)) (Some data)) (\<lambda>response.
     thenM (check_status_response env ''HostGAPlugin: Put BlockBlob failed: '' response)
       (report_status_health env True '''')))"

definition align512 :: "nat \<Rightarrow> nat" where
  "align512 n = (n + 511) div 512 * 512"

definition MAXIMUM_PAGEBLOB_PAGE_SIZE :: nat where "MAXIMUM_PAGEBLOB_PAGE_SIZE = 4 * 1024 * 1024"

text \<open>
  The pages of the upload loop, with their first position and the one after the last: the body of the loop depends on
  \<^verbatim>\<open>start\<close> only.
\<close>

function status_pages :: "string \<Rightarrow> nat \<Rightarrow> (nat \<times> nat \<times> string) list" where
  "status_pages status start =
     (if start < length status
      then let stop = start + min (length status - start) MAXIMUM_PAGEBLOB_PAGE_SIZE;
               page_size = align512 (stop - start);
               content = take (stop - start) (drop start status)
           in (start, stop, content @ replicate (page_size - length content) (CHR 0x00)) # status_pages status stop
      else [])"
  by pat_completeness auto
termination by (relation "measure (\<lambda>(status, start). length status - start)") (auto simp: MAXIMUM_PAGEBLOB_PAGE_SIZE_def)

declare status_pages.simps [simp del]

definition page_url :: "string \<Rightarrow> string" where
  "page_url url = (if CHR ''?'' \<notin> set url then url @ ''?comp=page'' else url @ ''&comp=page'')"

definition put_page_blob_status :: "'x net_env_scheme \<Rightarrow> string \<Rightarrow> string \<Rightarrow> ('a hgap_scheme, unit) op" where
  "put_page_blob_status env sas_url data =
     (let status_size = align512 (length data);
          status = data @ replicate (status_size - length data) (CHR '' '') in
     bindM (getM (\<lambda>s. ne_utc env (n_now s))) (\<lambda>date.
     bindM (put_status env sas_url (get_page_blob_create_headers date status_size) None) (\<lambda>response.
     thenM (check_status_response env ''HostGAPlugin: Failed PageBlob clean-up: '' response)
    (thenM (report_status_health env True '''')
    (forM (status_pages status 0) (\<lambda>(start, stop, buf).
       bindM (getM (\<lambda>s. ne_utc env (n_now s))) (\<lambda>date.
       bindM (put_status env (page_url sas_url) (get_page_blob_page_headers date start stop) (Some buf)) (\<lambda>response.
         check_status_response env (''HostGAPlugin Error: Put PageBlob bytes ['' @ nat_str start @ '','' @ nat_str stop @ '']: '')
           response))))))))"

definition put_vm_status :: "'x net_env_scheme \<Rightarrow> status_blob \<Rightarrow> string \<Rightarrow> string option \<Rightarrow> ('a hgap_scheme, unit) op" where
  "put_vm_status env blob sas_url config_blob_type =
     bindM (ensure_initialized env) (\<lambda>available.
       if \<not> available then raiseM (ProtocolError ''HostGAPlugin: HostGAPlugin is not available'')
       else if \<not> sb_has_vm_status blob then raiseM (ProtocolError ''HostGAPlugin: Status blob was not provided'')
       else let blob_type = (case sb_type blob of Some t \<Rightarrow> if t \<noteq> '''' then Some t else config_blob_type | None \<Rightarrow> config_blob_type)
            in case sb_data blob of
              None \<Rightarrow> raiseM TypeError
            | Some data \<Rightarrow> if blob_type = Some ''BlockBlob'' then put_block_blob_status env sas_url data
                           else put_page_blob_status env sas_url data)"


section \<open>Properties\<close>

text \<open>Pages that follow one another from \<open>start\<close> to \<open>n\<close>, each aligned and within the limit.\<close>

fun page_chain :: "nat \<Rightarrow> (nat \<times> nat \<times> string) list \<Rightarrow> nat \<Rightarrow> bool" where
  "page_chain start [] n \<longleftrightarrow> start = n"
| "page_chain start ((a, b, buf) # pages) n \<longleftrightarrow> a = start \<and> a < b \<and> b - a = length buf \<and> 512 dvd a \<and> 512 dvd length buf \<and>
     length buf \<le> MAXIMUM_PAGEBLOB_PAGE_SIZE \<and> page_chain b pages n"

lemma align512_dvd: "512 dvd n \<Longrightarrow> align512 n = n"
  by (auto simp: align512_def dvd_def)

lemma dvd_align512 [simp]: "512 dvd align512 n"
  by (simp add: align512_def)

lemma align512_bounds: "n \<le> align512 n" "align512 n < n + 512"
proof -
  have "(n + 511) div 512 * 512 + (n + 511) mod 512 = n + 511" by (rule div_mult_mod_eq)
  moreover have "(n + 511) mod 512 < 512" by simp
  ultimately show "n \<le> align512 n" "align512 n < n + 512" unfolding align512_def by linarith+
qed

lemma status_pages_chain:
  assumes "512 dvd length status"
  shows "512 dvd start \<Longrightarrow> start \<le> length status \<Longrightarrow>
    page_chain start (status_pages status start) (length status) \<and> concat (map (\<lambda>p. snd (snd p)) (status_pages status start)) = drop start status"
  using assms
proof (induction status start rule: status_pages.induct)
  case (1 status start)
  show ?case
  proof (cases "start < length status")
    case False
    then have "status_pages status start = []" by (subst status_pages.simps) simp
    then show ?thesis using False "1.prems" by simp
  next
    case True
    define n where "n = min (length status - start) MAXIMUM_PAGEBLOB_PAGE_SIZE"
    have n: "0 < n" "n \<le> length status - start" "n \<le> MAXIMUM_PAGEBLOB_PAGE_SIZE"
      using True by (auto simp: n_def MAXIMUM_PAGEBLOB_PAGE_SIZE_def)
    have "512 dvd MAXIMUM_PAGEBLOB_PAGE_SIZE" by (simp add: MAXIMUM_PAGEBLOB_PAGE_SIZE_def)
    moreover have "512 dvd length status - start" using "1.prems" by (simp add: dvd_diff_nat)
    ultimately have dvd: "512 dvd n" by (simp add: n_def min_def)
    have pages: "status_pages status start = (start, start + n, take n (drop start status)) # status_pages status (start + n)"
      using True n align512_dvd [OF dvd] by (simp add: status_pages.simps [of status start] Let_def n_def [symmetric])
    have "page_chain (start + n) (status_pages status (start + n)) (length status) \<and>
        concat (map (\<lambda>p. snd (snd p)) (status_pages status (start + n))) = drop (start + n) status"
      using "1.IH" [OF True refl refl refl] "1.prems" n dvd by (simp add: n_def [symmetric])
    moreover have "take n (drop start status) @ drop (start + n) status = drop start status"
      by (simp add: add.commute append_take_drop_id flip: drop_drop)
    ultimately show ?thesis using pages "1.prems" n dvd by auto
  qed
qed

text \<open>
  C17: A status uploaded as a page blob arrives complete: the pages sent follow one another from the first
  byte to the announced size of the blob, each starts and ends on a 512 byte boundary and is at most 4MB,
  and put together they are the status followed by blanks.
\<close>

theorem status_pages_complete:
  "let status = data @ replicate (align512 (length data) - length data) (CHR '' '') in
     page_chain 0 (status_pages status 0) (align512 (length data)) \<and>
     concat (map (\<lambda>p. snd (snd p)) (status_pages status 0)) = status"
  using status_pages_chain [of "data @ replicate (align512 (length data) - length data) (CHR '' '')" 0] align512_bounds [of "length data"]
  by (simp add: Let_def)

end
