(* ===== verification/Xml.thy ===== *)
theory Xml
  imports Py_Text
begin

text \<open>
  XML documents as \<^verbatim>\<open>xml.dom.minidom\<close> holds them, and the helpers of
  \<^verbatim>\<open>azurelinuxagent/common/utils/textutil.py\<close> that the goal state is read with. A document is a node whose child is
  the root element. \<open>Other\<close> stands for comments, CDATA sections and processing instructions, which the helpers pass
  over. Where the helpers take \<^verbatim>\<open>None\<close> for a node, they take \<open>None\<close> here.
\<close>

datatype xml =
    Element string "(string \<times> string) list" "xml list"
  | Text string
  | Other

fun child_nodes :: "xml \<Rightarrow> xml list" where
  "child_nodes (Element _ _ ns) = ns"
| "child_nodes _ = []"

text \<open>\<^verbatim>\<open>getElementsByTagName\<close>: the elements below a node, in document order.\<close>

fun elements :: "string \<Rightarrow> xml \<Rightarrow> xml list" where
  "elements tag (Element t as ns) =
     concat (map (\<lambda>n. (case n of Element t' _ _ \<Rightarrow> if t' = tag then [n] else [] | _ \<Rightarrow> []) @ elements tag n) ns)"
| "elements tag _ = []"

definition findall :: "xml option \<Rightarrow> string \<Rightarrow> xml list" where
  "findall root tag = (case root of None \<Rightarrow> [] | Some n \<Rightarrow> elements tag n)"

definition find_node :: "xml option \<Rightarrow> string \<Rightarrow> xml option" where
  "find_node root tag = (case findall root tag of [] \<Rightarrow> None | n # _ \<Rightarrow> Some n)"

fun first_text :: "xml list \<Rightarrow> string option" where
  "first_text [] = None"
| "first_text (Text t # ns) = Some t"
| "first_text (n # ns) = first_text ns"

definition gettext :: "xml option \<Rightarrow> string option" where
  "gettext node = (case node of None \<Rightarrow> None | Some n \<Rightarrow> first_text (child_nodes n))"

text \<open>\<^verbatim>\<open>toxml\<close> of a text node writes the characters that have a meaning in XML as entities.\<close>

definition escape_char :: "char \<Rightarrow> string" where
  "escape_char c = (if c = CHR ''&'' then ''&amp;'' else if c = CHR ''<'' then ''&lt;''
     else if c = CHR 0x22 then ''&quot;'' else if c = CHR ''>'' then ''&gt;'' else [c])"

definition gettextxml :: "xml option \<Rightarrow> string option" where
  "gettextxml node = map_option (\<lambda>t. concat (map escape_char t)) (gettext node)"

definition findtext :: "xml option \<Rightarrow> string \<Rightarrow> string option" where
  "findtext root tag = gettext (find_node root tag)"

definition getattrib :: "xml option \<Rightarrow> string \<Rightarrow> string option" where
  "getattrib node name = (case node of
     Some (Element _ as _) \<Rightarrow> Some (case map_of as name of None \<Rightarrow> '''' | Some v \<Rightarrow> v)
   | _ \<Rightarrow> None)"

definition hasattrib :: "xml option \<Rightarrow> string \<Rightarrow> bool" where
  "hasattrib node name = (case node of Some (Element _ as _) \<Rightarrow> map_of as name \<noteq> None | _ \<Rightarrow> False)"

lemma find_node_Some: "find_node root tag = Some n \<Longrightarrow> \<exists>r as ns. root = Some r \<and> n = Element tag as ns"
proof -
  have el: "\<exists>as ns. n = Element tag as ns" if "n \<in> set (elements tag r)" for n r
    using that by (induction tag r rule: elements.induct) (auto split: xml.splits if_splits)
  assume "find_node root tag = Some n"
  then obtain r where "root = Some r" "n \<in> set (elements tag r)"
    by (auto simp: find_node_def findall_def split: option.splits list.splits)
  with el show ?thesis by blast
qed

end
