(* ===== verification/Wire_Client.thy ===== *)
theory Wire_Client
  imports Host_Plugin Signature_Validation Xml
begin

text \<open>
  \<^verbatim>\<open>WireClient\<close> of \<^verbatim>\<open>azurelinuxagent/common/protocol/wire.py\<close>: requests to the wire server and to storage,
  downloads over two channels, and packages that are verified before they are expanded. The state \<open>wire\<close> adds the state of signature validation; the host
  plugin client exists. \<open>wire_env\<close> adds what is outside: the shuffle of a list, the XML parser,
  the expansion of a ZIP file, and the surroundings of signature validation, which
  depend on the contents of the package.
\<close>

section \<open>State and surroundings\<close>

record wire = hgap +
  w_sig :: sig_state

record wire_env = net_env +
  we_endpoint :: string
  we_shuffle :: "string list \<Rightarrow> string list"
  we_parse_doc :: "string \<Rightarrow> xml res"
  we_unzip :: "string \<Rightarrow> exn option \<times> (path \<times> string) list \<times> path list"
  we_sig :: "string option \<Rightarrow> sig_env"
  we_lib_dir :: string

definition PluginManifestDownloadError :: int where "PluginManifestDownloadError = 1001"

section \<open>The wire server\<close>

definition call_wireserver :: "'x net_env_scheme \<Rightarrow> string \<Rightarrow> ('s, http_resp) op \<Rightarrow> ('s, http_resp) op" where
  "call_wireserver env uri http_req =
     tryM (bindM http_req (\<lambda>resp.
            if \<not> request_succeeded resp
            then raiseM (ProtocolError (''[Wireserver Failed] URI '' @ uri @ ''  [HTTP Failed] Status Code '' @ nat_str (resp_status resp)))
            else returnM resp))
       (\<lambda>e. case e of
          ResourceGoneError _ \<Rightarrow> None
        | _ \<Rightarrow> if is_Exception e then Some (raiseM (ProtocolError (''[Wireserver Exception] '' @ ne_show env e))) else None)"

definition get_header :: "(string \<times> string) list" where
  "get_header = [(''x-ms-agent-name'', ''WALinuxAgent''), (''x-ms-version'', ''2012-11-30'')]"

definition get_header_for_xml_content :: "(string \<times> string) list" where
  "get_header_for_xml_content = get_header @ [(''Content-Type'', ''text/xml;charset=utf-8'')]"

definition fetch_config :: "'x wire_env_scheme \<Rightarrow> string \<Rightarrow> (string \<times> string) list \<Rightarrow> ('a wire_scheme, string) op" where
  "fetch_config env uri headers =
     bindM (call_wireserver env uri
              (net_get env uri ((default_options env)\<lparr>ho_headers := headers\<rparr>) False False)) (\<lambda>resp.
     bindM (liftR (resp_read resp)) (\<lambda>body. returnM (text_of_bytes body)))"

text \<open>
  \<^verbatim>\<open>GoalState._fetch_goal_state\<close>: up to six requests until the document has a role instance, half a second
  apart; every fetch brings the headers of the host plugin up to date.
\<close>

definition GET_GOAL_STATE_MAX_ATTEMPTS :: nat where "GET_GOAL_STATE_MAX_ATTEMPTS = 6"

fun fetch_goal_state_attempts :: "'x wire_env_scheme \<Rightarrow> string option \<Rightarrow> nat \<Rightarrow> ('a wire_scheme, string option \<times> string \<times> xml) op" where
  "fetch_goal_state_attempts env incarnation 0 =
     raiseM (ProtocolError (''Fetched goal state without a RoleInstance [incarnation '' @ opt_text incarnation @ '']''))"
| "fetch_goal_state_attempts env incarnation (Suc n) =
     bindM (fetch_config env (''http://'' @ we_endpoint env @ ''/machine/?comp=goalstate'') get_header) (\<lambda>xml_text.
     bindM (liftR (we_parse_doc env xml_text)) (\<lambda>doc.
       let incarnation = findtext (Some doc) ''Incarnation'' in
       case find_node (Some doc) ''RoleInstance'' of
         None \<Rightarrow> thenM (modifyM (\<lambda>s. s\<lparr>n_now := n_now s + 500000\<rparr>)) (fetch_goal_state_attempts env incarnation n)
       | Some role_instance \<Rightarrow>
           thenM (update_container_id (findtext (find_node (Some doc) ''Container'') ''ContainerId''))
          (thenM (update_role_config_name (findtext (find_node (Some role_instance) ''Configuration'') ''ConfigName''))
                 (returnM (incarnation, xml_text, doc)))))"

definition fetch_goal_state :: "'x wire_env_scheme \<Rightarrow> ('a wire_scheme, string option \<times> string \<times> xml) op" where
  "fetch_goal_state env = fetch_goal_state_attempts env (Some ''unknown'') GET_GOAL_STATE_MAX_ATTEMPTS"

definition update_host_plugin_from_goal_state :: "'x wire_env_scheme \<Rightarrow> ('a wire_scheme, unit) op" where
  "update_host_plugin_from_goal_state env = bindM (fetch_goal_state env) (\<lambda>_. returnM ())"

section \<open>Storage\<close>

definition headers_text :: "'x net_env_scheme \<Rightarrow> (string \<times> string) list \<Rightarrow> string" where
  "headers_text env headers =
     (let hs = filter (\<lambda>(k, _). k \<in> set [''x-ms-artifact-location'', ''x-ms-artifact-manifest-location'']) headers
      in if hs \<noteq> [] then '' with headers ['' @ ne_dumps env (JObj (map (\<lambda>(k, v). (k, JStr v)) hs)) @ '']'' else '''')"

text \<open>
  \<^verbatim>\<open>_fetch_response\<close>. \<open>ok_codes\<close> are the statuses of a success; without \<^verbatim>\<open>use_proxy\<close> the configured proxy is
  used.
\<close>

definition fetch_response ::
  "'x net_env_scheme \<Rightarrow> string \<Rightarrow> (string \<times> string option) list \<Rightarrow> bool option \<Rightarrow> nat list option \<Rightarrow> nat list \<Rightarrow> bool \<Rightarrow>
   ('a hgap_scheme, http_resp) op" where
  "fetch_response env uri headers use_proxy retry_codes ok_codes fail_fast =
     tryM
       (bindM (liftR (header_values headers)) (\<lambda>hs.
        bindM (net_get env uri ((default_options env)\<lparr>ho_headers := hs, ho_retry_codes := retry_codes,
                 ho_use_proxy := (case use_proxy of None \<Rightarrow> True | Some b \<Rightarrow> b)\<rparr>) False fail_fast) (\<lambda>resp.
          if resp_status resp = 400 \<and> contains (read_response_error resp) ''InvalidContainerConfiguration''
          then raiseM (InvalidContainerError (read_response_error resp))
          else if resp_status resp \<notin> set ok_codes
          then thenM (report_fetch_health env uri (\<not> request_failed_at_hostplugin resp) ''WireClient'' (read_response_error resp))
                 (raiseM (ProtocolError (''Fetch failed from ['' @ uri @ '']'' @ headers_text env hs @ '': '' @ read_response_error resp)))
          else thenM (report_fetch_health env uri True ''WireClient'' '''') (returnM resp))))
       (\<lambda>e. if is_HttpError e \<or> is_ProtocolError e \<or> is_OSError e then None
            else if is_Exception e then Some (raiseM (ProtocolError (''Fetch failed with exception from ['' @ uri @ '']: '' @ ne_show env e)))
            else None)"

definition fetch ::
  "'x net_env_scheme \<Rightarrow> string \<Rightarrow> (string \<times> string option) list \<Rightarrow> bool option \<Rightarrow> nat list option \<Rightarrow> bool \<Rightarrow> ('a hgap_scheme, string) op" where
  "fetch env uri headers use_proxy retry_codes fail_fast =
     bindM (fetch_response env uri headers use_proxy retry_codes OK_CODES fail_fast) (\<lambda>response.
     bindM (liftR (resp_read response)) (\<lambda>body. returnM (text_of_bytes body)))"

text \<open>\<^verbatim>\<open>os.remove\<close> whose failure is only logged.\<close>

definition try_remove :: "io_env \<Rightarrow> path \<Rightarrow> ('a fs_scheme, unit) op" where
  "try_remove io p = tryM (remove_file io p) (\<lambda>e. if is_Exception e then Some (returnM ()) else None)"

text \<open>
  \<^verbatim>\<open>stream\<close>: a body that cannot be read to its end leaves a partial file, here an empty one, which is
  removed before the exception goes on.
\<close>

definition stream ::
  "'x net_env_scheme \<Rightarrow> string \<Rightarrow> path \<Rightarrow> (string \<times> string option) list \<Rightarrow> bool option \<Rightarrow> nat list option \<Rightarrow> bool \<Rightarrow>
   ('a hgap_scheme, string) op" where
  "stream env uri destination headers use_proxy retry_codes fail_fast =
     tryM
       (bindM (fetch_response env uri headers use_proxy retry_codes OK_CODES fail_fast) (\<lambda>response.
          case resp_read response of
            Inr body \<Rightarrow> thenM (write_file (ne_io env) destination body) (returnM '''')
          | Inl e \<Rightarrow> thenM (write_file (ne_io env) destination '''') (raiseM e)))
       (\<lambda>e. Some
          (bindM (getM (\<lambda>s. path_exists s destination)) (\<lambda>there.
             thenM (whenM there (try_remove (ne_io env) destination)) (raiseM e))))"

section \<open>Two channels\<close>

definition call_hostplugin_with_container_check :: "'x wire_env_scheme \<Rightarrow> ('a wire_scheme, 'r) op \<Rightarrow> ('a wire_scheme, 'r) op" where
  "call_hostplugin_with_container_check env host_func =
     tryM host_func (\<lambda>e. case e of
         ResourceGoneError _ \<Rightarrow> Some (thenM (update_host_plugin_from_goal_state env) host_func)
       | InvalidContainerError _ \<Rightarrow> Some (thenM (update_host_plugin_from_goal_state env) host_func)
       | _ \<Rightarrow> None)"

definition download_using_appropriate_channel ::
  "'x wire_env_scheme \<Rightarrow> ('a wire_scheme, 'r) op \<Rightarrow> ('a wire_scheme, 'r) op \<Rightarrow> ('a wire_scheme, 'r) op" where
  "download_using_appropriate_channel env direct_download hgap_download =
     bindM (getM g_default_channel) (\<lambda>hgap_first.
     let hgap_with_retry = call_hostplugin_with_container_check env hgap_download;
         primary = (if hgap_first then hgap_with_retry else direct_download);
         secondary = (if hgap_first then direct_download else hgap_with_retry) in
     tryM primary (\<lambda>primary_error.
       if is_Exception primary_error
       then Some (tryM (bindM secondary (\<lambda>value.
                          thenM (modifyM (\<lambda>s. s\<lparr>g_default_channel := \<not> g_default_channel s\<rparr>)) (returnM value)))
              (\<lambda>e. if is_Exception e
                   then Some (raiseM (HttpError (''Download failed both on the primary and fallback channels. Primary: ['' @
                          ne_show env primary_error @ ''] Fallback: ['' @ ne_show env e @ '']'')))
                   else None))
       else None))"

definition DOWNLOAD_TIMEOUT :: int where "DOWNLOAD_TIMEOUT = minutes 5"

text \<open>
  The loop of \<^verbatim>\<open>_download_with_fallback_channel\<close> over the shuffled URIs; \<open>try_uri\<close> is a download over both
  channels followed by \<^verbatim>\<open>on_downloaded\<close>.
\<close>

fun download_loop ::
  "'x wire_env_scheme \<Rightarrow> string \<Rightarrow> int \<Rightarrow> nat \<Rightarrow> (string \<Rightarrow> ('a wire_scheme, 'r) op) \<Rightarrow> nat \<Rightarrow> string \<Rightarrow> string list \<Rightarrow>
   ('a wire_scheme, string \<times> 'r) op" where
  "download_loop env download_type start_time n_uris try_uri index most_recent_error [] =
     raiseM (ExtensionDownloadError (''Failed to download '' @ download_type @ '' from all URIs. Last error: '' @ most_recent_error)
       PluginManifestDownloadError)"
| "download_loop env download_type start_time n_uris try_uri index most_recent_error (uri # uris) =
     bindM (getM n_now) (\<lambda>now.
       if DOWNLOAD_TIMEOUT < now - start_time
       then raiseM (ExtensionDownloadError (''Timeout downloading '' @ download_type @ ''. URIs tried: '' @ nat_str index @ ''/'' @ nat_str n_uris @
              ''. Last error: '' @ most_recent_error) PluginManifestDownloadError)
       else tryM (bindM (try_uri uri) (\<lambda>response. returnM (uri, response)))
              (\<lambda>e. if is_SignatureValidationError e then None
                   else if is_Exception e
                   then Some (download_loop env download_type start_time n_uris try_uri (Suc index) (ne_show env e) uris)
                   else None))"

definition download_with_fallback_channel ::
  "'x wire_env_scheme \<Rightarrow> string \<Rightarrow> string list \<Rightarrow> (string \<Rightarrow> ('a wire_scheme, 'r) op) \<Rightarrow> (string \<Rightarrow> ('a wire_scheme, 'r) op) \<Rightarrow>
   ('a wire_scheme, unit) op \<Rightarrow> ('a wire_scheme, string \<times> 'r) op" where
  "download_with_fallback_channel env download_type uris direct_download hgap_download on_downloaded =
     bindM (getM n_now) (\<lambda>start_time.
       download_loop env download_type start_time (length uris)
         (\<lambda>uri. bindM (download_using_appropriate_channel env (direct_download uri) (hgap_download uri)) (\<lambda>response.
                  thenM on_downloaded (returnM response)))
         0 ''None'' (we_shuffle env uris))"

definition fetch_content :: "'x wire_env_scheme \<Rightarrow> string \<Rightarrow> string list \<Rightarrow> bool \<Rightarrow> ('a wire_scheme, string \<times> string) op" where
  "fetch_content env download_type uris use_verify_header =
     download_with_fallback_channel env download_type uris
       (\<lambda>uri. fetch env uri [] None None True)
       (\<lambda>uri. bindM (get_artifact_request env (Some uri) use_verify_header None) (\<lambda>(request_uri, headers).
                fetch env request_uri headers (Some False) (Some HGAP_RETRY_CODES) False))
       (returnM ())"

definition fetch_manifest :: "'x wire_env_scheme \<Rightarrow> string \<Rightarrow> string list \<Rightarrow> bool \<Rightarrow> ('a wire_scheme, string) op" where
  "fetch_manifest env manifest_type uris use_verify_header =
     bindM (fetch_content env (manifest_type @ '' manifest'') uris use_verify_header) (\<lambda>(uri, content).
       thenM (update_manifest_uri (Some uri)) (returnM content))"

section \<open>Packages\<close>

definition expand_into :: "path \<Rightarrow> (path \<times> string) list \<Rightarrow> path list \<Rightarrow> 'a fs_scheme \<Rightarrow> 'a fs_scheme" where
  "expand_into d files dirs s =
     fold (\<lambda>(p, t). put_file (d @ p) t) files
       (add_dirs (prefixes_of d @ concat (map (\<lambda>p. prefixes_of (d @ p)) (dirs @ map (\<lambda>(p, _). butlast p) files))) s)"

text \<open>\<^verbatim>\<open>ZipFile(target_file).extractall(target_directory)\<close>: an error leaves what was extracted before it.\<close>

definition unzip_to :: "'x wire_env_scheme \<Rightarrow> path \<Rightarrow> path \<Rightarrow> ('a fs_scheme, unit) op" where
  "unzip_to env target_file target_directory =
     bindM (read_file (ne_io env) target_file) (\<lambda>content.
     thenM (io_check (ne_io env) Write target_directory)
     (case we_unzip env content of (err, files, dirs) \<Rightarrow>
        thenM (modifyM (expand_into target_directory files dirs))
          (case err of None \<Rightarrow> returnM () | Some e \<Rightarrow> raiseM e)))"

definition try_expand_zip_package :: "'x wire_env_scheme \<Rightarrow> path \<Rightarrow> path \<Rightarrow> ('a fs_scheme, unit) op" where
  "try_expand_zip_package env target_file target_directory =
     finallyM
       (tryM (unzip_to env target_file target_directory)
         (\<lambda>e. if is_Exception e
              then Some (bindM (getM (\<lambda>s. path_exists s target_directory)) (\<lambda>there.
                     thenM (whenM there (tryM (rmtree (ne_io env) target_directory) (\<lambda>e. if is_Exception e then Some (returnM ()) else None)))
                       (raiseM e)))
              else None))
       (try_remove (ne_io env) target_file)"

text \<open>A call of signature validation, in the surroundings that the contents of the package make.\<close>

definition with_package :: "'x wire_env_scheme \<Rightarrow> path \<Rightarrow> (sig_env \<Rightarrow> (sig_state, 'r) op) \<Rightarrow> ('a wire_scheme, 'r) op" where
  "with_package env p f = (\<lambda>s. case f (we_sig env (map_of (fs_files s) p)) (w_sig s) of (r, g) \<Rightarrow> (r, s\<lparr>w_sig := g\<rparr>))"

definition package_path :: "'x wire_env_scheme \<Rightarrow> path \<Rightarrow> string" where
  "package_path env p = path_join (we_lib_dir env) (join_with ''/'' p)"

definition validate_package :: "'x wire_env_scheme \<Rightarrow> path \<Rightarrow> string \<Rightarrow> ('a wire_scheme, unit) op" where
  "validate_package env p signature = with_package env p (\<lambda>se. validate_signature se (package_path env p) signature)"

definition cleanup_package_with_invalid_signature :: "'x net_env_scheme \<Rightarrow> path \<Rightarrow> ('a fs_scheme, unit) op" where
  "cleanup_package_with_invalid_signature env package_file = try_remove (ne_io env) package_file"

text \<open>\<^verbatim>\<open>on_downloaded\<close> of \<^verbatim>\<open>download_zip_package\<close>; an ignored validation error is raised after the expansion.\<close>

definition on_package_downloaded :: "'x wire_env_scheme \<Rightarrow> path \<Rightarrow> path \<Rightarrow> string \<Rightarrow> bool \<Rightarrow> ('a wire_scheme, unit) op" where
  "on_package_downloaded env target_file target_directory signature ignore_errors =
     bindM (if signature \<noteq> ''''
            then tryM (thenM (validate_package env target_file signature) (returnM None))
                   (\<lambda>e. if is_SignatureValidationError e
                        then Some (if \<not> ignore_errors
                                   then thenM (cleanup_package_with_invalid_signature env target_file) (raiseM e)
                                   else returnM (Some e))
                        else None)
            else returnM None) (\<lambda>validation_error.
     thenM (try_expand_zip_package env target_file target_directory)
       (case validation_error of None \<Rightarrow> returnM () | Some e \<Rightarrow> raiseM e))"

definition download_zip_package ::
  "'x wire_env_scheme \<Rightarrow> string \<Rightarrow> string list \<Rightarrow> path \<Rightarrow> path \<Rightarrow> bool \<Rightarrow> string \<Rightarrow> bool \<Rightarrow> ('a wire_scheme, unit) op" where
  "download_zip_package env package_name uris target_file target_directory use_verify_header signature ignore_errors =
     bindM (download_with_fallback_channel env package_name uris
       (\<lambda>uri. stream env uri target_file [] (Some True) None True)
       (\<lambda>uri. bindM (getM (\<lambda>s. hp_manifest_uri (g_plugin s))) (\<lambda>manifest_uri.
              bindM (get_artifact_request env (Some uri) use_verify_header manifest_uri) (\<lambda>(request_uri, headers).
                stream env request_uri target_file headers (Some False) (Some HGAP_RETRY_CODES) False)))
       (on_package_downloaded env target_file target_directory signature ignore_errors)) (\<lambda>_. returnM ())"


section \<open>What operations leave alone\<close>

definition tree_at :: "path \<Rightarrow> 'a fs_scheme \<Rightarrow> (path \<times> string) list \<times> path list" where
  "tree_at d s = (filter (\<lambda>f. in_tree d (fst f)) (fs_files s), filter (in_tree d) (fs_dirs s))"

lemma tree_at_put_file [simp]: "\<not> in_tree d p \<Longrightarrow> tree_at d (put_file p t s) = tree_at d s"
proof -
  assume p: "\<not> in_tree d p"
  then have "filter (\<lambda>f. in_tree d (fst f)) (AList.update p t xs) = filter (\<lambda>f. in_tree d (fst f)) xs" for xs
    by (induction xs) auto
  then show ?thesis by (simp add: tree_at_def put_file_def)
qed

lemma tree_at_drop_file [simp]: "\<not> in_tree d p \<Longrightarrow> tree_at d (drop_file p s) = tree_at d s"
proof -
  assume p: "\<not> in_tree d p"
  then have "filter (\<lambda>f. in_tree d (fst f)) (AList.delete p xs) = filter (\<lambda>f. in_tree d (fst f)) xs" for xs :: "(path \<times> string) list"
    by (induction xs) (auto simp: AList.delete_eq)
  then show ?thesis by (simp add: tree_at_def drop_file_def)
qed

lemma tree_at_updates [simp]:
  "tree_at d (s\<lparr>n_now := x\<rparr>) = tree_at d s" "tree_at d (t\<lparr>g_default_channel := b\<rparr>) = tree_at d t"
  "tree_at d (u\<lparr>w_sig := g\<rparr>) = tree_at d u"
  by (simp_all add: tree_at_def)

named_theorems keeps_tree \<open>operations that leave a directory alone\<close>

lemma tree_io_check [keeps_tree]: "preserves (\<lambda>s. tree_at d s = T) (io_check io k p)"
  unfolding io_check_def by (intro preserves_intros)

lemma tree_read_file [keeps_tree]: "preserves (\<lambda>s. tree_at d s = T) (read_file io p)"
  unfolding read_file_def by (intro preserves_intros keeps_tree)

lemma tree_write_file [keeps_tree]: "\<not> in_tree d p \<Longrightarrow> preserves (\<lambda>s. tree_at d s = T) (write_file io p t)"
  unfolding write_file_def split_def by (intro preserves_intros keeps_tree) simp

lemma tree_remove_file [keeps_tree]: "\<not> in_tree d p \<Longrightarrow> preserves (\<lambda>s. tree_at d s = T) (remove_file io p)"
  unfolding remove_file_def by (intro preserves_intros keeps_tree) simp


lemma tree_try_remove [keeps_tree]: "\<not> in_tree d p \<Longrightarrow> preserves (\<lambda>s. tree_at d s = T) (try_remove io p)"
  unfolding try_remove_def by (intro preserves_tryM keeps_tree) (auto split: if_splits intro: preserves_intros)

lemma tree_net_request [keeps_tree]: "preserves (\<lambda>s. tree_at d s = T) (net_request env url f)"
  by (rule preservesI) (simp add: tree_at_def)

lemma tree_report_health [keeps_tree]: "preserves (\<lambda>s. tree_at d s = T) (report_health env ep ob)"
  unfolding report_health_def report_observations_def net_post_def
  by (intro preserves_tryM preserves_bindM keeps_tree preserves_pure) (auto split: if_splits intro: preserves_intros)

lemma tree_modify_plugin [keeps_tree]: "preserves (\<lambda>s. tree_at d s = T) (modify_plugin f)"
  unfolding modify_plugin_def by (intro preserves_intros) (simp add: tree_at_def)

lemma tree_get_api_versions [keeps_tree]: "preserves (\<lambda>s. tree_at d s = T) (get_api_versions env)"
  unfolding get_api_versions_def net_get_def split_def
  by (intro preserves_bindM preserves_thenM preserves_tryM keeps_tree preserves_pure preserves_if)
     (auto split: if_splits intro: preserves_intros)

lemma tree_ensure_initialized [keeps_tree]: "preserves (\<lambda>s. tree_at d s = T) (ensure_initialized env)"
  unfolding ensure_initialized_def Let_def by (intro preserves_intros keeps_tree)

lemma tree_get_artifact_request [keeps_tree]: "preserves (\<lambda>s. tree_at d s = T) (get_artifact_request env u v m)"
  unfolding get_artifact_request_def by (intro preserves_intros keeps_tree)

lemma tree_report_fetch_health [keeps_tree]: "preserves (\<lambda>s. tree_at d s = T) (report_fetch_health env u b src r)"
  unfolding report_fetch_health_def split_def by (intro preserves_intros keeps_tree)

lemma tree_fetch_response [keeps_tree]: "preserves (\<lambda>s. tree_at d s = T) (fetch_response env u h p rc ok ff)"
  unfolding fetch_response_def net_get_def
  by (intro preserves_tryM preserves_bindM preserves_thenM preserves_if keeps_tree preserves_pure)
     (auto split: if_splits intro: preserves_intros)

lemma tree_stream [keeps_tree]: "\<not> in_tree d p \<Longrightarrow> preserves (\<lambda>s. tree_at d s = T) (stream env u p h px rc ff)"
  unfolding stream_def
  by (auto intro!: preserves_tryM preserves_bindM preserves_thenM preserves_whenM keeps_tree preserves_pure split: sum.split)


lemma tree_fetch_config [keeps_tree]: "preserves (\<lambda>s. tree_at d s = T) (fetch_config env u h)"
  unfolding fetch_config_def call_wireserver_def net_get_def
  by (intro preserves_bindM preserves_tryM preserves_if keeps_tree preserves_pure)
     (auto split: exn.splits if_splits intro: preserves_intros)

lemma tree_update_container_id [keeps_tree]: "preserves (\<lambda>s. tree_at d s = T) (update_container_id c)"
  unfolding update_container_id_def by (rule tree_modify_plugin)

lemma tree_update_role_config_name [keeps_tree]: "preserves (\<lambda>s. tree_at d s = T) (update_role_config_name c)"
  unfolding update_role_config_name_def by (rule tree_modify_plugin)

lemma tree_fetch_goal_state_attempts [keeps_tree]: "preserves (\<lambda>s. tree_at d s = T) (fetch_goal_state_attempts env inc n)"
proof (induction n arbitrary: inc)
  case (Suc n)
  then show ?case by (auto intro!: preserves_intros keeps_tree simp: Let_def split: option.split prod.split)
qed (simp add: preserves_pure)

lemma tree_update_host_plugin [keeps_tree]: "preserves (\<lambda>s. tree_at d s = T) (update_host_plugin_from_goal_state env)"
  unfolding update_host_plugin_from_goal_state_def fetch_goal_state_def by (intro preserves_intros keeps_tree)

lemma tree_channel [keeps_tree]:
  assumes "preserves (\<lambda>s. tree_at d s = T) direct" and "preserves (\<lambda>s. tree_at d s = T) hgap"
  shows "preserves (\<lambda>s. tree_at d s = T) (download_using_appropriate_channel env direct hgap)"
proof -
  have check: "preserves (\<lambda>s. tree_at d s = T) (call_hostplugin_with_container_check env hgap)"
    unfolding call_hostplugin_with_container_check_def
    by (intro preserves_tryM assms(2)) (auto split: exn.splits intro!: preserves_thenM keeps_tree assms(2))
  show ?thesis unfolding download_using_appropriate_channel_def Let_def
    by (auto intro!: preserves_bindM preserves_tryM preserves_thenM preserves_pure preserves_modifyM check assms(1) split: if_splits)
qed

lemma tree_download_loop [keeps_tree]:
  assumes "\<And>u. preserves (\<lambda>s. tree_at d s = T) (try_uri u)"
  shows "preserves (\<lambda>s. tree_at d s = T) (download_loop env ty st n try_uri i err uris)"
proof (induction uris arbitrary: i err)
  case (Cons u uris)
  then show ?case by (auto intro!: preserves_bindM preserves_tryM preserves_pure assms split: if_splits)
qed (simp add: preserves_pure)

text \<open>Operations that never return a value.\<close>

definition never_returns :: "('s, 'a) op \<Rightarrow> bool" where
  "never_returns m \<longleftrightarrow> (\<forall>s. isl (fst (m s)))"

lemma never_raiseM [simp]: "never_returns (raiseM e)"
  by (simp add: never_returns_def raiseM_def)

lemma never_bindM1: "never_returns m \<Longrightarrow> never_returns (bindM m f)"
  unfolding never_returns_def bindM_def by (auto split: prod.splits sum.splits) (metis fst_conv isl_def sum.disc(2))

lemma never_bindM2: "(\<And>a. never_returns (f a)) \<Longrightarrow> never_returns (bindM m f)"
  unfolding never_returns_def bindM_def by (auto split: prod.splits sum.splits)

lemma never_tryM: "never_returns m \<Longrightarrow> (\<And>e k. h e = Some k \<Longrightarrow> never_returns k) \<Longrightarrow> never_returns (tryM m h)"
  unfolding never_returns_def tryM_def
  by (auto split: prod.splits sum.splits option.splits) (metis fst_conv isl_def sum.disc(2))

lemma never_download_loop:
  assumes "\<And>u. never_returns (try_uri u)"
  shows "never_returns (download_loop env ty st n try_uri i err uris)"
proof (induction uris arbitrary: i err)
  case (Cons u uris)
  then show ?case
    by (auto intro!: never_bindM2 [where m = "getM n_now"] never_tryM never_bindM1 [where m = "try_uri u"] assms split: if_splits)
qed simp


section \<open>Properties\<close>

definition nothing_verifies :: "'x wire_env_scheme \<Rightarrow> path \<Rightarrow> string \<Rightarrow> bool" where
  "nothing_verifies env target_file signature \<longleftrightarrow>
     (\<forall>c g. isl (fst (validate_signature (we_sig env c) (package_path env target_file) signature g)))"

lemma never_validate_package: "nothing_verifies env p sig \<Longrightarrow> never_returns (validate_package env p sig)"
  by (auto simp: nothing_verifies_def never_returns_def validate_package_def with_package_def split: prod.splits) (metis fst_conv)

lemma tree_validate_package [keeps_tree]: "preserves (\<lambda>s. tree_at d s = T) (validate_package env p sig)"
  by (rule preservesI) (simp add: validate_package_def with_package_def split: prod.split)

lemma package_check:
  assumes "sig \<noteq> ''''" and "nothing_verifies env p sig"
  obtains check rest where "(on_package_downloaded env p d sig False :: ('a wire_scheme, unit) op) = bindM check rest"
    and "never_returns (check :: ('a wire_scheme, exn option) op)"
    and "\<And>T. \<not> in_tree d p \<Longrightarrow> preserves (\<lambda>s. tree_at d s = T) check"
proof
  let ?check = "tryM (thenM (validate_package env p sig) (returnM None)) (\<lambda>e. if is_SignatureValidationError e
    then Some (thenM (cleanup_package_with_invalid_signature env p) (raiseM e)) else None) :: ('a wire_scheme, exn option) op"
  let ?rest = "\<lambda>v. thenM (try_expand_zip_package env p d) (case v of None \<Rightarrow> returnM () | Some e \<Rightarrow> raiseM e)"
  show "(on_package_downloaded env p d sig False :: ('a wire_scheme, unit) op) = bindM ?check ?rest"
    using assms(1) by (simp add: on_package_downloaded_def cong: if_cong)
  show "never_returns ?check"
    using never_validate_package [OF assms(2)]
    by (auto simp: thenM_def intro!: never_tryM never_bindM1 never_bindM2 [where m = "cleanup_package_with_invalid_signature env p"] split: if_splits)
  show "preserves (\<lambda>s. tree_at d s = T) ?check" if "\<not> in_tree d p" for T
    unfolding cleanup_package_with_invalid_signature_def
    using that by (auto intro!: preserves_tryM preserves_thenM preserves_pure keeps_tree split: if_splits)
qed

lemma never_on_package_downloaded:
  "sig \<noteq> '''' \<Longrightarrow> nothing_verifies env p sig \<Longrightarrow> never_returns (on_package_downloaded env p d sig False)"
  by (metis package_check never_bindM1)

lemma never_download_zip_package:
  assumes "sig \<noteq> ''''" and "nothing_verifies env p sig"
  shows "never_returns (download_zip_package env name uris p d verify sig False)"
  unfolding download_zip_package_def download_with_fallback_channel_def thenM_def
  by (intro never_bindM1 never_download_loop never_bindM2 [where m = "getM n_now"]
      never_bindM2 [where m = "download_using_appropriate_channel _ _ _"] never_bindM1 [OF never_on_package_downloaded [OF assms]])

lemma on_package_downloaded_rejects:
  assumes "sig \<noteq> ''''" and "nothing_verifies env p sig" and "\<not> in_tree d p"
  shows "preserves (\<lambda>s. tree_at d s = T) (on_package_downloaded env p d sig False :: ('a wire_scheme, unit) op)"
proof (rule preservesI)
  fix s :: "'a wire_scheme" assume s: "tree_at d s = T"
  obtain check rest where run: "(on_package_downloaded env p d sig False :: ('a wire_scheme, unit) op) = bindM check rest"
    and never: "never_returns (check :: ('a wire_scheme, exn option) op)" and keeps: "preserves (\<lambda>s. tree_at d s = T) check"
    using package_check [OF assms(1,2)] assms(3) by metis
  have "tree_at d (snd (check s)) = T" using preservesD [OF keeps s] .
  moreover obtain e where "fst (check s) = Inl e" using never by (auto simp: never_returns_def isl_def)
  ultimately show "tree_at d (snd (on_package_downloaded env p d sig False s)) = T"
    unfolding run by (auto simp: bindM_def split: prod.splits)
qed

text \<open>
  C3: No unverified package is ever expanded: when a signature is given and validation errors are not
  ignored, and no contents of the package file pass the validation, then whatever the network, the
  channels and the file system do, the download fails and the files and directories below the target
  directory are exactly those that were there before.
\<close>

theorem unverified_package_not_expanded:
  fixes s :: "'a wire_scheme"
  assumes "signature \<noteq> ''''" and "nothing_verifies env target_file signature" and "\<not> in_tree target_directory target_file"
  shows "isl (fst (download_zip_package env name uris target_file target_directory verify signature False s)) \<and>
    tree_at target_directory (snd (download_zip_package env name uris target_file target_directory verify signature False s)) =
      tree_at target_directory s"
proof -
  let ?run = "download_zip_package env name uris target_file target_directory verify signature False :: ('a wire_scheme, unit) op"
  have "never_returns ?run" by (rule never_download_zip_package [OF assms(1,2)])
  moreover have "preserves (\<lambda>t. tree_at target_directory t = tree_at target_directory s) ?run"
    unfolding download_zip_package_def download_with_fallback_channel_def
    by (auto intro!: preserves_bindM preserves_thenM preserves_pure keeps_tree on_package_downloaded_rejects assms)
  ultimately show ?thesis by (simp add: never_returns_def preserves_def)
qed


definition sample_wire_env :: wire_env where
  "sample_wire_env = \<lparr>ne_conf = sample_http_conf, ne_exchange = (\<lambda>_. sample_exchange), ne_elapsed = (\<lambda>_. 1000), ne_io = (\<lambda>_ _. None),
     ne_show = (\<lambda>_. ''error''), ne_dumps = (\<lambda>_. ''{}''), ne_loads = (\<lambda>_. Inr (JObj [])), ne_b64encode = id, ne_utc = (\<lambda>_. ''now''),
     we_endpoint = ''168.63.129.16'', we_shuffle = rev, we_parse_doc = (\<lambda>_. Inl ValueError), we_unzip = (\<lambda>_. (None, [], [])),
     we_sig = (\<lambda>_. sample_sig_env\<lparr>b64decode := (\<lambda>_. Inl ValueError)\<rparr>), we_lib_dir = ''/var/lib/waagent''\<rparr>"

definition sample_wire :: wire where
  "sample_wire = \<lparr>fs_files = [([''Ext-1.0'', ''old''], ''data'')], fs_dirs = [[''Ext-1.0'']], n_http = sample_http_state, n_requests = 0, n_now = 0,
     g_plugin = new_host_plugin ''168.63.129.16'', g_default_channel = False, w_sig = sample_sig_state\<rparr>"

lemma sample_nothing_verifies: "nothing_verifies sample_wire_env p sig"
  by (auto simp: nothing_verifies_def sample_wire_env_def validate_signature_def write_signature_to_file_def signature_failure_def
      cleanup_signature_file_def op_defs)

theorem unverified_package_not_expanded_witness:
  "isl (fst (download_zip_package sample_wire_env ''Ext-1.0'' [''http://host/ext.zip''] [''Ext__1.0.zip''] [''Ext-1.0''] False ''c2ln'' False
      sample_wire)) \<and>
   tree_at [''Ext-1.0''] (snd (download_zip_package sample_wire_env ''Ext-1.0'' [''http://host/ext.zip''] [''Ext__1.0.zip''] [''Ext-1.0'']
      False ''c2ln'' False sample_wire)) = ([([''Ext-1.0'', ''old''], ''data'')], [[''Ext-1.0'']])"
proof -
  have "\<not> in_tree [''Ext-1.0''] [''Ext__1.0.zip'']" by (simp add: in_tree_def)
  moreover have "tree_at [''Ext-1.0''] sample_wire = ([([''Ext-1.0'', ''old''], ''data'')], [[''Ext-1.0'']])"
    by (simp add: tree_at_def sample_wire_def in_tree_def)
  ultimately show ?thesis
    using unverified_package_not_expanded [OF _ sample_nothing_verifies, of "''c2ln''" "[''Ext-1.0'']" "[''Ext__1.0.zip'']" "''Ext-1.0''"
        "[''http://host/ext.zip'']" False sample_wire] by simp
qed

end
