(* ===== verification/Restapi.thy ===== *)
theory Restapi
  imports Json Py_Sort
begin

text \<open>
  The data contracts of \<^verbatim>\<open>azurelinuxagent/common/protocol/restapi.py\<close> that extension processing
  works on: \<open>extension\<close> is the class \<^verbatim>\<open>Extension\<close> (a handler requested by a goal state),
  \<open>ext_settings\<close> is \<^verbatim>\<open>ExtensionSettings\<close> (one set of settings of it), and the status
  records are those the agent saves and reports. Values that come out of JSON files keep the type they
  have there. \<open>handler_status_properties\<close> and \<open>set_handler_properties\<close> are
  \<^verbatim>\<open>get_properties\<close> and \<^verbatim>\<open>set_properties\<close> of \<^verbatim>\<open>common/datacontract.py\<close> at the
  class \<^verbatim>\<open>ExtHandlerStatus\<close>, whose attributes are not contracts themselves.
\<close>

section \<open>Requested extensions\<close>

record ext_settings =
  xs_name :: string
  xs_sequence_number :: json
  xs_public_settings :: json
  xs_protected_settings :: json
  xs_certificate_thumbprint :: json
  xs_dependency_level :: int
  xs_state :: string

record extension =
  eh_name :: string
  eh_version :: string
  eh_state :: "string option"
  eh_settings :: "ext_settings list"
  eh_manifest_uris :: "string list"
  eh_supports_multi_config :: bool
  eh_encoded_signature :: string
  eh_invalid_setting_reason :: "string option"

definition Enabled :: string where "Enabled = ''enabled''"
definition Disabled :: string where "Disabled = ''disabled''"
definition Uninstall :: string where "Uninstall = ''uninstall''"

definition settings_sort_key :: "ext_settings \<Rightarrow> string option \<Rightarrow> int" where
  "settings_sort_key x handler_state =
     (let level = xs_dependency_level x in
      if handler_state \<noteq> Some Enabled \<or> xs_state x \<noteq> Enabled then (0 - level) - 1 else level)"

definition extension_sort_key :: "extension \<Rightarrow> int" where
  "extension_sort_key h =
     (let levels = map xs_dependency_level (eh_settings h);
          level = (if levels = [] then 0 else Min (set levels))
      in if eh_state h \<noteq> Some Enabled then (0 - level) - 1 else level)"

definition new_settings :: "string \<Rightarrow> ext_settings" where
  "new_settings name = \<lparr>xs_name = name, xs_sequence_number = JNull, xs_public_settings = JNull, xs_protected_settings = JNull,
     xs_certificate_thumbprint = JNull, xs_dependency_level = 0, xs_state = Enabled\<rparr>"

definition new_extension :: "string \<Rightarrow> string \<Rightarrow> extension" where
  "new_extension name version = \<lparr>eh_name = name, eh_version = version, eh_state = None, eh_settings = [], eh_manifest_uris = [],
     eh_supports_multi_config = False, eh_encoded_signature = '''', eh_invalid_setting_reason = None\<rparr>"

record ext_package =
  pk_version :: string
  pk_uris :: "string list"

section \<open>Statuses\<close>

record ext_substatus =
  ss_name :: json
  ss_status :: json
  ss_code :: json
  ss_message :: json

record ext_status =
  st_name :: string
  st_applied_time :: json
  st_operation :: json
  st_status :: json
  st_sequence_number :: json
  st_code :: json
  st_message :: json
  st_substatus :: "ext_substatus list"

definition new_ext_status :: "string \<Rightarrow> json \<Rightarrow> ext_status" where
  "new_ext_status name seq_no = \<lparr>st_name = name, st_applied_time = JNull, st_operation = JNull, st_status = JNull,
     st_sequence_number = seq_no, st_code = JNull, st_message = JNull, st_substatus = []\<rparr>"

record handler_status =
  hs_name :: json
  hs_version :: json
  hs_status :: json
  hs_code :: json
  hs_message :: json
  hs_supports_multi_config :: json
  hs_extension_status :: json
  hs_signature_validated :: json

definition new_handler_status :: handler_status where
  "new_handler_status = \<lparr>hs_name = JNull, hs_version = JNull, hs_status = JNull, hs_code = JInt 0, hs_message = JNull,
     hs_supports_multi_config = JBool False, hs_extension_status = JNull, hs_signature_validated = JBool False\<rparr>"

definition handler_status_properties :: "handler_status \<Rightarrow> json" where
  "handler_status_properties h = JObj [(''name'', hs_name h), (''version'', hs_version h), (''status'', hs_status h),
     (''code'', hs_code h), (''message'', hs_message h), (''supports_multi_config'', hs_supports_multi_config h),
     (''extension_status'', hs_extension_status h), (''signature_validated'', hs_signature_validated h)]"

definition set_handler_property :: "string \<times> json \<Rightarrow> handler_status \<Rightarrow> handler_status" where
  "set_handler_property kv h = (case kv of (k, v) \<Rightarrow>
     if k = ''name'' then h\<lparr>hs_name := v\<rparr> else if k = ''version'' then h\<lparr>hs_version := v\<rparr>
     else if k = ''status'' then h\<lparr>hs_status := v\<rparr> else if k = ''code'' then h\<lparr>hs_code := v\<rparr>
     else if k = ''message'' then h\<lparr>hs_message := v\<rparr>
     else if k = ''supports_multi_config'' then h\<lparr>hs_supports_multi_config := v\<rparr>
     else if k = ''extension_status'' then h\<lparr>hs_extension_status := v\<rparr>
     else if k = ''signature_validated'' then h\<lparr>hs_signature_validated := v\<rparr>
     else h)"

definition set_handler_properties :: "json \<Rightarrow> handler_status res" where
  "set_handler_properties data = (case data of
     JObj d \<Rightarrow> Inr (fold set_handler_property d new_handler_status)
   | JNull \<Rightarrow> Inl (ProtocolError ''Property 'ExtHandlerStatus' is None'')
   | _ \<Rightarrow> Inl (ProtocolError ''Property 'ExtHandlerStatus' type should be dict''))"

datatype gs_aggregate_status = GoalStateAggregateStatus (gas_status: string) (gas_seq_no: int) (gas_code: int) (gas_message: string)

section \<open>Lemmas\<close>

lemma handler_status_roundtrip: "set_handler_properties (handler_status_properties h) = Inr h"
  by (simp add: set_handler_properties_def handler_status_properties_def set_handler_property_def new_handler_status_def)

end
