(* ===== verification/Wire_Report.thy ===== *)
theory Wire_Report
  imports Wire_Client Restapi
begin

text \<open>
  What \<^verbatim>\<open>azurelinuxagent/common/protocol/wire.py\<close> sends: the status of the machine in the form the status
  blob has (\<^verbatim>\<open>vm_status_to_v1\<close> and the functions it calls), the upload of the blob over the host plugin or
  directly, health and role properties, and telemetry events in batches. A handler is reported with its
  status and, if there is one, that of an extension; \<open>when\<close> is the formatted time.
\<close>

definition dquote :: "string \<Rightarrow> string" where
  "dquote s = CHR 0x22 # s @ [CHR 0x22]"

section \<open>The status document\<close>

text \<open>\<^verbatim>\<open>redact_sas_token\<close> on a value that need not be text.\<close>

fun redact_value :: "json \<Rightarrow> json res" where
  "redact_value JNull = Inr JNull"
| "redact_value (JStr s) = Inr (JStr (redact_sas s))"
| "redact_value _ = Inl TypeError"

definition formatted_msg :: "json \<Rightarrow> json res" where
  "formatted_msg msg = bindR (redact_value msg) (\<lambda>m. Inr (JObj [(''lang'', JStr ''en-US''), (''message'', m)]))"

definition ext_substatus_to_v1 :: "ext_substatus list \<Rightarrow> json list res" where
  "ext_substatus_to_v1 subs = mapR (\<lambda>sub. bindR (formatted_msg (ss_message sub)) (\<lambda>m.
     Inr (JObj [(''name'', ss_name sub), (''status'', ss_status sub), (''code'', ss_code sub), (''formattedMessage'', m)]))) subs"

definition ext_status_to_v1 :: "string \<Rightarrow> ext_status \<Rightarrow> json res" where
  "ext_status_to_v1 when st =
     bindR (ext_substatus_to_v1 (st_substatus st)) (\<lambda>subs.
     bindR (formatted_msg (st_message st)) (\<lambda>m.
       Inr (JObj [(''status'', JObj ([(''name'', JStr (st_name st)), (''configurationAppliedTime'', st_applied_time st),
              (''operation'', st_operation st), (''status'', st_status st), (''code'', st_code st), (''formattedMessage'', m)] @
              (if subs \<noteq> [] then [(''substatus'', JList subs)] else []))),
            (''version'', JFloat 1), (''timestampUTC'', JStr when)])))"

type_synonym reported_status = "handler_status \<times> ext_status option"

definition ext_handler_status_to_v1 :: "string \<Rightarrow> reported_status \<Rightarrow> json res" where
  "ext_handler_status_to_v1 when rs = (case rs of (h, st) \<Rightarrow>
     bindR (if hs_message h \<noteq> JNull then bindR (formatted_msg (hs_message h)) (\<lambda>m. Inr [(''formattedMessage'', m)]) else Inr []) (\<lambda>msg.
     bindR (case st of
         Some s \<Rightarrow> bindR (ext_status_to_v1 when s) (\<lambda>v1. Inr [(''runtimeSettingsStatus'', JObj ([(''settingsStatus'', v1),
                     (''sequenceNumber'', st_sequence_number s)] @
                     (if truthy (hs_supports_multi_config h) then [(''extensionName'', JStr (st_name s))] else [])))])
       | None \<Rightarrow> if hs_extension_status h = JNull then Inr [] else Inl AttributeError) (\<lambda>settings.
       Inr (JObj ([(''handlerVersion'', hs_version h), (''handlerName'', hs_name h), (''status'', hs_status h), (''code'', hs_code h),
              (''useExactVersion'', JBool True)] @ msg @ settings)))))"

record agent_update_status =
  us_expected_version :: string
  us_status :: string
  us_code :: int
  us_message :: string

record vm_agent_status =
  va_status :: string
  va_message :: string
  va_hostname :: string
  va_version :: string
  va_osname :: string
  va_osversion :: string
  va_handlers :: "reported_status list"
  va_gs_aggregate :: "gs_aggregate_status option"
  va_gs_time :: string
  va_update_status :: "agent_update_status option"
  va_supports_fast_track :: bool

definition vm_artifacts_aggregate_status_to_v1 :: "vm_agent_status \<Rightarrow> (string \<times> json) list res" where
  "vm_artifacts_aggregate_status_to_v1 va = (case va_gs_aggregate va of
     None \<Rightarrow> Inr []
   | Some g \<Rightarrow> bindR (formatted_msg (JStr (gas_message g))) (\<lambda>m.
       Inr [(''vmArtifactsAggregateStatus'', JObj [(''goalStateAggregateStatus'', JObj [(''formattedMessage'', m),
         (''timestampUTC'', JStr (va_gs_time va)), (''inSvdSeqNo'', JInt (gas_seq_no g)), (''status'', JStr (gas_status g)),
         (''code'', JInt (gas_code g))])])]))"

definition ga_status_to_v1 :: "vm_agent_status \<Rightarrow> json res" where
  "ga_status_to_v1 va =
     bindR (formatted_msg (JStr (va_message va))) (\<lambda>m.
     bindR (case va_update_status va of
         None \<Rightarrow> Inr []
       | Some u \<Rightarrow> bindR (formatted_msg (JStr (us_message u))) (\<lambda>um. Inr [(''updateStatus'', JObj [(''expectedVersion'', JStr (us_expected_version u)),
           (''status'', JStr (us_status u)), (''code'', JInt (us_code u)), (''formattedMessage'', um)])])) (\<lambda>upd.
       Inr (JObj ([(''version'', JStr (va_version va)), (''status'', JStr (va_status va)), (''formattedMessage'', m)] @ upd))))"

definition get_agent_supported_features_list_for_crp :: "bool \<Rightarrow> bool \<Rightarrow> (string \<times> string) list" where
  "get_agent_supported_features_list_for_crp auto_update ga_versioning =
     (''MultipleExtensionsPerHandler'', ''1.0'') # (if auto_update \<and> ga_versioning then [(''VersioningGovernance'', ''1.0'')] else [])"

text \<open>\<open>features\<close> are the supported features advertised to CRP, with their versions.\<close>

definition vm_status_to_v1 :: "string \<Rightarrow> (string \<times> string) list \<Rightarrow> vm_agent_status \<Rightarrow> json res" where
  "vm_status_to_v1 when features va =
     bindR (ga_status_to_v1 va) (\<lambda>ga.
     bindR (vm_artifacts_aggregate_status_to_v1 va) (\<lambda>agg.
     bindR (mapR (ext_handler_status_to_v1 when) (va_handlers va)) (\<lambda>handlers.
       let supported = features @ (if va_supports_fast_track va then [(''FastTrack'', ''1.0'')] else []) in
       Inr (JObj ([(''version'', JStr ''1.1''), (''timestampUTC'', JStr when),
             (''aggregateStatus'', JObj ([(''guestAgentStatus'', ga), (''handlerAggregateStatus'', JList handlers)] @ agg)),
             (''guestOSInfo'', JObj [(''computerName'', JStr (va_hostname va)), (''osName'', JStr (va_osname va)),
               (''osVersion'', JStr (va_osversion va)), (''version'', JStr (va_version va))])] @
             (if supported \<noteq> [] then [(''supportedFeatures'', JList (map (\<lambda>(k, v). JObj [(''Key'', JStr k), (''Value'', JStr v)]) supported))]
              else []))))))"

section \<open>Uploading the status\<close>

definition put_storage :: "'x net_env_scheme \<Rightarrow> string \<Rightarrow> string \<Rightarrow> (string \<times> string) list \<Rightarrow> ('a net_scheme, http_resp) op" where
  "put_storage env url data headers = net_put env url data ((default_options env)\<lparr>ho_headers := headers, ho_use_proxy := True\<rparr>)"

definition require_created :: "string \<Rightarrow> http_resp \<Rightarrow> ('s, unit) op" where
  "require_created failure resp = whenM (resp_status resp \<noteq> 201) (raiseM (UploadError (failure @ nat_str (resp_status resp))))"

definition put_block_blob :: "'x net_env_scheme \<Rightarrow> string \<Rightarrow> string \<Rightarrow> ('a net_scheme, unit) op" where
  "put_block_blob env url data =
     bindM (getM (\<lambda>s. ne_utc env (n_now s))) (\<lambda>date.
     bindM (put_storage env url data (get_block_blob_headers date (length data))) (\<lambda>resp.
       require_created ''Failed to upload block blob: '' resp))"

text \<open>The pages of the direct upload: the last one is filled up to a multiple of 512 with zeros.\<close>

function direct_pages :: "string \<Rightarrow> nat \<Rightarrow> (nat \<times> nat \<times> string) list" where
  "direct_pages data start =
     (if start < length data
      then let stop = min (length data) (start + MAXIMUM_PAGEBLOB_PAGE_SIZE);
               page_end = align512 stop;
               content = take (stop - start) (drop start data)
           in (start, page_end, content @ replicate (page_end - start - length content) (CHR 0x00)) # direct_pages data stop
      else [])"
  by pat_completeness auto
termination by (relation "measure (\<lambda>(data, start). length data - start)") (auto simp: MAXIMUM_PAGEBLOB_PAGE_SIZE_def)

declare direct_pages.simps [simp del]

definition put_page_blob :: "'x net_env_scheme \<Rightarrow> string \<Rightarrow> string \<Rightarrow> ('a net_scheme, unit) op" where
  "put_page_blob env url data =
     bindM (getM (\<lambda>s. ne_utc env (n_now s))) (\<lambda>date.
     bindM (put_storage env url '''' (get_page_blob_create_headers date (align512 (length data)))) (\<lambda>resp.
     thenM (require_created ''Failed to clean up page blob: '' resp)
    (forM (direct_pages data 0) (\<lambda>(start, page_end, buf).
       bindM (getM (\<lambda>s. ne_utc env (n_now s))) (\<lambda>date.
       bindM (put_storage env (page_url url) buf (get_page_blob_page_headers date start page_end)) (\<lambda>resp.
         require_created ''Failed to upload page blob: '' resp))))))"

definition blob_upload :: "'x net_env_scheme \<Rightarrow> status_blob \<Rightarrow> string \<Rightarrow> ('a net_scheme, bool) op" where
  "blob_upload env blob url =
     tryM (thenM
       (case sb_type blob of
          None \<Rightarrow> raiseM (ProtocolError ''Illegal blob type: None'')
        | Some t \<Rightarrow>
            if t \<notin> set [''BlockBlob'', ''PageBlob''] then raiseM (ProtocolError (''Illegal blob type: '' @ t))
            else case sb_data blob of
              None \<Rightarrow> raiseM TypeError
            | Some data \<Rightarrow> if t = ''BlockBlob'' then put_block_blob env url data else put_page_blob env url data)
       (returnM True))
     (\<lambda>e. if is_Exception e then Some (returnM False) else None)"

text \<open>
  \<^verbatim>\<open>StatusBlob.to_json\<close> for the status that \<^verbatim>\<open>set_vm_status\<close> has set, if any. \<^verbatim>\<open>json.dumps\<close> writes ASCII, so
  that characters are bytes.
\<close>

definition to_json :: "'x net_env_scheme \<Rightarrow> string \<Rightarrow> (string \<times> string) list \<Rightarrow> vm_agent_status option \<Rightarrow> string res" where
  "to_json env when features vm_status = (case vm_status of
     None \<Rightarrow> Inl AttributeError
   | Some va \<Rightarrow> bindR (vm_status_to_v1 when features va) (\<lambda>report. Inr (ne_dumps env report)))"

text \<open>
  \<^verbatim>\<open>upload_status_blob\<close>. \<open>get_target\<close> reads the URI and the type of the blob from the current goal state and
  \<open>reset_goal_state\<close> fetches the goal state anew; goal states are not part of this theory.
\<close>

definition upload_to ::
  "'x wire_env_scheme \<Rightarrow> (string \<times> string) list \<Rightarrow> vm_agent_status option \<Rightarrow> string \<Rightarrow> string option \<Rightarrow> ('a wire_scheme, unit) op" where
  "upload_to env features vm_status url blob_type =
     bindM (getM (\<lambda>s. ne_utc env (n_now s))) (\<lambda>when. case to_json env when features vm_status of
     Inl e \<Rightarrow> if is_Exception e then raiseM (ProtocolError (''Exception creating status blob: '' @ ne_show env e)) else raiseM e
   | Inr data \<Rightarrow>
       let blob = \<lparr>sb_has_vm_status = True, sb_type = blob_type, sb_data = Some data\<rparr> in
       bindM (tryM (thenM (put_vm_status env blob url blob_type) (returnM True))
         (\<lambda>e. case e of
            ResourceGoneError _ \<Rightarrow> Some (thenM (update_host_plugin_from_goal_state env) (returnM True))
          | _ \<Rightarrow> if is_Exception e then Some (returnM False) else None)) (\<lambda>done.
       if done then returnM ()
       else bindM (blob_upload env blob url) (\<lambda>ok.
         if ok then returnM () else raiseM (ProtocolError ''Failed to upload status blob via either channel''))))"

definition upload_status_blob ::
  "'x wire_env_scheme \<Rightarrow> (string \<times> string) list \<Rightarrow> vm_agent_status option \<Rightarrow>
   ('a wire_scheme, string option \<times> string option) op \<Rightarrow> ('a wire_scheme, unit) op \<Rightarrow> ('a wire_scheme, unit) op" where
  "upload_status_blob env features vm_status get_target reset_goal_state =
     bindM get_target (\<lambda>target.
     bindM (case fst target of Some _ \<Rightarrow> returnM target | None \<Rightarrow> thenM reset_goal_state get_target) (\<lambda>(url, blob_type).
       case url of
         None \<Rightarrow> raiseM (ProtocolNotFoundError ''Status upload uri is missing'')
       | Some u \<Rightarrow> upload_to env features vm_status u blob_type))"

section \<open>Provisioning reports\<close>

text \<open>\<^verbatim>\<open>saxutils.escape\<close>\<close>

definition xml_escape_char :: "char \<Rightarrow> string" where
  "xml_escape_char c = (if c = CHR ''&'' then ''&amp;'' else if c = CHR ''<'' then ''&lt;'' else if c = CHR ''>'' then ''&gt;'' else [c])"

definition xml_escape :: "string \<Rightarrow> string" where
  "xml_escape s = concat (map xml_escape_char s)"

definition build_role_properties :: "string \<Rightarrow> string \<Rightarrow> string \<Rightarrow> string" where
  "build_role_properties container_id role_instance_id thumbprint =
     ''<?xml version='' @ dquote ''1.0'' @ '' encoding='' @ dquote ''utf-8'' @ ''?><RoleProperties><Container><ContainerId>'' @ container_id @
     ''</ContainerId><RoleInstances><RoleInstance><Id>'' @ role_instance_id @ ''</Id><Properties><Property name='' @
     dquote ''CertificateThumbprint'' @ '' value='' @ dquote thumbprint @
     '' /></Properties></RoleInstance></RoleInstances></Container></RoleProperties>''"

definition health_detail :: "string option \<Rightarrow> string option \<Rightarrow> string" where
  "health_detail substatus description = (case substatus of
     None \<Rightarrow> []
   | Some sub \<Rightarrow> ''<Details><SubStatus>'' @ xml_escape sub @ ''</SubStatus><Description>'' @
       (case description of None \<Rightarrow> ''None'' | Some d \<Rightarrow> xml_escape (take 3686 d)) @ ''</Description></Details>'')"

definition build_health_report :: "string \<Rightarrow> string \<Rightarrow> string \<Rightarrow> string \<Rightarrow> string option \<Rightarrow> string option \<Rightarrow> string" where
  "build_health_report incarnation container_id role_instance_id status substatus description =
     ''<?xml version='' @ dquote ''1.0'' @ '' encoding='' @ dquote ''utf-8'' @ ''?><Health xmlns:xsi='' @
     dquote ''http://www.w3.org/2001/XMLSchema-instance'' @ '' xmlns:xsd='' @ dquote ''http://www.w3.org/2001/XMLSchema'' @
     ''><GoalStateIncarnation>'' @ incarnation @ ''</GoalStateIncarnation><Container><ContainerId>'' @ container_id @
     ''</ContainerId><RoleInstanceList><Role><InstanceId>'' @ role_instance_id @ ''</InstanceId><Health><State>'' @ status @ ''</State>'' @
     health_detail substatus description @ ''</Health></Role></RoleInstanceList></Container></Health>''"

text \<open>A post to the wire server whose HTTP errors become protocol errors.\<close>

definition post_wireserver ::
  "'x wire_env_scheme \<Rightarrow> string \<Rightarrow> string \<Rightarrow> string \<Rightarrow> (http_options \<Rightarrow> http_options) \<Rightarrow> nat \<Rightarrow> ('a wire_scheme, http_resp) op" where
  "post_wireserver env failure uri data options throttle_delay =
     tryM (call_wireserver env uri
             (net_post env uri data (options ((default_options env)\<lparr>ho_headers := get_header_for_xml_content\<rparr>)) throttle_delay))
       (\<lambda>e. if is_HttpError e then Some (raiseM (ProtocolError (failure @ ne_show env e))) else None)"

definition fail_with_response :: "string \<Rightarrow> http_resp \<Rightarrow> ('s, unit) op" where
  "fail_with_response failure resp = bindM (liftR (resp_read resp)) (\<lambda>body.
     raiseM (ProtocolError (failure @ '','' @ nat_str (resp_status resp) @ '': '' @ bytes_repr body)))"

definition report_role_prop :: "'x wire_env_scheme \<Rightarrow> string \<Rightarrow> string \<Rightarrow> string \<Rightarrow> ('a wire_scheme, unit) op" where
  "report_role_prop env container_id role_instance_id thumbprint =
     bindM (post_wireserver env ''Failed to send role properties: '' (''http://'' @ we_endpoint env @ ''/machine?comp=roleProperties'')
              (build_role_properties container_id role_instance_id thumbprint) (\<lambda>op. op) THROTTLE_DELAY_IN_SECONDS) (\<lambda>resp.
       whenM (resp_status resp \<noteq> 202) (fail_with_response ''Failed to send role properties: '' resp))"

definition report_provision_health ::
  "'x wire_env_scheme \<Rightarrow> string \<Rightarrow> string \<Rightarrow> string \<Rightarrow> string \<Rightarrow> string option \<Rightarrow> string option \<Rightarrow> ('a wire_scheme, unit) op" where
  "report_provision_health env incarnation container_id role_instance_id status substatus description =
     bindM (post_wireserver env ''Failed to send provision status: '' (''http://'' @ we_endpoint env @ ''/machine?comp=health'')
              (build_health_report incarnation container_id role_instance_id status substatus description)
              (\<lambda>op. op\<lparr>ho_max_retry := Some 30, ho_retry_delay := 15\<rparr>) THROTTLE_DELAY_IN_SECONDS) (\<lambda>resp.
       whenM (\<not> request_succeeded resp) (fail_with_response ''Failed to send provision status: '' resp))"

text \<open>\<open>parse\<close> is \<^verbatim>\<open>VersionInfo\<close>: the preferred and the supported versions of an XML document.\<close>

definition check_wire_protocol_version :: "'x wire_env_scheme \<Rightarrow> (string \<Rightarrow> (string option \<times> string list) res) \<Rightarrow> ('a wire_scheme, unit) op" where
  "check_wire_protocol_version env parse =
     bindM (fetch_config env (''http://'' @ we_endpoint env @ ''/?comp=versions'') []) (\<lambda>xml.
     bindM (liftR (parse xml)) (\<lambda>(preferred, supported).
       whenM (preferred \<noteq> Some ''2012-11-30'' \<and> ''2012-11-30'' \<notin> set supported)
         (raiseM (ProtocolNotFoundError ''Agent supported wire protocol version: 2012-11-30 was not advised by Fabric.''))))"

section \<open>Telemetry events\<close>

text \<open>\<^verbatim>\<open>saxutils.quoteattr\<close>\<close>

definition quoteattr :: "string \<Rightarrow> string" where
  "quoteattr s =
     (let t = concat (map (\<lambda>c. if c = CHR 0x0A then ''&#10;'' else if c = CHR 0x0D then ''&#13;'' else if c = CHR 0x09 then ''&#9;''
                else xml_escape_char c) s)
      in if CHR 0x22 \<notin> set t then CHR 0x22 # t @ [CHR 0x22]
         else if CHR 0x27 \<notin> set t then CHR 0x27 # t @ [CHR 0x27]
         else CHR 0x22 # concat (map (\<lambda>c. if c = CHR 0x22 then ''&quot;'' else [c]) t) @ [CHR 0x22])"

definition event_param_to_v1 :: "(json \<Rightarrow> string) \<Rightarrow> string \<times> json \<Rightarrow> string" where
  "event_param_to_v1 py_repr p = (case p of (name, v) \<Rightarrow>
     ''<Param Name='' @ dquote name @ '' Value='' @ quoteattr (ustr py_repr v) @ '' T='' @
     dquote (case v of JInt _ \<Rightarrow> ''mt:uint64'' | JStr _ \<Rightarrow> ''mt:wstr'' | JBool _ \<Rightarrow> ''mt:bool'' | JFloat _ \<Rightarrow> ''mt:float64'' | _ \<Rightarrow> '''') @ '' />'')"

record telemetry_event =
  te_event_id :: nat
  te_provider_id :: string
  te_parameters :: "(string \<times> json) list"

definition event_to_v1_encoded :: "(json \<Rightarrow> string) \<Rightarrow> telemetry_event \<Rightarrow> string" where
  "event_to_v1_encoded py_repr ev =
     ''<Event id='' @ dquote (nat_str (te_event_id ev)) @ ''><![CDATA['' @
     concat (map (event_param_to_v1 py_repr) (te_parameters ev)) @ '']]></Event>''"

definition MAX_EVENT_BUFFER_SIZE :: nat where "MAX_EVENT_BUFFER_SIZE = 2 ^ 16 - 2 ^ 10"

definition send_encoded_event :: "'x wire_env_scheme \<Rightarrow> bool \<Rightarrow> string \<times> string \<Rightarrow> ('a wire_scheme, unit) op" where
  "send_encoded_event env flush batch = (case batch of (provider_id, event_str) \<Rightarrow>
     bindM (post_wireserver env ''Failed to send events:'' (''http://'' @ we_endpoint env @ ''/machine?comp=telemetrydata'')
              (''<?xml version='' @ dquote ''1.0'' @ ''?><TelemetryData version='' @ dquote ''1.0'' @ ''><Provider id='' @ dquote provider_id @ ''>'' @
               event_str @ ''</Provider></TelemetryData>'')
              (\<lambda>op. op\<lparr>ho_max_retry := Some 3\<rparr>) (if flush then 2 else 8)) (\<lambda>resp.
       whenM (\<not> request_succeeded resp)
         (bindM (liftR (resp_read resp)) (\<lambda>_. raiseM (ProtocolError (''Failed to send events:'' @ nat_str (resp_status resp)))))))"

text \<open>\<^verbatim>\<open>_send_event\<close> counts a failure and goes on.\<close>

definition send_event :: "'x wire_env_scheme \<Rightarrow> bool \<Rightarrow> string \<times> string \<Rightarrow> ('a wire_scheme, nat) op" where
  "send_event env flush batch =
     tryM (thenM (send_encoded_event env flush batch) (returnM 0)) (\<lambda>e. if is_Exception e then Some (returnM 1) else None)"

text \<open>
  One event and the buffers, one for each provider in the order of their first event: the batch that is
  sent because the buffer is full, and the new buffers. An event that is too large is dropped.
\<close>

definition buffer_event :: "(string \<times> string) list \<Rightarrow> string \<times> string \<Rightarrow> (string \<times> string) list \<times> (string \<times> string) option" where
  "buffer_event buf ev = (case ev of (p, event_str) \<Rightarrow>
     let buf = (if p \<notin> set (map fst buf) then buf @ [(p, '''')] else buf);
         pending = (case map_of buf p of None \<Rightarrow> '''' | Some t \<Rightarrow> t)
     in if MAX_EVENT_BUFFER_SIZE \<le> length event_str then (buf, None)
        else if MAX_EVENT_BUFFER_SIZE \<le> length (pending @ event_str) then (AList.update p event_str buf, Some (p, pending))
        else (AList.update p (pending @ event_str) buf, None))"

fun send_events ::
  "'x wire_env_scheme \<Rightarrow> bool \<Rightarrow> (string \<times> string) list \<Rightarrow> nat \<Rightarrow> (string \<times> string) list \<Rightarrow> ('a wire_scheme, nat) op" where
  "send_events env flush buf errors [] =
     bindM (mapM (send_event env flush) (filter (\<lambda>(_, t). t \<noteq> '''') buf)) (\<lambda>ns. returnM (errors + sum_list ns))"
| "send_events env flush buf errors (ev # evs) = (case buffer_event buf ev of
     (buf', None) \<Rightarrow> send_events env flush buf' errors evs
   | (buf', Some batch) \<Rightarrow> bindM (send_event env flush batch) (\<lambda>n. send_events env flush buf' (errors + n) evs))"

definition report_event :: "'x wire_env_scheme \<Rightarrow> (json \<Rightarrow> string) \<Rightarrow> bool \<Rightarrow> telemetry_event list \<Rightarrow> ('a wire_scheme, bool) op" where
  "report_event env py_repr flush events =
     bindM (send_events env flush [] 0 (map (\<lambda>ev. (te_provider_id ev, event_to_v1_encoded py_repr ev)) events)) (\<lambda>errors. returnM (errors = 0))"

section \<open>Lemmas\<close>

text \<open>The batches that \<^verbatim>\<open>report_event\<close> sends, in order.\<close>

fun event_batches :: "(string \<times> string) list \<Rightarrow> (string \<times> string) list \<Rightarrow> (string \<times> string) list" where
  "event_batches buf [] = filter (\<lambda>(_, t). t \<noteq> '''') buf"
| "event_batches buf (ev # evs) = (case buffer_event buf ev of
     (buf', None) \<Rightarrow> event_batches buf' evs
   | (buf', Some batch) \<Rightarrow> batch # event_batches buf' evs)"

lemma send_events_batches:
  "send_events env flush buf errors evs =
     bindM (mapM (send_event env flush) (event_batches buf evs)) (\<lambda>ns. returnM (errors + sum_list ns))"
  by (induction buf evs arbitrary: errors rule: event_batches.induct)
    (auto simp: op_defs fun_eq_iff add.assoc split: prod.splits option.splits sum.splits)

text \<open>The text of a provider in a list of batches or events.\<close>

definition provider_text :: "string \<Rightarrow> (string \<times> string) list \<Rightarrow> string" where
  "provider_text p xs = concat (map snd (filter (\<lambda>x. fst x = p) xs))"

definition sendable :: "string \<times> string \<Rightarrow> bool" where
  "sendable x \<longleftrightarrow> length (snd x) < MAX_EVENT_BUFFER_SIZE"

definition buffers_ok :: "(string \<times> string) list \<Rightarrow> bool" where
  "buffers_ok buf \<longleftrightarrow> distinct (map fst buf) \<and> list_all sendable buf"

lemma provider_text_simps [simp]:
  "provider_text p [] = ''''"
  "provider_text p (x # xs) = (if fst x = p then snd x else '''') @ provider_text p xs"
  "provider_text p (xs @ ys) = provider_text p xs @ provider_text p ys"
  by (simp_all add: provider_text_def)

lemma provider_text_absent: "p \<notin> fst ` set xs \<Longrightarrow> provider_text p xs = ''''"
  by (induction xs) auto

lemma provider_text_lookup:
  "distinct (map fst xs) \<Longrightarrow> provider_text p xs = (case map_of xs p of None \<Rightarrow> '''' | Some t \<Rightarrow> t)"
  by (induction xs) (auto simp: provider_text_absent split: option.split)

lemma provider_text_nonempty: "provider_text p (filter (\<lambda>(_, t). t \<noteq> '''') xs) = provider_text p xs"
  by (induction xs) auto

lemma buffers_ok_update: "buffers_ok buf \<Longrightarrow> sendable (p, t) \<Longrightarrow> buffers_ok (AList.update p t buf)"
  unfolding buffers_ok_def
  by (induction buf) (auto simp: sendable_def list_all_iff dom_update)

lemma provider_text_update:
  "distinct (map fst buf) \<Longrightarrow> provider_text q (AList.update p t buf) = (if q = p then t else provider_text q buf)"
  by (simp add: provider_text_lookup distinct_update update_conv')

lemma buffer_event_step:
  assumes "buffers_ok buf" and "buffer_event buf ev = (buf', out)"
  shows "buffers_ok buf'"
    and "provider_text q (case out of None \<Rightarrow> [] | Some b \<Rightarrow> [b]) @ provider_text q buf' =
      provider_text q buf @ provider_text q (filter sendable [ev])"
    and "out = Some b \<Longrightarrow> sendable b \<and> snd b \<noteq> ''''"
proof -
  obtain p e where ev: "ev = (p, e)" by force
  define buf1 where "buf1 = (if p \<notin> set (map fst buf) then buf @ [(p, '''')] else buf)"
  have ok: "buffers_ok buf1" and same: "\<And>q. provider_text q buf1 = provider_text q buf"
    using assms(1) by (auto simp: buf1_def buffers_ok_def sendable_def MAX_EVENT_BUFFER_SIZE_def)
  define pending where "pending = provider_text p buf1"
  have look: "(case map_of buf1 p of None \<Rightarrow> '''' | Some t \<Rightarrow> t) = pending"
    using ok by (simp add: pending_def provider_text_lookup buffers_ok_def)
  have small: "sendable (p, pending)"
    using ok look by (auto simp: buffers_ok_def sendable_def list_all_iff MAX_EVENT_BUFFER_SIZE_def dest!: map_of_SomeD split: option.splits)
  have step: "buffer_event buf ev =
      (if MAX_EVENT_BUFFER_SIZE \<le> length e then (buf1, None)
       else if MAX_EVENT_BUFFER_SIZE \<le> length (pending @ e) then (AList.update p e buf1, Some (p, pending))
       else (AList.update p (pending @ e) buf1, None))"
    using look unfolding buffer_event_def ev buf1_def Let_def by simp
  have upd: "\<And>q t. provider_text q (AList.update p t buf1) = (if q = p then t else provider_text q buf1)"
    using ok by (simp add: provider_text_update buffers_ok_def)
  consider (large) "buf' = buf1" "out = None" "\<not> sendable ev"
    | (full) "buf' = AList.update p e buf1" "out = Some (p, pending)" "sendable ev" "MAX_EVENT_BUFFER_SIZE \<le> length (pending @ e)"
    | (fits) "buf' = AList.update p (pending @ e) buf1" "out = None" "sendable ev" "sendable (p, pending @ e)"
    using assms(2) step by (auto simp: ev sendable_def not_le split: if_splits)
  note cases = this
  show "buffers_ok buf'"
    using cases by cases (simp_all add: ok buffers_ok_update ev)
  show "provider_text q (case out of None \<Rightarrow> [] | Some b \<Rightarrow> [b]) @ provider_text q buf' =
      provider_text q buf @ provider_text q (filter sendable [ev])"
    using cases by cases (auto simp: ev upd same pending_def)
  show "out = Some b \<Longrightarrow> sendable b \<and> snd b \<noteq> ''''"
    using cases small by cases (auto simp: ev sendable_def)
qed

lemma event_batches_text:
  "buffers_ok buf \<Longrightarrow> provider_text q (event_batches buf evs) = provider_text q buf @ provider_text q (filter sendable evs)"
proof (induction evs arbitrary: buf)
  case (Cons ev evs)
  obtain buf' out where step: "buffer_event buf ev = (buf', out)" by force
  note s = buffer_event_step [OF Cons.prems step]
  have "provider_text q (event_batches buf (ev # evs)) =
      provider_text q (case out of None \<Rightarrow> [] | Some b \<Rightarrow> [b]) @ provider_text q (event_batches buf' evs)"
    by (simp add: step split: option.split)
  then show ?case using Cons.IH [OF s(1)] s(2) [of q] by (auto split: if_splits)
qed (simp add: provider_text_nonempty)

lemma event_batches_size: "buffers_ok buf \<Longrightarrow> list_all (\<lambda>b. sendable b \<and> snd b \<noteq> '''') (event_batches buf evs)"
proof (induction evs arbitrary: buf)
  case Nil
  then show ?case by (auto simp: buffers_ok_def list_all_iff)
next
  case (Cons ev evs)
  obtain buf' out where step: "buffer_event buf ev = (buf', out)" by force
  note s = buffer_event_step [OF Cons.prems step]
  show ?case using Cons.IH [OF s(1)] s(3) by (simp add: step split: option.split)
qed

lemma align512_least: "512 dvd b \<Longrightarrow> n \<le> b \<Longrightarrow> align512 n \<le> b"
proof -
  assume "512 dvd b" and "n \<le> b"
  then obtain k where k: "b = 512 * k" by (auto simp: dvd_def)
  have "(n + 511) div 512 \<le> (512 * k + 511) div 512" using \<open>n \<le> b\<close> k by (intro div_le_mono) simp
  also have "\<dots> = k" by simp
  finally show ?thesis by (simp add: align512_def k)
qed

lemma direct_pages_padded:
  fixes data :: string
  defines "padded \<equiv> data @ replicate (align512 (length data) - length data) (CHR 0x00)"
  shows "512 dvd start \<Longrightarrow> direct_pages data start = status_pages padded start"
proof (induction "length data - start" arbitrary: start rule: less_induct)
  case less
  let ?L = "length data" and ?M = MAXIMUM_PAGEBLOB_PAGE_SIZE
  have M: "0 < ?M" "512 dvd ?M" by (simp_all add: MAXIMUM_PAGEBLOB_PAGE_SIZE_def)
  have len: "length padded = align512 ?L" using align512_bounds [of ?L] by (simp add: padded_def)
  show ?case
  proof (cases "start < ?L")
    case False
    have "align512 ?L \<le> start" using False less.prems by (simp add: align512_least)
    then show ?thesis using False len by (simp add: direct_pages.simps [of data start] status_pages.simps [of padded start])
  next
    case True
    then have inner: "start < length padded" using len align512_bounds [of ?L] by simp
    show ?thesis
    proof (cases "start + ?M \<le> ?L")
      case fits: True
      have al: "align512 (start + ?M) = start + ?M" "align512 ?M = ?M" using less.prems M by (simp_all add: align512_dvd)
      have rec: "direct_pages data (start + ?M) = status_pages padded (start + ?M)"
        using less.hyps [of "start + ?M"] less.prems M True by simp
      have "min (length padded - start) ?M = ?M" "min ?L (start + ?M) = start + ?M"
        using fits len align512_bounds [of ?L] by simp_all
      moreover have "take ?M (drop start padded) = take ?M (drop start data)" using fits by (simp add: padded_def)
      ultimately show ?thesis
        using True inner rec al fits
        by (simp add: direct_pages.simps [of data start] status_pages.simps [of padded start] Let_def)
    next
      case short: False
      have up: "align512 ?L \<le> start + ?M" using short less.prems M by (simp add: align512_least)
      have al: "align512 (align512 ?L - start) = align512 ?L - start" using less.prems by (simp add: align512_dvd dvd_diff_nat)
      have ends: "direct_pages data ?L = []" "status_pages padded (align512 ?L) = []"
        using len by (simp_all add: direct_pages.simps [of data ?L] status_pages.simps [of padded "align512 ?L"])
      have mins: "min (length padded - start) ?M = align512 ?L - start" "min ?L (start + ?M) = ?L"
        using up short len by simp_all
      show ?thesis
        using True inner ends mins al len align512_bounds [of ?L]
        by (simp add: direct_pages.simps [of data start] status_pages.simps [of padded start] Let_def)
          (simp add: padded_def)
    qed
  qed
qed

section \<open>Properties\<close>



end
