(* ===== verification/Ext_Status.thy ===== *)
theory Ext_Status
  imports Restapi File_System
begin

text \<open>
  The status file of an extension, from \<^verbatim>\<open>azurelinuxagent/ga/exthandlers.py\<close>: reading it while the
  extension may be writing it, checking and parsing its contents, and truncating a status that is too
  big to report. A status document is what \<^verbatim>\<open>json.loads\<close> gives, of any type; parsing fills the fields
  of an \<open>ext_status\<close> one by one, so that a failure leaves those filled so far. \<open>py_repr\<close> prints a value
  and \<open>show_exn\<close> an exception in a message.
\<close>

section \<open>Parsing\<close>

text \<open>The codes of \<^verbatim>\<open>ExtensionStatusError\<close>.\<close>

definition CouldNotReadStatusFile :: int where "CouldNotReadStatusFile = 1"
definition InvalidJsonFile :: int where "InvalidJsonFile = 2"
definition StatusFileMalformed :: int where "StatusFileMalformed = 3"
definition MaxSizeExceeded :: int where "MaxSizeExceeded = 4"
definition FileNotExists :: int where "FileNotExists = 5"

definition STRINGS :: "string list" where
  "STRINGS = [''transitioning'', ''warning'', ''error'', ''success'']"

definition validate_has_key :: "json \<Rightarrow> string \<Rightarrow> string \<Rightarrow> unit res" where
  "validate_has_key obj key full_key_path = bindR (py_in key obj) (\<lambda>there.
     if \<not> there
     then Inl (ExtensionStatusError (''Invalid status format by extension: Missing '' @ full_key_path @ '' key'') StatusFileMalformed)
     else Inr ())"

definition validate_in_range :: "(json \<Rightarrow> string) \<Rightarrow> json \<Rightarrow> string list \<Rightarrow> string \<Rightarrow> unit res" where
  "validate_in_range py_repr val valid_range name =
     (if val \<notin> set (map JStr valid_range)
      then Inl (ExtensionStatusError (''Invalid value '' @ ustr py_repr val @ '' in range '' @ py_repr (JList (map JStr valid_range)) @
                  '' at the node '' @ name) StatusFileMalformed)
      else Inr ())"

definition parse_formatted_message :: "json \<Rightarrow> json res" where
  "parse_formatted_message formatted_message =
     (if formatted_message = JNull then Inr JNull
      else bindR (validate_has_key formatted_message ''lang'' ''formattedMessage/lang'') (\<lambda>_.
           bindR (validate_has_key formatted_message ''message'' ''formattedMessage/message'') (\<lambda>_.
             py_get formatted_message ''message'')))"

definition parse_ext_substatus :: "(json \<Rightarrow> string) \<Rightarrow> json \<Rightarrow> ext_substatus res" where
  "parse_ext_substatus py_repr substatus =
     bindR (validate_has_key substatus ''status'' ''substatus/status'') (\<lambda>_.
     bindR (py_index substatus ''status'') (\<lambda>st.
     bindR (validate_in_range py_repr st STRINGS ''substatus/status'') (\<lambda>_.
     bindR (py_get substatus ''name'') (\<lambda>name.
     bindR (py_get substatus ''status'') (\<lambda>status.
     bindR (py_get_default substatus ''code'' (JInt 0)) (\<lambda>code.
     bindR (py_get substatus ''formattedMessage'') (\<lambda>formatted_message.
     bindR (parse_formatted_message formatted_message) (\<lambda>message.
       Inr \<lparr>ss_name = name, ss_status = status, ss_code = code, ss_message = message\<rparr>))))))))"

definition add_substatus :: "(json \<Rightarrow> string) \<Rightarrow> json \<Rightarrow> (ext_status, unit) op" where
  "add_substatus py_repr substatus =
     whenM (substatus \<noteq> JNull)
       (bindM (liftR (parse_ext_substatus py_repr substatus)) (\<lambda>sub.
          modifyM (\<lambda>s. s\<lparr>st_substatus := st_substatus s @ [sub]\<rparr>)))"

text \<open>\<^verbatim>\<open>parse_ext_status\<close> on the first element of the document.\<close>

definition parse_status_data :: "(json \<Rightarrow> string) \<Rightarrow> json \<Rightarrow> (ext_status, unit) op" where
  "parse_status_data py_repr data =
     thenM (liftR (validate_has_key data ''status'' ''status''))
    (bindM (liftR (py_index data ''status'')) (\<lambda>status_data.
     thenM (liftR (validate_has_key status_data ''status'' ''status/status''))
    (bindM (liftR (py_index status_data ''status'')) (\<lambda>st.
     let status = (if st \<notin> set (map JStr STRINGS) then JStr ''error'' else st) in
     bindM (liftR (py_get status_data ''configurationAppliedTime'')) (\<lambda>applied_time.
     thenM (modifyM (\<lambda>s. s\<lparr>st_applied_time := applied_time\<rparr>))
    (bindM (liftR (py_get status_data ''operation'')) (\<lambda>operation.
     thenM (modifyM (\<lambda>s. s\<lparr>st_operation := operation\<rparr>))
    (thenM (modifyM (\<lambda>s. s\<lparr>st_status := status\<rparr>))
    (bindM (liftR (py_get_default status_data ''code'' (JInt 0))) (\<lambda>code.
     thenM (modifyM (\<lambda>s. s\<lparr>st_code := code\<rparr>))
    (bindM (liftR (bindR (py_get status_data ''formattedMessage'') parse_formatted_message)) (\<lambda>message.
     thenM (modifyM (\<lambda>s. s\<lparr>st_message := message\<rparr>))
    (bindM (liftR (py_get_default status_data ''substatus'' (JList []))) (\<lambda>substatus_list.
     bindM (liftR (py_iter (if substatus_list = JNull then JList [] else substatus_list))) (\<lambda>subs.
       forM subs (add_substatus py_repr))))))))))))))))"

definition parse_ext_status :: "(json \<Rightarrow> string) \<Rightarrow> json \<Rightarrow> (ext_status, unit) op" where
  "parse_ext_status py_repr data = (case data of
     JNull \<Rightarrow> returnM ()
   | JList [] \<Rightarrow> returnM ()
   | JList (first # _) \<Rightarrow> parse_status_data py_repr first
   | _ \<Rightarrow> raiseM (ExtensionStatusError (''The extension status must be an array: '' @ take 4096 (ustr py_repr data)) StatusFileMalformed))"

section \<open>Truncating\<close>

definition MAX_STATUS_FILE_SIZE_IN_BYTES :: nat where "MAX_STATUS_FILE_SIZE_IN_BYTES = 128 * 1024"
definition MAX_STATUS_MESSAGE_LENGTH :: nat where "MAX_STATUS_MESSAGE_LENGTH = 1024"
definition MAX_SUBSTATUS_FIELD_LENGTH :: nat where "MAX_SUBSTATUS_FIELD_LENGTH = 10 * 1024"
definition TRUNCATED_SUFFIX :: string where "TRUNCATED_SUFFIX = '' ... [TRUNCATED]''"

text \<open>
  \<^verbatim>\<open>_truncate_message\<close> and the unpacking of its result. For \<^verbatim>\<open>None\<close> it returns \<^verbatim>\<open>None\<close>, which does not
  unpack into two variables; a number has no length; the suffix cannot be added to a list or dictionary.
\<close>

fun truncate_message :: "json \<Rightarrow> nat \<Rightarrow> (json \<times> nat) res" where
  "truncate_message (JStr field) truncate_size =
     (let t = (if length field < truncate_size then field else take truncate_size field @ TRUNCATED_SUFFIX)
      in Inr (JStr t, length t))"
| "truncate_message (JList xs) truncate_size =
     (if length xs < truncate_size then Inr (JList xs, length xs) else Inl TypeError)"
| "truncate_message (JObj d) truncate_size =
     (if length d < truncate_size then Inr (JObj d, length d) else Inl TypeError)"
| "truncate_message _ truncate_size = Inl TypeError"

fun process_substatus_list :: "ext_substatus list \<Rightarrow> nat \<Rightarrow> ext_substatus list res" where
  "process_substatus_list [] current_status_size = Inr []"
| "process_substatus_list (substatus # rest) current_status_size =
     bindR (truncate_message (ss_name substatus) MAX_SUBSTATUS_FIELD_LENGTH) (\<lambda>(name, name_size).
     bindR (truncate_message (ss_message substatus) MAX_SUBSTATUS_FIELD_LENGTH) (\<lambda>(message, message_size).
       let new_size = current_status_size + name_size + message_size in
       if new_size \<le> MAX_STATUS_FILE_SIZE_IN_BYTES
       then bindR (process_substatus_list rest new_size) (\<lambda>processed.
              Inr (substatus\<lparr>ss_name := name, ss_message := message\<rparr> # processed))
       else Inr []))"

section \<open>Reading\<close>

definition NUM_OF_STATUS_FILE_RETRIES :: nat where "NUM_OF_STATUS_FILE_RETRIES = 5"
definition STATUS_FILE_RETRY_DELAY :: nat where "STATUS_FILE_RETRY_DELAY = 2"

text \<open>\<open>loads\<close> is \<^verbatim>\<open>json.loads\<close>. A file name of \<^verbatim>\<open>None\<close> is what \<^verbatim>\<open>os.path.exists\<close> rejects with \<^verbatim>\<open>TypeError\<close>.\<close>

definition read_and_parse_json_status_file ::
  "io_env \<Rightarrow> (string \<Rightarrow> json res) \<Rightarrow> (exn \<Rightarrow> string) \<Rightarrow> path option \<Rightarrow> ('a fs_scheme, string \<times> json) op" where
  "read_and_parse_json_status_file io loads show_exn file = (case file of
     None \<Rightarrow> raiseM TypeError
   | Some p \<Rightarrow>
       bindM (getM (\<lambda>s. path_exists s p)) (\<lambda>there.
         if \<not> there
         then raiseM (ExtensionStatusError (''Status file '' @ join_with ''/'' p @ '' does not exist'') FileNotExists)
         else bindM (tryM (read_file io p)
                (\<lambda>e. if is_OSError e then Some (raiseM (ExtensionStatusError (show_exn e) CouldNotReadStatusFile)) else None))
              (\<lambda>data_str. case loads data_str of
                 Inr data \<Rightarrow> returnM (data_str, data)
               | Inl e \<Rightarrow> raiseM (if e = ValueError \<or> e = TypeError
                   then ExtensionStatusError (show_exn e @ '' First 2000 Bytes of status file: '' @ take 2000 data_str) InvalidJsonFile
                   else e))))"

text \<open>
  \<^verbatim>\<open>_read_status_file\<close>: \<open>attempt\<close> is one attempt and \<open>pause\<close> the two seconds between them, in which
  other processes run.
\<close>

function read_status_loop :: "('s, 'a) op \<Rightarrow> ('s \<Rightarrow> 's) \<Rightarrow> nat \<Rightarrow> ('s, 'a) op" where
  "read_status_loop attempt pause err_count s = (case attempt s of
     (Inr a, t) \<Rightarrow> (Inr a, t)
   | (Inl e, t) \<Rightarrow>
       if \<not> is_Exception e then (Inl e, t)
       else if NUM_OF_STATUS_FILE_RETRIES \<le> Suc err_count then (Inl e, t)
       else read_status_loop attempt pause (Suc err_count) (pause t))"
  by pat_completeness auto
termination by (relation "measure (\<lambda>(_, _, n, _). NUM_OF_STATUS_FILE_RETRIES - n)") auto

declare read_status_loop.simps [simp del]

definition read_status_file ::
  "io_env \<Rightarrow> (string \<Rightarrow> json res) \<Rightarrow> (exn \<Rightarrow> string) \<Rightarrow> ('a fs_scheme \<Rightarrow> 'a fs_scheme) \<Rightarrow> path option \<Rightarrow>
   ('a fs_scheme, string \<times> json) op" where
  "read_status_file io loads show_exn pause file =
     read_status_loop (read_and_parse_json_status_file io loads show_exn file) pause 0"

text \<open>The loop keeps what an attempt and the pause keep.\<close>

lemma preserves_read_status_loop:
  assumes "preserves P m" and "\<And>s. P s \<Longrightarrow> P (pause s)"
  shows "preserves P (read_status_loop m pause n)"
proof (rule preservesI)
  fix s assume "P s"
  then show "P (snd (read_status_loop m pause n s))"
    using assms
  proof (induction m pause n s rule: read_status_loop.induct)
    case (1 m pause n s)
    obtain r t where r: "m s = (r, t)" by fastforce
    have t: "P t" using preservesD [OF "1.prems"(2,1)] r by simp
    show ?case
    proof (cases r)
      case (Inl e)
      then show ?thesis
        using r t "1.IH" [of r t e] "1.prems" by (subst read_status_loop.simps) auto
    next
      case (Inr a)
      then show ?thesis using r t by (subst read_status_loop.simps) simp
    qed
  qed
qed


section \<open>Properties\<close>

definition known_status :: "json \<Rightarrow> bool" where
  "known_status j \<longleftrightarrow> j \<in> JStr ` set STRINGS"

definition status_typed :: "ext_status \<Rightarrow> bool" where
  "status_typed s \<longleftrightarrow> (st_status s = JNull \<or> known_status (st_status s)) \<and> list_all (known_status \<circ> ss_status) (st_substatus s)"

lemma known_status_iff: "known_status st \<longleftrightarrow> st \<in> set (map JStr STRINGS)"
  by (simp add: known_status_def)

lemma known_error: "JStr ''error'' \<in> set (map JStr STRINGS)"
  by (simp add: STRINGS_def)

lemma known_status_or_error [simp]: "known_status (if st \<notin> set (map JStr STRINGS) then JStr ''error'' else st)"
  by (auto simp: known_status_def STRINGS_def)

lemma parse_ext_substatus_known: "parse_ext_substatus r j = Inr sub \<Longrightarrow> known_status (ss_status sub)"
  by (cases j) (auto simp: parse_ext_substatus_def validate_in_range_def bindR_eq_Inr known_status_def dict_get_def
      split: if_splits option.splits)

lemma preserves_liftR_bind:
  "(\<And>a. r = Inr a \<Longrightarrow> preserves P (f a)) \<Longrightarrow> preserves P (bindM (liftR r) f)"
  by (cases r) (simp_all add: preserves_def bindM_def liftR_def)

lemma add_substatus_typed: "preserves status_typed (add_substatus r j)"
  unfolding add_substatus_def
  by (intro preserves_whenM preserves_liftR_bind preserves_modifyM)
     (auto simp: status_typed_def parse_ext_substatus_known)

lemma parse_status_data_typed: "preserves status_typed (parse_status_data r data)"
  unfolding parse_status_data_def Let_def
  by (intro preserves_intros add_substatus_typed) (simp_all add: status_typed_def del: set_map)

lemma parse_ext_status_typed: "preserves status_typed (parse_ext_status r data)"
  unfolding parse_ext_status_def
  by (auto intro!: preserves_intros parse_status_data_typed split: json.split list.split)

lemma add_substatus_keeps: "preserves (\<lambda>s. known_status (st_status s)) (add_substatus r j)"
  unfolding add_substatus_def by (intro preserves_intros) simp

text \<open>After a successful parse the status is one of the four known ones.\<close>

lemma parse_status_data_known:
  "wp (parse_status_data r data) (\<lambda>_ t. known_status (st_status t)) (\<lambda>_ _. True) s"
proof -
  have subs: "wp (forM subs (add_substatus r)) (\<lambda>_ t. known_status (st_status t)) (\<lambda>_ _. True) u"
    if "known_status (st_status u)" for subs u
  proof -
    have "preserves (\<lambda>s. known_status (st_status s)) (forM subs (add_substatus r))"
      by (intro preserves_forM add_substatus_keeps)
    then have "wp (forM subs (add_substatus r)) (\<lambda>_ t. known_status (st_status t)) (\<lambda>_ t. known_status (st_status t)) u"
      using that by (simp add: preserves_iff_wp)
    then show ?thesis by (rule wp_mono) simp_all
  qed
  show ?thesis unfolding parse_status_data_def Let_def wp_simps wp_liftR
    by (auto split: sum.splits intro!: subs [unfolded known_status_iff] simp: wp_returnM known_status_iff known_error simp del: set_map)
qed


text \<open>
  C19: Parsing the status file of an extension yields a well-typed status whatever the document is: also
  when it fails half-way, every status and substatus collected so far is one of the four known ones; and
  when it succeeds on a non-empty array the status is set to a known one.
\<close>

theorem parse_ext_status_well_typed:
  assumes "status_typed s" and "parse_ext_status r data s = (x, t)"
  shows "status_typed t \<and> (\<forall>first rest. x = Inr () \<and> data = JList (first # rest) \<longrightarrow> known_status (st_status t))"
proof -
  have "status_typed t" using preservesD [OF parse_ext_status_typed assms(1), of r data] assms(2) by simp
  moreover have "known_status (st_status t)" if "x = Inr ()" "data = JList (first # rest)" for first rest
    using assms(2) that by (auto simp: parse_ext_status_def intro: wp_Inr [OF parse_status_data_known])
  ultimately show ?thesis by blast
qed

definition sample_status_doc :: json where
  "sample_status_doc = JList [JObj [(''status'', JObj [(''status'', JStr ''done''), (''substatus'',
     JList [JNull, JObj [(''status'', JStr ''warning'')]])])]]"

theorem parse_ext_status_well_typed_witness:
  "\<exists>x t. parse_ext_status (\<lambda>_. '''') sample_status_doc (new_ext_status ''CustomScript'' (JInt 1)) = (x, t) \<and>
    x = Inr () \<and> status_typed t \<and> st_status t = JStr ''error'' \<and> length (st_substatus t) = 1"
proof -
  obtain x t where run: "parse_ext_status (\<lambda>_. '''') sample_status_doc (new_ext_status ''CustomScript'' (JInt 1)) = (x, t)" by fastforce
  have "status_typed (new_ext_status ''CustomScript'' (JInt 1))" by (simp add: status_typed_def new_ext_status_def)
  from parse_ext_status_well_typed [OF this run] have "status_typed t" by blast
  moreover have "x = Inr () \<and> st_status t = JStr ''error'' \<and> length (st_substatus t) = 1"
    using run by (auto simp: parse_ext_status_def parse_status_data_def sample_status_doc_def new_ext_status_def validate_has_key_def
        STRINGS_def parse_formatted_message_def add_substatus_def parse_ext_substatus_def validate_in_range_def op_defs)
  ultimately show ?thesis using run by blast
qed

definition json_size :: "json \<Rightarrow> nat" where
  "json_size j = (case py_len j of Inr n \<Rightarrow> n | Inl _ \<Rightarrow> 0)"

definition substatus_size :: "ext_substatus \<Rightarrow> nat" where
  "substatus_size sub = json_size (ss_name sub) + json_size (ss_message sub)"

lemma truncate_message_size:
  "truncate_message j n = Inr (k, m) \<Longrightarrow> m = json_size k \<and> m \<le> n + length TRUNCATED_SUFFIX"
  by (cases j) (auto simp: json_size_def Let_def split: if_splits)

text \<open>
  C20: Truncation makes a status fit for reporting: the names and messages of the substatuses kept add up,
  with what was counted before, to at most 128K, each of them is at most 10K and the suffix long, and the
  kept substatuses are the first ones in their order with their status and code unchanged.
\<close>

theorem process_substatus_list_bounded:
  assumes "process_substatus_list subs n = Inr out"
  shows "n + sum_list (map substatus_size out) \<le> max n MAX_STATUS_FILE_SIZE_IN_BYTES \<and>
    (\<forall>sub\<in>set out. json_size (ss_name sub) \<le> MAX_SUBSTATUS_FIELD_LENGTH + length TRUNCATED_SUFFIX \<and>
       json_size (ss_message sub) \<le> MAX_SUBSTATUS_FIELD_LENGTH + length TRUNCATED_SUFFIX) \<and>
    map (\<lambda>sub. (ss_status sub, ss_code sub)) out = take (length out) (map (\<lambda>sub. (ss_status sub, ss_code sub)) subs)"
  using assms
proof (induction subs n arbitrary: out rule: process_substatus_list.induct)
  case (2 sub rest n)
  obtain name ns message ms where
    name: "truncate_message (ss_name sub) MAX_SUBSTATUS_FIELD_LENGTH = Inr (name, ns)" and
    message: "truncate_message (ss_message sub) MAX_SUBSTATUS_FIELD_LENGTH = Inr (message, ms)"
    using "2.prems" by (auto simp: bindR_eq_Inr)
  note sizes = truncate_message_size [OF name] truncate_message_size [OF message]
  show ?case
  proof (cases "n + ns + ms \<le> MAX_STATUS_FILE_SIZE_IN_BYTES")
    case True
    with "2.prems" name message obtain processed where
      rest: "process_substatus_list rest (n + ns + ms) = Inr processed" and
      out: "out = sub\<lparr>ss_name := name, ss_message := message\<rparr> # processed"
      by (auto simp: bindR_eq_Inr Let_def)
    from "2.IH" [OF name refl message refl refl True rest] sizes True out show ?thesis
      by (auto simp: substatus_size_def)
  next
    case False
    with "2.prems" name message show ?thesis by (simp add: Let_def)
  qed
qed simp

definition sample_substatus :: "string \<Rightarrow> ext_substatus" where
  "sample_substatus m = \<lparr>ss_name = JStr ''disk'', ss_status = JStr ''success'', ss_code = JInt 0, ss_message = JStr m\<rparr>"

theorem process_substatus_list_bounded_witness:
  "\<exists>out. process_substatus_list [sample_substatus ''ok'', sample_substatus (replicate 10240 (CHR ''x''))] 1024 = Inr out \<and>
    length out = 2 \<and> 1024 + sum_list (map substatus_size out) \<le> MAX_STATUS_FILE_SIZE_IN_BYTES"
proof -
  have run: "process_substatus_list [sample_substatus ''ok'', sample_substatus (replicate 10240 (CHR ''x''))] 1024 =
    Inr [sample_substatus ''ok'', sample_substatus (replicate 10240 (CHR ''x'') @ TRUNCATED_SUFFIX)]"
    by (simp add: sample_substatus_def MAX_SUBSTATUS_FIELD_LENGTH_def MAX_STATUS_FILE_SIZE_IN_BYTES_def TRUNCATED_SUFFIX_def)
  from process_substatus_list_bounded [OF run] run show ?thesis by (auto simp: MAX_STATUS_FILE_SIZE_IN_BYTES_def)
qed


text \<open>The state in which the attempt after \<open>k\<close> failed ones starts.\<close>

fun retry_state :: "('s, 'a) op \<Rightarrow> ('s \<Rightarrow> 's) \<Rightarrow> nat \<Rightarrow> 's \<Rightarrow> 's" where
  "retry_state attempt pause 0 s = s"
| "retry_state attempt pause (Suc k) s = retry_state attempt pause k (pause (snd (attempt s)))"

lemma read_status_loop_attempts:
  assumes "n < NUM_OF_STATUS_FILE_RETRIES"
  shows "\<exists>k. n + k < NUM_OF_STATUS_FILE_RETRIES \<and>
    read_status_loop attempt pause n s = attempt (retry_state attempt pause k s) \<and>
    (\<forall>i<k. \<exists>e. is_Exception e \<and> fst (attempt (retry_state attempt pause i s)) = Inl e) \<and>
    (\<forall>e. fst (attempt (retry_state attempt pause k s)) = Inl e \<longrightarrow> is_Exception e \<longrightarrow> n + k = NUM_OF_STATUS_FILE_RETRIES - 1)"
    (is "\<exists>k. ?P n s k")
  using assms
proof (induction attempt pause n s rule: read_status_loop.induct)
  case (1 attempt pause n s)
  obtain x t where x: "attempt s = (x, t)" by fastforce
  show ?case
  proof (cases "\<exists>e. x = Inl e \<and> is_Exception e \<and> \<not> NUM_OF_STATUS_FILE_RETRIES \<le> Suc n")
    case True
    then obtain e where e: "x = Inl e" "is_Exception e" "\<not> NUM_OF_STATUS_FILE_RETRIES \<le> Suc n" by blast
    then have step: "read_status_loop attempt pause n s = read_status_loop attempt pause (Suc n) (pause t)"
      using x by (simp add: read_status_loop.simps [of attempt pause n])
    from "1.IH" [OF x [symmetric] e(1)] e obtain k where k:
      "Suc n + k < NUM_OF_STATUS_FILE_RETRIES"
      "read_status_loop attempt pause (Suc n) (pause t) = attempt (retry_state attempt pause k (pause t))"
      "\<forall>i<k. \<exists>e. is_Exception e \<and> fst (attempt (retry_state attempt pause i (pause t))) = Inl e"
      "\<forall>e. fst (attempt (retry_state attempt pause k (pause t))) = Inl e \<longrightarrow> is_Exception e \<longrightarrow> Suc n + k = NUM_OF_STATUS_FILE_RETRIES - 1"
      by auto
    show ?thesis
    proof (intro exI [of _ "Suc k"] conjI allI impI)
      show "\<exists>e. is_Exception e \<and> fst (attempt (retry_state attempt pause i s)) = Inl e" if "i < Suc k" for i
        using that k(3) x e by (cases i) auto
    qed (use k x step in auto)
  next
    case False
    then have "read_status_loop attempt pause n s = attempt s"
      using x by (auto simp: read_status_loop.simps [of attempt pause n] split: sum.splits)
    then show ?thesis using False x "1.prems" by (intro exI [of _ 0]) auto
  qed
qed

text \<open>
  C21: Reading a status file that is being written ends after at most five attempts: the result is that of
  some attempt, all earlier ones failed, and if it is an ordinary exception then all five failed. So a
  file that becomes readable before the last attempt is read.
\<close>

theorem read_status_file_attempts:
  "\<exists>k<NUM_OF_STATUS_FILE_RETRIES.
    let attempt = read_and_parse_json_status_file io loads show_exn file in
    read_status_file io loads show_exn pause file s = attempt (retry_state attempt pause k s) \<and>
    list_all (\<lambda>i. isl (fst (attempt (retry_state attempt pause i s)))) [0..<k] \<and>
    (case fst (attempt (retry_state attempt pause k s)) of
       Inl e \<Rightarrow> if is_Exception e then k = NUM_OF_STATUS_FILE_RETRIES - 1 else True
     | Inr _ \<Rightarrow> True)"
proof -
  let ?a = "read_and_parse_json_status_file io loads show_exn file"
  obtain k where "k < NUM_OF_STATUS_FILE_RETRIES" "read_status_loop ?a pause 0 s = ?a (retry_state ?a pause k s)"
    "\<forall>i<k. \<exists>e. is_Exception e \<and> fst (?a (retry_state ?a pause i s)) = Inl e"
    "\<forall>e. fst (?a (retry_state ?a pause k s)) = Inl e \<longrightarrow> is_Exception e \<longrightarrow> k = NUM_OF_STATUS_FILE_RETRIES - 1"
    using read_status_loop_attempts [of 0 ?a pause s] by (auto simp: NUM_OF_STATUS_FILE_RETRIES_def)
  then show ?thesis
    by (intro exI [of _ k]) (auto simp: read_status_file_def Let_def list_all_iff split: sum.split)
qed

end
