(* ===== verification/Ext_Handler.thy ===== *)
theory Ext_Handler
  imports Wire_Report Ext_Status Handler_Manifest
begin

text \<open>
  \<^verbatim>\<open>ExtHandlerInstance\<close> of \<^verbatim>\<open>azurelinuxagent/ga/exthandlers.py\<close>: one version of an extension on this machine,
  its directory, its state files and its commands. The fields of the instance that methods change are
  \<open>x_inst\<close> of the state; methods that only read them take the instance as an argument, so that they also apply to the
  installed version during an update. \<open>x_launched\<close> is the list of all commands handed to the operating
  system. What such a command does to the files, and its outcome, is \<open>xe_run\<close>; what other processes do while the agent
  sleeps is \<open>xe_background\<close>. Log files, which are outside the library directory, access modes and the calls that
  set up cgroups are left out. The names of extensions have no slash.
\<close>

section \<open>State and surroundings\<close>

record ext_instance =
  hi_handler :: extension
  hi_pkg :: "ext_package option"
  hi_pkg_file :: "path option"
  hi_signature_validated :: json
  hi_operation :: "string option"
  hi_old :: bool

record launch =
  la_dir :: path
  la_command :: string
  la_cmd_name :: string
  la_timeout :: nat
  la_error_code :: int
  la_env :: "(string \<times> string) list"

record ext_world = wire +
  x_inst :: ext_instance
  x_launched :: "launch list"

type_synonym disk = "(path \<times> string) list \<times> path list"

record ext_env = wire_env +
  xe_run :: "nat \<Rightarrow> launch \<Rightarrow> disk \<Rightarrow> exn option \<times> disk \<times> int"
  xe_background :: "int \<Rightarrow> disk \<Rightarrow> disk"
  xe_mtime :: "int \<Rightarrow> path \<Rightarrow> int res"
  xe_parse_manifest :: "string \<Rightarrow> ext_package list res"
  xe_py_repr :: "json \<Rightarrow> string"
  xe_fast_track :: bool
  xe_ext_log_dir :: string

definition PluginUnknownFailure :: int where "PluginUnknownFailure = -1"
definition PluginSuccess :: int where "PluginSuccess = 0"
definition PluginProcessingError :: int where "PluginProcessingError = 1000"
definition PluginHandlerManifestNotFound :: int where "PluginHandlerManifestNotFound = 1002"
definition PluginHandlerManifestDeserializationError :: int where "PluginHandlerManifestDeserializationError = 1003"
definition PluginInstallProcessingFailed :: int where "PluginInstallProcessingFailed = 1007"
definition PluginUpdateProcessingFailed :: int where "PluginUpdateProcessingFailed = 1008"
definition PluginEnableProcessingFailed :: int where "PluginEnableProcessingFailed = 1009"
definition PluginDisableProcessingFailed :: int where "PluginDisableProcessingFailed = 1010"
definition PluginSettingsStatusInvalid :: int where "PluginSettingsStatusInvalid = 1012"

definition NotInstalled :: string where "NotInstalled = ''NotInstalled''"
definition Installed :: string where "Installed = ''Installed''"
definition HandlerEnabled :: string where "HandlerEnabled = ''Enabled''"
definition FailedUpgrade :: string where "FailedUpgrade = ''FailedUpgrade''"

definition NOT_RUN :: string where "NOT_RUN = ''NOT_RUN''"
definition DEFAULT_SEQ_NO :: string where "DEFAULT_SEQ_NO = ''0''"

text \<open>The code of an extension error.\<close>

fun error_code :: "exn \<Rightarrow> int" where
  "error_code (ExtensionError _ c) = c"
| "error_code (ExtensionOperationError _ c _) = c"
| "error_code (ExtensionUpdateError _ c) = c"
| "error_code (ExtensionDownloadError _ c) = c"
| "error_code (ExtensionsGoalStateError _ c) = c"
| "error_code (MultiConfigExtensionEnableError _ c) = c"
| "error_code (ExtensionStatusError _ c) = c"
| "error_code _ = -1"

section \<open>Names and directories\<close>

definition should_perform_multi_config_op :: "ext_instance \<Rightarrow> ext_settings option \<Rightarrow> bool" where
  "should_perform_multi_config_op i ext = (eh_supports_multi_config (hi_handler i) \<and> ext \<noteq> None)"

definition get_extension_full_name :: "ext_instance \<Rightarrow> ext_settings option \<Rightarrow> string" where
  "get_extension_full_name i ext = (case ext of
     Some x \<Rightarrow> if eh_supports_multi_config (hi_handler i) then eh_name (hi_handler i) @ ''.'' @ xs_name x else eh_name (hi_handler i)
   | None \<Rightarrow> eh_name (hi_handler i))"

definition get_full_name :: "ext_instance \<Rightarrow> ext_settings option \<Rightarrow> string" where
  "get_full_name i ext = get_extension_full_name i ext @ ''-'' @ eh_version (hi_handler i)"

definition get_extension_package_zipfile_name :: "ext_instance \<Rightarrow> string" where
  "get_extension_package_zipfile_name i = eh_name (hi_handler i) @ ''__'' @ eh_version (hi_handler i) @ ''.zip''"

definition get_base_dir :: "ext_instance \<Rightarrow> path" where "get_base_dir i = [get_full_name i None]"
definition get_status_dir :: "ext_instance \<Rightarrow> path" where "get_status_dir i = get_base_dir i @ [''status'']"
definition get_conf_dir :: "ext_instance \<Rightarrow> path" where "get_conf_dir i = get_base_dir i @ [''config'']"
definition get_heartbeat_file :: "ext_instance \<Rightarrow> path" where "get_heartbeat_file i = get_base_dir i @ [''heartbeat.log'']"
definition get_manifest_file :: "ext_instance \<Rightarrow> path" where "get_manifest_file i = get_base_dir i @ [''HandlerManifest.json'']"
definition get_env_file :: "ext_instance \<Rightarrow> path" where "get_env_file i = get_base_dir i @ [''HandlerEnvironment.json'']"
definition get_runtime_policy_file :: "ext_instance \<Rightarrow> path" where "get_runtime_policy_file i = get_conf_dir i @ [''runtime_policy.json'']"

definition get_log_dir :: "'x ext_env_scheme \<Rightarrow> ext_instance \<Rightarrow> string" where
  "get_log_dir env i = path_join (xe_ext_log_dir env) (eh_name (hi_handler i))"

definition modify_inst :: "(ext_instance \<Rightarrow> ext_instance) \<Rightarrow> ('a ext_world_scheme, unit) op" where
  "modify_inst f = modifyM (\<lambda>s. s\<lparr>x_inst := f (x_inst s)\<rparr>)"

text \<open>Of the installed version, which is not the instance of the state, the operation is never read.\<close>

definition set_operation :: "ext_instance \<Rightarrow> string \<Rightarrow> ('a ext_world_scheme, unit) op" where
  "set_operation i op = whenM (\<not> hi_old i) (modify_inst (\<lambda>j. j\<lparr>hi_operation := Some op\<rparr>))"

section \<open>State files\<close>

text \<open>The handler of an exception of the \<^verbatim>\<open>OSError\<close> family.\<close>

definition on_io_error :: "('s, 'a) op \<Rightarrow> (exn \<Rightarrow> ('s, 'a) op) \<Rightarrow> ('s, 'a) op" where
  "on_io_error m h = tryM m (\<lambda>e. if is_OSError e then Some (h e) else None)"

definition handler_state_file_name :: "ext_instance \<Rightarrow> ext_settings option \<Rightarrow> string" where
  "handler_state_file_name i ext = (case ext of
     Some x \<Rightarrow> if eh_supports_multi_config (hi_handler i) then xs_name x @ ''.HandlerState'' else ''HandlerState''
   | None \<Rightarrow> ''HandlerState'')"

definition ensure_dir :: "io_env \<Rightarrow> path \<Rightarrow> ('a fs_scheme, unit) op" where
  "ensure_dir io d = bindM (getM (\<lambda>s. path_exists s d)) (\<lambda>there. whenM (\<not> there) (mkdir io d))"

definition set_state :: "'x net_env_scheme \<Rightarrow> ext_instance \<Rightarrow> string \<Rightarrow> string \<Rightarrow> ('a fs_scheme, unit) op" where
  "set_state env i name val =
     (let state_file = get_conf_dir i @ [name] in
      on_io_error (thenM (ensure_dir (ne_io env) (get_conf_dir i)) (write_file (ne_io env) state_file val))
        (\<lambda>e. clean_ioerror (ne_io env) e [state_file]))"

definition get_state :: "'x net_env_scheme \<Rightarrow> ext_instance \<Rightarrow> string \<Rightarrow> string \<Rightarrow> ('a fs_scheme, string) op" where
  "get_state env i name dflt =
     (let state_file = get_conf_dir i @ [name] in
      bindM (getM (\<lambda>s. is_file s state_file)) (\<lambda>there.
        if \<not> there then returnM dflt
        else on_io_error (read_file (ne_io env) state_file) (\<lambda>_. returnM dflt)))"

definition set_handler_state :: "'x net_env_scheme \<Rightarrow> ext_instance \<Rightarrow> string \<Rightarrow> ('a fs_scheme, unit) op" where
  "set_handler_state env i st = set_state env i (handler_state_file_name i None) st"

definition get_handler_state :: "'x net_env_scheme \<Rightarrow> ext_instance \<Rightarrow> ('a fs_scheme, string) op" where
  "get_handler_state env i = get_state env i (handler_state_file_name i None) NotInstalled"

definition set_extension_state :: "'x net_env_scheme \<Rightarrow> ext_instance \<Rightarrow> ext_settings option \<Rightarrow> string \<Rightarrow> ('a fs_scheme, unit) op" where
  "set_extension_state env i ext st = set_state env i (handler_state_file_name i ext) st"

definition get_extension_state :: "'x net_env_scheme \<Rightarrow> ext_instance \<Rightarrow> ext_settings option \<Rightarrow> ('a fs_scheme, string) op" where
  "get_extension_state env i ext = get_state env i (handler_state_file_name i ext) Disabled"

fun filterM :: "('a \<Rightarrow> ('s, bool) op) \<Rightarrow> 'a list \<Rightarrow> ('s, 'a list) op" where
  "filterM p [] = returnM []"
| "filterM p (x # xs) = bindM (p x) (\<lambda>b. bindM (filterM p xs) (\<lambda>ys. returnM (if b then x # ys else ys)))"

definition enabled_extensions :: "'x net_env_scheme \<Rightarrow> ext_instance \<Rightarrow> ('a fs_scheme, ext_settings list) op" where
  "enabled_extensions env i =
     (if eh_supports_multi_config (hi_handler i)
      then filterM (\<lambda>x. bindM (get_extension_state env i (Some x)) (\<lambda>st. returnM (st = Enabled))) (eh_settings (hi_handler i))
      else returnM (eh_settings (hi_handler i)))"

text \<open>\<^verbatim>\<open>glob\<close> for the patterns \<^verbatim>\<open>prefix*suffix\<close> in a directory.\<close>

definition glob_in :: "'a fs_scheme \<Rightarrow> path \<Rightarrow> string \<Rightarrow> string \<Rightarrow> path list" where
  "glob_in s d pre suf = map (\<lambda>n. d @ [n]) (filter (\<lambda>n. length pre + length suf \<le> length n \<and> startswith n pre \<and>
     startswith (rev n) (rev suf) \<and> (startswith pre ''.'' \<or> \<not> startswith n ''.'')) (list_dir s d))"

definition remove_extension_state_files :: "'x net_env_scheme \<Rightarrow> ext_instance \<Rightarrow> ext_settings \<Rightarrow> ('a fs_scheme, unit) op" where
  "remove_extension_state_files env i x =
     (let rm = (\<lambda>paths. bindM (getM paths) (rm_files (ne_io env))) in
      tryM (thenM (rm (\<lambda>_. [get_base_dir i @ [xs_name x @ ''.mrseq'']]))
           (thenM (rm (\<lambda>s. glob_in s (get_conf_dir i) (xs_name x @ ''.'') ''.settings''))
           (thenM (rm (\<lambda>s. glob_in s (get_status_dir i) (xs_name x @ ''.'') ''.status''))
                  (rm (\<lambda>_. [get_conf_dir i @ [handler_state_file_name i (Some x)]])))))
        (\<lambda>e. if is_Exception e then Some (returnM ()) else None))"

section \<open>The handler status\<close>

definition set_handler_status ::
  "'x net_env_scheme \<Rightarrow> ext_instance \<Rightarrow> string \<Rightarrow> string \<Rightarrow> int \<Rightarrow> ('a fs_scheme, unit) op" where
  "set_handler_status env i status message code =
     (let h = hi_handler i;
          status_file = get_conf_dir i @ [''HandlerStatus''];
          hs = new_handler_status\<lparr>hs_name := JStr (eh_name h), hs_version := JStr (eh_version h), hs_message := JStr (redact_sas message),
                 hs_code := JInt code, hs_status := JStr status, hs_supports_multi_config := JBool (eh_supports_multi_config h),
                 hs_signature_validated := hi_signature_validated i\<rparr>
      in on_io_error
           (thenM (ensure_dir (ne_io env) (get_conf_dir i))
              (write_file (ne_io env) status_file (ne_dumps env (handler_status_properties hs))))
           (\<lambda>e. clean_ioerror (ne_io env) e [status_file]))"

definition get_handler_status :: "'x net_env_scheme \<Rightarrow> ext_instance \<Rightarrow> ('a fs_scheme, handler_status option) op" where
  "get_handler_status env i =
     (let status_file = get_conf_dir i @ [''HandlerStatus''] in
      bindM (getM (\<lambda>s. is_file s status_file)) (\<lambda>there.
        if \<not> there then returnM None
        else tryM (bindM (read_file (ne_io env) status_file) (\<lambda>contents.
                   bindM (liftR (bindR (ne_loads env contents) set_handler_properties)) (\<lambda>hs. returnM (Some hs))))
               (\<lambda>e. if is_OSError e \<or> e = ValueError then Some (returnM None) else None)))"

text \<open>The constructor reads whether the signature of this version has been validated.\<close>

definition get_signature_validated :: "'x net_env_scheme \<Rightarrow> ext_instance \<Rightarrow> ('a fs_scheme, json) op" where
  "get_signature_validated env i =
     bindM (get_handler_status env i) (\<lambda>hs. returnM (case hs of None \<Rightarrow> JBool False | Some h \<Rightarrow> hs_signature_validated h))"

definition new_instance :: "'x net_env_scheme \<Rightarrow> extension \<Rightarrow> ('a fs_scheme, ext_instance) op" where
  "new_instance env h =
     (let i = \<lparr>hi_handler = h, hi_pkg = None, hi_pkg_file = None, hi_signature_validated = JBool False,
              hi_operation = None, hi_old = False\<rparr> in
      bindM (get_signature_validated env i) (\<lambda>v. returnM (i\<lparr>hi_signature_validated := v\<rparr>)))"

section \<open>Manifest and commands\<close>

text \<open>\<^verbatim>\<open>obj[0]\<close>\<close>

fun py_first :: "json \<Rightarrow> json res" where
  "py_first (JList (x # _)) = Inr x"
| "py_first (JList []) = Inl IndexError"
| "py_first (JStr (c # _)) = Inr (JStr [c])"
| "py_first (JStr []) = Inl IndexError"
| "py_first (JObj _) = Inl KeyError"
| "py_first _ = Inl TypeError"

definition load_manifest :: "'x net_env_scheme \<Rightarrow> ext_instance \<Rightarrow> ('a fs_scheme, json) op" where
  "load_manifest env i =
     bindM (tryM (bindM (read_file (ne_io env) (get_manifest_file i)) (\<lambda>text. liftR (ne_loads env text)))
       (\<lambda>e. if is_OSError e then Some (raiseM (ExtensionError ''Failed to load manifest file'' PluginHandlerManifestNotFound))
            else if e = ValueError then Some (raiseM (ExtensionError ''Malformed manifest file'' PluginHandlerManifestDeserializationError))
            else None)) (\<lambda>data.
       liftR (bindR (py_first data) HandlerManifest))"

text \<open>
  The parts of a manifest that the calls for resource control read: whatever those calls do with them, reading them raises
  if the section is not a dictionary.
\<close>

definition read_resource_limits :: "json \<Rightarrow> string list \<Rightarrow> ('s, unit) op" where
  "read_resource_limits man keys =
     bindM (liftR (get_resource_limits man)) (\<lambda>limits. forM keys (\<lambda>k. bindM (liftR (resource_limit k limits)) (\<lambda>_. returnM ())))"

definition log_telemetry_if_ext_uses_resource_limits :: "json \<Rightarrow> ('s, unit) op" where
  "log_telemetry_if_ext_uses_resource_limits man =
     thenM (read_resource_limits man [''cpuQuotaPercentage'', ''memoryQuotaInMB''])
    (bindM (liftR (bindR (get_resource_limits man) (resource_limit ''services''))) (\<lambda>services.
       if services = JNull then returnM () else bindM (liftR (py_len services)) (\<lambda>_. returnM ())))"

definition set_extension_resource_limits :: "'x net_env_scheme \<Rightarrow> ext_instance \<Rightarrow> ('a fs_scheme, unit) op" where
  "set_extension_resource_limits env i =
     bindM (load_manifest env i) (\<lambda>man. read_resource_limits man [''cpuQuotaPercentage'', ''services''])"

definition lstrip_sep :: "string \<Rightarrow> string" where
  "lstrip_sep s = dropWhile (\<lambda>c. c = CHR ''/'') s"

definition path_text :: "'x wire_env_scheme \<Rightarrow> path \<Rightarrow> string" where
  "path_text env p = path_join (we_lib_dir env) (join_with ''/'' p)"

definition command_environment ::
  "'x ext_env_scheme \<Rightarrow> ext_instance \<Rightarrow> (string \<times> string) list \<Rightarrow> ext_settings option \<Rightarrow> (string \<times> string) list" where
  "command_environment env i vars ext =
     vars @
     [(''AZURE_GUEST_AGENT_EXTENSION_PATH'', path_text env (get_base_dir i)),
      (''AZURE_GUEST_AGENT_EXTENSION_VERSION'', eh_version (hi_handler i)),
      (''AZURE_GUEST_AGENT_WIRE_PROTOCOL_ADDRESS'', we_endpoint env),
      (''ConfigSequenceNumber'', case ext of Some x \<Rightarrow> ustr (xe_py_repr env) (xs_sequence_number x) | None \<Rightarrow> DEFAULT_SEQ_NO)] @
     (case ext of Some x \<Rightarrow> if eh_supports_multi_config (hi_handler i) then [(''ConfigExtensionName'', xs_name x)] else [] | None \<Rightarrow> []) @
     [(''AZURE_GUEST_AGENT_EXTENSION_SUPPORTED_FEATURES'',
       ne_dumps env (JList [JObj [(''Key'', JStr ''ExtensionTelemetryPipeline''), (''Value'', JStr ''1.0'')]]))]"

definition start_command :: "'x ext_env_scheme \<Rightarrow> launch \<Rightarrow> ('a ext_world_scheme, unit) op" where
  "start_command env l = (\<lambda>s. case xe_run env (length (x_launched s)) l (fs_files s, fs_dirs s) of
     (err, (files, dirs), elapsed) \<Rightarrow>
       (case err of None \<Rightarrow> Inr () | Some e \<Rightarrow> Inl e,
        s\<lparr>fs_files := files, fs_dirs := dirs, n_now := n_now s + elapsed, x_launched := x_launched s @ [l]\<rparr>))"

text \<open>\<^verbatim>\<open>launch_command\<close>; the temporary files for the output need the directory of the extension.\<close>

definition launch_command ::
  "'x ext_env_scheme \<Rightarrow> ext_instance \<Rightarrow> json \<Rightarrow> string \<Rightarrow> nat \<Rightarrow> int \<Rightarrow> (string \<times> string) list \<Rightarrow> ext_settings option \<Rightarrow>
   ('a ext_world_scheme, unit) op" where
  "launch_command env i cmd cmd_name timeout code vars ext =
     thenM (io_check (ne_io env) Write (get_base_dir i))
    (bindM (getM (\<lambda>s. is_dir s (get_base_dir i))) (\<lambda>there.
       if \<not> there then raiseM FileNotFoundError
       else case cmd of
         JStr c \<Rightarrow>
           on_io_error
             (start_command env \<lparr>la_dir = get_base_dir i, la_command = path_join (path_text env (get_base_dir i)) (lstrip_sep c),
                la_cmd_name = cmd_name, la_timeout = timeout, la_error_code = code, la_env = command_environment env i vars ext\<rparr>)
             (\<lambda>e. raiseM (ExtensionError (''Failed to launch '' @ c) code))
       | _ \<Rightarrow> raiseM AttributeError))"

definition uninstall_exit_text :: "int option \<Rightarrow> string" where
  "uninstall_exit_text c = (case c of None \<Rightarrow> NOT_RUN | Some n \<Rightarrow> int_str n)"

definition uninstall_code_var :: "int option \<Rightarrow> (string \<times> string) list" where
  "uninstall_code_var c = [(''AZURE_GUEST_AGENT_UNINSTALL_CMD_EXIT_CODE'', uninstall_exit_text c)]"

definition enable_extension :: "'x ext_env_scheme \<Rightarrow> ext_instance \<Rightarrow> ext_settings option \<Rightarrow> int option \<Rightarrow> ('a ext_world_scheme, unit) op" where
  "enable_extension env i ext uninstall_exit_code =
     thenM (set_extension_resource_limits env i)
    (thenM (set_operation i ''Enable'')
    (bindM (load_manifest env i) (\<lambda>man.
     bindM (liftR (get_enable_command man)) (\<lambda>cmd.
     thenM (launch_command env i cmd ''enable'' 300 PluginEnableProcessingFailed (uninstall_code_var uninstall_exit_code) ext)
    (thenM (whenM (should_perform_multi_config_op i ext) (set_extension_state env i ext Enabled))
           (read_resource_limits man [''services'']))))))"

definition enable :: "'x ext_env_scheme \<Rightarrow> ext_instance \<Rightarrow> ext_settings option \<Rightarrow> int option \<Rightarrow> ('a ext_world_scheme, unit) op" where
  "enable env i ext uninstall_exit_code =
     thenM (tryM (enable_extension env i ext uninstall_exit_code)
              (\<lambda>e. if is_ExtensionError e \<and> should_perform_multi_config_op i ext
                   then Some (raiseM (MultiConfigExtensionEnableError (ne_show env e) (-1))) else None))
    (thenM (set_handler_state env i HandlerEnabled)
           (set_handler_status env i ''Ready'' ''Plugin enabled'' 0))"

definition disable_extension :: "'x ext_env_scheme \<Rightarrow> ext_instance \<Rightarrow> ext_settings option \<Rightarrow> ('a ext_world_scheme, unit) op" where
  "disable_extension env i ext =
     thenM (set_operation i ''Disable'')
    (bindM (load_manifest env i) (\<lambda>man.
     bindM (liftR (get_disable_command man)) (\<lambda>cmd.
       launch_command env i cmd ''disable'' 900 PluginDisableProcessingFailed [] ext)))"

definition disable :: "'x ext_env_scheme \<Rightarrow> ext_instance \<Rightarrow> ext_settings option \<Rightarrow> bool \<Rightarrow> ('a ext_world_scheme, unit) op" where
  "disable env i ext ignore_error =
     thenM (tryM (disable_extension env i ext) (\<lambda>e. if is_ExtensionError e \<and> ignore_error then Some (returnM ()) else None))
    (thenM (case ext of
         Some x \<Rightarrow> if \<not> eh_supports_multi_config (hi_handler i) then returnM ()
                   else if xs_state x = Disabled then remove_extension_state_files env i x
                   else set_extension_state env i ext Disabled
       | None \<Rightarrow> returnM ())
    (bindM (if eh_supports_multi_config (hi_handler i) then bindM (enabled_extensions env i) (\<lambda>xs. returnM (xs = [])) else returnM True) (\<lambda>all_disabled.
       whenM all_disabled
         (thenM (set_handler_state env i Installed) (set_handler_status env i ''NotReady'' ''Plugin disabled'' 0)))))"

definition install :: "'x ext_env_scheme \<Rightarrow> ext_instance \<Rightarrow> int option \<Rightarrow> ext_settings option \<Rightarrow> ('a ext_world_scheme, unit) op" where
  "install env i uninstall_exit_code ext =
     bindM (load_manifest env i) (\<lambda>man.
     bindM (liftR (get_install_command man)) (\<lambda>cmd.
     thenM (set_operation i ''Install'')
    (thenM (launch_command env i cmd ''install'' 900 PluginInstallProcessingFailed (uninstall_code_var uninstall_exit_code) ext)
    (thenM (set_handler_state env i Installed)
           (set_handler_status env i ''NotReady'' ''Plugin installed but not enabled'' 0)))))"

definition uninstall :: "'x ext_env_scheme \<Rightarrow> ext_instance \<Rightarrow> ext_settings option \<Rightarrow> ('a ext_world_scheme, unit) op" where
  "uninstall env i ext =
     thenM (set_operation i ''UnInstall'')
    (bindM (load_manifest env i) (\<lambda>man.
     thenM (read_resource_limits man [''services''])
    (bindM (liftR (get_uninstall_command man)) (\<lambda>cmd.
       launch_command env i cmd ''uninstall'' 300 PluginProcessingError [] ext))))"

definition remove_ext_handler :: "'x net_env_scheme \<Rightarrow> ext_instance \<Rightarrow> ('a fs_scheme, unit) op" where
  "remove_ext_handler env i =
     (let zip = [get_extension_package_zipfile_name i] in
      on_io_error
        (bindM (getM (\<lambda>s. path_exists s zip)) (\<lambda>there.
         thenM (whenM there (remove_file (ne_io env) zip))
        (bindM (getM (\<lambda>s. is_dir s (get_base_dir i))) (\<lambda>dir.
           whenM dir (tryM (rmtree (ne_io env) (get_base_dir i)) (\<lambda>e. if e = FileNotFoundError then Some (returnM ()) else None))))))
        (\<lambda>_. returnM ()))"

text \<open>
  The exit codes of the disable commands are a \<^verbatim>\<open>defaultdict\<close>, but they are looked up with \<^verbatim>\<open>get\<close>, which
  does not make use of the default.
\<close>

definition exit_code_text :: "(string \<times> int) list \<Rightarrow> string \<Rightarrow> string" where
  "exit_code_text codes name = (case map_of codes name of None \<Rightarrow> ''None'' | Some c \<Rightarrow> int_str c)"

definition update_environment :: "'x net_env_scheme \<Rightarrow> ext_instance \<Rightarrow> string \<Rightarrow> string \<Rightarrow> (string \<times> int) list \<Rightarrow> (string \<times> string) list" where
  "update_environment env i from_version to_version codes =
     [(''VERSION'', to_version), (''AZURE_GUEST_AGENT_UPDATING_FROM_VERSION'', from_version)] @
     (if \<not> eh_supports_multi_config (hi_handler i)
      then [(''AZURE_GUEST_AGENT_DISABLE_CMD_EXIT_CODE'', exit_code_text codes (eh_name (hi_handler i)))]
      else [(''AZURE_GUEST_AGENT_DISABLE_CMD_EXIT_CODES_MULTIPLE_EXTENSIONS'',
             ne_dumps env (JList (map (\<lambda>x. JObj [(''extensionName'', JStr (xs_name x)), (''exitCode'', JStr (exit_code_text codes (xs_name x)))])
               (eh_settings (hi_handler i)))))])"

definition update ::
  "'x ext_env_scheme \<Rightarrow> ext_instance \<Rightarrow> string \<Rightarrow> string \<Rightarrow> ext_settings option \<Rightarrow> (string \<times> int) list \<Rightarrow> ('a ext_world_scheme, unit) op" where
  "update env i from_version to_version ext codes =
     tryM (thenM (set_operation i ''Update'')
          (bindM (load_manifest env i) (\<lambda>man.
           bindM (liftR (get_update_command man)) (\<lambda>cmd.
             launch_command env i cmd ''update'' 900 PluginUpdateProcessingFailed (update_environment env i from_version to_version codes) ext))))
       (\<lambda>e. if is_ExtensionError e then Some (thenM (set_handler_state env i FailedUpgrade) (raiseM e)) else None)"

definition update_with_install :: "'x ext_env_scheme \<Rightarrow> ext_instance \<Rightarrow> int option \<Rightarrow> ext_settings option \<Rightarrow> ('a ext_world_scheme, unit) op" where
  "update_with_install env i uninstall_exit_code ext =
     bindM (load_manifest env i) (\<lambda>man.
     bindM (liftR (is_update_with_install man)) (\<lambda>reinstall.
     thenM (whenM reinstall (install env i uninstall_exit_code ext))
           (set_handler_state env i Installed)))"

section \<open>Choosing a version\<close>

text \<open>\<^verbatim>\<open>GoalState.fetch_extension_manifest\<close>: any failure is a protocol error.\<close>

definition fetch_extension_manifest :: "'x ext_env_scheme \<Rightarrow> string list \<Rightarrow> ('a wire_scheme, ext_package list) op" where
  "fetch_extension_manifest env uris =
     tryM (bindM (fetch_manifest env ''extension'' uris (xe_fast_track env)) (\<lambda>xml. liftR (xe_parse_manifest env xml)))
       (\<lambda>e. if is_Exception e then Some (raiseM (ProtocolError (''Failed to retrieve extension manifest. Error: '' @ ne_show env e))) else None)"

text \<open>The loop of \<^verbatim>\<open>get_installed_version\<close> over the directories of the versions of an extension.\<close>

fun latest_installed :: "'x net_env_scheme \<Rightarrow> flexible_version option \<Rightarrow> string list \<Rightarrow> ('a fs_scheme, flexible_version option) op" where
  "latest_installed env latest [] = returnM latest"
| "latest_installed env latest (item # items) =
     bindM (getM (\<lambda>s. is_dir s [item])) (\<lambda>dir.
       if \<not> dir then latest_installed env latest items
       else bindM (liftR (FlexibleVersion (case rsplit1 (CHR ''-'') item of None \<Rightarrow> item | Some (_, v) \<Rightarrow> v))) (\<lambda>version_from_path.
         let state_path = [item, ''config'', ''HandlerState''] in
         bindM (getM (\<lambda>s. path_exists s state_path)) (\<lambda>there.
         bindM (if there then bindM (read_file (ne_io env) state_path) (\<lambda>st. returnM (st = NotInstalled \<or> st = FailedUpgrade)) else returnM True) (\<lambda>ignored.
           if ignored then latest_installed env latest items
           else bindM (liftR (case latest of None \<Rightarrow> Inr True | Some v \<Rightarrow> version_lt v version_from_path)) (\<lambda>newer.
             latest_installed env (if newer then Some version_from_path else latest) items)))))"

definition get_installed_version :: "'x net_env_scheme \<Rightarrow> ext_instance \<Rightarrow> ('a fs_scheme, string option) op" where
  "get_installed_version env i =
     bindM (getM (\<lambda>s. filter (\<lambda>n. startswith n (eh_name (hi_handler i) @ ''-'')) (list_dir s []))) (\<lambda>items.
     bindM (latest_installed env None items) (\<lambda>v. returnM (map_option version_str v)))"

definition get_installed_ext_handler :: "'x net_env_scheme \<Rightarrow> ext_instance \<Rightarrow> ('a fs_scheme, ext_instance option) op" where
  "get_installed_ext_handler env i =
     bindM (get_installed_version env i) (\<lambda>latest. case latest of
       None \<Rightarrow> returnM None
     | Some v \<Rightarrow> bindM (new_instance env ((hi_handler i)\<lparr>eh_version := v\<rparr>)) (\<lambda>old. returnM (Some (old\<lparr>hi_old := True\<rparr>))))"

fun select_packages ::
  "flexible_version \<Rightarrow> flexible_version \<Rightarrow> ext_package option \<times> ext_package option \<Rightarrow> (flexible_version \<times> ext_package) list \<Rightarrow>
   (ext_package option \<times> ext_package option) res" where
  "select_packages requested installed (selected, installed_pkg) [] = Inr (selected, installed_pkg)"
| "select_packages requested installed (selected, installed_pkg) ((v, pkg) # pkgs) =
     bindR (version_eq v installed) (\<lambda>same.
       select_packages requested installed
         (if version_matches requested v then Some pkg else selected, if same then Some pkg else installed_pkg) pkgs)"

definition decide_version :: "'x ext_env_scheme \<Rightarrow> string option \<Rightarrow> ('a ext_world_scheme, ext_package option) op" where
  "decide_version env target_state =
     bindM (getM x_inst) (\<lambda>i.
     bindM (tryM (fetch_extension_manifest env (eh_manifest_uris (hi_handler i)))
              (\<lambda>e. if is_ProtocolError e then Some (raiseM (ExtensionError ''Failed to get ext handler pkgs'' (-1))) else None)) (\<lambda>pkgs.
     bindM (liftR (FlexibleVersion (eh_version (hi_handler i)))) (\<lambda>requested.
     bindM (get_installed_version env i) (\<lambda>installed_string.
     bindM (liftR (case installed_string of None \<Rightarrow> Inr requested | Some v \<Rightarrow> FlexibleVersion v)) (\<lambda>installed.
     bindM (liftR (bindR (mapR (\<lambda>p. bindR (FlexibleVersion (pk_version p)) (\<lambda>v. Inr (v, p))) pkgs) (\<lambda>vps.
                   bindR (sort_versions_asc fst vps) (select_packages requested installed (None, None))))) (\<lambda>(selected, installed_pkg).
     thenM (if target_state = Some Uninstall \<or> target_state = Some Disabled
            then thenM (modify_inst (\<lambda>i. i\<lparr>hi_pkg := installed_pkg, hi_handler := (hi_handler i)\<lparr>eh_version := version_str installed\<rparr>\<rparr>))
                (bindM (getM x_inst) (\<lambda>i. bindM (get_signature_validated env i) (\<lambda>v. modify_inst (\<lambda>i. i\<lparr>hi_signature_validated := v\<rparr>))))
            else modify_inst (\<lambda>i. case selected of
                   None \<Rightarrow> i\<lparr>hi_pkg := None\<rparr>
                 | Some p \<Rightarrow> i\<lparr>hi_pkg := Some p, hi_handler := (hi_handler i)\<lparr>eh_version := pk_version p\<rparr>\<rparr>))
    (bindM (getM x_inst) (\<lambda>i. bindM (liftR (FlexibleVersion (eh_version (hi_handler i)))) (\<lambda>_. returnM (hi_pkg i))))))))))"

section \<open>Downloading\<close>

definition unzip_extension_package :: "'x wire_env_scheme \<Rightarrow> path \<Rightarrow> path \<Rightarrow> ('a fs_scheme, bool) op" where
  "unzip_extension_package env source_file target_directory =
     tryM (thenM (unzip_to env source_file target_directory) (returnM True))
       (\<lambda>e. if is_Exception e
            then Some (thenM (remove_file (ne_io env) source_file)
                  (bindM (getM (\<lambda>s. path_exists s target_directory)) (\<lambda>there.
                   thenM (whenM there (rmtree (ne_io env) target_directory)) (returnM False))))
            else None)"

definition handle_signature_validation_error :: "'x net_env_scheme \<Rightarrow> exn \<Rightarrow> bool \<Rightarrow> path option \<Rightarrow> ('a wire_scheme, unit) op" where
  "handle_signature_validation_error env e ignore_errors package_file =
     (if \<not> ignore_errors
      then thenM (case package_file of None \<Rightarrow> returnM () | Some p \<Rightarrow> cleanup_package_with_invalid_signature env p) (raiseM e)
      else case e of
        SignatureValidationTimeoutError _ \<Rightarrow> modifyM (\<lambda>s. s\<lparr>w_sig := disable_ext_validation (w_sig s)\<rparr>)
      | _ \<Rightarrow> returnM ())"

text \<open>Validation of a signature whose failure is handled: whether it succeeded.\<close>

definition signature_succeeds :: "'x net_env_scheme \<Rightarrow> bool \<Rightarrow> path option \<Rightarrow> ('a wire_scheme, bool) op \<Rightarrow> ('a wire_scheme, bool) op" where
  "signature_succeeds env ignore_errors package_file m =
     tryM m (\<lambda>e. if is_SignatureValidationError e
                 then Some (thenM (handle_signature_validation_error env e ignore_errors package_file) (returnM False)) else None)"

text \<open>A package that is already there: whether it could be expanded, and whether its signature was validated.\<close>

definition use_existing_package :: "'x wire_env_scheme \<Rightarrow> path \<Rightarrow> path \<Rightarrow> string \<Rightarrow> bool \<Rightarrow> bool \<Rightarrow> ('a wire_scheme, bool \<times> bool) op" where
  "use_existing_package env package_file base_dir signature should_validate ignore_errors =
     bindM (getM (\<lambda>s. path_exists s package_file)) (\<lambda>there.
       if \<not> there then returnM (False, False)
       else bindM (if should_validate
                   then signature_succeeds env ignore_errors (Some package_file) (thenM (validate_package env package_file signature) (returnM True))
                   else returnM False) (\<lambda>valid.
            bindM (unzip_extension_package env package_file base_dir) (\<lambda>expanded. returnM (expanded, expanded \<and> valid))))"

definition download_new_package ::
  "'x ext_env_scheme \<Rightarrow> string \<Rightarrow> string list \<Rightarrow> path \<Rightarrow> path \<Rightarrow> string \<Rightarrow> bool \<Rightarrow> bool \<Rightarrow> ('a wire_scheme, bool) op" where
  "download_new_package env full_name uris package_file base_dir signature should_validate ignore_errors =
     signature_succeeds env ignore_errors None
       (thenM (with_package env package_file ext_signature_validation_enabled)
       (thenM (download_zip_package env full_name uris package_file base_dir (xe_fast_track env)
                 (if should_validate then signature else '''') ignore_errors)
              (returnM should_validate)))"

definition validate_manifest :: "'x net_env_scheme \<Rightarrow> bool \<Rightarrow> bool \<Rightarrow> ('a ext_world_scheme, unit) op" where
  "validate_manifest env ignore_errors signature_succeeded =
     bindM (getM x_inst) (\<lambda>i.
       tryM (bindM (load_manifest env i) (\<lambda>man.
             thenM (liftR (validate_extension_manifest_signing_info man (eh_name (hi_handler i)) (eh_version (hi_handler i))))
               (modify_inst (\<lambda>i. i\<lparr>hi_signature_validated := JBool signature_succeeded\<rparr>))))
         (\<lambda>e. case e of ManifestValidationError _ \<Rightarrow> if ignore_errors then Some (returnM ()) else None | _ \<Rightarrow> None))"

definition download :: "'x ext_env_scheme \<Rightarrow> bool \<Rightarrow> ('a ext_world_scheme, unit) op" where
  "download env ignore_errors =
     bindM (getM x_inst) (\<lambda>i.
     thenM (set_operation i ''Download'')
    (case hi_pkg i of
       None \<Rightarrow> raiseM (ExtensionDownloadError ''No package uri found'' (-1))
     | Some pkg \<Rightarrow>
         if pk_uris pkg = [] then raiseM (ExtensionDownloadError ''No package uri found'' (-1))
         else let package_file = [get_extension_package_zipfile_name i]; signature = eh_encoded_signature (hi_handler i) in
           if \<not> ignore_errors \<and> signature = '''' then raiseM (SignatureValidationError ''Signature validation is required'')
           else bindM (if \<not> ignore_errors then returnM True
                       else bindM (with_package env package_file ext_signature_validation_enabled) (\<lambda>on. returnM (on \<and> signature \<noteq> ''''))) (\<lambda>should_validate.
           bindM (use_existing_package env package_file (get_base_dir i) signature should_validate ignore_errors) (\<lambda>(package_exists, valid).
           bindM (if package_exists then returnM valid
                  else download_new_package env (get_full_name i None) (pk_uris pkg) package_file (get_base_dir i) signature should_validate
                         ignore_errors) (\<lambda>valid.
           thenM (whenM should_validate (validate_manifest env ignore_errors valid))
             (modify_inst (\<lambda>i. i\<lparr>hi_pkg_file := Some package_file\<rparr>)))))))"

section \<open>Setting up\<close>

definition ensure_consistent_data_for_mc :: "'x net_env_scheme \<Rightarrow> ext_instance \<Rightarrow> ('a fs_scheme, unit) op" where
  "ensure_consistent_data_for_mc env i =
     whenM (eh_supports_multi_config (hi_handler i))
       (bindM (load_manifest env i) (\<lambda>man.
        bindM (liftR (supports_multiple_extensions man)) (\<lambda>multi.
          whenM (\<not> multi) (raiseM (ExtensionsGoalStateError ''Handler does not support MultiConfig but CRP expects it'' (-1))))))"

text \<open>\<^verbatim>\<open>search_file\<close> looks at the files of a directory before those below it.\<close>

definition search_file :: "'a fs_scheme \<Rightarrow> path \<Rightarrow> string \<Rightarrow> path option" where
  "search_file s d name =
     (if is_file s (d @ [name]) then Some (d @ [name])
      else List.find (\<lambda>p. in_tree d p \<and> p \<noteq> [] \<and> last p = name \<and> length d < length p) (map fst (fs_files s)))"

definition cleanup_and_fail :: "'x net_env_scheme \<Rightarrow> ext_instance \<Rightarrow> string \<Rightarrow> exn \<Rightarrow> ('a fs_scheme, unit) op" where
  "cleanup_and_fail env i message e =
     thenM (clean_ioerror (ne_io env) e (get_base_dir i # (case hi_pkg_file i of None \<Rightarrow> [] | Some p \<Rightarrow> [p])))
       (raiseM (ExtensionDownloadError message (-1)))"

definition create_handler_env :: "'x ext_env_scheme \<Rightarrow> ext_instance \<Rightarrow> ('a fs_scheme, unit) op" where
  "create_handler_env env i =
     (let events = JStr (path_join (get_log_dir env i) ''events'');
          doc = JList [JObj [(''name'', JStr (eh_name (hi_handler i))), (''version'', JFloat 1),
            (''handlerEnvironment'', JObj [(''logFolder'', JStr (get_log_dir env i)), (''configFolder'', JStr (path_text env (get_conf_dir i))),
              (''statusFolder'', JStr (path_text env (get_status_dir i))), (''heartbeatFile'', JStr (path_text env (get_heartbeat_file i))),
              (''eventsFolder'', events), (''eventsFolder_preview'', events)])]]
      in on_io_error (write_file (ne_io env) (get_env_file i) (ne_dumps env doc)) (cleanup_and_fail env i ''Failed to save handler environment''))"

definition initialize :: "'x ext_env_scheme \<Rightarrow> ext_instance \<Rightarrow> ('a fs_scheme, unit) op" where
  "initialize env i =
     bindM (getM (\<lambda>s. search_file s (get_base_dir i) ''HandlerManifest.json'')) (\<lambda>man_file. case man_file of
       None \<Rightarrow> raiseM (ExtensionDownloadError ''HandlerManifest.json not found'' (-1))
     | Some p \<Rightarrow>
         thenM (on_io_error (bindM (read_file (ne_io env) p) (\<lambda>man. write_file (ne_io env) (get_manifest_file i) (text_of_bytes man)))
                  (cleanup_and_fail env i ''Failed to save HandlerManifest.json''))
        (bindM (load_manifest env i) (\<lambda>man.
         bindM (liftR (report_invalid_boolean_properties man)) (\<lambda>_.
         thenM (ensure_consistent_data_for_mc env i)
        (thenM (on_io_error (thenM (mkdir (ne_io env) (get_status_dir i)) (mkdir (ne_io env) (get_conf_dir i)))
                  (cleanup_and_fail env i ''Failed to initialize extension''))
        (thenM (create_handler_env env i)
        (bindM (load_manifest env i) (\<lambda>man.
         thenM (log_telemetry_if_ext_uses_resource_limits man) (set_extension_resource_limits env i)))))))))"

definition update_settings_file :: "'x net_env_scheme \<Rightarrow> ext_instance \<Rightarrow> string \<Rightarrow> string \<Rightarrow> ('a fs_scheme, unit) op" where
  "update_settings_file env i name settings =
     (let settings_file = get_conf_dir i @ [name] in
      on_io_error (write_file (ne_io env) settings_file settings)
        (\<lambda>e. thenM (clean_ioerror (ne_io env) e [settings_file]) (raiseM (ExtensionError ''Failed to update settings file'' (-1)))))"

definition update_settings :: "'x ext_env_scheme \<Rightarrow> ext_instance \<Rightarrow> ext_settings option \<Rightarrow> ('a fs_scheme, unit) op" where
  "update_settings env i ext = (case ext of
     None \<Rightarrow> update_settings_file env i (DEFAULT_SEQ_NO @ ''.settings'') ''''
   | Some x \<Rightarrow>
       if eh_settings (hi_handler i) = [] then update_settings_file env i (DEFAULT_SEQ_NO @ ''.settings'') ''''
       else let seq = ustr (xe_py_repr env) (xs_sequence_number x) in
         update_settings_file env i
           (if eh_supports_multi_config (hi_handler i) then xs_name x @ ''.'' @ seq @ ''.settings'' else seq @ ''.settings'')
           (ne_dumps env (JObj [(''runtimeSettings'', JList [JObj [(''handlerSettings'', JObj [(''publicSettings'', xs_public_settings x),
              (''protectedSettings'', xs_protected_settings x), (''protectedSettingsCertThumbprint'', xs_certificate_thumbprint x)])]])])))"

definition update_runtime_policy :: "'x net_env_scheme \<Rightarrow> ext_instance \<Rightarrow> json \<Rightarrow> ('a fs_scheme, unit) op" where
  "update_runtime_policy env i runtime_policy =
     on_io_error (write_file (ne_io env) (get_runtime_policy_file i) (ne_dumps env runtime_policy))
       (\<lambda>_. raiseM (ExtensionRuntimePolicyError ''Failed to save extension runtime policy file''))"

definition remove_runtime_policy :: "'x net_env_scheme \<Rightarrow> ext_instance \<Rightarrow> ('a fs_scheme, unit) op" where
  "remove_runtime_policy env i =
     on_io_error (rm_files (ne_io env) [get_runtime_policy_file i])
       (\<lambda>e. if e = FileNotFoundError then returnM () else raiseM (ExtensionRuntimePolicyError ''Failed to remove extension runtime policy file''))"

text \<open>\<^verbatim>\<open>shutil.copy2\<close> into a directory, or to a file of that name if there is no such directory.\<close>

definition copy2 :: "io_env \<Rightarrow> path \<Rightarrow> path \<Rightarrow> ('a fs_scheme, unit) op" where
  "copy2 io src dst =
     bindM (getM (\<lambda>s. is_dir s dst)) (\<lambda>dir.
     thenM (io_check io Copy src)
    (bindM (read_file io src) (\<lambda>t. write_file io (if dir then dst @ [last src] else dst) t)))"

definition copy_status_files :: "'x net_env_scheme \<Rightarrow> ext_instance \<Rightarrow> ext_instance \<Rightarrow> ('a fs_scheme, unit) op" where
  "copy_status_files env i old =
     (let mrseq = get_base_dir old @ [''mrseq''] in
      bindM (getM (\<lambda>s. is_file s mrseq)) (\<lambda>there.
      thenM (whenM there (copy2 (ne_io env) mrseq (get_base_dir i)))
     (bindM (getM (\<lambda>s. if is_dir s (get_status_dir old) then list_dir s (get_status_dir old) else [])) (\<lambda>names.
        forM names (\<lambda>n. let f = get_status_dir old @ [n] in
          bindM (getM (\<lambda>s. is_file s f)) (\<lambda>file. whenM file (copy2 (ne_io env) f (get_status_dir i))))))))"

section \<open>Status files\<close>

text \<open>
  \<^verbatim>\<open>re.search\<close> for \<^verbatim>\<open>((?P<ext_name>\w+)\.)*(?P<seq_no>\d+)\.settings\<close>: the last name before the number, if any, and the
  number. Words and numbers end where a dot must follow, so that there is one way to match a repetition; more repetitions are tried
  first.
\<close>

definition is_word :: "char \<Rightarrow> bool" where
  "is_word c \<longleftrightarrow> is_letter c \<or> is_digit c \<or> c = CHR ''_''"

definition settings_number :: "string option \<Rightarrow> string \<Rightarrow> (string option \<times> nat) option" where
  "settings_number name s =
     (let d = takeWhile is_digit s in if d \<noteq> [] \<and> startswith (drop (length d) s) ''.settings'' then Some (name, str_nat d) else None)"

function settings_match_at :: "string option \<Rightarrow> string \<Rightarrow> (string option \<times> nat) option" where
  "settings_match_at name s =
     (let w = takeWhile is_word s; rest = dropWhile is_word s in
      if w \<noteq> [] \<and> startswith rest ''.''
      then case settings_match_at (Some w) (tl rest) of Some m \<Rightarrow> Some m | None \<Rightarrow> settings_number name s
      else settings_number name s)"
  by pat_completeness auto
termination
proof (relation "measure (\<lambda>(_, s). length s)")
  fix name :: "string option" and s w rest :: string
  assume "w = takeWhile is_word s" and "rest = dropWhile is_word s" and "w \<noteq> [] \<and> startswith rest ''.''"
  then have "length s = length w + length rest" "rest \<noteq> []" "w \<noteq> []"
    by (metis length_append takeWhile_dropWhile_id) (use \<open>w \<noteq> [] \<and> startswith rest ''.''\<close> in auto)
  then show "((Some w, tl rest), name, s) \<in> measure (\<lambda>(_, s). length s)" by (cases rest) simp_all
qed simp

declare settings_match_at.simps [simp del]

fun settings_search :: "string \<Rightarrow> (string option \<times> nat) option" where
  "settings_search [] = None"
| "settings_search (c # s) = (case settings_match_at None (c # s) of Some m \<Rightarrow> Some m | None \<Rightarrow> settings_search s)"

text \<open>The loop over the items of the configuration directory, with the largest time so far.\<close>

fun last_modified_seq_no :: "'x ext_env_scheme \<Rightarrow> ext_instance \<Rightarrow> ext_settings option \<Rightarrow> int \<Rightarrow> int \<Rightarrow> string list \<Rightarrow> ('a net_scheme, int) op" where
  "last_modified_seq_no env i ext seq_no largest [] = returnM seq_no"
| "last_modified_seq_no env i ext seq_no largest (item # items) =
     (let p = get_conf_dir i @ [item] in
      bindM (getM (\<lambda>s. (is_file s p, n_now s))) (\<lambda>(file, now).
        case (if file then settings_search (path_text env p) else None) of
          None \<Rightarrow> last_modified_seq_no env i ext seq_no largest items
        | Some (name, n) \<Rightarrow>
            if eh_supports_multi_config (hi_handler i) \<and> map_option xs_name ext \<noteq> name
            then last_modified_seq_no env i ext seq_no largest items
            else bindM (liftR (xe_mtime env now p)) (\<lambda>t.
              if t > largest then last_modified_seq_no env i ext (int n) t items
              else last_modified_seq_no env i ext seq_no largest items)))"

definition get_last_modified_seq_no_from_config_files :: "'x ext_env_scheme \<Rightarrow> ext_instance \<Rightarrow> ext_settings option \<Rightarrow> ('a net_scheme, int) op" where
  "get_last_modified_seq_no_from_config_files env i ext =
     (if eh_supports_multi_config (hi_handler i) \<and> ext = None then returnM (-1)
      else tryM (bindM (getM (\<lambda>s. if is_dir s (get_conf_dir i) then Some (list_dir s (get_conf_dir i)) else None)) (\<lambda>items. case items of
                   None \<Rightarrow> raiseM FileNotFoundError
                 | Some names \<Rightarrow> last_modified_seq_no env i ext (-1) 0 names))
             (\<lambda>e. if is_Exception e then Some (returnM (-1)) else None))"

definition get_status_file_path :: "'x ext_env_scheme \<Rightarrow> ext_instance \<Rightarrow> ext_settings option \<Rightarrow> ('a net_scheme, int \<times> path option) op" where
  "get_status_file_path env i ext =
     bindM (case ext of
         None \<Rightarrow> returnM None
       | Some x \<Rightarrow> if xs_sequence_number x = JNull then returnM None
                   else (case py_int (xs_sequence_number x) of
                     Inr n \<Rightarrow> returnM (Some n)
                   | Inl e \<Rightarrow> if e = ValueError then returnM None else raiseM e)) (\<lambda>given.
     bindM (case given of Some n \<Rightarrow> returnM n | None \<Rightarrow> get_last_modified_seq_no_from_config_files env i ext) (\<lambda>seq_no.
       returnM (seq_no,
         if seq_no \<le> -1 then None
         else if eh_supports_multi_config (hi_handler i)
         then map_option (\<lambda>x. get_status_dir i @ [xs_name x @ ''.'' @ int_str seq_no @ ''.status'']) ext
         else Some (get_status_dir i @ [int_str seq_no @ ''.status'']))))"

definition create_status_file ::
  "'x ext_env_scheme \<Rightarrow> ext_instance \<Rightarrow> ext_settings option \<Rightarrow> string \<Rightarrow> int \<Rightarrow> string option \<Rightarrow> string \<Rightarrow> bool \<Rightarrow> ('a net_scheme, unit) op" where
  "create_status_file env i ext status code operation message overwrite =
     bindM (get_status_file_path env i ext) (\<lambda>(_, status_path). case status_path of
       None \<Rightarrow> returnM ()
     | Some p \<Rightarrow>
         bindM (getM (\<lambda>s. (path_exists s p, ne_utc env (n_now s)))) (\<lambda>(there, now).
           whenM (overwrite \<or> \<not> there)
             (thenM (ensure_dir (ne_io env) (butlast p))
                (write_file (ne_io env) p (ne_dumps env (JList [JObj [(''version'', JFloat 1), (''timestampUTC'', JStr now),
                   (''status'', JObj [(''name'', JStr (get_extension_full_name i ext)),
                     (''operation'', case operation of None \<Rightarrow> JNull | Some op \<Rightarrow> JStr op), (''status'', JStr status), (''code'', JInt code),
                     (''formattedMessage'', JObj [(''lang'', JStr ''en-US''), (''message'', JStr (redact_sas message))])])]]))))))"

text \<open>Two seconds of sleep, in which other processes work.\<close>

definition pause_state :: "'x ext_env_scheme \<Rightarrow> int \<Rightarrow> 'a net_scheme \<Rightarrow> 'a net_scheme" where
  "pause_state env secs s = (case xe_background env (n_now s) (fs_files s, fs_dirs s) of (files, dirs) \<Rightarrow>
     s\<lparr>fs_files := files, fs_dirs := dirs, n_now := n_now s + usec secs\<rparr>)"

text \<open>A status that stands for a status file that cannot be read.\<close>

definition unreadable_status :: "'x ext_env_scheme \<Rightarrow> exn \<Rightarrow> ext_status \<Rightarrow> ext_status" where
  "unreadable_status env e st =
     (let c = error_code e; st = st\<lparr>st_status := JStr ''error''\<rparr> in
      if c = CouldNotReadStatusFile then st\<lparr>st_code := JInt PluginUnknownFailure, st_message := JStr (''Could not read any status: '' @ ne_show env e)\<rparr>
      else if c = InvalidJsonFile
      then st\<lparr>st_code := JInt PluginSettingsStatusInvalid, st_message := JStr (''The status was in an incorrect format: '' @ ne_show env e)\<rparr>
      else if c = FileNotExists
      then st\<lparr>st_code := JInt PluginSuccess, st_status := JStr ''transitioning'', st_message := JStr (''No status file was reported: '' @ ne_show env e)\<rparr>
      else st\<lparr>st_message := JStr ''''\<rparr>)"

text \<open>What becomes of a status that was parsed with an error, up to which it was filled in.\<close>

definition repair_status :: "'x ext_env_scheme \<Rightarrow> exn \<Rightarrow> ext_status \<Rightarrow> ext_status res" where
  "repair_status env e st =
     (if error_code e = MaxSizeExceeded
      then bindR (truncate_message (st_message st) MAX_STATUS_MESSAGE_LENGTH) (\<lambda>(message, size').
           bindR (process_substatus_list (st_substatus st) size') (\<lambda>subs. Inr (st\<lparr>st_message := message, st_substatus := subs\<rparr>)))
      else if error_code e = StatusFileMalformed
      then Inr (st\<lparr>st_message := JStr (''Could not get a valid status from the extension: '' @ ne_show env e),
                  st_code := JInt PluginSettingsStatusInvalid, st_status := JStr ''error''\<rparr>)
      else Inr st)"

definition interpret_status :: "'x ext_env_scheme \<Rightarrow> string \<Rightarrow> json \<Rightarrow> ext_status \<Rightarrow> ext_status res" where
  "interpret_status env data_str data st0 = (case parse_ext_status (xe_py_repr env) data st0 of
     (Inl (ExtensionStatusError m c), st) \<Rightarrow> repair_status env (ExtensionStatusError m c) st
   | (Inl e, st) \<Rightarrow> Inl e
   | (Inr _, st) \<Rightarrow>
       if length data_str > MAX_STATUS_FILE_SIZE_IN_BYTES then repair_status env (ExtensionStatusError ''the status file is too big'' MaxSizeExceeded) st
       else Inr st)"

definition collect_ext_status :: "'x ext_env_scheme \<Rightarrow> ext_instance \<Rightarrow> ext_settings option \<Rightarrow> ('a net_scheme, ext_status option) op" where
  "collect_ext_status env i ext =
     bindM (get_status_file_path env i ext) (\<lambda>(seq_no, ext_status_file). case ext of
       None \<Rightarrow> returnM None
     | Some x \<Rightarrow>
         if seq_no = -1 then returnM None
         else let st = new_ext_status (xs_name x) (JInt seq_no) in
           bindM (tryM (bindM (read_status_file (ne_io env) (ne_loads env) (ne_show env) (pause_state env (int STATUS_FILE_RETRY_DELAY)) ext_status_file)
                          (\<lambda>d. returnM (Inr d)))
                    (\<lambda>e. case e of ExtensionStatusError _ _ \<Rightarrow> Some (returnM (Inl e)) | _ \<Rightarrow> None)) (\<lambda>r. case r of
             Inl e \<Rightarrow> returnM (Some (unreadable_status env e st))
           | Inr (data_str, data) \<Rightarrow> bindM (liftR (interpret_status env data_str data st)) (\<lambda>st. returnM (Some st))))"

definition get_ext_handling_status :: "'x ext_env_scheme \<Rightarrow> ext_instance \<Rightarrow> ext_settings option \<Rightarrow> ('a net_scheme, json) op" where
  "get_ext_handling_status env i ext =
     bindM (get_status_file_path env i ext) (\<lambda>(seq_no, ext_status_file). case ext_status_file of
       None \<Rightarrow> returnM JNull
     | Some p \<Rightarrow>
         if seq_no < 0 then returnM JNull
         else bindM (getM (\<lambda>s. path_exists s p)) (\<lambda>there.
           if \<not> there then returnM (JStr ''warning'')
           else bindM (collect_ext_status env i ext) (\<lambda>st. returnM (case st of None \<Rightarrow> JNull | Some t \<Rightarrow> st_status t))))"

definition is_ext_handling_complete :: "'x ext_env_scheme \<Rightarrow> ext_instance \<Rightarrow> ext_settings option \<Rightarrow> ('a net_scheme, bool \<times> json) op" where
  "is_ext_handling_complete env i ext =
     bindM (get_ext_handling_status env i ext) (\<lambda>status.
       returnM (status = JNull \<or> status = JStr ''error'' \<or> status = JStr ''success'', status))"

section \<open>Heartbeat\<close>

definition is_responsive :: "'x ext_env_scheme \<Rightarrow> path \<Rightarrow> ('a net_scheme, bool) op" where
  "is_responsive env p = bindM (getM n_now) (\<lambda>now. bindM (liftR (xe_mtime env now p)) (\<lambda>t. returnM ((now - t) div usec 1 \<le> 600)))"

definition collect_heartbeat :: "'x ext_env_scheme \<Rightarrow> ext_instance \<Rightarrow> ('a net_scheme, json) op" where
  "collect_heartbeat env i =
     bindM (load_manifest env i) (\<lambda>man.
     bindM (liftR (is_report_heartbeat man)) (\<lambda>reports.
       if \<not> reports then returnM JNull
       else bindM (getM (\<lambda>s. is_file s (get_heartbeat_file i))) (\<lambda>there.
         if \<not> there then raiseM (ExtensionError ''Failed to get heart beat file'' (-1))
         else bindM (is_responsive env (get_heartbeat_file i)) (\<lambda>responsive.
           if \<not> responsive
           then returnM (JObj [(''status'', JStr ''Unresponsive''), (''code'', JInt (-1)), (''message'', JStr ''Extension heartbeat is not responsive'')])
           else tryM (bindM (read_file (ne_io env) (get_heartbeat_file i)) (\<lambda>t.
                        liftR (bindR (ne_loads env t) (\<lambda>d. bindR (py_first d) (\<lambda>x. py_index x ''heartbeat'')))))
                  (\<lambda>e. if is_OSError e then Some (raiseM (ExtensionError ''Failed to get heartbeat file'' (-1)))
                       else if e = ValueError \<or> e = KeyError then Some (raiseM (ExtensionError ''Malformed heartbeat file'' (-1)))
                       else None)))))"

section \<open>Statuses for the report\<close>

text \<open>
  \<^verbatim>\<open>get_extension_handler_statuses\<close>. The copy of the handler status cannot fail, because \<open>handler_status_properties\<close> is a dictionary.
\<close>

fun extension_statuses :: "'x ext_env_scheme \<Rightarrow> ext_instance \<Rightarrow> handler_status \<Rightarrow> ext_settings list \<Rightarrow> ('a net_scheme, reported_status list) op" where
  "extension_statuses env i hs [] = returnM []"
| "extension_statuses env i hs (x # xs) =
     bindM (if eh_supports_multi_config (hi_handler i) \<and> xs_state x = Disabled
            then bindM (get_extension_state env i (Some x)) (\<lambda>st. returnM (st = Disabled)) else returnM False) (\<lambda>skip.
       if skip then extension_statuses env i hs xs
       else bindM (tryM (bindM (collect_ext_status env i (Some x)) (\<lambda>st. returnM (Inr st)))
                     (\<lambda>e. if is_ExtensionError e then Some (returnM (Inl e)) else None)) (\<lambda>r. case r of
         Inr st \<Rightarrow> bindM (extension_statuses env i hs xs) (\<lambda>rest. returnM ((hs, st) # rest))
       | Inl e \<Rightarrow>
           if \<not> eh_supports_multi_config (hi_handler i)
           then thenM (set_handler_status env i ''NotReady'' (ne_show env e) (error_code e)) (returnM [])
           else bindM (extension_statuses env i hs xs) (\<lambda>rest.
             returnM ((hs, Some ((new_ext_status (xs_name x) (xs_sequence_number x))\<lparr>st_code := JInt PluginUnknownFailure, st_status := JStr ''error'',
               st_message := JStr (''Unknown error when trying to fetch status from extension '' @ get_extension_full_name i (Some x))\<rparr>)) # rest))))"

definition get_extension_handler_statuses :: "'x ext_env_scheme \<Rightarrow> ext_instance \<Rightarrow> handler_status \<Rightarrow> ('a net_scheme, reported_status list) op" where
  "get_extension_handler_statuses env i hs = extension_statuses env i hs (eh_settings (hi_handler i))"

end
