(* ===== verification/Ext_Handlers.thy ===== *)
theory Ext_Handlers
  imports Ext_Handler Policy_Engine
begin

text \<open>
  \<^verbatim>\<open>ExtHandlersHandler\<close> of \<^verbatim>\<open>azurelinuxagent/ga/exthandlers.py\<close>: the extensions of a goal state, in the order of their
  dependencies, each brought to the state it is requested in, and the report on all of them. The handlers of the current goal state are
  a list in the state; the objects that Python shares are positions in it, and what happens to the instance's copy
  is written back. A disallowed handler is known by the run that met it and its position, because Python compares these objects by
  identity. Goal states, policy and configuration are parameters.
\<close>

section \<open>State and surroundings\<close>

record ext_handlers = ext_world +
  y_handlers :: "extension list option"
  y_policy :: policy_engine
  y_run :: nat
  y_disallowed :: "(nat \<times> nat) list"
  y_gs_aggregate :: "gs_aggregate_status option"
  y_report_error :: error_state

record handlers_env = ext_env +
  ye_policy :: policy_env
  ye_extensions_enabled :: bool
  ye_ignore_signature_errors :: bool
  ye_overprovisioning :: bool
  ye_auto_update :: bool
  ye_ga_versioning :: bool

record ext_goal_state =
  eg_extensions :: "extension list"
  eg_on_hold :: bool
  eg_required_features :: "string list"
  eg_svd_seq_no :: int
  eg_id :: string

definition GoalStateUnsupportedRequiredFeatures :: int where "GoalStateUnsupportedRequiredFeatures = 2001"

definition EXT_DISALLOWED_ERROR_MAP :: "(string \<times> (string \<times> int)) list" where
  "EXT_DISALLOWED_ERROR_MAP = [(Enabled, (''run'', PluginEnableProcessingFailed)), (Uninstall, (''uninstall'', PluginDisableProcessingFailed)),
     (Disabled, (''uninstall'', PluginDisableProcessingFailed))]"

text \<open>Unpacking what the map has for a state: \<^verbatim>\<open>None\<close> does not unpack.\<close>

definition disallowed_error :: "string option \<Rightarrow> (string \<times> int) res" where
  "disallowed_error st = (case Option.bind st (map_of EXT_DISALLOWED_ERROR_MAP) of None \<Rightarrow> Inl TypeError | Some x \<Rightarrow> Inr x)"

section \<open>Errors\<close>

definition handle_and_report_ext_handler_errors ::
  "'x ext_env_scheme \<Rightarrow> exn \<Rightarrow> string option \<Rightarrow> string \<Rightarrow> ext_settings option \<Rightarrow> ('a ext_world_scheme, unit) op" where
  "handle_and_report_ext_handler_errors env e report_op message ext =
     bindM (getM x_inst) (\<lambda>i.
     thenM (set_handler_status env i ''NotReady'' message (error_code e))
       (whenM (should_perform_multi_config_op i ext) (create_status_file env i ext ''error'' (error_code e) report_op message False)))"

definition handle_ext_disallowed_error ::
  "'x ext_env_scheme \<Rightarrow> nat \<Rightarrow> int \<Rightarrow> string \<Rightarrow> ext_settings option \<Rightarrow> ('a ext_handlers_scheme, unit) op" where
  "handle_ext_disallowed_error env k code message ext =
     thenM (modifyM (\<lambda>s. s\<lparr>y_disallowed := y_disallowed s @ [(y_run s, k)]\<rparr>))
    (bindM (getM x_inst) (\<lambda>i.
     thenM (set_handler_status env i ''NotReady'' message code)
       (whenM (ext \<noteq> None \<and> eh_state (hi_handler i) = Some Enabled)
          (create_status_file env i ext ''error'' code (hi_operation i) message True))))"

definition handle_disallowed ::
  "'x ext_env_scheme \<Rightarrow> nat \<Rightarrow> string \<Rightarrow> ext_settings option \<Rightarrow> ('a ext_handlers_scheme, unit) op" where
  "handle_disallowed env k message ext =
     bindM (getM (\<lambda>s. eh_state (hi_handler (x_inst s)))) (\<lambda>st.
     bindM (liftR (disallowed_error st)) (\<lambda>(operation, code).
       handle_ext_disallowed_error env k code (''Extension will not be processed: '' @ message) ext))"

text \<open>The \<^verbatim>\<open>except\<close> clauses of \<^verbatim>\<open>handle_ext_handler\<close>, in their order.\<close>

definition handle_error :: "'x ext_env_scheme \<Rightarrow> nat \<Rightarrow> ext_settings option \<Rightarrow> exn \<Rightarrow> ('a ext_handlers_scheme, unit) op" where
  "handle_error env k ext e =
     bindM (getM x_inst) (\<lambda>i. case e of
       MultiConfigExtensionEnableError m c \<Rightarrow>
         create_status_file env i ext ''error'' c (hi_operation i) (''Error processing MultiConfig extension: '' @ ne_show env e) False
     | ExtensionsGoalStateError m c \<Rightarrow>
         handle_and_report_ext_handler_errors env e (Some ''InvalidExtensionConfig'') (''Ran into config errors: '' @ ne_show env e) ext
     | ExtensionUpdateError m c \<Rightarrow> handle_and_report_ext_handler_errors env e (hi_operation i) (ne_show env e) ext
     | ExtensionDownloadError m c \<Rightarrow>
         handle_and_report_ext_handler_errors env e (Some ''Download'') (''Failed to download artifacts: '' @ ne_show env e) ext
     | ExtensionDisallowedError \<Rightarrow> handle_disallowed env k ''it is not specified as an allowed extension'' ext
     | ExtensionUnsignedError \<Rightarrow> handle_disallowed env k ''extension package signature could not be found'' ext
     | ExtensionRuntimePolicyError m \<Rightarrow> handle_disallowed env k (ne_show env e) ext
     | ExtensionSignatureNotValidatedError \<Rightarrow> handle_disallowed env k ''the signature was not previously validated'' ext
     | SignatureValidationError m \<Rightarrow> handle_ext_disallowed_error env k PluginInstallProcessingFailed (ne_show env e) ext
     | SignatureValidationTimeoutError m \<Rightarrow> handle_ext_disallowed_error env k PluginInstallProcessingFailed (ne_show env e) ext
     | ManifestValidationError m \<Rightarrow> handle_ext_disallowed_error env k PluginInstallProcessingFailed (ne_show env e) ext
     | _ \<Rightarrow> handle_and_report_ext_handler_errors env e (hi_operation i) (ne_show env e) ext)"

section \<open>Enabling\<close>

text \<open>\<^verbatim>\<open>check_extension_policy\<close>, with the missing signature reported as \<open>missing\<close>.\<close>

definition check_policy :: "string \<Rightarrow> bool \<Rightarrow> exn \<Rightarrow> ('a ext_handlers_scheme, unit) op" where
  "check_policy name is_signed missing =
     bindM (getM y_policy) (\<lambda>p.
       tryM (liftR (check_extension_policy p name is_signed)) (\<lambda>e. if e = ExtensionSignaturePolicyError then Some (raiseM missing) else None))"

definition should_ignore_ext_signature_validation_errors :: "'x handlers_env_scheme \<Rightarrow> ext_instance \<Rightarrow> ('a ext_handlers_scheme, bool) op" where
  "should_ignore_ext_signature_validation_errors env i =
     getM (\<lambda>s. ye_ignore_signature_errors env \<and> \<not> should_enforce_signature_validation (y_policy s) (eh_name (hi_handler i)))"

definition update_extension_runtime_policy :: "'x net_env_scheme \<Rightarrow> ext_instance \<Rightarrow> ('a ext_handlers_scheme, unit) op" where
  "update_extension_runtime_policy env i =
     (let remove_stale = bindM (getM (\<lambda>s. is_file s (get_runtime_policy_file i))) (\<lambda>there. whenM there (remove_runtime_policy env i)) in
      bindM (getM y_policy) (\<lambda>p.
        if \<not> policy_enforcement_enabled p then remove_stale
        else bindM (load_manifest env i) (\<lambda>man.
             bindM (liftR (bindR (supports_policy man) (get_extension_runtime_policy p (eh_name (hi_handler i))))) (\<lambda>runtime_policy.
               case runtime_policy of Some r \<Rightarrow> update_runtime_policy env i r | None \<Rightarrow> remove_stale))))"

definition setup_new_handler :: "'x ext_env_scheme \<Rightarrow> ext_settings option \<Rightarrow> bool \<Rightarrow> ('a ext_handlers_scheme, unit) op" where
  "setup_new_handler env ext ignore_errors =
     bindM (getM x_inst) (\<lambda>i.
     thenM (set_handler_state env i NotInstalled)
    (thenM (download env ignore_errors)
    (bindM (getM x_inst) (\<lambda>i.
     thenM (initialize env i)
    (thenM (update_settings env i ext)
           (update_extension_runtime_policy env i))))))"

definition handle_extension :: "'x ext_env_scheme \<Rightarrow> ext_instance \<Rightarrow> ext_settings option \<Rightarrow> int option \<Rightarrow> ('a ext_world_scheme, unit) op" where
  "handle_extension env i ext uninstall_exit_code = (case ext of
     None \<Rightarrow> enable env i None None
   | Some x \<Rightarrow>
       if xs_state x = Enabled then enable env i ext uninstall_exit_code
       else if xs_state x = Disabled
       then bindM (get_extension_state env i ext) (\<lambda>st. whenM (st \<noteq> Disabled) (disable env i ext True))
       else raiseM (ExtensionsGoalStateError ''Unknown requested state for Extension'' (-1)))"

text \<open>\<^verbatim>\<open>execute_old_handler_command_and_return_if_succeeds\<close>: the exit code of a command of the old version.\<close>

fun exit_code_of :: "exn \<Rightarrow> int" where
  "exit_code_of (ExtensionOperationError _ _ x) = x"
| "exit_code_of e = error_code e"

definition update_failed :: "'x net_env_scheme \<Rightarrow> exn \<Rightarrow> ('s, 'a) op" where
  "update_failed env e = raiseM (ExtensionUpdateError (ne_show env e) PluginUpdateProcessingFailed)"

definition execute_old_handler_command ::
  "'x ext_env_scheme \<Rightarrow> ext_instance \<Rightarrow> ('a ext_world_scheme, unit) op \<Rightarrow> ('a ext_world_scheme, int) op" where
  "execute_old_handler_command env i func =
     bindM (tryM (bindM (load_manifest env i) (\<lambda>man. liftR (is_continue_on_update_failure man)))
              (\<lambda>e. if is_ExtensionError e then Some (update_failed env e) else None)) (\<lambda>continue_on_update_failure.
       tryM (thenM func (returnM 0))
         (\<lambda>e. if is_ExtensionError e then Some (if continue_on_update_failure then returnM (exit_code_of e) else update_failed env e) else None))"

fun disable_old :: "'x ext_env_scheme \<Rightarrow> ext_instance \<Rightarrow> ext_instance \<Rightarrow> (string \<times> int) list \<Rightarrow> (string \<times> ext_settings option) list \<Rightarrow>
   ('a ext_world_scheme, (string \<times> int) list) op" where
  "disable_old env i old codes [] = returnM codes"
| "disable_old env i old codes ((name, ext) # exts) =
     bindM (execute_old_handler_command env i (disable env old ext False)) (\<lambda>c. disable_old env i old ((name, c) # codes) exts)"

text \<open>What the old version is disabled for: the handler as a whole if it has no settings.\<close>

definition old_extensions :: "'x net_env_scheme \<Rightarrow> ext_instance \<Rightarrow> ('a fs_scheme, (string \<times> ext_settings option) list) op" where
  "old_extensions env old =
     bindM (enabled_extensions env old) (\<lambda>xs.
       returnM ((if \<not> eh_supports_multi_config (hi_handler old) \<and> eh_settings (hi_handler old) = [] then [(eh_name (hi_handler old), None)] else []) @
         map (\<lambda>x. (xs_name x, Some x)) xs))"

definition inst_version :: "ext_instance \<Rightarrow> flexible_version res" where
  "inst_version i = FlexibleVersion (eh_version (hi_handler i))"

definition update_extension_handler_and_return_if_failed ::
  "'x ext_env_scheme \<Rightarrow> ext_instance \<Rightarrow> ext_instance \<Rightarrow> ext_settings option \<Rightarrow> ('a ext_world_scheme, int) op" where
  "update_extension_handler_and_return_if_failed env old i ext =
     bindM (get_handler_state env old) (\<lambda>old_state.
     bindM (if old_state = HandlerEnabled then bindM (old_extensions env old) (disable_old env i old []) else returnM []) (\<lambda>codes.
     thenM (copy_status_files env i old)
    (bindM (liftR (bindR (inst_version i) (\<lambda>a. bindR (inst_version old) (version_gt a)))) (\<lambda>newer.
     thenM (update env (if newer then i else old) (eh_version (hi_handler old)) (eh_version (hi_handler i)) ext codes)
    (bindM (execute_old_handler_command env i (uninstall env old ext)) (\<lambda>uninstall_exit_code.
     thenM (remove_ext_handler env old)
    (thenM (update_with_install env i (Some uninstall_exit_code) ext)
           (returnM uninstall_exit_code))))))))"

definition enable_new_handler :: "'x handlers_env_scheme \<Rightarrow> ext_instance option \<Rightarrow> ext_settings option \<Rightarrow> ('a ext_handlers_scheme, int option) op" where
  "enable_new_handler env old ext =
     bindM (getM x_inst) (\<lambda>i.
     thenM (check_policy (eh_name (hi_handler i)) (eh_encoded_signature (hi_handler i) \<noteq> '''') ExtensionUnsignedError)
    (bindM (should_ignore_ext_signature_validation_errors env i) (\<lambda>ignore_errors.
     thenM (setup_new_handler env ext ignore_errors)
    (bindM (getM x_inst) (\<lambda>i. case old of
       None \<Rightarrow> thenM (install env i None ext) (returnM None)
     | Some o' \<Rightarrow>
         bindM (liftR (bindR (inst_version i) (\<lambda>a. bindR (inst_version o') (version_ne a)))) (\<lambda>differs.
           if \<not> differs then returnM None
           else thenM (check_policy (eh_name (hi_handler o')) (truthy (hi_signature_validated o')) ExtensionSignatureNotValidatedError)
               (bindM (update_extension_handler_and_return_if_failed env o' i ext) (\<lambda>c. returnM (Some c)))))))))"

definition enable_installed_handler :: "'x ext_env_scheme \<Rightarrow> ext_settings option \<Rightarrow> ('a ext_handlers_scheme, int option) op" where
  "enable_installed_handler env ext =
     bindM (getM x_inst) (\<lambda>i.
     thenM (check_policy (eh_name (hi_handler i)) (truthy (hi_signature_validated i)) ExtensionSignatureNotValidatedError)
    (thenM (ensure_consistent_data_for_mc env i)
    (thenM (update_settings env i ext)
    (thenM (update_extension_runtime_policy env i)
           (returnM None)))))"

definition handle_enable :: "'x handlers_env_scheme \<Rightarrow> ext_settings option \<Rightarrow> ('a ext_handlers_scheme, unit) op" where
  "handle_enable env ext =
     bindM (getM x_inst) (\<lambda>i.
     bindM (get_installed_ext_handler env i) (\<lambda>old.
     bindM (get_handler_state env i) (\<lambda>current.
     bindM (if current = NotInstalled \<or> current = FailedUpgrade then enable_new_handler env old ext else enable_installed_handler env ext) (\<lambda>c.
     bindM (getM x_inst) (\<lambda>i. handle_extension env i ext c)))))"

section \<open>Disabling and uninstalling\<close>

definition handle_disable :: "'x ext_env_scheme \<Rightarrow> ext_settings option \<Rightarrow> ('a ext_world_scheme, unit) op" where
  "handle_disable env ext =
     bindM (getM x_inst) (\<lambda>i. bindM (get_handler_state env i) (\<lambda>st. whenM (st = HandlerEnabled) (disable env i ext False)))"

definition handle_uninstall :: "'x ext_env_scheme \<Rightarrow> ext_settings option \<Rightarrow> ('a ext_handlers_scheme, unit) op" where
  "handle_uninstall env ext =
     bindM (getM x_inst) (\<lambda>i.
     bindM (get_handler_state env i) (\<lambda>st.
     thenM (whenM (st \<noteq> NotInstalled)
       (thenM (check_policy (eh_name (hi_handler i)) (truthy (hi_signature_validated i)) ExtensionSignatureNotValidatedError)
       (thenM (whenM (st = HandlerEnabled)
          (thenM (whenM (\<not> eh_supports_multi_config (hi_handler i) \<and> eh_settings (hi_handler i) = []) (disable env i None False))
          (bindM (enabled_extensions env i) (\<lambda>xs. forM xs (\<lambda>x. disable env i (Some x) False)))))
          (tryM (uninstall env i ext) (\<lambda>e. if is_ExtensionError e then Some (returnM ()) else None)))))
       (remove_ext_handler env i)))"

definition perform_requested :: "'x handlers_env_scheme \<Rightarrow> string option \<Rightarrow> ext_settings option \<Rightarrow> ('a ext_handlers_scheme, unit) op" where
  "perform_requested env st ext =
     (if st = Some Enabled then handle_enable env ext
      else if st = Some Disabled then handle_disable env ext
      else if st = Some Uninstall then handle_uninstall env ext
      else raiseM (ExtensionError ''Unknown ext handler state'' (-1)))"

definition handle_ext_handler :: "'x handlers_env_scheme \<Rightarrow> nat \<Rightarrow> ext_settings option \<Rightarrow> ('a ext_handlers_scheme, bool) op" where
  "handle_ext_handler env k ext =
     tryM
       (bindM (getM x_inst) (\<lambda>i. case eh_invalid_setting_reason (hi_handler i) of
          Some reason \<Rightarrow> raiseM (ExtensionsGoalStateError reason (-1))
        | None \<Rightarrow>
            bindM (decide_version env (eh_state (hi_handler i))) (\<lambda>pkg.
              if pkg = None \<and> eh_state (hi_handler i) = Some Enabled
              then thenM (set_operation i ''Download'') (raiseM (ExtensionError ''Unable to find version in manifest for extension'' (-1)))
              else thenM (perform_requested env (eh_state (hi_handler i)) ext) (returnM True))))
       (\<lambda>e. if is_Exception e then Some (thenM (handle_error env k ext e) (returnM False)) else None)"

section \<open>Waiting for an extension\<close>

text \<open>Reading a status takes time, but the clock does not go back.\<close>

named_theorems clock \<open>operations that do not turn back the clock\<close>

lemma clock_read_file [clock]: "preserves (\<lambda>s. T \<le> n_now s) (read_file io p :: ('a net_scheme, string) op)"
  unfolding read_file_def io_check_def by (intro preserves_intros)

lemma clock_last_modified [clock]: "preserves (\<lambda>s. T \<le> n_now s) (last_modified_seq_no env i ext q l items)"
  by (induction items arbitrary: q l) (auto simp: Let_def intro!: preserves_intros split: option.splits prod.splits)

lemma clock_status_path [clock]: "preserves (\<lambda>s. T \<le> n_now s) (get_status_file_path env i ext)"
  unfolding get_status_file_path_def get_last_modified_seq_no_from_config_files_def
  by (auto intro!: preserves_intros clock split: option.splits sum.splits if_splits)

lemma clock_pause: "0 \<le> d \<Longrightarrow> T \<le> n_now s \<Longrightarrow> T \<le> n_now (pause_state env d s)"
  by (simp add: pause_state_def usec_def split: prod.split)

lemma clock_read_status_file [clock]:
  "preserves (\<lambda>s. T \<le> n_now s) (read_status_file (ne_io env) loads sh (pause_state env (int STATUS_FILE_RETRY_DELAY)) file)"
  unfolding read_status_file_def read_and_parse_json_status_file_def
  by (auto intro!: preserves_read_status_loop preserves_intros clock clock_pause split: option.splits sum.splits if_splits)

lemma clock_collect [clock]: "preserves (\<lambda>s. T \<le> n_now s) (collect_ext_status env i ext)"
  unfolding collect_ext_status_def Let_def
  by (auto intro!: preserves_intros clock split: option.splits sum.splits exn.splits prod.splits)

lemma clock_complete: "preserves (\<lambda>s. T \<le> n_now s) (is_ext_handling_complete env i ext)"
  unfolding is_ext_handling_complete_def get_ext_handling_status_def
  by (auto intro!: preserves_intros clock split: option.splits)

text \<open>The polling loop; \<open>last_poll\<close> is what the last poll returned.\<close>

function wait_loop :: "'x ext_env_scheme \<Rightarrow> ext_instance \<Rightarrow> ext_settings option \<Rightarrow> int \<Rightarrow> bool \<times> json \<Rightarrow> ('a net_scheme, bool \<times> json) op" where
  "wait_loop env i ext wait_until last_poll s =
     (if wait_until < n_now s then (Inr last_poll, s)
      else case is_ext_handling_complete env i ext s of
        (Inl e, t) \<Rightarrow> (Inl e, t)
      | (Inr poll, t) \<Rightarrow> if fst poll then (Inr poll, t) else wait_loop env i ext wait_until poll (pause_state env 5 t))"
  by pat_completeness auto
termination
proof (relation "measure (\<lambda>(_, _, _, w, _, s). nat (w + 1 - n_now s))", goal_cases)
  case (2 env i ext wait_until last_poll s r t poll)
  then have "(r, t) = is_ext_handling_complete env i ext s" by simp
  then have "n_now s \<le> n_now t" using preservesD [OF clock_complete, of "n_now s" s env i ext] by (metis order_refl snd_conv)
  then show ?case using 2 by (simp add: pause_state_def usec_def split: prod.split)
qed simp

declare wait_loop.simps [simp del]

definition wait_for_handler_completion :: "'x ext_env_scheme \<Rightarrow> ext_instance \<Rightarrow> int \<Rightarrow> ext_settings option \<Rightarrow> ('a net_scheme, unit) op" where
  "wait_for_handler_completion env i wait_until ext =
     (if ext = None then returnM ()
      else bindM (tryM (wait_loop env i ext wait_until (False, JNull))
                    (\<lambda>e. if is_Exception e then Some (raiseM (OtherError (''Failed to wait for Handler completion: '' @ ne_show env e))) else None))
        (\<lambda>(ext_completed, status).
           bindM (getM n_now) (\<lambda>now.
             if \<not> ext_completed \<and> wait_until < now then raiseM (OtherError ''Dependent Extension did not reach a terminal state within the allowed timeout'')
             else whenM (status \<noteq> JStr ''success'') (raiseM (OtherError ''Dependent Extension did not succeed'')))))"

section \<open>All extensions of a goal state\<close>

definition dependency_level :: "ext_settings option \<Rightarrow> extension \<Rightarrow> int" where
  "dependency_level ext h = (case ext of Some x \<Rightarrow> settings_sort_key x (eh_state h) | None \<Rightarrow> extension_sort_key h)"

text \<open>The settings, if any, of each handler with the position of the handler, by dependency level.\<close>

definition sorted_extensions_for_processing :: "extension list \<Rightarrow> (ext_settings option \<times> nat) list" where
  "sorted_extensions_for_processing hs =
     sort_by (\<lambda>a b. dependency_level (fst a) (hs ! snd a) < dependency_level (fst b) (hs ! snd b))
       (concat (map (\<lambda>k. if eh_settings (hs ! k) \<noteq> [] then map (\<lambda>x. (Some x, k)) (eh_settings (hs ! k)) else [(None, k)]) [0..<length hs]))"

definition handler_at :: "nat \<Rightarrow> 'a ext_handlers_scheme \<Rightarrow> extension" where
  "handler_at k s = the (y_handlers s) ! k"

text \<open>The changes of the instance's handler are those of the handler in the list.\<close>

definition write_back :: "nat \<Rightarrow> ('a ext_handlers_scheme, unit) op" where
  "write_back k = modifyM (\<lambda>s. s\<lparr>y_handlers := map_option (\<lambda>hs. hs[k := hi_handler (x_inst s)]) (y_handlers s)\<rparr>)"

definition report_dependency_error :: "'x ext_env_scheme \<Rightarrow> string \<Rightarrow> ext_settings option \<Rightarrow> ('a ext_world_scheme, unit) op" where
  "report_dependency_error env message ext =
     bindM (getM x_inst) (\<lambda>i.
       if should_perform_multi_config_op i ext
       then bindM (get_handler_status env i) (\<lambda>hs.
            thenM (whenM (hs = None) (set_handler_status env i ''NotReady'' message (-1)))
              (create_status_file env i ext ''error'' (-1) (Some ''ExtensionProcessing'') message False))
       else set_handler_status env i ''NotReady'' message (-1))"

text \<open>
  One extension: \<open>policy_failure\<close> is the error of reading the policy, \<open>depends_on\<close> that of an extension others depend on. The result is the new
  \<open>depends_on\<close>.
\<close>

definition process_extension ::
  "'x handlers_env_scheme \<Rightarrow> int \<Rightarrow> int \<Rightarrow> exn option \<Rightarrow> string option \<Rightarrow> ext_settings option \<times> nat \<Rightarrow> ('a ext_handlers_scheme, string option) op" where
  "process_extension env wait_until max_dep_level policy_failure depends_on item = (case item of (ext, k) \<Rightarrow>
     bindM (getM (handler_at k)) (\<lambda>h.
     bindM (new_instance env h) (\<lambda>i.
     thenM (modifyM (\<lambda>s. s\<lparr>x_inst := i\<rparr>))
    (bindM (liftR (disallowed_error (eh_state h))) (\<lambda>(_, code).
     bindM (getM y_policy) (\<lambda>p.
       if \<not> ye_extensions_enabled env
       then thenM (handle_ext_disallowed_error env k code ''Extension will not be processed since extension processing is disabled'' ext) (returnM depends_on)
       else if policy_failure \<noteq> None \<and> policy_enforcement_enabled p
       then thenM (handle_ext_disallowed_error env k code (''Extension will not be processed due to an error verifying extension policy: '' @
              ne_show env (the policy_failure)) ext) (returnM depends_on)
       else case depends_on of
         Some message \<Rightarrow> thenM (report_dependency_error env message ext) (returnM depends_on)
       | None \<Rightarrow>
           bindM (finallyM (handle_ext_handler env k ext) (write_back k)) (\<lambda>success.
           bindM (getM x_inst) (\<lambda>i.
             let level = dependency_level ext (hi_handler i) in
             if 0 \<le> level \<and> level < max_dep_level
             then tryM (thenM (if success then wait_for_handler_completion env i wait_until ext
                               else raiseM (OtherError ''Skipping processing of extensions since execution of dependent extension failed''))
                          (returnM None))
                    (\<lambda>e. if is_Exception e then Some (returnM (Some (ne_show env e))) else None)
             else returnM None))))))))"

fun process_extensions ::
  "'x handlers_env_scheme \<Rightarrow> int \<Rightarrow> int \<Rightarrow> exn option \<Rightarrow> string option \<Rightarrow> (ext_settings option \<times> nat) list \<Rightarrow> ('a ext_handlers_scheme, unit) op" where
  "process_extensions env wait_until max_dep_level policy_failure depends_on [] = returnM ()"
| "process_extensions env wait_until max_dep_level policy_failure depends_on (item # items) =
     bindM (process_extension env wait_until max_dep_level policy_failure depends_on item) (\<lambda>depends_on.
       process_extensions env wait_until max_dep_level policy_failure depends_on items)"

text \<open>\<^verbatim>\<open>update_policy\<close> on the engine of the state; an exception is returned.\<close>

definition refresh_policy :: "'x handlers_env_scheme \<Rightarrow> ('a ext_handlers_scheme, exn option) op" where
  "refresh_policy env = (\<lambda>s. case update_policy (ye_policy env) (y_policy s) of
     (Inr _, p) \<Rightarrow> (Inr None, s\<lparr>y_policy := p\<rparr>)
   | (Inl e, p) \<Rightarrow> (if is_Exception e then Inr (Some e) else Inl e, s\<lparr>y_policy := p\<rparr>))"

definition DEFAULT_EXT_TIMEOUT_MINUTES :: int where "DEFAULT_EXT_TIMEOUT_MINUTES = 90"

definition handle_ext_handlers :: "'x handlers_env_scheme \<Rightarrow> ('a ext_handlers_scheme, unit) op" where
  "handle_ext_handlers env =
     bindM (getM (\<lambda>s. (y_handlers s, n_now s))) (\<lambda>(handlers, now). case handlers of
       None \<Rightarrow> returnM ()
     | Some hs \<Rightarrow>
         if hs = [] then returnM ()
         else let all_extensions = sorted_extensions_for_processing hs;
                  l = last all_extensions
              in bindM (refresh_policy env) (\<lambda>policy_failure.
                 process_extensions env (now + minutes DEFAULT_EXT_TIMEOUT_MINUTES) (dependency_level (fst l) (hs ! snd l)) policy_failure None all_extensions))"

definition get_unsupported_features :: "'x handlers_env_scheme \<Rightarrow> ext_goal_state \<Rightarrow> string list" where
  "get_unsupported_features env gs =
     filter (\<lambda>f. f \<notin> set (map fst (get_agent_supported_features_list_for_crp (ye_auto_update env) (ye_ga_versioning env)))) (eg_required_features gs)"

definition set_gs_aggregate :: "string \<Rightarrow> int \<Rightarrow> int \<Rightarrow> string \<Rightarrow> ('a ext_handlers_scheme, unit) op" where
  "set_gs_aggregate status seq code message = modifyM (\<lambda>s. s\<lparr>y_gs_aggregate := Some (GoalStateAggregateStatus status seq code message)\<rparr>)"

definition process_and_handle_extensions :: "'x handlers_env_scheme \<Rightarrow> ext_goal_state \<Rightarrow> ('a ext_handlers_scheme, unit) op" where
  "process_and_handle_extensions env gs =
     tryM (if list_ex (\<lambda>f. f \<noteq> '''') (get_unsupported_features env gs)
           then set_gs_aggregate ''Failed'' (eg_svd_seq_no gs) GoalStateUnsupportedRequiredFeatures
                  (''Failing GS '' @ eg_id gs @ '' as Unsupported features found: '' @ join_with '', '' (get_unsupported_features env gs))
           else thenM (handle_ext_handlers env) (set_gs_aggregate ''Success'' (eg_svd_seq_no gs) 0 ''GoalState executed successfully''))
       (\<lambda>e. if is_Exception e
            then Some (set_gs_aggregate ''Failed'' (eg_svd_seq_no gs) (-1) (''Unexpected error when processing goal state:'' @ ne_show env e)) else None)"

section \<open>Handlers on the disk\<close>

text \<open>\<^verbatim>\<open>list_agent_lib_directory\<close>: both patterns for the agent's own files ask for the same prefix.\<close>

definition list_agent_lib_directory :: "string list \<Rightarrow> 'a fs_scheme \<Rightarrow> string list" where
  "list_agent_lib_directory ignore_names s = filter (\<lambda>n. n \<notin> set ignore_names \<and> \<not> startswith n ''WALinuxAgent-'') (list_dir s [])"

definition get_ext_handler_instance_from_path :: "'x net_env_scheme \<Rightarrow> string \<Rightarrow> string list \<Rightarrow> ('a fs_scheme, ext_instance option) op" where
  "get_ext_handler_instance_from_path env name skip_handlers =
     bindM (getM (\<lambda>s. is_dir s [name])) (\<lambda>dir.
       if \<not> dir \<or> name = [] \<or> hd name = CHR ''-'' then returnM None
       else case (case rsplit1 (CHR ''-'') name of Some x \<Rightarrow> x | None \<Rightarrow> (butlast name, name)) of (handler_name, v) \<Rightarrow>
         if handler_name \<in> set skip_handlers then returnM None
         else bindM (liftR (FlexibleVersion v)) (\<lambda>fv.
              bindM (new_instance env (new_extension handler_name (version_str fv))) (\<lambda>i. returnM (Some i))))"

text \<open>\<^verbatim>\<open>^([^-]+)-(\d+(?:\.\d+)*)\.zip$\<close>, whatever the case of the letters; \<^verbatim>\<open>$\<close> also matches before a final newline.\<close>

definition is_handler_pkg :: "string \<Rightarrow> bool" where
  "is_handler_pkg item =
     (let name = takeWhile (\<lambda>c. c \<noteq> CHR ''-'') item;
          rest = drop (Suc (length name)) item;
          rest = (if rest \<noteq> [] \<and> last rest = CHR 0x0A then butlast rest else rest);
          n = length rest - 4
      in name \<noteq> [] \<and> CHR ''-'' \<in> set item \<and> 4 < length rest \<and> lower (drop n rest) = ''.zip'' \<and>
         list_all (\<lambda>p. p \<noteq> [] \<and> list_all is_digit p) (split_on ''.'' (take n rest)))"

text \<open>The handlers that are not in the goal state, and the packages without a handler.\<close>

fun find_outdated :: "'x net_env_scheme \<Rightarrow> string list \<Rightarrow> string list \<Rightarrow> ('a fs_scheme, ext_instance list \<times> path list) op" where
  "find_outdated env in_gs [] = returnM ([], [])"
| "find_outdated env in_gs (item # items) =
     bindM (tryM (bindM (get_ext_handler_instance_from_path env item in_gs) (\<lambda>i. returnM (Some i)))
              (\<lambda>e. if is_Exception e then Some (returnM None) else None)) (\<lambda>r.
     bindM (getM (\<lambda>s. is_file s [item] \<and> \<not> is_dir s [take (length item - 4) item])) (\<lambda>orphaned.
     bindM (find_outdated env in_gs items) (\<lambda>(handlers, pkgs).
       returnM (case r of
         None \<Rightarrow> (handlers, pkgs)
       | Some (Some i) \<Rightarrow> (i # handlers, pkgs)
       | Some None \<Rightarrow> (handlers, if orphaned \<and> is_handler_pkg item then [item] # pkgs else pkgs)))))"

definition remove_logged :: "io_env \<Rightarrow> path \<Rightarrow> ('a fs_scheme, unit) op" where
  "remove_logged io p = on_io_error (remove_file io p) (\<lambda>_. returnM ())"

definition last_gs_unsupported :: "'a ext_handlers_scheme \<Rightarrow> bool" where
  "last_gs_unsupported s = (case y_gs_aggregate s of
     None \<Rightarrow> False | Some g \<Rightarrow> gas_status g = ''Failed'' \<and> gas_code g = GoalStateUnsupportedRequiredFeatures)"

definition cleanup_outdated_handlers :: "'x net_env_scheme \<Rightarrow> ('a ext_handlers_scheme, unit) op" where
  "cleanup_outdated_handlers env =
     bindM (getM (\<lambda>s. (last_gs_unsupported s, y_handlers s, list_agent_lib_directory [] s))) (\<lambda>(unsupported, handlers, items).
       if unsupported then returnM ()
       else case handlers of
         None \<Rightarrow> raiseM TypeError
       | Some hs \<Rightarrow>
           bindM (find_outdated env (map eh_name hs) items) (\<lambda>(outdated, pkgs).
           thenM (forM pkgs (remove_logged (ne_io env)))
             (forM outdated (\<lambda>i.
                thenM (remove_ext_handler env i)
               (bindM (getM (\<lambda>s. is_file s [get_full_name i None @ ''.zip''])) (\<lambda>there.
                  whenM there (remove_logged (ne_io env) [get_full_name i None @ ''.zip''])))))))"

section \<open>A goal state\<close>

text \<open>\<^verbatim>\<open>run\<close>\<close>

definition run :: "'x handlers_env_scheme \<Rightarrow> ext_goal_state \<Rightarrow> ('a ext_handlers_scheme, unit) op" where
  "run env gs =
     (let ignore = (\<lambda>e. if is_Exception e then Some (returnM ()) else None) in
      thenM (modifyM (\<lambda>s. s\<lparr>y_run := Suc (y_run s), y_handlers := Some (eg_extensions gs)\<rparr>))
        (if ye_overprovisioning env \<and> eg_on_hold gs then returnM ()
         else tryM (thenM (process_and_handle_extensions env gs) (cleanup_outdated_handlers env)) ignore))"

section \<open>Reporting\<close>

text \<open>What a heartbeat changes in the handler status, also when it raises in the middle.\<close>

definition apply_heartbeat :: "(json \<Rightarrow> string) \<Rightarrow> bool \<Rightarrow> json \<Rightarrow> (handler_status, unit) op" where
  "apply_heartbeat py_repr disallowed hb =
     (if hb = JNull then returnM ()
      else thenM (if disallowed then returnM () else bindM (liftR (py_get hb ''status'')) (\<lambda>v. modifyM (\<lambda>h. h\<lparr>hs_status := v\<rparr>)))
          (bindM (liftR (py_in ''formattedMessage'' hb)) (\<lambda>there.
             whenM there
               (bindM (liftR (bindR (py_get hb ''formattedMessage'') parse_formatted_message)) (\<lambda>message.
                  if \<not> disallowed then modifyM (\<lambda>h. h\<lparr>hs_message := message\<rparr>)
                  else let t = ustr py_repr message;
                           more = '' Extension was previously enabled and reported the following heartbeat:'' @ newline @ t
                    in bindM (getM hs_message) (\<lambda>old. case old of
                      JNull \<Rightarrow> modifyM (\<lambda>h. h\<lparr>hs_message := JStr (''Extension was not executed, but it was previously enabled and reported the following heartbeat:'' @
                                 newline @ t)\<rparr>)
                    | JStr o' \<Rightarrow> modifyM (\<lambda>h. h\<lparr>hs_message := JStr (o' @ more)\<rparr>)
                    | JList xs \<Rightarrow> modifyM (\<lambda>h. h\<lparr>hs_message := JList (xs @ map (\<lambda>c. JStr [c]) more)\<rparr>)
                    | _ \<Rightarrow> raiseM TypeError))))))"

definition status_with_heartbeat :: "'x ext_env_scheme \<Rightarrow> ext_instance \<Rightarrow> bool \<Rightarrow> handler_status \<Rightarrow> ('a net_scheme, handler_status) op" where
  "status_with_heartbeat env i disallowed hs =
     bindM (tryM (bindM (collect_heartbeat env i) (\<lambda>hb. returnM (Inr hb))) (\<lambda>e. if is_ExtensionError e then Some (returnM (Inl e)) else None)) (\<lambda>r.
       case (case r of Inl e \<Rightarrow> (Inl e, hs) | Inr hb \<Rightarrow> apply_heartbeat (xe_py_repr env) disallowed hb hs) of
         (Inr _, hs') \<Rightarrow> returnM hs'
       | (Inl e, hs') \<Rightarrow>
           if is_ExtensionError e then thenM (set_handler_status env i ''NotReady'' (ne_show env e) (error_code e)) (returnM hs')
           else raiseM e)"

text \<open>The statuses of one handler; \<open>disallowed\<close> says whether it is among the disallowed ones.\<close>

definition report_ext_handler_status :: "'x ext_env_scheme \<Rightarrow> extension \<Rightarrow> bool \<Rightarrow> ('a net_scheme, reported_status list) op" where
  "report_ext_handler_status env h disallowed =
     bindM (new_instance env h) (\<lambda>i.
     bindM (get_handler_status env i) (\<lambda>handler_status. case handler_status of
       None \<Rightarrow> returnM []
     | Some hs \<Rightarrow>
         bindM (get_handler_state env i) (\<lambda>st.
           if st \<noteq> NotInstalled \<or> eh_supports_multi_config h \<or> disallowed
           then bindM (if st \<noteq> NotInstalled then status_with_heartbeat env i disallowed hs else returnM hs) (\<lambda>hs.
                bindM (get_extension_handler_statuses env i hs) (\<lambda>statuses.
                  returnM (if statuses = [] then [(hs, None)] else statuses)))
           else returnM [(hs, None)])))"

text \<open>\<^verbatim>\<open>re.search\<close> for \<^verbatim>\<open>(?P<extname>\w+)\.\d+\.settings\<close>.\<close>

fun ext_name_search :: "string \<Rightarrow> string option" where
  "ext_name_search [] = None"
| "ext_name_search (c # s) =
     (let w = takeWhile is_word (c # s); rest = drop (length w) (c # s) in
      if w \<noteq> [] \<and> startswith rest ''.'' \<and> settings_number None (tl rest) \<noteq> None then Some w else ext_name_search s)"

text \<open>The files that \<^verbatim>\<open>*.*.settings\<close> stands for.\<close>

definition multi_config_settings :: "ext_instance \<Rightarrow> 'a fs_scheme \<Rightarrow> path list" where
  "multi_config_settings i s =
     filter (\<lambda>p. CHR ''.'' \<in> set (take (length (last p) - 9) (last p))) (glob_in s (get_conf_dir i) '''' ''.settings'')"

definition handler_on_file_system :: "'x ext_env_scheme \<Rightarrow> ext_instance \<Rightarrow> ('a net_scheme, extension) op" where
  "handler_on_file_system env i =
     bindM (getM (\<lambda>s. remdups (List.map_filter (\<lambda>p. ext_name_search (path_text env p)) (multi_config_settings i s)))) (\<lambda>names.
     let h = (hi_handler i)\<lparr>eh_supports_multi_config := names \<noteq> []\<rparr>; j = i\<lparr>hi_handler := h\<rparr> in
     bindM (mapM (\<lambda>n. bindM (get_status_file_path env j (Some (new_settings n))) (\<lambda>(seq_no, _).
                       returnM ((new_settings n)\<lparr>xs_sequence_number := JInt seq_no\<rparr>)))
              (if names = [] then [eh_name h] else names)) (\<lambda>xs.
       returnM (h\<lparr>eh_settings := xs\<rparr>)))"

fun handlers_on_file_system :: "'x ext_env_scheme \<Rightarrow> string list \<Rightarrow> ('a net_scheme, extension list) op" where
  "handlers_on_file_system env [] = returnM []"
| "handlers_on_file_system env (item # items) =
     bindM (tryM (bindM (get_ext_handler_instance_from_path env item []) (\<lambda>i. case i of
                    None \<Rightarrow> returnM []
                  | Some i \<Rightarrow> bindM (handler_on_file_system env i) (\<lambda>h. returnM [h])))
              (\<lambda>e. if is_Exception e then Some (returnM []) else None)) (\<lambda>hs.
     bindM (handlers_on_file_system env items) (\<lambda>rest. returnM (hs @ rest)))"

definition get_handlers_on_file_system :: "'x ext_env_scheme \<Rightarrow> ('a net_scheme, extension list) op" where
  "get_handlers_on_file_system env = bindM (getM (list_agent_lib_directory [''events'', ''history''])) (handlers_on_file_system env)"

text \<open>The handlers to report, with whether they are disallowed.\<close>

definition handlers_to_report :: "'x ext_env_scheme \<Rightarrow> ('a ext_handlers_scheme, (extension \<times> bool) list) op" where
  "handlers_to_report env =
     bindM (getM (\<lambda>s. s)) (\<lambda>s.
       if last_gs_unsupported s then bindM (get_handlers_on_file_system env) (\<lambda>hs. returnM (map (\<lambda>h. (h, False)) hs))
       else case y_handlers s of
         None \<Rightarrow> returnM []
       | Some hs \<Rightarrow> returnM (map (\<lambda>k. (hs ! k, (y_run s, k) \<in> set (y_disallowed s))) [0..<length hs]))"

definition collect_statuses :: "'x ext_env_scheme \<Rightarrow> extension \<times> bool \<Rightarrow> ('a net_scheme, reported_status list) op" where
  "collect_statuses env h = tryM (report_ext_handler_status env (fst h) (snd h)) (\<lambda>e. if is_ExtensionError e then Some (returnM []) else None)"

definition count_report_failure :: "bool \<Rightarrow> ('a ext_handlers_scheme, unit) op" where
  "count_report_failure failed =
     thenM (modifyM (\<lambda>s. s\<lparr>y_report_error := (if failed then error_state_incr (n_now s) (y_report_error s) else error_state_reset (y_report_error s))\<rparr>))
       (modifyM (\<lambda>s. if is_triggered (n_now s) (y_report_error s) then s\<lparr>y_report_error := error_state_reset (y_report_error s)\<rparr> else s))"

text \<open>
  \<^verbatim>\<open>report_ext_handlers_status\<close>; \<open>base\<close> has the facts about the machine and the agent. The status reported, or \<open>None\<close> after an error.
\<close>

definition report_ext_handlers_status ::
  "'x handlers_env_scheme \<Rightarrow> vm_agent_status \<Rightarrow> ('a ext_handlers_scheme, string option \<times> string option) op \<Rightarrow> ('a ext_handlers_scheme, unit) op \<Rightarrow>
   ('a ext_handlers_scheme, vm_agent_status option) op" where
  "report_ext_handlers_status env base get_target reset_goal_state =
     tryM
       (bindM (getM y_gs_aggregate) (\<lambda>agg.
        bindM (handlers_to_report env) (\<lambda>handlers.
        bindM (mapM (collect_statuses env) handlers) (\<lambda>statuses.
        let va = base\<lparr>va_status := ''Ready'', va_message := ''Guest Agent is running'', va_gs_aggregate := agg, va_handlers := concat statuses\<rparr> in
        bindM (tryM (thenM (upload_status_blob env (get_agent_supported_features_list_for_crp (ye_auto_update env) (ye_ga_versioning env)) (Some va)
                              get_target reset_goal_state) (returnM False))
                 (\<lambda>e. if is_ProtocolError e then Some (returnM True) else None)) (\<lambda>failed.
          thenM (count_report_failure failed) (returnM (Some va)))))))
       (\<lambda>e. if is_Exception e then Some (returnM None) else None)"

end
