(* ===== verification/Ext_Safety.thy ===== *)
theory Ext_Safety
  imports Ext_Handlers
begin

text \<open>
  Which commands extension handling runs. \<open>steady\<close> predicates depend on the launched commands, the policy and the name of the
  extension being handled only; the rules \<open>steady_intros\<close> say that everything but the launch of a command keeps them. The properties are about
  disallowed and unverified extensions, failed dependencies, and the order of commands.
\<close>

section \<open>What does not launch commands\<close>

definition steady :: "('a ext_handlers_scheme \<Rightarrow> bool) \<Rightarrow> bool" where
  "steady R \<longleftrightarrow> (\<forall>s t. x_launched s = x_launched t \<longrightarrow> y_policy s = y_policy t \<longrightarrow>
     eh_name (hi_handler (x_inst s)) = eh_name (hi_handler (x_inst t)) \<longrightarrow> R s \<longrightarrow> R t)"

named_theorems steady_intros \<open>operations that keep every steady predicate\<close>

lemma steadyD:
  "steady R \<Longrightarrow> R s \<Longrightarrow> x_launched s = x_launched t \<Longrightarrow> y_policy s = y_policy t \<Longrightarrow>
   eh_name (hi_handler (x_inst s)) = eh_name (hi_handler (x_inst t)) \<Longrightarrow> R t"
  unfolding steady_def by blast

lemma steady_modify:
  "steady R \<Longrightarrow> (\<And>s. x_launched (f s) = x_launched s \<and> y_policy (f s) = y_policy s \<and>
     eh_name (hi_handler (x_inst (f s))) = eh_name (hi_handler (x_inst s))) \<Longrightarrow> preserves R (modifyM f)"
  by (rule preserves_modifyM) (metis steadyD)

subsection \<open>Reading\<close>

text \<open>What only reads keeps every predicate.\<close>

lemma keeps_reads [steady_intros]: "preserves R (io_check io k p)" "preserves R (read_file io p)"
  unfolding read_file_def io_check_def by (intro preserves_intros)+

lemma keeps_on_io_error [steady_intros]:
  "preserves R m \<Longrightarrow> (\<And>e. preserves R (h e)) \<Longrightarrow> preserves R (on_io_error m h)"
  unfolding on_io_error_def by (auto intro!: preserves_tryM split: if_splits)

lemma keeps_get_state [steady_intros]:
  "preserves R (get_state env i n d)" "preserves R (get_handler_state env i)" "preserves R (get_extension_state env i ext)"
  unfolding get_handler_state_def get_extension_state_def get_state_def Let_def by (auto intro!: preserves_intros steady_intros)

lemma keeps_filterM: "(\<And>x. preserves R (p x)) \<Longrightarrow> preserves R (filterM p xs)"
  by (induction xs) (auto intro!: preserves_bindM preserves_pure)

lemma keeps_enabled_extensions [steady_intros]: "preserves R (enabled_extensions env i)"
  unfolding enabled_extensions_def by (auto intro!: preserves_intros keeps_filterM steady_intros)

lemma keeps_new_instance [steady_intros]:
  "preserves R (get_handler_status env i)" "preserves R (get_signature_validated env i)" "preserves R (new_instance env h)"
  unfolding get_handler_status_def get_signature_validated_def new_instance_def Let_def
  by (auto intro!: preserves_intros steady_intros split: if_splits)

lemma keeps_load_ext_manifest [steady_intros]: "preserves R (load_manifest env i)"
  unfolding load_manifest_def by (auto intro!: preserves_intros steady_intros split: if_splits)

lemma keeps_resource_limits [steady_intros]:
  "preserves R (read_resource_limits man ks)" "preserves R (log_telemetry_if_ext_uses_resource_limits man)"
  unfolding read_resource_limits_def log_telemetry_if_ext_uses_resource_limits_def by (auto intro!: preserves_intros)

lemma keeps_set_limits [steady_intros]: "preserves R (set_extension_resource_limits env i)" "preserves R (ensure_consistent_data_for_mc env i)"
  unfolding set_extension_resource_limits_def ensure_consistent_data_for_mc_def by (auto intro!: preserves_intros steady_intros)

lemma keeps_latest_installed [steady_intros]: "preserves R (latest_installed env v items)"
  by (induction items arbitrary: v) (auto simp: Let_def intro!: preserves_intros steady_intros)

lemma keeps_get_installed [steady_intros]:
  "preserves R (get_installed_version env i)" "preserves R (get_installed_ext_handler env i)"
  unfolding get_installed_version_def get_installed_ext_handler_def by (auto intro!: preserves_intros steady_intros split: option.split)

lemma keeps_status_path [steady_intros]: "preserves R (get_status_file_path env i ext)"
proof -
  have "preserves R (last_modified_seq_no env i ext q l items)" for q l items
    by (induction items arbitrary: q l) (auto simp: Let_def intro!: preserves_intros split: option.splits prod.splits)
  then show ?thesis unfolding get_status_file_path_def get_last_modified_seq_no_from_config_files_def
    by (auto intro!: preserves_intros split: option.splits sum.splits if_splits)
qed

lemma keeps_parse_status_file [steady_intros]: "preserves R (read_and_parse_json_status_file io loads sh file)"
  unfolding read_and_parse_json_status_file_def by (auto intro!: preserves_intros steady_intros split: option.splits sum.splits if_splits)

subsection \<open>Files\<close>

text \<open>Predicates on what is beyond the files.\<close>

definition beyond :: "('a fs_scheme \<Rightarrow> bool) \<Rightarrow> bool" where
  "beyond R \<longleftrightarrow> (\<forall>s t. fs.more s = fs.more t \<longrightarrow> R s \<longrightarrow> R t)"

lemma beyond_modify: "beyond R \<Longrightarrow> (\<And>s. fs.more (f s) = fs.more s) \<Longrightarrow> preserves R (modifyM f)"
  by (rule preserves_modifyM) (metis beyond_def)

lemma more_fs_updates [simp]:
  "fs.more (put_file p t s) = fs.more s" "fs.more (drop_file p s) = fs.more s" "fs.more (drop_tree p s) = fs.more s"
  "fs.more (add_dirs ps s) = fs.more s"
  by (simp_all add: put_file_def drop_file_def drop_tree_def add_dirs_def)

lemma more_expand_into [simp]: "fs.more (expand_into d fs ds s) = fs.more s"
proof -
  have "fs.more (fold (\<lambda>(p, t). put_file (d @ p) t) fs u) = fs.more u" for u :: "'a fs_scheme"
    by (induction fs arbitrary: u) auto
  then show ?thesis by (simp add: expand_into_def)
qed

lemmas beyond_rules = preserves_pure preserves_bindM preserves_thenM preserves_tryM preserves_finallyM preserves_whenM preserves_if
  preserves_forM preserves_mapM beyond_modify

lemma beyond_primitives:
  "beyond R \<Longrightarrow> preserves R (write_file io p t)" "beyond R \<Longrightarrow> preserves R (mkdir io p)"
  "beyond R \<Longrightarrow> preserves R (remove_file io p)" "beyond R \<Longrightarrow> preserves R (rmtree io p)"
  unfolding write_file_def mkdir_def remove_file_def rmtree_def split_def by (auto intro!: beyond_rules steady_intros)

lemma beyond_removal:
  "beyond R \<Longrightarrow> preserves R (rm_files io ps)" "beyond R \<Longrightarrow> preserves R (try_remove io p)" "beyond R \<Longrightarrow> preserves R (clean_ioerror io e ps)"
  unfolding rm_files_def try_remove_def clean_ioerror_def remove_quietly_def
  by (auto intro!: beyond_rules beyond_primitives steady_intros split: if_splits)

lemma beyond_files:
  "beyond R \<Longrightarrow> preserves R (ensure_dir io d)" "beyond R \<Longrightarrow> preserves R (copy2 io p q)" "beyond R \<Longrightarrow> preserves R (unzip_to env f d)"
  unfolding ensure_dir_def copy2_def unzip_to_def split_def
  by (auto intro!: beyond_rules beyond_primitives steady_intros split: option.split)

lemma beyond_set_state:
  "beyond R \<Longrightarrow> preserves R (set_state env i n v)" "beyond R \<Longrightarrow> preserves R (set_handler_state env i v)"
  "beyond R \<Longrightarrow> preserves R (set_extension_state env i ext v)" "beyond R \<Longrightarrow> preserves R (set_handler_status env i st m c)"
  unfolding set_handler_state_def set_extension_state_def set_state_def set_handler_status_def Let_def
  by (auto intro!: beyond_rules beyond_primitives beyond_removal beyond_files steady_intros)

lemma steady_beyond: "steady R \<Longrightarrow> beyond R"
  unfolding beyond_def
proof (intro allI impI)
  fix s t :: "'a ext_handlers_scheme"
  assume R: "steady R" and same: "fs.more s = fs.more t" and s: "R s"
  have "x_launched s = x_launched t" "y_policy s = y_policy t" "x_inst s = x_inst t" using same by (cases s; cases t; simp)+
  with steadyD [OF R s] show "R t" by metis
qed

lemmas steady_files [steady_intros] = beyond_primitives [OF steady_beyond] beyond_removal [OF steady_beyond] beyond_files [OF steady_beyond]
  beyond_set_state [OF steady_beyond]

lemmas steady_rules = preserves_pure preserves_bindM preserves_thenM preserves_tryM preserves_finallyM preserves_whenM preserves_if
  preserves_forM preserves_mapM steady_modify

subsection \<open>The network and the host\<close>

lemma steady_net_request [steady_intros]: "steady R \<Longrightarrow> preserves R (net_request env url f)"
  unfolding net_request_def split_def by (intro preserves_bindM preserves_pure preservesI) (erule steadyD, assumption, simp_all)

lemma steady_net_methods [steady_intros]:
  "steady R \<Longrightarrow> preserves R (net_get env u os b c)" "steady R \<Longrightarrow> preserves R (net_post env u d os n)"
  unfolding net_get_def net_post_def by (intro steady_intros; assumption)+

lemma steady_report_health [steady_intros]: "steady R \<Longrightarrow> preserves R (report_health env ep ob)"
  unfolding report_health_def report_observations_def by (auto intro!: steady_rules steady_intros split: if_splits)

lemma steady_modify_plugin [steady_intros]: "steady R \<Longrightarrow> preserves R (modify_plugin f)"
  unfolding modify_plugin_def by (auto intro!: steady_modify)

lemma steady_plugin_updates [steady_intros]:
  "steady R \<Longrightarrow> preserves R (update_container_id c)" "steady R \<Longrightarrow> preserves R (update_role_config_name n)"
  "steady R \<Longrightarrow> preserves R (update_manifest_uri m)"
  unfolding update_container_id_def update_role_config_name_def update_manifest_uri_def by (rule steady_modify_plugin; assumption)+

lemma steady_get_api_versions [steady_intros]: "steady R \<Longrightarrow> preserves R (get_api_versions env)"
  unfolding get_api_versions_def split_def by (auto intro!: steady_rules steady_intros split: if_splits)

lemma steady_ensure_initialized [steady_intros]: "steady R \<Longrightarrow> preserves R (ensure_initialized env)"
  unfolding ensure_initialized_def Let_def by (intro preserves_intros steady_intros; assumption)

lemma steady_get_artifact_request [steady_intros]: "steady R \<Longrightarrow> preserves R (get_artifact_request env u v m)"
  unfolding get_artifact_request_def by (intro preserves_intros steady_intros; assumption)

lemma steady_report_fetch_health [steady_intros]: "steady R \<Longrightarrow> preserves R (report_fetch_health env u b src r)"
  unfolding report_fetch_health_def split_def by (auto intro!: steady_rules steady_intros)

lemma steady_fetch_response [steady_intros]: "steady R \<Longrightarrow> preserves R (fetch_response env u h p rc ok ff)"
  unfolding fetch_response_def by (auto intro!: steady_rules steady_intros split: if_splits)

lemma steady_fetch [steady_intros]: "steady R \<Longrightarrow> preserves R (fetch env u h p rc ff)"
  unfolding fetch_def by (auto intro!: steady_rules steady_intros)

lemma steady_stream [steady_intros]: "steady R \<Longrightarrow> preserves R (stream env u p h px rc ff)"
  unfolding stream_def by (auto intro!: steady_rules steady_intros split: sum.split)

lemma steady_fetch_config [steady_intros]: "steady R \<Longrightarrow> preserves R (fetch_config env u h)"
  unfolding fetch_config_def call_wireserver_def by (auto intro!: steady_rules steady_intros split: exn.splits if_splits)

lemma steady_fetch_goal_state_attempts [steady_intros]: "steady R \<Longrightarrow> preserves R (fetch_goal_state_attempts env inc n)"
proof (induction n arbitrary: inc)
  case (Suc n)
  then show ?case by (auto intro!: steady_rules steady_intros simp: Let_def split: option.split prod.split)
qed (simp add: preserves_pure)

lemma steady_update_host_plugin [steady_intros]: "steady R \<Longrightarrow> preserves R (update_host_plugin_from_goal_state env)"
  unfolding update_host_plugin_from_goal_state_def fetch_goal_state_def by (auto intro!: steady_rules steady_intros)

lemma steady_channel:
  assumes "steady R" and "preserves R direct" and "preserves R hgap"
  shows "preserves R (download_using_appropriate_channel env direct hgap)"
proof -
  have "preserves R (call_hostplugin_with_container_check env hgap)"
    unfolding call_hostplugin_with_container_check_def
    using assms by (auto intro!: steady_rules steady_intros split: exn.splits)
  then show ?thesis unfolding download_using_appropriate_channel_def Let_def
    using assms by (auto intro!: steady_rules split: if_splits)
qed

lemma steady_download_loop:
  assumes "\<And>u. preserves R (try_uri u)"
  shows "preserves R (download_loop env ty st n try_uri i err uris)"
proof (induction uris arbitrary: i err)
  case (Cons u uris)
  then show ?case by (auto intro!: steady_rules assms split: if_splits)
qed (simp add: preserves_pure)

lemma steady_fallback_channel:
  assumes "steady R" and "\<And>u. preserves R (direct u)" and "\<And>u. preserves R (hgap u)" and "preserves R done'"
  shows "preserves R (download_with_fallback_channel env ty uris direct hgap done')"
  unfolding download_with_fallback_channel_def
  using assms by (auto intro!: preserves_bindM preserves_thenM preserves_pure steady_download_loop steady_channel)

lemma steady_fetch_content [steady_intros]: "steady R \<Longrightarrow> preserves R (fetch_content env ty uris v)"
  unfolding fetch_content_def by (auto intro!: steady_fallback_channel preserves_bindM preserves_pure steady_intros)

lemma steady_fetch_manifest [steady_intros]: "steady R \<Longrightarrow> preserves R (fetch_manifest env ty uris v)"
  unfolding fetch_manifest_def by (auto intro!: steady_rules steady_intros)

lemma steady_try_expand [steady_intros]: "steady R \<Longrightarrow> preserves R (try_expand_zip_package env f d)"
  unfolding try_expand_zip_package_def by (auto intro!: steady_rules steady_intros split: if_splits)

lemma steady_with_package [steady_intros]: "steady R \<Longrightarrow> preserves R (with_package env p f)"
  by (rule preservesI) (erule steadyD, assumption, simp_all add: with_package_def split_def)

lemma steady_on_package_downloaded [steady_intros]: "steady R \<Longrightarrow> preserves R (on_package_downloaded env f d sig ign)"
  unfolding on_package_downloaded_def validate_package_def cleanup_package_with_invalid_signature_def
  by (auto intro!: steady_rules steady_intros split: option.split if_splits)

lemma steady_download_zip_package [steady_intros]: "steady R \<Longrightarrow> preserves R (download_zip_package env n uris f d v sig ign)"
  unfolding download_zip_package_def by (auto intro!: steady_fallback_channel preserves_bindM preserves_pure steady_intros)

subsection \<open>Instances\<close>

lemma steady_modify_inst [steady_intros]:
  "steady R \<Longrightarrow> (\<And>i. eh_name (hi_handler (f i)) = eh_name (hi_handler i)) \<Longrightarrow> preserves R (modify_inst f)"
  unfolding modify_inst_def by (auto intro!: steady_modify)

lemma steady_set_operation [steady_intros]: "steady R \<Longrightarrow> preserves R (set_operation i op)"
  unfolding set_operation_def by (auto intro!: steady_rules steady_intros)

lemma steady_remove_extension_state_files [steady_intros]: "steady R \<Longrightarrow> preserves R (remove_extension_state_files env i x)"
  unfolding remove_extension_state_files_def Let_def by (auto intro!: steady_rules steady_intros split: if_splits)

lemma steady_remove_ext_handler [steady_intros]: "steady R \<Longrightarrow> preserves R (remove_ext_handler env i)"
  unfolding remove_ext_handler_def Let_def by (auto intro!: steady_rules steady_intros split: if_splits)

lemma steady_fetch_extension_manifest [steady_intros]: "steady R \<Longrightarrow> preserves R (fetch_extension_manifest env uris)"
  unfolding fetch_extension_manifest_def by (auto intro!: steady_rules steady_intros split: if_splits)

lemma steady_decide_version [steady_intros]: "steady R \<Longrightarrow> preserves R (decide_version env st)"
  unfolding decide_version_def by (auto intro!: steady_rules steady_intros split: if_splits option.split prod.split)

lemma steady_unzip_extension_package [steady_intros]: "steady R \<Longrightarrow> preserves R (unzip_extension_package env f d)"
  unfolding unzip_extension_package_def by (auto intro!: steady_rules steady_intros split: if_splits)

lemma steady_signature_error [steady_intros]: "steady R \<Longrightarrow> preserves R (handle_signature_validation_error env e ign p)"
  unfolding handle_signature_validation_error_def cleanup_package_with_invalid_signature_def
  by (auto intro!: steady_rules steady_intros split: option.split exn.split)

lemma steady_signature_succeeds [steady_intros]: "steady R \<Longrightarrow> preserves R m \<Longrightarrow> preserves R (signature_succeeds env ign p m)"
  unfolding signature_succeeds_def by (auto intro!: steady_rules steady_intros split: if_splits)

lemma steady_use_existing [steady_intros]: "steady R \<Longrightarrow> preserves R (use_existing_package env f d sig v ign)"
  unfolding use_existing_package_def validate_package_def by (auto intro!: steady_rules steady_intros)

lemma steady_download_new [steady_intros]: "steady R \<Longrightarrow> preserves R (download_new_package env n uris f d sig v ign)"
  unfolding download_new_package_def by (auto intro!: steady_rules steady_intros)

lemma steady_validate_manifest [steady_intros]: "steady R \<Longrightarrow> preserves R (validate_manifest env ign v)"
  unfolding validate_manifest_def by (auto intro!: steady_rules steady_intros split: exn.splits if_splits)

lemma steady_download [steady_intros]: "steady R \<Longrightarrow> preserves R (download env ign)"
  unfolding download_def Let_def by (auto intro!: steady_rules steady_intros split: option.split)

lemma steady_initialize [steady_intros]: "steady R \<Longrightarrow> preserves R (initialize env i)"
  unfolding initialize_def create_handler_env_def cleanup_and_fail_def Let_def
  by (auto intro!: steady_rules steady_intros split: option.split)

lemma steady_settings [steady_intros]:
  "steady R \<Longrightarrow> preserves R (update_settings env i ext)" "steady R \<Longrightarrow> preserves R (update_runtime_policy env' i r)"
  "steady R \<Longrightarrow> preserves R (remove_runtime_policy env' i)" "steady R \<Longrightarrow> preserves R (copy_status_files env' i old)"
  unfolding update_settings_def update_settings_file_def update_runtime_policy_def remove_runtime_policy_def copy_status_files_def Let_def
  by (auto intro!: steady_rules steady_intros split: option.split)

subsection \<open>Statuses and errors\<close>

lemma steady_create_status_file [steady_intros]: "steady R \<Longrightarrow> preserves R (create_status_file env i ext st c op m ov)"
  unfolding create_status_file_def by (auto intro!: steady_rules steady_intros split: option.splits)

lemma steady_pause: "steady R \<Longrightarrow> R s \<Longrightarrow> R (pause_state env d s)"
  by (rule steadyD [of R s]) (simp_all add: pause_state_def split: prod.split)

lemma steady_read_status_file [steady_intros]:
  "steady R \<Longrightarrow> preserves R (read_status_file (ne_io env) loads sh (pause_state env d) file)"
  unfolding read_status_file_def by (rule preserves_read_status_loop [OF keeps_parse_status_file]) (simp_all add: steady_pause)

lemma steady_collect [steady_intros]: "steady R \<Longrightarrow> preserves R (collect_ext_status env i ext)"
  unfolding collect_ext_status_def Let_def
  by (auto intro!: steady_rules steady_intros split: option.splits sum.splits exn.splits prod.splits)

lemma steady_complete [steady_intros]: "steady R \<Longrightarrow> preserves R (is_ext_handling_complete env i ext)"
  unfolding is_ext_handling_complete_def get_ext_handling_status_def
  by (auto intro!: steady_rules steady_intros split: option.splits)

lemma steady_wait_loop [steady_intros]: "steady R \<Longrightarrow> preserves R (wait_loop env i ext w p)"
proof (rule preservesI)
  fix s assume "steady R" "R s"
  then show "R (snd (wait_loop env i ext w p s))"
  proof (induction env i ext w p s rule: wait_loop.induct)
    case (1 env i ext w p s)
    obtain r t where rt: "is_ext_handling_complete env i ext s = (r, t)" by force
    then have "R t" using preservesD [OF steady_complete, OF 1(2,3)] by (metis snd_conv)
    moreover have "R (snd (wait_loop env i ext w q (pause_state env 5 t)))" if "r = Inr q" "\<not> fst q" "\<not> w < n_now s" for q
      using 1(1) [OF that(3) rt [symmetric] that(1,2) 1(2)] steady_pause [OF 1(2) \<open>R t\<close>] by blast
    ultimately show ?case using 1(3) rt by (subst wait_loop.simps) (auto split: sum.split)
  qed
qed

lemma steady_wait [steady_intros]: "steady R \<Longrightarrow> preserves R (wait_for_handler_completion env i w ext)"
  unfolding wait_for_handler_completion_def by (auto intro!: steady_rules steady_intros split: if_splits)

lemma steady_report_errors [steady_intros]: "steady R \<Longrightarrow> preserves R (handle_and_report_ext_handler_errors env e op m ext)"
  unfolding handle_and_report_ext_handler_errors_def by (auto intro!: steady_rules steady_intros)

lemma steady_disallowed_error [steady_intros]: "steady R \<Longrightarrow> preserves R (handle_ext_disallowed_error env k c m ext)"
  unfolding handle_ext_disallowed_error_def by (auto intro!: steady_rules steady_intros)

lemma steady_handle_error [steady_intros]: "steady R \<Longrightarrow> preserves R (handle_error env k ext e)"
  unfolding handle_error_def handle_disallowed_def by (cases e) (auto intro!: steady_rules steady_intros)

lemma steady_policy [steady_intros]:
  "preserves R (check_policy n b e)" "preserves R (should_ignore_ext_signature_validation_errors env i)"
  unfolding check_policy_def should_ignore_ext_signature_validation_errors_def by (auto intro!: steady_rules split: if_splits)

lemma steady_runtime_policy [steady_intros]: "steady R \<Longrightarrow> preserves R (update_extension_runtime_policy env i)"
  unfolding update_extension_runtime_policy_def Let_def by (auto intro!: steady_rules steady_intros split: option.split)

lemma steady_setup [steady_intros]: "steady R \<Longrightarrow> preserves R (setup_new_handler env ext ign)"
  unfolding setup_new_handler_def by (auto intro!: steady_rules steady_intros)

lemma steady_dependency_error [steady_intros]: "steady R \<Longrightarrow> preserves R (report_dependency_error env m ext)"
  unfolding report_dependency_error_def by (auto intro!: steady_rules steady_intros)

section \<open>Disallowed extensions\<close>

definition held_back :: "launch list \<Rightarrow> policy_engine \<Rightarrow> string \<Rightarrow> 'a ext_handlers_scheme \<Rightarrow> bool" where
  "held_back l p name s \<longleftrightarrow> x_launched s = l \<and> y_policy s = p \<and> eh_name (hi_handler (x_inst s)) = name"

lemma steady_held_back [simp]: "steady (held_back l p name)"
  by (simp add: steady_def held_back_def)

lemma held_back_inst:
  "(\<And>i. eh_name (hi_handler i) = name \<Longrightarrow> preserves (held_back l p name) (f i)) \<Longrightarrow> preserves (held_back l p name) (bindM (getM x_inst) f)"
  unfolding preserves_def by (auto simp: bindM_def getM_def held_back_def)

text \<open>Operations that keep a predicate and, where it holds, do not return.\<close>

definition stops :: "('s \<Rightarrow> bool) \<Rightarrow> ('s, 'a) op \<Rightarrow> bool" where
  "stops R m \<longleftrightarrow> (\<forall>s. R s \<longrightarrow> R (snd (m s)) \<and> isl (fst (m s)))"

lemma stops_preserves: "stops R m \<Longrightarrow> preserves R m"
  by (simp add: stops_def preserves_def)

lemma stops_bindM1: "stops R m \<Longrightarrow> stops R (bindM m f)"
  unfolding stops_def bindM_def by (auto split: prod.splits sum.splits)

lemma stops_bindM2: "preserves R m \<Longrightarrow> (\<And>a. stops R (f a)) \<Longrightarrow> stops R (bindM m f)"
  unfolding stops_def preserves_def bindM_def by (auto split: prod.splits sum.splits)

lemma stops_thenM: "stops R m \<Longrightarrow> stops R (thenM m n)"
  unfolding thenM_def by (rule stops_bindM1)

lemma stops_held_back_inst:
  "(\<And>i. eh_name (hi_handler i) = name \<Longrightarrow> stops (held_back l p name) (f i)) \<Longrightarrow> stops (held_back l p name) (bindM (getM x_inst) f)"
  unfolding stops_def by (auto simp: bindM_def getM_def held_back_def)

lemma stops_check:
  "\<not> should_allow_extension p name \<Longrightarrow> stops (held_back l p name) (check_policy name b e)"
  by (auto simp: stops_def held_back_def check_policy_def check_extension_policy_def should_allow_extension_def bindM_def getM_def tryM_def liftR_def raiseM_def)

lemma held_back_perform:
  assumes "\<not> should_allow_extension p name" and "st \<noteq> Some Disabled"
  shows "preserves (held_back l p name :: 'a ext_handlers_scheme \<Rightarrow> bool) (perform_requested env st ext)"
proof -
  let ?R = "held_back l p name :: 'a ext_handlers_scheme \<Rightarrow> bool"
  note check = stops_check [OF assms(1)]
  have "stops ?R (enable_new_handler env old ext)" for old
    unfolding enable_new_handler_def by (rule stops_held_back_inst) (simp add: stops_thenM check)
  moreover have "stops ?R (enable_installed_handler env ext)"
    unfolding enable_installed_handler_def by (rule stops_held_back_inst) (simp add: stops_thenM check)
  ultimately have choice: "stops ?R (if new then enable_new_handler env old ext else enable_installed_handler env ext)" for new old
    by simp
  have "stops ?R (handle_enable env ext)"
    unfolding handle_enable_def
    by (intro stops_bindM2 [OF preserves_pure(4)] stops_bindM2 [OF keeps_get_installed(2)]
        stops_bindM2 [OF keeps_get_state(2)] stops_bindM1 choice)
  moreover have "preserves ?R (handle_uninstall env ext)"
    unfolding handle_uninstall_def
    by (rule held_back_inst, intro preserves_bindM preserves_thenM [of _ "whenM _ _"] preserves_whenM steady_intros steady_held_back)
       (simp add: stops_preserves stops_thenM check)
  ultimately show ?thesis using assms(2) by (simp add: perform_requested_def stops_preserves preserves_pure)
qed

lemma held_back_handle:
  assumes "\<not> should_allow_extension p name"
    and "held_back l p name s" and "eh_state (hi_handler (x_inst s)) \<noteq> Some Disabled"
  shows "held_back l p name (snd (handle_ext_handler env k ext s))"
proof -
  let ?i = "x_inst s"
  let ?body = "case eh_invalid_setting_reason (hi_handler ?i) of
          Some reason \<Rightarrow> raiseM (ExtensionsGoalStateError reason (-1))
        | None \<Rightarrow>
            bindM (decide_version env (eh_state (hi_handler ?i))) (\<lambda>pkg.
              if pkg = None \<and> eh_state (hi_handler ?i) = Some Enabled
              then thenM (set_operation ?i ''Download'') (raiseM (ExtensionError ''Unable to find version in manifest for extension'' (-1)))
              else thenM (perform_requested env (eh_state (hi_handler ?i)) ext) (returnM True))"
  have body: "preserves (held_back l p name) ?body"
    by (auto intro!: steady_rules steady_intros held_back_perform assms split: option.split)
  have "preserves (held_back l p name) (tryM ?body (\<lambda>e. if is_Exception e then Some (thenM (handle_error env k ext e) (returnM False)) else None))"
    by (rule preserves_tryM [OF body]) (auto intro!: steady_rules steady_intros split: if_splits)
  from preservesD [OF this assms(2)] show ?thesis by (simp add: handle_ext_handler_def bindM_def getM_def tryM_def)
qed

section \<open>Unverified packages\<close>

lemma never_bindM_if:
  "(\<And>s. case fst (m s) of Inl _ \<Rightarrow> True | Inr a \<Rightarrow> P a) \<Longrightarrow> (\<And>a. P a \<Longrightarrow> never_returns (f a)) \<Longrightarrow> never_returns (bindM m f)"
  unfolding never_returns_def bindM_def by (auto split: prod.splits sum.splits) (metis fst_conv sum.simps(6))

lemma never_signature_succeeds:
  assumes "never_returns m"
  shows "never_returns (signature_succeeds env False p m)"
proof -
  have "never_returns (handle_signature_validation_error env e False p)" for e
    unfolding handle_signature_validation_error_def thenM_def by (simp add: never_bindM2)
  then show ?thesis unfolding signature_succeeds_def thenM_def
    using assms by (auto intro!: never_tryM never_bindM1 split: if_splits)
qed

lemma use_existing_unverified:
  fixes s :: "'a wire_scheme"
  assumes "nothing_verifies env p sig"
  shows "case fst (use_existing_package env p d sig True False s) of Inl _ \<Rightarrow> True | Inr a \<Rightarrow> a = (False, False)"
proof -
  have "never_returns (signature_succeeds env False (Some p) (thenM (validate_package env p sig) (returnM True)) :: ('a wire_scheme, bool) op)"
    unfolding thenM_def by (intro never_signature_succeeds never_bindM1 never_validate_package assms)
  then obtain e where "fst (signature_succeeds env False (Some p) (thenM (validate_package env p sig) (returnM True)) s) = Inl e"
    by (auto simp: never_returns_def isl_def)
  then show ?thesis by (auto simp: use_existing_package_def bindM_def getM_def returnM_def split: prod.splits)
qed

lemma never_download_new_package:
  "sig \<noteq> '''' \<Longrightarrow> nothing_verifies env p sig \<Longrightarrow> never_returns (download_new_package env n uris p d sig True False)"
  unfolding download_new_package_def thenM_def
  by (intro never_signature_succeeds never_bindM2 [where m = "with_package _ _ _"] never_bindM1) (simp add: never_download_zip_package)

lemma bind_inst_never: "never_returns (f (x_inst s)) \<Longrightarrow> isl (fst (bindM (getM x_inst) f s))"
  by (simp add: never_returns_def bindM_def getM_def)

lemma download_rejects:
  fixes s :: "'a ext_world_scheme"
  assumes "nothing_verifies env [get_extension_package_zipfile_name (x_inst s)] (eh_encoded_signature (hi_handler (x_inst s)))"
  shows "isl (fst (download env False s))"
proof -
  let ?i = "x_inst s" and ?p = "[get_extension_package_zipfile_name (x_inst s)]" and ?sig = "eh_encoded_signature (hi_handler (x_inst s))"
  have "never_returns (bindM (use_existing_package env ?p (get_base_dir ?i) ?sig True False) (\<lambda>(package_exists, valid).
           bindM (if package_exists then returnM valid
                  else download_new_package env (get_full_name ?i None) (pk_uris pkg) ?p (get_base_dir ?i) ?sig True False) f))"
    if "?sig \<noteq> ''''" for pkg and f :: "bool \<Rightarrow> ('a ext_world_scheme, unit) op"
    by (rule never_bindM_if [OF use_existing_unverified [OF assms]]) (simp add: never_bindM1 never_download_new_package that assms)
  moreover have "bindM (returnM True) f = f True" for f :: "bool \<Rightarrow> ('a ext_world_scheme, unit) op"
    by (rule ext) (simp add: bindM_def returnM_def)
  ultimately show ?thesis unfolding download_def thenM_def
    by (intro bind_inst_never never_bindM2) (auto simp: Let_def split: option.split)
qed

lemma beyond_inst: "beyond (\<lambda>s :: 'a ext_world_scheme. x_inst s = i)"
  unfolding beyond_def
proof (intro allI impI)
  fix s t :: "'a ext_world_scheme" assume "fs.more s = fs.more t" "x_inst s = i"
  then show "x_inst t = i" by (cases s; cases t; simp)
qed

lemma steady_launched: "steady (\<lambda>s. x_launched s = l)"
  by (simp add: steady_def)

lemma setup_rejects:
  fixes s :: "'a ext_handlers_scheme"
  assumes "nothing_verifies env [get_extension_package_zipfile_name (x_inst s)] (eh_encoded_signature (hi_handler (x_inst s)))"
  shows "\<exists>e t. setup_new_handler env ext False s = (Inl e, t) \<and> x_launched t = x_launched s"
proof -
  obtain r t where rt: "set_handler_state env (x_inst s) NotInstalled s = (r, t)" by fastforce
  then have "x_inst t = x_inst s"
    using preservesD [OF beyond_set_state(2) [OF beyond_inst], of s "x_inst s" env "x_inst s" NotInstalled] by simp
  then have "isl (fst (download env False t))" using download_rejects [of env t] assms by simp
  then have "isl (fst (setup_new_handler env ext False s))"
    using rt by (auto simp: setup_new_handler_def thenM_def bindM_def getM_def isl_def split: prod.splits sum.splits)
  moreover have "x_launched (snd (setup_new_handler env ext False s)) = x_launched s"
    using preservesD [OF steady_setup [OF steady_launched], of s "x_launched s"] by simp
  ultimately show ?thesis by (metis isl_def prod.collapse)
qed

lemma enable_new_rejects:
  fixes s :: "'a ext_handlers_scheme"
  assumes "nothing_verifies env [get_extension_package_zipfile_name (x_inst s)] (eh_encoded_signature (hi_handler (x_inst s)))"
    and "\<not> ye_ignore_signature_errors env \<or> should_enforce_signature_validation (y_policy s) (eh_name (hi_handler (x_inst s)))"
  shows "\<exists>e t. enable_new_handler env old ext s = (Inl e, t) \<and> x_launched t = x_launched s"
proof -
  let ?i = "x_inst s"
  obtain r where check: "check_policy (eh_name (hi_handler ?i)) (eh_encoded_signature (hi_handler ?i) \<noteq> '''') ExtensionUnsignedError s = (r, s)"
    using preservesD [OF steady_policy(1), of "\<lambda>t. t = s" s] by (metis prod.collapse)
  obtain e t where rejected: "setup_new_handler env ext False s = (Inl e, t)" "x_launched t = x_launched s"
    using setup_rejects [OF assms(1)] by blast
  have "should_ignore_ext_signature_validation_errors env ?i s = (Inr False, s)"
    using assms(2) by (auto simp: should_ignore_ext_signature_validation_errors_def getM_def)
  then show ?thesis using check rejected
    by (cases r) (auto simp: enable_new_handler_def thenM_def bindM_def getM_def)
qed

section \<open>Extensions that are not processed\<close>

lemma wp_preserves:
  "preserves R m \<Longrightarrow> R s \<Longrightarrow> (\<And>a t. R t \<Longrightarrow> Q a t) \<Longrightarrow> (\<And>e t. R t \<Longrightarrow> E e t) \<Longrightarrow> wp m Q E s"
  by (rule wpI) (metis preservesD snd_conv)+

definition unlaunched :: "launch list \<Rightarrow> policy_engine \<Rightarrow> 'a ext_handlers_scheme \<Rightarrow> bool" where
  "unlaunched l p s \<longleftrightarrow> x_launched s = l \<and> y_policy s = p"

lemma steady_unlaunched [simp]: "steady (unlaunched l p)"
  by (simp add: steady_def unlaunched_def)

lemma unlaunched_inst [simp]: "unlaunched l p (s\<lparr>x_inst := i\<rparr>) = unlaunched l p s"
  by (simp add: unlaunched_def)

text \<open>Why an extension is not processed.\<close>

definition unprocessed :: "'x handlers_env_scheme \<Rightarrow> policy_engine \<Rightarrow> exn option \<Rightarrow> string option \<Rightarrow> bool" where
  "unprocessed env p policy_failure depends_on \<longleftrightarrow>
     \<not> ye_extensions_enabled env \<or> policy_failure \<noteq> None \<and> policy_enforcement_enabled p \<or> depends_on \<noteq> None"

lemma idle_extension:
  assumes "unprocessed env p pf dep" and "unlaunched l p s"
  shows "wp (process_extension env w m pf dep (ext, k)) (\<lambda>d t. unlaunched l p t \<and> d = dep) (\<lambda>_. unlaunched l p) s"
proof -
  let ?U = "unlaunched l p"
  have refuse: "wp (handle_ext_disallowed_error env k c msg ext) (\<lambda>_. wp (returnM d) (\<lambda>d' t. ?U t \<and> d' = d) (\<lambda>_. ?U)) (\<lambda>_. ?U) t"
    "wp (report_dependency_error env msg ext) (\<lambda>_. wp (returnM d) (\<lambda>d' t. ?U t \<and> d' = d) (\<lambda>_. ?U)) (\<lambda>_. ?U) t"
    if "?U t" for c msg t d
    by (rule wp_preserves [where R = ?U], intro steady_intros steady_unlaunched, rule that, simp_all add: wp_simps)+
  show ?thesis
    unfolding process_extension_def prod.case wp_simps
  proof (rule wp_preserves [where R = ?U, OF keeps_new_instance(3) assms(2)], goal_cases)
    case (1 i t)
    then have "y_policy t = p" "?U (t\<lparr>x_inst := i\<rparr>)" by (simp_all add: unlaunched_def)
    with assms(1) show ?case
      by (simp add: wp_simps wp_liftR unprocessed_def refuse split: sum.split option.split) auto
  qed
qed

lemma idle_extensions:
  "unprocessed env p pf dep \<Longrightarrow> preserves (unlaunched l p) (process_extensions env w m pf dep items)"
proof (induction items)
  case (Cons item items)
  obtain ext k where item: "item = (ext, k)" by (cases item)
  show ?case
  proof (rule preservesI)
    fix s :: "'b ext_handlers_scheme" assume "unlaunched l p s"
    then have "wp (process_extensions env w m pf dep (item # items)) (\<lambda>_. unlaunched l p) (\<lambda>_. unlaunched l p) s"
      unfolding item process_extensions.simps wp_simps
      by (rule wp_mono [OF idle_extension [OF Cons.prems]]) (auto intro: wp_preserves [OF Cons.IH [OF Cons.prems]])
    then show "unlaunched l p (snd (process_extensions env w m pf dep (item # items) s))" by (simp add: wp_state_only)
  qed
qed (simp add: preserves_pure)

lemma update_policy_raises_enforced:
  assumes "update_policy env p = (Inl e, p')"
  shows "policy_enforcement_enabled p'"
proof -
  have "get_policy_enforcement_enabled env" using assms update_policy_off [of env p] by (cases "get_policy_enforcement_enabled env") auto
  then show ?thesis using assms
    by (auto simp: update_policy_def read_policy_def op_defs split: prod.splits sum.splits option.splits if_splits)
qed

lemma idle_handlers:
  assumes "\<not> ye_extensions_enabled env \<or> isl (fst (update_policy (ye_policy env) (y_policy s)))"
  shows "x_launched (snd (handle_ext_handlers env s)) = x_launched s"
proof (cases "y_handlers s = None \<or> y_handlers s = Some []")
  case False
  then obtain hs where hs: "y_handlers s = Some hs" "hs \<noteq> []" by (cases "y_handlers s") auto
  obtain r p where upd: "update_policy (ye_policy env) (y_policy s) = (r, p)" by fastforce
  have idle: "x_launched (snd (process_extensions env w m pf None items (s\<lparr>y_policy := p\<rparr>))) = x_launched s"
    if "\<not> ye_extensions_enabled env \<or> pf \<noteq> None \<and> policy_enforcement_enabled p" for w m pf items
    using preservesD [OF idle_extensions [of env p pf None], of "x_launched s" "s\<lparr>y_policy := p\<rparr>"] that
    by (auto simp: unprocessed_def unlaunched_def)
  show ?thesis
  proof (cases r)
    case (Inl e)
    then have "policy_enforcement_enabled p" using upd update_policy_raises_enforced by blast
    then show ?thesis using Inl upd hs by (simp add: handle_ext_handlers_def refresh_policy_def bindM_def getM_def Let_def idle)
  next
    case (Inr u)
    then have "\<not> ye_extensions_enabled env" using assms upd by simp
    then show ?thesis using Inr upd hs by (simp add: handle_ext_handlers_def refresh_policy_def bindM_def getM_def Let_def idle)
  qed
qed (auto simp: handle_ext_handlers_def bindM_def getM_def returnM_def)

lemma steady_find_outdated [steady_intros]: "preserves R (find_outdated env names items)"
  by (induction items)
    (auto simp: get_ext_handler_instance_from_path_def intro!: preserves_intros steady_intros split: if_splits prod.splits option.splits)

lemma steady_cleanup [steady_intros]: "steady R \<Longrightarrow> preserves R (cleanup_outdated_handlers env)"
  unfolding cleanup_outdated_handlers_def remove_logged_def by (auto intro!: steady_rules steady_intros split: option.splits)

lemma steady_set_aggregate [steady_intros]: "steady R \<Longrightarrow> preserves R (set_gs_aggregate st n c m)"
  unfolding set_gs_aggregate_def by (auto intro!: steady_rules)

section \<open>The order of commands\<close>

text \<open>
  What a step may have launched so far: \<open>climbs a b m\<close> says that \<open>m\<close> starts after commands of ranks below \<open>a\<close> and ends with commands of ranks
  below \<open>b\<close>, in their order.
\<close>

definition cmd_rank :: "launch \<Rightarrow> nat" where
  "cmd_rank l = (if la_cmd_name l = ''disable'' then 0 else if la_cmd_name l = ''update'' then 1 else if la_cmd_name l = ''uninstall'' then 2
     else if la_cmd_name l = ''install'' then 3 else if la_cmd_name l = ''enable'' then 4 else 5)"

definition ordered_commands :: "launch list \<Rightarrow> bool" where
  "ordered_commands cs = sorted_wrt (\<lambda>a b. cmd_rank a < cmd_rank b \<or> cmd_rank a = 0 \<and> cmd_rank b = 0) cs"

definition launched_to :: "nat \<Rightarrow> launch list \<Rightarrow> 'a ext_world_scheme \<Rightarrow> bool" where
  "launched_to n l s \<longleftrightarrow> (\<exists>cs. x_launched s = l @ cs \<and> ordered_commands cs \<and> (\<forall>c \<in> set cs. cmd_rank c < n))"

definition climbs :: "nat \<Rightarrow> nat \<Rightarrow> ('a ext_world_scheme, 'r) op \<Rightarrow> bool" where
  "climbs a b m \<longleftrightarrow> (\<forall>l s. launched_to a l s \<longrightarrow> launched_to b l (snd (m s)))"

lemma launched_to_mono: "launched_to a l s \<Longrightarrow> a \<le> b \<Longrightarrow> launched_to b l s"
  unfolding launched_to_def by (metis order_less_le_trans)

lemma steady_launched_to: "steady (launched_to n l :: 'a ext_handlers_scheme \<Rightarrow> bool)"
  by (auto simp: steady_def launched_to_def)

lemma climbs_weaken: "climbs a b m \<Longrightarrow> a' \<le> a \<Longrightarrow> b \<le> b' \<Longrightarrow> climbs a' b' m"
  unfolding climbs_def by (meson launched_to_mono)

lemma climbs_bindM: "climbs a b m \<Longrightarrow> (\<And>x. climbs b c (f x)) \<Longrightarrow> b \<le> c \<Longrightarrow> climbs a c (bindM m f)"
  unfolding climbs_def by (fastforce simp: bindM_def split: prod.splits sum.splits dest: launched_to_mono)

lemma climbs_thenM: "climbs a b m \<Longrightarrow> climbs b c n \<Longrightarrow> b \<le> c \<Longrightarrow> climbs a c (thenM m n)"
  unfolding thenM_def by (rule climbs_bindM)

lemma climbs_tryM: "climbs a b m \<Longrightarrow> (\<And>e k. h e = Some k \<Longrightarrow> climbs b b k) \<Longrightarrow> climbs a b (tryM m h)"
  unfolding climbs_def by (fastforce simp: tryM_def split: prod.splits sum.splits option.splits)

lemma climbs_preserves: "(\<And>l. preserves (launched_to n l) m) \<Longrightarrow> climbs n n m"
  by (simp add: climbs_def preserves_def)

lemma preserves_climbs: "climbs n n m \<Longrightarrow> preserves (launched_to n l) m"
  by (simp add: climbs_def preserves_def)

text \<open>A step that launches nothing, before or after one that does.\<close>

lemma climbs_after: "(\<And>l. preserves (launched_to a l) m) \<Longrightarrow> (\<And>x. climbs a b (f x)) \<Longrightarrow> a \<le> b \<Longrightarrow> climbs a b (bindM m f)"
  by (rule climbs_bindM [OF climbs_preserves])

lemma climbs_after_then: "(\<And>l. preserves (launched_to a l) m) \<Longrightarrow> climbs a b n \<Longrightarrow> a \<le> b \<Longrightarrow> climbs a b (thenM m n)"
  by (rule climbs_thenM [OF climbs_preserves])

lemma climbs_before: "climbs a b m \<Longrightarrow> (\<And>l x. preserves (launched_to b l) (f x)) \<Longrightarrow> climbs a b (bindM m f)"
  by (rule climbs_bindM) (auto intro: climbs_preserves)

lemma climbs_before_then: "climbs a b m \<Longrightarrow> (\<And>l. preserves (launched_to b l) n) \<Longrightarrow> climbs a b (thenM m n)"
  by (rule climbs_thenM) (auto intro: climbs_preserves)

lemma launched_to_launch:
  assumes "launched_to n l s" and "x_launched t = x_launched s @ [c]" and "n \<le> cmd_rank c \<or> n = 1 \<and> cmd_rank c = 0"
  shows "launched_to (Suc (cmd_rank c)) l t"
proof -
  obtain cs where cs: "x_launched s = l @ cs" "ordered_commands cs" "\<forall>c \<in> set cs. cmd_rank c < n"
    using assms(1) by (auto simp: launched_to_def)
  have "x_launched t = l @ (cs @ [c])" using assms(2) cs(1) by simp
  moreover have "ordered_commands (cs @ [c])" using cs(2,3) assms(3) by (fastforce simp: ordered_commands_def sorted_wrt_append)
  moreover have "\<forall>d \<in> set (cs @ [c]). cmd_rank d < Suc (cmd_rank c)" using cs(3) assms(3) by fastforce
  ultimately show ?thesis unfolding launched_to_def by blast
qed

lemma climbs_launch:
  fixes env :: "'x ext_env_scheme"
  assumes "\<And>d c t k e. cmd_rank \<lparr>la_dir = d, la_command = c, la_cmd_name = name, la_timeout = t, la_error_code = k, la_env = e\<rparr> = r"
    and "n \<le> r \<or> n = 1 \<and> r = 0"
  shows "climbs n (Suc r) (launch_command env i cmd name timeout code vars ext :: ('a ext_handlers_scheme, unit) op)"
proof -
  have start: "climbs n (Suc r) (start_command env c :: ('a ext_handlers_scheme, unit) op)" if "cmd_rank c = r" for c
    unfolding climbs_def
  proof (intro allI impI)
    fix l and s :: "'a ext_handlers_scheme" assume "launched_to n l s"
    then show "launched_to (Suc r) l (snd (start_command env c s))"
      using launched_to_launch [of n l s "snd (start_command env c s)" c] that assms(2) by (simp add: start_command_def split: prod.split)
  qed
  have le: "n \<le> Suc r" using assms(2) by auto
  have raise: "climbs n (Suc r) (raiseM e :: ('a ext_handlers_scheme, unit) op)" for e
    by (rule climbs_weaken [OF climbs_preserves [OF preserves_pure(2)] order_refl le])
  have run: "climbs n (Suc r) (on_io_error (start_command env c) (\<lambda>e. raiseM (g e)) :: ('a ext_handlers_scheme, unit) op)" if "cmd_rank c = r" for c g
    unfolding on_io_error_def
    by (rule climbs_tryM [OF start [OF that]]) (auto intro!: climbs_preserves preserves_pure split: if_splits)
  show ?thesis unfolding launch_command_def
    by (intro climbs_after_then climbs_after keeps_reads preserves_pure le) (auto intro!: raise run assms(1) split: json.split)
qed

lemmas keep_launched = steady_intros steady_launched_to

lemma climbs_commands:
  fixes env :: "'x ext_env_scheme"
  shows climbs_disable: "climbs 1 1 (disable env i ext ign :: ('a ext_handlers_scheme, unit) op)"
    and climbs_update: "climbs 1 2 (update env i u v ext codes :: ('a ext_handlers_scheme, unit) op)"
    and climbs_uninstall: "climbs 2 3 (uninstall env i ext :: ('a ext_handlers_scheme, unit) op)"
    and climbs_install: "climbs 3 4 (install env i c ext :: ('a ext_handlers_scheme, unit) op)"
    and climbs_enable: "climbs 4 5 (enable env i ext c :: ('a ext_handlers_scheme, unit) op)"
proof -
  have 0: "climbs 1 1 (launch_command env i cmd ''disable'' t k vars ext :: ('a ext_handlers_scheme, unit) op)" for cmd t k vars
    using climbs_launch [of "''disable''" 0 1 env i cmd t k vars ext] by (simp add: cmd_rank_def)
  have 1: "climbs 1 2 (launch_command env i cmd ''update'' t k vars ext :: ('a ext_handlers_scheme, unit) op)" for cmd t k vars
    using climbs_launch [of "''update''" 1 1 env i cmd t k vars ext] by (simp add: cmd_rank_def numeral_2_eq_2)
  have 2: "climbs 2 3 (launch_command env i cmd ''uninstall'' t k vars ext :: ('a ext_handlers_scheme, unit) op)" for cmd t k vars
    using climbs_launch [of "''uninstall''" 2 2 env i cmd t k vars ext] by (simp add: cmd_rank_def)
  have 3: "climbs 3 4 (launch_command env i cmd ''install'' t k vars ext :: ('a ext_handlers_scheme, unit) op)" for cmd t k vars
    using climbs_launch [of "''install''" 3 3 env i cmd t k vars ext] by (simp add: cmd_rank_def)
  have 4: "climbs 4 5 (launch_command env i cmd ''enable'' t k vars ext :: ('a ext_handlers_scheme, unit) op)" for cmd t k vars
    using climbs_launch [of "''enable''" 4 4 env i cmd t k vars ext] by (simp add: cmd_rank_def)
  show "climbs 1 1 (disable env i ext ign :: ('a ext_handlers_scheme, unit) op)"
    unfolding disable_def disable_extension_def
    by (intro climbs_before_then climbs_tryM climbs_after climbs_after_then 0 keep_launched preserves_pure order_refl)
       (auto intro!: steady_rules keep_launched climbs_preserves split: option.split if_splits)
  show "climbs 1 2 (update env i u v ext codes :: ('a ext_handlers_scheme, unit) op)"
    unfolding update_def
    by (intro climbs_tryM climbs_after climbs_after_then 1 keep_launched preserves_pure)
       (auto intro!: steady_rules keep_launched climbs_preserves split: if_splits)
  show "climbs 2 3 (uninstall env i ext :: ('a ext_handlers_scheme, unit) op)"
    unfolding uninstall_def by (intro climbs_after climbs_after_then 2 keep_launched preserves_pure) simp_all
  show "climbs 3 4 (install env i c ext :: ('a ext_handlers_scheme, unit) op)"
    unfolding install_def
    by (intro climbs_after climbs_after_then climbs_before_then [OF 3] keep_launched preserves_pure) (auto intro!: steady_rules keep_launched)
  show "climbs 4 5 (enable env i ext c :: ('a ext_handlers_scheme, unit) op)"
    unfolding enable_def enable_extension_def
    by (intro climbs_before_then climbs_tryM climbs_after climbs_after_then climbs_before_then [OF 4] keep_launched preserves_pure)
       (auto intro!: steady_rules keep_launched climbs_preserves split: if_splits)
qed

lemma climbs_old_command:
  fixes func :: "('a ext_handlers_scheme, unit) op"
  shows "climbs a b func \<Longrightarrow> a \<le> b \<Longrightarrow> climbs a b (execute_old_handler_command env i func)"
  unfolding execute_old_handler_command_def update_failed_def
  by (intro climbs_after climbs_tryM climbs_before_then)
     (auto intro!: steady_rules keep_launched climbs_preserves split: if_splits)

lemma climbs_disable_old: "climbs 1 1 (disable_old env i old codes exts :: ('a ext_handlers_scheme, (string \<times> int) list) op)"
proof (induction exts arbitrary: codes)
  case (Cons x exts)
  obtain name ext where "x = (name, ext)" by (cases x)
  then show ?case using Cons by (auto intro!: climbs_bindM [OF climbs_old_command [OF climbs_disable]] simp del: One_nat_def)
qed (auto intro!: climbs_preserves preserves_pure)

lemma climbs_update_with_install: "climbs 3 4 (update_with_install env i c ext :: ('a ext_handlers_scheme, unit) op)"
proof -
  have "climbs 3 4 (whenM b (install env i c ext) :: ('a ext_handlers_scheme, unit) op)" for b
    by (cases b) (auto simp: whenM_def climbs_install intro: climbs_weaken [OF climbs_preserves [OF preserves_pure(1)]])
  then show ?thesis unfolding update_with_install_def
    by (intro climbs_after climbs_before_then keep_launched preserves_pure) simp_all
qed

lemma climbs_update_handler:
  "climbs 1 4 (update_extension_handler_and_return_if_failed env old i ext :: ('a ext_handlers_scheme, int) op)"
proof -
  have disables: "climbs 1 1 (if b then bindM (old_extensions env old) (disable_old env i old []) else returnM [] ::
      ('a ext_handlers_scheme, (string \<times> int) list) op)" for b
    unfolding old_extensions_def
    by (cases b) (auto intro!: climbs_preserves steady_rules keep_launched preserves_climbs [OF climbs_disable_old] simp del: One_nat_def)
  have "climbs 3 4 (thenM (remove_ext_handler env old) (thenM (update_with_install env i (Some c) ext) (returnM c)) :: ('a ext_handlers_scheme, int) op)" for c
    by (intro climbs_after_then climbs_before_then climbs_update_with_install keep_launched preserves_pure) simp
  then have "climbs 2 4 (bindM (execute_old_handler_command env i (uninstall env old ext)) (\<lambda>c.
      thenM (remove_ext_handler env old) (thenM (update_with_install env i (Some c) ext) (returnM c))) :: ('a ext_handlers_scheme, int) op)"
    by (intro climbs_bindM [OF climbs_old_command [OF climbs_uninstall]]) auto
  then have rest: "climbs 1 4 (thenM (update env j u v ext codes) (bindM (execute_old_handler_command env i (uninstall env old ext)) (\<lambda>c.
      thenM (remove_ext_handler env old) (thenM (update_with_install env i (Some c) ext) (returnM c)))) :: ('a ext_handlers_scheme, int) op)" for j u v codes
    by (rule climbs_thenM [OF climbs_update]) simp
  show ?thesis unfolding update_extension_handler_and_return_if_failed_def
    by (intro climbs_after [OF keeps_get_state(2)] climbs_bindM [OF disables] climbs_after_then [OF steady_settings(4) [OF steady_launched_to]]
        climbs_after [OF preserves_pure(3)] rest) simp_all
qed

lemma climbs_enable_handlers:
  shows climbs_enable_new: "climbs 1 4 (enable_new_handler env old ext :: ('a ext_handlers_scheme, int option) op)"
    and climbs_enable_installed: "climbs 1 4 (enable_installed_handler env' ext :: ('a ext_handlers_scheme, int option) op)"
proof -
  have none: "climbs 1 4 (returnM x :: ('a ext_handlers_scheme, int option) op)" for x
    by (rule climbs_weaken [OF climbs_preserves [OF preserves_pure(1)]]) auto
  have fresh: "climbs 1 4 (thenM (install env i None ext) (returnM None) :: ('a ext_handlers_scheme, int option) op)" for i
    by (rule climbs_weaken [OF climbs_before_then [OF climbs_install preserves_pure(1)]]) auto
  have updated: "climbs 1 4 (bindM (update_extension_handler_and_return_if_failed env o' i ext) (\<lambda>c. returnM (Some c)) ::
      ('a ext_handlers_scheme, int option) op)" for o' i
    by (rule climbs_before [OF climbs_update_handler preserves_pure(1)])
  show "climbs 1 4 (enable_new_handler env old ext :: ('a ext_handlers_scheme, int option) op)"
    unfolding enable_new_handler_def
    by (intro climbs_after climbs_after_then keep_launched preserves_pure)
       (auto intro!: none fresh updated climbs_after [OF preserves_pure(3)] climbs_after_then [OF steady_policy(1)] simp del: One_nat_def split: option.split)
  show "climbs 1 4 (enable_installed_handler env' ext :: ('a ext_handlers_scheme, int option) op)"
    unfolding enable_installed_handler_def
    by (intro climbs_after climbs_after_then keep_launched preserves_pure none) simp_all
qed

lemma climbs_handle_extension:
  assumes "\<And>x. ext = Some x \<Longrightarrow> xs_state x \<noteq> Disabled"
  shows "climbs 4 5 (handle_extension env i ext c :: ('a ext_handlers_scheme, unit) op)"
proof -
  have "climbs 4 5 (raiseM e :: ('a ext_handlers_scheme, unit) op)" for e
    by (rule climbs_weaken [OF climbs_preserves [OF preserves_pure(2)]]) auto
  then show ?thesis using assms by (auto simp: handle_extension_def climbs_enable split: option.split)
qed

lemma climbs_handle_enable:
  assumes "\<And>x. ext = Some x \<Longrightarrow> xs_state x \<noteq> Disabled"
  shows "climbs 1 5 (handle_enable env ext :: ('a ext_handlers_scheme, unit) op)"
proof -
  have either: "climbs 1 4 (if b then enable_new_handler env old ext else enable_installed_handler env ext :: ('a ext_handlers_scheme, int option) op)"
    for b old by (simp add: climbs_enable_new climbs_enable_installed del: One_nat_def)
  have after: "climbs 4 5 (bindM (getM x_inst) (\<lambda>i. handle_extension env i ext c) :: ('a ext_handlers_scheme, unit) op)" for c
    by (intro climbs_after preserves_pure climbs_handle_extension assms) simp_all
  show ?thesis unfolding handle_enable_def
    by (intro climbs_after keep_launched preserves_pure climbs_bindM [OF either after]) simp_all
qed

lemma climbs_handle_uninstall: "climbs 1 3 (handle_uninstall env ext :: ('a ext_handlers_scheme, unit) op)"
proof -
  have commands: "climbs 1 3 (thenM (whenM b (thenM (whenM c (disable env i None False))
      (bindM (enabled_extensions env i) (\<lambda>xs. forM xs (\<lambda>x. disable env i (Some x) False)))))
      (tryM (uninstall env i ext) (\<lambda>e. if is_ExtensionError e then Some (returnM ()) else None)) :: ('a ext_handlers_scheme, unit) op)" for b c i
  proof (rule climbs_thenM)
    show "climbs 1 1 (whenM b (thenM (whenM c (disable env i None False))
      (bindM (enabled_extensions env i) (\<lambda>xs. forM xs (\<lambda>x. disable env i (Some x) False)))) :: ('a ext_handlers_scheme, unit) op)"
      by (intro climbs_preserves preserves_whenM preserves_thenM preserves_bindM preserves_forM keep_launched preserves_climbs [OF climbs_disable])
    show "climbs 1 3 (tryM (uninstall env i ext) (\<lambda>e. if is_ExtensionError e then Some (returnM ()) else None) :: ('a ext_handlers_scheme, unit) op)"
      by (rule climbs_tryM [OF climbs_weaken [OF climbs_uninstall]]) (auto intro!: climbs_preserves preserves_pure split: if_splits)
  qed simp
  have "climbs 1 3 (whenM a (thenM (check_policy n s e) (thenM (whenM b (thenM (whenM c (disable env i None False))
      (bindM (enabled_extensions env i) (\<lambda>xs. forM xs (\<lambda>x. disable env i (Some x) False)))))
      (tryM (uninstall env i ext) (\<lambda>e. if is_ExtensionError e then Some (returnM ()) else None)))) :: ('a ext_handlers_scheme, unit) op)" for a n s e b c i
    using climbs_after_then [OF steady_policy(1) commands] climbs_weaken [OF climbs_preserves [OF preserves_pure(1)], of 1 1 3]
    by (cases a) (simp_all add: whenM_def)
  then show ?thesis unfolding handle_uninstall_def
    by (intro climbs_after climbs_before_then keep_launched preserves_pure) simp_all
qed

lemma climbs_handle:
  assumes "\<And>x. ext = Some x \<Longrightarrow> xs_state x \<noteq> Disabled"
  shows "climbs 1 5 (handle_ext_handler env k ext :: ('a ext_handlers_scheme, bool) op)"
proof -
  have raise: "climbs 1 5 (raiseM e :: ('a ext_handlers_scheme, 'r) op)" for e
    by (rule climbs_weaken [OF climbs_preserves [OF preserves_pure(2)]]) auto
  have "climbs 1 5 (handle_disable env ext :: ('a ext_handlers_scheme, unit) op)"
    unfolding handle_disable_def
    by (rule climbs_weaken [of 1 1], intro climbs_preserves preserves_bindM preserves_whenM preserves_pure keep_launched preserves_climbs [OF climbs_disable]) simp_all
  moreover have "climbs 1 5 (handle_enable env ext :: ('a ext_handlers_scheme, unit) op)" by (rule climbs_handle_enable) (rule assms)
  ultimately have "climbs 1 5 (perform_requested env st ext :: ('a ext_handlers_scheme, unit) op)" for st
    unfolding perform_requested_def
    by (auto intro: climbs_weaken [OF climbs_handle_uninstall] raise simp del: One_nat_def)
  then have "climbs 1 5 (thenM (perform_requested env st ext) (returnM True) :: ('a ext_handlers_scheme, bool) op)" for st
    by (rule climbs_before_then) (rule preserves_pure)
  then show ?thesis unfolding handle_ext_handler_def
    by (intro climbs_tryM)
       (auto intro!: climbs_after climbs_after_then keep_launched raise climbs_preserves steady_rules simp del: One_nat_def split: option.split if_splits)
qed

section \<open>Properties\<close>

text \<open>
  C4: Handling an extension that the policy does not allow, to enable or to
  uninstall it (in any requested state but \<^verbatim>\<open>disabled\<close>), hands no command to the operating system: not of the version in the goal state, and
  not of a version that is already installed.
\<close>

theorem disallowed_extension_runs_nothing:
  assumes "\<not> should_allow_extension (y_policy s) (eh_name (hi_handler (x_inst s)))"
    and "eh_state (hi_handler (x_inst s)) \<noteq> Some Disabled"
  shows "x_launched (snd (handle_ext_handler env k ext s)) = x_launched s"
  using held_back_handle [OF assms(1) _ assms(2), of "x_launched s" env k ext] by (simp add: held_back_def)

text \<open>A machine whose policy allows listed extensions only, and one extension that is not on the list.\<close>

definition sample_handlers_env :: handlers_env where
  "sample_handlers_env = \<lparr>ne_conf = sample_http_conf, ne_exchange = (\<lambda>_. sample_exchange), ne_elapsed = (\<lambda>_. 1000), ne_io = (\<lambda>_ _. None),
     ne_show = (\<lambda>_. ''error''), ne_dumps = (\<lambda>_. ''{}''), ne_loads = (\<lambda>_. Inr (JObj [])), ne_b64encode = id, ne_utc = (\<lambda>_. ''now''),
     we_endpoint = ''168.63.129.16'', we_shuffle = rev, we_parse_doc = (\<lambda>_. Inl ValueError), we_unzip = (\<lambda>_. (None, [], [])),
     we_sig = (\<lambda>_. sample_sig_env\<lparr>b64decode := (\<lambda>_. Inl ValueError)\<rparr>), we_lib_dir = ''/var/lib/waagent'',
     xe_run = (\<lambda>_ _ d. (None, d, 1)), xe_background = (\<lambda>_ d. d), xe_mtime = (\<lambda>_ _. Inr 0), xe_parse_manifest = (\<lambda>_. Inr []),
     xe_py_repr = (\<lambda>_. ''''), xe_fast_track = False, xe_ext_log_dir = ''/var/log/azure'',
     ye_policy = sample_env, ye_extensions_enabled = True, ye_ignore_signature_errors = True, ye_overprovisioning = False,
     ye_auto_update = True, ye_ga_versioning = True\<rparr>"

definition sample_extension :: extension where
  "sample_extension = \<lparr>eh_name = ''Other.Ext'', eh_version = ''1.0'', eh_state = Some Enabled, eh_settings = [], eh_manifest_uris = [''http://host/manifest''],
     eh_supports_multi_config = False, eh_encoded_signature = ''c2ln'', eh_invalid_setting_reason = None\<rparr>"

definition sample_handlers :: ext_handlers where
  "sample_handlers = \<lparr>fs_files = [], fs_dirs = [], n_http = sample_http_state, n_requests = 0, n_now = 0,
     g_plugin = new_host_plugin ''168.63.129.16'', g_default_channel = False, w_sig = sample_sig_state,
     x_inst = \<lparr>hi_handler = sample_extension, hi_pkg = None, hi_pkg_file = None, hi_signature_validated = JBool False, hi_operation = None, hi_old = False\<rparr>,
     x_launched = [], y_handlers = Some [sample_extension],
     y_policy = \<lparr>policy_enforcement_enabled = True, policy = sample_policy, goal_state_history = []\<rparr>,
     y_run = 0, y_disallowed = [], y_gs_aggregate = None, y_report_error = new_error_state 0\<rparr>"

lemma sample_not_allowed: "\<not> should_allow_extension (y_policy sample_handlers) ''Other.Ext''"
  by (simp add: should_allow_extension_def individual_policy_def sample_handlers_def sample_policy_def) code_simp

theorem disallowed_extension_runs_nothing_witness:
  "eh_state (hi_handler (x_inst sample_handlers)) = Some Enabled \<and>
   x_launched (snd (handle_ext_handler sample_handlers_env 0 None sample_handlers)) = []"
proof -
  have "eh_name (hi_handler (x_inst sample_handlers)) = ''Other.Ext''" "eh_state (hi_handler (x_inst sample_handlers)) = Some Enabled"
    "x_launched sample_handlers = []"
    by (simp_all add: sample_handlers_def sample_extension_def)
  then show ?thesis
    using disallowed_extension_runs_nothing [of sample_handlers sample_handlers_env 0 None] sample_not_allowed
    by (simp add: Enabled_def Disabled_def)
qed

text \<open>
  The legacy request to disable an extension is the exception: its command is run although the policy does not allow the extension.
\<close>

definition sample_installed :: ext_handlers where
  "sample_installed = sample_handlers\<lparr>fs_files := [([''Other.Ext-1.0'', ''config'', ''HandlerState''], ''Enabled''),
     ([''Other.Ext-1.0'', ''HandlerManifest.json''], ''{}'')], fs_dirs := [[''Other.Ext-1.0''], [''Other.Ext-1.0'', ''config'']]\<rparr>"

definition sample_manifest_env :: handlers_env where
  "sample_manifest_env = sample_handlers_env\<lparr>ne_loads :=
     \<lambda>_. Inr (JList [JObj [(''handlerManifest'', JObj [(''disableCommand'', JStr ''disable.sh'')])]])\<rparr>"

lemma disable_runs_despite_policy:
  "\<not> should_allow_extension (y_policy sample_installed) (eh_name (hi_handler (x_inst sample_installed))) \<and>
   map la_cmd_name (x_launched (snd (perform_requested sample_manifest_env (Some Disabled) None sample_installed))) = [''disable'']"
proof
  show "\<not> should_allow_extension (y_policy sample_installed) (eh_name (hi_handler (x_inst sample_installed)))"
    using sample_not_allowed by (simp add: sample_installed_def sample_handlers_def sample_extension_def)
  show "map la_cmd_name (x_launched (snd (perform_requested sample_manifest_env (Some Disabled) None sample_installed))) = [''disable'']"
    by code_simp
qed

text \<open>
  C6: A new extension whose package does not verify is never run. When signature validation errors are not to
  be ignored, by configuration or by the policy for this extension, the version to enable is not installed, and no contents of its package file
  pass the validation, then enabling it fails without handing any command to the operating system, of this version or of another one: whatever the
  network does, and also if the package is already there or there is no signature.
\<close>

theorem unverified_extension_not_run:
  assumes "\<not> ye_ignore_signature_errors env \<or> should_enforce_signature_validation (y_policy s) (eh_name (hi_handler (x_inst s)))"
    and "\<not> is_file s (get_conf_dir (x_inst s) @ [''HandlerState''])"
    and "nothing_verifies env [get_extension_package_zipfile_name (x_inst s)] (eh_encoded_signature (hi_handler (x_inst s)))"
  shows "isl (fst (handle_enable env ext s)) \<and> x_launched (snd (handle_enable env ext s)) = x_launched s"
proof -
  obtain r where installed: "get_installed_ext_handler env (x_inst s) s = (r, s)"
    using preservesD [OF keeps_get_installed(2), of "\<lambda>t. t = s" s] by (metis prod.collapse)
  have state: "get_handler_state env (x_inst s) s = (Inr NotInstalled, s)"
    using assms(2) by (simp add: get_handler_state_def handler_state_file_name_def get_state_def Let_def op_defs)
  show ?thesis
  proof (cases r)
    case (Inr old)
    obtain e t where "enable_new_handler env old ext s = (Inl e, t)" "x_launched t = x_launched s"
      using enable_new_rejects [OF assms(3,1)] by blast
    with Inr installed state show ?thesis by (simp add: handle_enable_def bindM_def getM_def)
  qed (use installed in \<open>simp add: handle_enable_def bindM_def getM_def\<close>)
qed

theorem unverified_extension_not_run_witness:
  "isl (fst (handle_enable sample_handlers_env None sample_handlers)) \<and>
   x_launched (snd (handle_enable sample_handlers_env None sample_handlers)) = []"
proof -
  have "nothing_verifies sample_handlers_env p sig" for p sig
    by (auto simp: nothing_verifies_def sample_handlers_env_def validate_signature_def write_signature_to_file_def signature_failure_def
        cleanup_signature_file_def op_defs)
  moreover have "should_enforce_signature_validation (y_policy sample_handlers) (eh_name (hi_handler (x_inst sample_handlers)))"
    by (simp add: should_enforce_signature_validation_def individual_policy_def sample_handlers_def sample_policy_def sample_extension_def) code_simp
  moreover have "\<not> is_file sample_handlers p" for p by (simp add: is_file_def sample_handlers_def)
  moreover have "x_launched sample_handlers = []" by (simp add: sample_handlers_def)
  ultimately show ?thesis using unverified_extension_not_run [of sample_handlers_env sample_handlers None] by simp
qed

text \<open>
  C9: The failure of an extension that others depend on is final: once it is recorded, none of the extensions that
  are left, in whatever number, order and state, has a command of it handed to the operating system.
\<close>

theorem failed_dependency_runs_nothing:
  "x_launched (snd (process_extensions env wait_until max_dep_level policy_failure (Some message) items s)) = x_launched s"
proof -
  have "unprocessed env (y_policy s) policy_failure (Some message)" by (simp add: unprocessed_def)
  from preservesD [OF idle_extensions [OF this], of "x_launched s" s] show ?thesis by (simp add: unlaunched_def)
qed




text \<open>
  C5: The commands of an extension are run in the order of its life cycle. Handling an extension, whatever state is
  requested for the handler and whatever version is installed, and also when it fails half-way, appends to the commands launched so far a sequence of
  any number of disable commands followed by at most one of each of update, uninstall, install and enable, in this order; unless the goal state asks to
  disable a single extension of a handler that supports several.
\<close>

theorem commands_in_order:
  assumes "\<And>x. ext = Some x \<Longrightarrow> xs_state x \<noteq> Disabled"
  shows "\<exists>cs. x_launched (snd (handle_ext_handler env k ext s)) = x_launched s @ cs \<and> ordered_commands cs"
proof -
  have "launched_to 1 (x_launched s) s" by (simp add: launched_to_def ordered_commands_def)
  then show ?thesis using climbs_handle [OF assms] unfolding climbs_def launched_to_def by blast
qed

theorem commands_in_order_witness:
  "\<exists>cs. x_launched (snd (handle_ext_handler sample_handlers_env 0 (Some (new_settings ''Other.Ext'')) sample_handlers)) = cs \<and> ordered_commands cs"
proof -
  have "xs_state x \<noteq> Disabled" if "Some (new_settings ''Other.Ext'') = Some x" for x
    using that by (auto simp: new_settings_def Enabled_def Disabled_def)
  then have "\<exists>cs. x_launched (snd (handle_ext_handler sample_handlers_env 0 (Some (new_settings ''Other.Ext'')) sample_handlers)) =
      x_launched sample_handlers @ cs \<and> ordered_commands cs"
    by (rule commands_in_order)
  then show ?thesis by (simp add: sample_handlers_def)
qed

text \<open>What the goal state asks for: an extension to enable, and its level among those it depends on.\<close>

definition to_enable :: "ext_settings option \<Rightarrow> extension \<Rightarrow> bool" where
  "to_enable ext h \<longleftrightarrow> eh_state h = Some Enabled \<and> (case ext of None \<Rightarrow> True | Some x \<Rightarrow> xs_state x = Enabled)"

definition requested_level :: "ext_settings option \<Rightarrow> int" where
  "requested_level ext = (case ext of None \<Rightarrow> 0 | Some x \<Rightarrow> xs_dependency_level x)"

lemma mem_sorted_extensions:
  "(ext, k) \<in> set (sorted_extensions_for_processing hs) \<longleftrightarrow>
   k < length hs \<and> (case ext of None \<Rightarrow> eh_settings (hs ! k) = [] | Some x \<Rightarrow> x \<in> set (eh_settings (hs ! k)))"
  by (auto simp: sorted_extensions_for_processing_def split: option.split)

lemma level_of_item:
  "(ext, k) \<in> set (sorted_extensions_for_processing hs) \<Longrightarrow>
   dependency_level ext (hs ! k) = (if to_enable ext (hs ! k) then requested_level ext else - requested_level ext - 1)"
  by (auto simp: mem_sorted_extensions dependency_level_def to_enable_def requested_level_def settings_sort_key_def extension_sort_key_def Let_def
      split: option.splits)

text \<open>
  C8: Extensions are processed in the order of their dependencies. The list has every setting of every handler, and the
  handlers without settings. Whatever is to be disabled or uninstalled comes before whatever is to be enabled; what is to be enabled comes
  after what it depends on, and what is to be removed comes before what it depends on.
\<close>

theorem extensions_in_dependency_order:
  assumes "\<And>h x. h \<in> set hs \<Longrightarrow> x \<in> set (eh_settings h) \<Longrightarrow> 0 \<le> xs_dependency_level x"
  shows "sorted_wrt (\<lambda>(a, k) (b, m).
      (to_enable a (hs ! k) \<longrightarrow> to_enable b (hs ! m) \<and> requested_level a \<le> requested_level b) \<and>
      (\<not> to_enable b (hs ! m) \<longrightarrow> \<not> to_enable a (hs ! k) \<and> requested_level b \<le> requested_level a))
      (sorted_extensions_for_processing hs) \<and>
    (\<forall>ext k. (ext, k) \<in> set (sorted_extensions_for_processing hs) \<longleftrightarrow>
      k < length hs \<and> (case ext of None \<Rightarrow> eh_settings (hs ! k) = [] | Some x \<Rightarrow> x \<in> set (eh_settings (hs ! k))))"
proof -
  let ?key = "\<lambda>t. dependency_level (fst t) (hs ! snd t)" and ?items = "sorted_extensions_for_processing hs"
  have "weak_order (\<lambda>_. True) (\<lambda>x y. ?key x < ?key y)" by (rule weak_order_key [OF int_key.weak_order_axioms])
  then have sorted: "sorted_wrt (\<lambda>x y. \<not> ?key y < ?key x) ?items"
    unfolding sorted_extensions_for_processing_def by (rule weak_order.sorted_sort_by) simp
  have level: "0 \<le> requested_level a" if "(a, k) \<in> set ?items" for a k
    using that assms [OF nth_mem] by (auto simp: mem_sorted_extensions requested_level_def split: option.splits)
  let ?before = "\<lambda>(a, k) (b, m).
      (to_enable a (hs ! k) \<longrightarrow> to_enable b (hs ! m) \<and> requested_level a \<le> requested_level b) \<and>
      (\<not> to_enable b (hs ! m) \<longrightarrow> \<not> to_enable a (hs ! k) \<and> requested_level b \<le> requested_level a)"
  have before: "?before x y" if "x \<in> set ?items" "y \<in> set ?items" "\<not> ?key y < ?key x" for x y
  proof -
    obtain a k b m where xy: "x = (a, k)" "y = (b, m)" by (cases x; cases y)
    then have "0 \<le> requested_level a" "0 \<le> requested_level b" using that level by blast+
    with that xy show ?thesis by (simp add: level_of_item split: if_splits)
  qed
  have "sorted_wrt ?before ?items" by (rule sorted_wrt_mono_rel [OF before sorted])
  then show ?thesis by (simp add: mem_sorted_extensions)
qed

theorem extensions_in_dependency_order_witness:
  "let h = sample_extension; x = (new_settings ''a'')\<lparr>xs_dependency_level := 2\<rparr>; y = (new_settings ''b'')\<lparr>xs_dependency_level := 1\<rparr>;
       hs = [h\<lparr>eh_settings := [x]\<rparr>, h\<lparr>eh_settings := [y]\<rparr>]
   in sorted_extensions_for_processing hs = [(Some y, 1), (Some x, 0)] \<and> requested_level (Some y) \<le> requested_level (Some x)"
proof -
  let ?x = "(new_settings ''a'')\<lparr>xs_dependency_level := 2\<rparr>" and ?y = "(new_settings ''b'')\<lparr>xs_dependency_level := 1\<rparr>"
  let ?hs = "[sample_extension\<lparr>eh_settings := [?x]\<rparr>, sample_extension\<lparr>eh_settings := [?y]\<rparr>]"
  have run: "sorted_extensions_for_processing ?hs = [(Some ?y, 1), (Some ?x, 0)]"
    by (simp add: sorted_extensions_for_processing_def sort_by_def dependency_level_def settings_sort_key_def sample_extension_def new_settings_def)
  have "to_enable (Some ?y) (?hs ! 1)" by (simp add: to_enable_def sample_extension_def new_settings_def)
  moreover have "0 \<le> xs_dependency_level x" if "h \<in> set ?hs" "x \<in> set (eh_settings h)" for h x using that by auto
  ultimately have "requested_level (Some ?y) \<le> requested_level (Some ?x)"
    using extensions_in_dependency_order [of ?hs] run by auto
  with run show ?thesis by (simp add: Let_def)
qed

end
