(* ===== verification/Date_Time.thy ===== *)
theory Date_Time
  imports Json "HOL-Library.Char_ord" "HOL-Library.Log_Nat"
begin

text \<open>
  Times of creation of a goal state. They arrive as a count of ticks (a tick is a tenth of a microsecond, the first one at
  midnight of the first day of year 1), go through a binary floating point number of seconds and a
  \<^verbatim>\<open>datetime\<close>, and are kept and compared as text. The arithmetic of floats, \<^verbatim>\<open>timedelta\<close> and \<^verbatim>\<open>datetime\<close> is
  that of Python's library; \<open>create_utc_timestamp\<close> is \<^verbatim>\<open>common/utils/timeutil.py\<close> and
  \<open>ticks_to_utc_timestamp\<close> is in \<^verbatim>\<open>common/protocol/extensions_goal_state.py\<close>. A
  \<^verbatim>\<open>datetime\<close> in UTC is the number of microseconds since its minimum.
\<close>

section \<open>Floating point numbers\<close>

definition round_half_even :: "rat \<Rightarrow> int" where
  "round_half_even x = (let f = \<lfloor>x\<rfloor>; r = x - of_int f in
     if r < 1 / 2 \<or> r = 1 / 2 \<and> even f then f else f + 1)"

text \<open>The exponent \<open>k\<close> with \<open>2 powi k \<le> x < 2 powi (k + 1)\<close>.\<close>

definition binade :: "rat \<Rightarrow> int" where
  "binade x = (case quotient_of x of (n, d) \<Rightarrow>
     let k = bitlen n - bitlen d in if 2 powi k \<le> x then k else k - 1)"

text \<open>The nearest number with 53 significant bits; \<open>None\<close> for an overflow.\<close>

definition round_at :: "int \<Rightarrow> rat \<Rightarrow> rat" where
  "round_at e x = of_int (round_half_even (x / 2 powi e)) * 2 powi e"

definition float_limit :: rat where "float_limit = 2 powi 1024"

definition double :: "rat \<Rightarrow> rat option" where
  "double x = (if x = 0 then Some 0 else
     let r = round_at (max (binade \<bar>x\<bar> - 52) (- 1074)) \<bar>x\<bar> in
     if r < float_limit then Some (sgn x * r) else None)"

text \<open>A run of digits, which single underscores may divide.\<close>

fun digit_run :: "string \<Rightarrow> string \<times> string" where
  "digit_run [] = ([], [])"
| "digit_run (c # s) = (if \<not> is_digit c then ([], c # s) else
     (case s of
        d # e # r \<Rightarrow> if d = CHR ''_'' \<and> is_digit e then (case digit_run (e # r) of (a, t) \<Rightarrow> (c # a, t))
                     else (case digit_run s of (a, t) \<Rightarrow> (c # a, t))
      | _ \<Rightarrow> (case digit_run s of (a, t) \<Rightarrow> (c # a, t))))"

definition take_sign :: "string \<Rightarrow> bool \<times> string" where
  "take_sign s = (case s of
     c # r \<Rightarrow> if c = CHR ''-'' then (True, r) else if c = CHR ''+'' then (False, r) else (False, s)
   | [] \<Rightarrow> (False, s))"

definition exponent_of_text :: "string \<Rightarrow> int option" where
  "exponent_of_text s = (case s of
     [] \<Rightarrow> Some 0
   | c # r \<Rightarrow> if c = CHR ''e'' \<or> c = CHR ''E'' then
       (case take_sign r of (neg, t) \<Rightarrow> case digit_run t of (x, u) \<Rightarrow>
          if x = [] \<or> u \<noteq> [] then None else Some (if neg then - int (str_nat x) else int (str_nat x)))
     else None)"

definition decimal_of_text :: "string \<Rightarrow> rat option" where
  "decimal_of_text t =
     (case take_sign (strip t) of (neg, s1) \<Rightarrow> case digit_run s1 of (a, s2) \<Rightarrow>
      case (if startswith s2 ''.'' then digit_run (tl s2) else ([], s2)) of (b, s3) \<Rightarrow>
      if a = [] \<and> b = [] then None
      else map_option (\<lambda>e. (if neg then - 1 else 1) * of_nat (str_nat (a @ b)) * 10 powi (e - int (length b)))
             (exponent_of_text s3))"

text \<open>
  \<^verbatim>\<open>float(v)\<close>; \<open>None\<close> when it raises or is not finite, which no caller tells apart.
\<close>

fun py_float :: "json \<Rightarrow> rat option" where
  "py_float (JInt i) = double (of_int i)"
| "py_float (JBool b) = Some (if b then 1 else 0)"
| "py_float (JFloat r) = Some r"
| "py_float (JStr t) = (case decimal_of_text t of None \<Rightarrow> None | Some r \<Rightarrow> double r)"
| "py_float _ = None"

section \<open>Dates\<close>

definition is_leap :: "int \<Rightarrow> bool" where
  "is_leap y \<longleftrightarrow> y mod 4 = 0 \<and> (y mod 100 \<noteq> 0 \<or> y mod 400 = 0)"

definition month_lengths :: "int \<Rightarrow> int list" where
  "month_lengths y = [31, if is_leap y then 29 else 28, 31, 30, 31, 30, 31, 31, 30, 31, 30, 31]"

definition year_length :: "int \<Rightarrow> int" where
  "year_length y = (if is_leap y then 366 else 365)"

function year_of :: "int \<Rightarrow> int \<Rightarrow> int \<times> int" where
  "year_of y d = (if d < year_length y then (y, d) else year_of (y + 1) (d - year_length y))"
  by pat_completeness auto
termination
  by (relation "measure (\<lambda>(y, d). nat d)") (auto simp: year_length_def split: if_splits)

fun month_of :: "int list \<Rightarrow> int \<Rightarrow> int \<Rightarrow> int \<times> int" where
  "month_of [] m d = (m, d)"
| "month_of (l # ls) m d = (if d < l then (m, d) else month_of ls (m + 1) (d - l))"

fun pad :: "nat \<Rightarrow> int \<Rightarrow> string" where
  "pad 0 n = ''''"
| "pad (Suc k) n = pad k (n div 10) @ [digit_char (nat (n mod 10))]"

definition day_us :: int where "day_us = 86400000000"
definition MAX_DAYS :: int where "MAX_DAYS = 3652059"

definition date_text :: "int \<Rightarrow> string" where
  "date_text days = (case year_of 1 days of (y, yd) \<Rightarrow> case month_of (month_lengths y) 1 yd of (m, md) \<Rightarrow>
     pad 4 y @ ''-'' @ pad 2 m @ ''-'' @ pad 2 (md + 1))"

definition time_text :: "int \<Rightarrow> string" where
  "time_text t = pad 2 (t div 3600000000) @ '':'' @ pad 2 (t div 60000000 mod 60) @ '':'' @ pad 2 (t div 1000000 mod 60)"

definition isoformat :: "int \<Rightarrow> string" where
  "isoformat dt = date_text (dt div day_us) @ ''T'' @ time_text (dt mod day_us) @
     (if dt mod 1000000 = 0 then '''' else ''.'' @ pad 6 (dt mod 1000000))"

definition create_utc_timestamp :: "int \<Rightarrow> string" where
  "create_utc_timestamp dt = isoformat dt @ (if dt mod 1000000 = 0 then ''.000000Z'' else ''Z'')"

text \<open>\<^verbatim>\<open>timedelta(seconds=x)\<close> in microseconds, and \<^verbatim>\<open>datetime_min_utc\<close> plus it.\<close>

definition timedelta_us :: "rat \<Rightarrow> int" where
  "timedelta_us x = (let whole = (if x < 0 then \<lceil>x\<rceil> else \<lfloor>x\<rfloor>) in
     whole * 1000000 + (case double (1000000 * (x - of_int whole)) of None \<Rightarrow> 0 | Some u \<Rightarrow> round_half_even u))"

definition ticks_to_datetime :: "json \<Rightarrow> int option" where
  "ticks_to_datetime v =
     (case py_float v of None \<Rightarrow> None | Some f \<Rightarrow>
      (case double (f / 10000000) of None \<Rightarrow> None | Some x \<Rightarrow>
       (let us = timedelta_us x in if 0 \<le> us \<and> us < MAX_DAYS * day_us then Some us else None)))"

definition ticks_to_utc_timestamp :: "json \<Rightarrow> string" where
  "ticks_to_utc_timestamp ticks =
     create_utc_timestamp (case (if ticks = JNull \<or> ticks = JStr '''' then None else ticks_to_datetime ticks) of
       None \<Rightarrow> 0 | Some dt \<Rightarrow> dt)"

section \<open>Order\<close>

lemma round_half_even_bounds: "\<lfloor>x\<rfloor> \<le> round_half_even x" "round_half_even x \<le> \<lfloor>x\<rfloor> + 1"
  by (simp_all add: round_half_even_def Let_def)

lemma round_half_even_of_int [simp]: "round_half_even (of_int i) = i"
  by (simp add: round_half_even_def)

lemma round_half_even_0 [simp]: "round_half_even 0 = 0"
  using round_half_even_of_int [of 0] by simp

lemma round_half_even_mono:
  assumes "x \<le> y"
  shows "round_half_even x \<le> round_half_even y"
proof (cases "\<lfloor>x\<rfloor> = \<lfloor>y\<rfloor>")
  case True
  with assms show ?thesis by (auto simp: round_half_even_def Let_def)
next
  case False
  with assms have "\<lfloor>x\<rfloor> + 1 \<le> \<lfloor>y\<rfloor>" using floor_mono [OF assms] by linarith
  with round_half_even_bounds [of x] round_half_even_bounds [of y] show ?thesis by linarith
qed

lemma round_at_mono: "x \<le> y \<Longrightarrow> round_at e x \<le> round_at e y"
  by (simp add: round_at_def round_half_even_mono divide_right_mono)

lemma round_at_power: "e \<le> k \<Longrightarrow> round_at e (2 powi k) = 2 powi k"
proof -
  assume "e \<le> k"
  then have "(2 :: rat) powi k / 2 powi e = of_int (2 ^ nat (k - e))"
    using power_int_diff [of "2 :: rat" k e] by (simp add: power_int_def [of _ "k - e"])
  then show ?thesis by (simp only: round_at_def round_half_even_of_int) (metis nonzero_eq_divide_eq power_int_not_zero zero_neq_numeral)
qed

lemma binade_bounds:
  assumes "0 < x"
  shows "2 powi binade x \<le> x" "x < 2 powi (binade x + 1)"
proof -
  obtain n d where q: "quotient_of x = (n, d)" by (cases "quotient_of x")
  then have x: "x = of_int n / of_int d" and d: "0 < d" by (simp_all add: quotient_of_div quotient_of_denom_pos)
  with assms have n: "0 < n" by (simp add: zero_less_divide_iff)
  define k where "k = bitlen n - bitlen d"
  have pow: "2 powi (bitlen i - 1) \<le> (of_int i :: rat) \<and> of_int i < (2 :: rat) powi bitlen i" if "0 < i" for i
  proof -
    have "1 \<le> bitlen i" using that by (simp add: bitlen_def floorlog_def nat_eq_iff)
    then have "(2 :: rat) powi (bitlen i - 1) = of_int (2 ^ nat (bitlen i - 1))" "(2 :: rat) powi bitlen i = of_int (2 ^ nat (bitlen i))"
      by (simp_all add: power_int_def)
    with bitlen_bounds [OF that] show ?thesis by (simp only: of_int_le_iff of_int_less_iff)
  qed
  have "x < 2 powi bitlen n / 2 powi (bitlen d - 1)"
    unfolding x using pow [OF n] pow [OF d] d n by (intro frac_less) (auto simp: zero_less_power_int)
  then have up: "x < 2 powi (k + 1)" by (simp add: k_def algebra_simps flip: power_int_diff)
  have "2 powi (bitlen n - 1) / 2 powi bitlen d \<le> x"
    unfolding x using pow [OF n] pow [OF d] d n by (intro frac_le) (auto simp: less_imp_le)
  then have lo: "2 powi (k - 1) \<le> x" by (simp add: k_def algebra_simps flip: power_int_diff)
  show "2 powi binade x \<le> x" "x < 2 powi (binade x + 1)"
    using up lo by (auto simp: binade_def q Let_def simp flip: k_def)
qed

lemma binade_mono:
  assumes "0 < x" "x \<le> y"
  shows "binade x \<le> binade y"
proof -
  have "(2 :: rat) powi binade x < 2 powi (binade y + 1)"
    using binade_bounds(1) [of x] binade_bounds(2) [of y] assms by linarith
  then show ?thesis using power_int_increasing [of "binade y + 1" "binade x" "2 :: rat"] by (cases "binade x \<le> binade y") simp_all
qed

lemma round_at_0 [simp]: "round_at e 0 = 0"
  using round_half_even_of_int [of 0] by (simp add: round_at_def)

lemma round_at_nonneg: "0 \<le> x \<Longrightarrow> 0 \<le> round_at e x"
  using round_at_mono [of 0 x e] by simp

lemma round_scaled_mono:
  assumes "0 < x" "x \<le> y" and e: "e = max (binade x - 52) l" and f: "f = max (binade y - 52) l"
  shows "round_at e x \<le> round_at f y"
proof (cases "e = f")
  case True
  with assms(2) show ?thesis by (simp add: round_at_mono)
next
  case False
  with binade_mono [OF assms(1, 2)] e f have *: "e + 53 \<le> binade y" "f \<le> binade y" "binade x + 1 \<le> e + 53" by auto
  have "x \<le> 2 powi (e + 53)"
    using binade_bounds(2) [OF assms(1)] power_int_increasing [OF *(3), of "2 :: rat"] by simp
  then have "round_at e x \<le> 2 powi (e + 53)"
    using round_at_mono [of x "2 powi (e + 53)" e] by (simp add: round_at_power)
  also have "\<dots> \<le> 2 powi binade y" using *(1) by (simp add: power_int_increasing)
  also have "\<dots> \<le> round_at f y"
    using round_at_mono [of "2 powi binade y" y f] binade_bounds(1) [of y] assms(1, 2) *(2) by (simp add: round_at_power)
  finally show ?thesis .
qed

lemma double_mono:
  assumes "0 \<le> x" "x \<le> y" "double y = Some v"
  obtains u where "double x = Some u" "0 \<le> u" "u \<le> v"
proof (cases "x = 0")
  case True
  have "0 \<le> v" using assms by (auto simp: double_def Let_def round_at_nonneg split: if_splits)
  with True that show ?thesis by (simp add: double_def)
next
  case False
  with assms round_scaled_mono [of x y, OF _ _ refl refl] that show ?thesis
    by (fastforce simp: double_def Let_def round_at_nonneg sgn_if split: if_splits)
qed

lemma round_at_of_int:
  assumes "e \<le> 0"
  shows "round_at e (of_int i) = of_int i"
proof -
  have "(of_int i :: rat) / 2 powi e = of_int (i * 2 ^ nat (- e))"
    using assms by (cases "e = 0") (simp_all add: power_int_def field_simps)
  then show ?thesis by (simp only: round_at_def round_half_even_of_int) (metis nonzero_eq_divide_eq power_int_not_zero zero_neq_numeral)
qed

lemma double_of_int:
  assumes "0 < i" "i < 2 ^ 53"
  shows "double (of_int i) = Some (of_int i)"
proof -
  have "(of_int i :: rat) < 2 powi 53" using assms(2) of_int_less_iff [of i "2 ^ 53", where 'a = rat] by (simp add: power_int_def)
  then have "(2 :: rat) powi binade (of_int i) < 2 powi 53" using binade_bounds(1) [of "of_int i"] assms(1) by simp
  then have "binade (of_int i) \<le> 52" using power_int_increasing [of 53 "binade (of_int i)" "2 :: rat"] by (cases "binade (of_int i) \<le> 52") simp_all
  moreover have "of_int i < float_limit"
  proof -
    have "(2 :: rat) powi 53 \<le> float_limit" unfolding float_limit_def by (rule power_int_increasing) simp_all
    with \<open>of_int i < 2 powi 53\<close> show ?thesis by (rule less_le_trans)
  qed
  ultimately show ?thesis using assms(1) by (simp add: double_def round_at_of_int Let_def)
qed

lemma timedelta_us_mono:
  assumes "0 \<le> x" "x \<le> y"
  shows "timedelta_us x \<le> timedelta_us y"
proof -
  have frac: "\<exists>u. double (1000000 * (z - of_int \<lfloor>z\<rfloor>)) = Some u \<and> 0 \<le> u \<and> u \<le> 1000000" for z
  proof -
    have "double 1000000 = Some 1000000" using double_of_int [of 1000000] by simp
    moreover have "0 \<le> 1000000 * (z - of_int \<lfloor>z\<rfloor>)" "1000000 * (z - of_int \<lfloor>z\<rfloor>) \<le> 1000000"
      using of_int_floor_le [of z] floor_correct [of z] by simp_all
    ultimately show ?thesis by (blast elim: double_mono [rotated 2])
  qed
  obtain u v where u: "double (1000000 * (x - of_int \<lfloor>x\<rfloor>)) = Some u" "0 \<le> u" "u \<le> 1000000"
    and v: "double (1000000 * (y - of_int \<lfloor>y\<rfloor>)) = Some v" "0 \<le> v" "v \<le> 1000000" using frac by metis
  have r: "0 \<le> round_half_even v" "round_half_even u \<le> 1000000"
    using round_half_even_mono [OF v(2)] round_half_even_mono [OF u(3)] round_half_even_of_int [of 0] round_half_even_of_int [of 1000000] by simp_all
  show ?thesis
  proof (cases "\<lfloor>x\<rfloor> = \<lfloor>y\<rfloor>")
    case True
    have "u \<le> v"
    proof (rule double_mono [of "1000000 * (x - of_int \<lfloor>x\<rfloor>)" "1000000 * (y - of_int \<lfloor>y\<rfloor>)" v])
      show "0 \<le> 1000000 * (x - of_int \<lfloor>x\<rfloor>)" by simp
      show "1000000 * (x - of_int \<lfloor>x\<rfloor>) \<le> 1000000 * (y - of_int \<lfloor>y\<rfloor>)" using True assms by simp
    qed (use u v in simp_all)
    with True assms u v show ?thesis by (simp add: timedelta_us_def round_half_even_mono)
  next
    case False
    with assms floor_mono [OF assms(2)] have "\<lfloor>x\<rfloor> + 1 \<le> \<lfloor>y\<rfloor>" by linarith
    with assms u v r show ?thesis by (simp add: timedelta_us_def)
  qed
qed

subsection \<open>Text of fixed width\<close>

lemma less_append_iff:
  "length xs = length ys \<Longrightarrow> (xs @ us :: string) < ys @ vs \<longleftrightarrow> xs < ys \<or> xs = ys \<and> us < vs"
  by (induction xs ys rule: list_induct2) auto

lemma less_div_mod:
  fixes a b k :: int
  assumes "0 < k"
  shows "a < b \<longleftrightarrow> a div k < b div k \<or> a div k = b div k \<and> a mod k < b mod k"
proof (cases "a div k = b div k")
  case True
  then have "a < b \<longleftrightarrow> a mod k < b mod k" by (metis add_less_cancel_left div_mult_mod_eq)
  with True show ?thesis by simp
next
  case False
  then show ?thesis using assms zdiv_mono1 [of a b k] zdiv_mono1 [of b a k] by (cases "a < b") auto
qed

lemma digit_char_less_iff: "m < 10 \<Longrightarrow> n < 10 \<Longrightarrow> digit_char m < digit_char n \<longleftrightarrow> m < n"
  by (simp add: digit_char_def less_char_def)

lemma length_pad [simp]: "length (pad k n) = k"
  by (induction k arbitrary: n) simp_all

lemma pad_less_iff:
  "0 \<le> m \<Longrightarrow> m < 10 ^ k \<Longrightarrow> 0 \<le> n \<Longrightarrow> n < 10 ^ k \<Longrightarrow> pad k m < pad k n \<longleftrightarrow> m < n"
proof (induction k arbitrary: m n)
  case (Suc k)
  have IH: "pad k (i div 10) < pad k (j div 10) \<longleftrightarrow> i div 10 < j div 10" if "i \<in> {m, n}" "j \<in> {m, n}" for i j
    using that Suc.prems by (intro Suc.IH) auto
  have "pad k (m div 10) = pad k (n div 10) \<longleftrightarrow> m div 10 = n div 10"
    using IH [of m n] IH [of n m] by (metis insertCI less_irrefl linorder_less_linear)
  then show ?case
    using IH [of m n] less_div_mod [of 10 m n] by (auto simp: less_append_iff digit_char_less_iff nat_less_eq_zless)
qed simp

lemma pad_eq_iff:
  assumes "0 \<le> m" "m < 10 ^ k" "0 \<le> n" "n < 10 ^ k"
  shows "pad k m = pad k n \<longleftrightarrow> m = n"
  using pad_less_iff [of m k n] pad_less_iff [of n k m] assms by (metis less_irrefl linorder_less_linear)

lemmas pad2_iff = pad_less_iff [of _ 2, simplified] pad_eq_iff [of _ 2, simplified]

subsection \<open>Dates\<close>

declare year_of.simps [simp del]

lemma year_length_bounds: "365 \<le> year_length y" "year_length y \<le> 366"
  by (simp_all add: year_length_def)

lemma year_of_bounds:
  "0 \<le> d \<Longrightarrow> y \<le> fst (year_of y d) \<and> 0 \<le> snd (year_of y d) \<and> snd (year_of y d) < year_length (fst (year_of y d))"
proof (induction y d rule: year_of.induct)
  case (1 y d)
  then show ?case by (subst (1 2 3 4) year_of.simps) auto
qed

lemma year_of_less:
  assumes "0 \<le> d" "d < d'"
  shows "fst (year_of y d) < fst (year_of y d') \<or> fst (year_of y d) = fst (year_of y d') \<and> snd (year_of y d) < snd (year_of y d')"
  using assms
proof (induction y d arbitrary: d' rule: year_of.induct)
  case (1 y d)
  show ?case
  proof (cases "d < year_length y")
    case True
    with 1 show ?thesis
      using year_of_bounds [of "d' - year_length y" "y + 1"] by (auto simp: year_of.simps [of y])
  next
    case False
    with 1 show ?thesis by (auto simp: year_of.simps [of y])
  qed
qed

text \<open>The days before a year, as the library counts them.\<close>

definition days_before :: "int \<Rightarrow> int" where
  "days_before y = (let n = y - 1 in n * 365 + n div 4 - n div 100 + n div 400)"

lemma div_step:
  assumes "1 < k"
  shows "(y :: int) div k = (y - 1) div k + (if y mod k = 0 then 1 else 0)"
proof -
  define r where "r = (y - 1) mod k"
  have r: "0 \<le> r" "r + 1 \<le> k" using assms pos_mod_bound [of k "y - 1"] by (simp_all add: r_def add1_zle_eq)
  have "y div k = (y - 1) div k + (r + 1) div k" "y mod k = (r + 1) mod k"
    using assms div_add1_eq [of "y - 1" 1 k] mod_add_eq [of "y - 1" k 1] by (simp_all add: r_def)
  with r assms show ?thesis by (cases "r + 1 = k") (simp_all add: div_pos_pos_trivial mod_pos_pos_trivial)
qed

lemma days_before_step: "days_before (y + 1) = days_before y + year_length y"
proof -
  have count: "y * 365 + a' - b' + c' = (y - 1) * 365 + a - b + c + (if p \<and> (\<not> q \<or> r) then 366 else 365)"
    if "a' = a + (if p then 1 else 0)" "b' = b + (if q then 1 else 0)" "c' = c + (if r then 1 else 0)" "q \<Longrightarrow> p" "r \<Longrightarrow> q"
    for a b c a' b' c' :: int and p q r
    by (cases p; cases q; cases r) (use that in simp_all)
  have "y mod 100 mod 4 = y mod 4" "y mod 400 mod 100 = y mod 100" by (rule mod_mod_cancel, simp)+
  then have sub: "y mod 100 = 0 \<Longrightarrow> y mod 4 = 0" "y mod 400 = 0 \<Longrightarrow> y mod 100 = 0" by (metis mod_0)+
  have ks: "1 < (4 :: int)" "1 < (100 :: int)" "1 < (400 :: int)" by simp_all
  show ?thesis
    unfolding days_before_def year_length_def is_leap_def Let_def add_diff_cancel_right'
    by (rule count [OF div_step [OF ks(1)] div_step [OF ks(2)] div_step [OF ks(3)] sub])
qed

lemma days_before_year_of:
  "0 \<le> d \<Longrightarrow> days_before (fst (year_of y d)) + snd (year_of y d) = days_before y + d"
proof (induction y d rule: year_of.induct)
  case (1 y d)
  then show ?case by (cases "d < year_length y") (auto simp: year_of.simps [of y] days_before_step)
qed

lemma year_of_max:
  assumes "0 \<le> d" "d < MAX_DAYS"
  shows "fst (year_of 1 d) < 10000"
proof (rule ccontr)
  assume "\<not> ?thesis"
  then have "days_before 10000 \<le> days_before (fst (year_of 1 d))"
    using zdiv_mono1 [of 9999 "fst (year_of 1 d) - 1" 400]
    by (simp add: days_before_def Let_def)
  with days_before_year_of [of d 1] year_of_bounds [of d 1] assms show False
    by (simp add: days_before_def MAX_DAYS_def)
qed

lemma month_of_bounds:
  "0 \<le> d \<Longrightarrow> d < sum_list ls \<Longrightarrow> (\<And>l. l \<in> set ls \<Longrightarrow> l \<le> 31) \<Longrightarrow>
   m \<le> fst (month_of ls m d) \<and> fst (month_of ls m d) < m + int (length ls) \<and> 0 \<le> snd (month_of ls m d) \<and> snd (month_of ls m d) < 31"
proof (induction ls m d rule: month_of.induct)
  case (2 l ls m d)
  then have "l \<le> 31" by simp
  with 2 show ?case by fastforce
qed simp

lemma month_of_lower: "0 \<le> d \<Longrightarrow> m \<le> fst (month_of ls m d) \<and> 0 \<le> snd (month_of ls m d)"
  by (induction ls m d rule: month_of.induct) auto

lemma month_of_less:
  "0 \<le> d \<Longrightarrow> d < d' \<Longrightarrow> fst (month_of ls m d) < fst (month_of ls m d') \<or>
     fst (month_of ls m d) = fst (month_of ls m d') \<and> snd (month_of ls m d) < snd (month_of ls m d')"
proof (induction ls m d arbitrary: d' rule: month_of.induct)
  case (2 l ls m d)
  then show ?case using month_of_lower [of "d' - l" "m + 1" ls] by auto
qed simp

lemma month_lengths_sum: "sum_list (month_lengths y) = year_length y"
  by (simp add: month_lengths_def year_length_def)

lemma date_text_less:
  assumes "0 \<le> d" "d < d'" "d' < MAX_DAYS"
  shows "date_text d < date_text d'"
proof -
  have md: "1 \<le> fst (month_of (month_lengths (fst (year_of 1 i))) 1 (snd (year_of 1 i))) \<and>
    fst (month_of (month_lengths (fst (year_of 1 i))) 1 (snd (year_of 1 i))) < 13 \<and>
    0 \<le> snd (month_of (month_lengths (fst (year_of 1 i))) 1 (snd (year_of 1 i))) \<and>
    snd (month_of (month_lengths (fst (year_of 1 i))) 1 (snd (year_of 1 i))) < 31" if "0 \<le> i" for i
  proof -
    have "l \<le> 31" if "l \<in> set (month_lengths (fst (year_of 1 i)))" for l
      using that by (auto simp: month_lengths_def split: if_splits)
    moreover have "length (month_lengths (fst (year_of 1 i))) = 12" by (simp add: month_lengths_def)
    ultimately show ?thesis
      using month_of_bounds [of "snd (year_of 1 i)" "month_lengths (fst (year_of 1 i))" 1] year_of_bounds [OF that, of 1]
      by (simp add: month_lengths_sum)
  qed
  have y: "1 \<le> fst (year_of 1 i) \<and> fst (year_of 1 i) < 10000" if "0 \<le> i" "i < MAX_DAYS" for i
    using year_of_bounds [OF that(1), of 1] year_of_max [OF that] by simp
  show ?thesis
  proof (cases "fst (year_of 1 d) < fst (year_of 1 d')")
    case True
    with y [of d] y [of d'] assms show ?thesis
      by (simp add: date_text_def split_beta less_append_iff pad_less_iff)
  next
    case False
    with year_of_less [OF assms(1, 2), of 1] have *: "fst (year_of 1 d) = fst (year_of 1 d')" "snd (year_of 1 d) < snd (year_of 1 d')" by auto
    show ?thesis
      using month_of_less [OF _ *(2), of "month_lengths (fst (year_of 1 d'))" 1] year_of_bounds [OF assms(1), of 1] md [of d] md [of d'] assms *
      by (auto simp: date_text_def split_beta less_append_iff pad2_iff)
  qed
qed

lemma length_date_text [simp]: "length (date_text d) = 10"
  by (simp add: date_text_def split_beta)

lemma length_time_text [simp]: "length (time_text t) = 8"
  by (simp add: time_text_def)

lemma create_utc_timestamp_eq:
  "create_utc_timestamp dt = date_text (dt div day_us) @ ''T'' @ time_text (dt mod day_us) @ ''.'' @ pad 6 (dt mod 1000000) @ ''Z''"
proof -
  have "pad 6 0 = ''000000''" by code_simp
  then show ?thesis by (simp add: create_utc_timestamp_def isoformat_def)
qed

lemma time_text_seconds:
  "time_text t = (let s = t div 1000000 in pad 2 (s div 60 div 60) @ '':'' @ pad 2 (s div 60 mod 60) @ '':'' @ pad 2 (s mod 60))"
  unfolding time_text_def Let_def by (simp flip: zdiv_zmult2_eq)

lemma clock_less:
  assumes "0 \<le> h" "h < 100" "0 \<le> m" "m < 100" "0 \<le> s" "s < 100" "0 \<le> h'" "h' < 100" "0 \<le> m'" "m' < 100" "0 \<le> s'" "s' < 100"
    and "h < h' \<or> h = h' \<and> m < m' \<or> h = h' \<and> m = m' \<and> s < s'"
  shows "pad 2 h @ '':'' @ pad 2 m @ '':'' @ pad 2 s < pad 2 h' @ '':'' @ pad 2 m' @ '':'' @ pad 2 s'"
  using assms by (auto simp: less_append_iff pad2_iff)

lemma time_text_less:
  assumes "0 \<le> t" "t' < day_us" "t div 1000000 < t' div 1000000"
  shows "time_text t < time_text t'"
proof -
  define s s' where "s = t div 1000000" and "s' = t' div 1000000"
  have "t' div 1000000 < 86400"
    using assms(2) zdiv_mono1 [of t' "day_us - 1" 1000000] by (simp add: day_us_def)
  with assms have b: "0 \<le> s" "s < s'" "s' < 86400" by (simp_all add: s_def s'_def pos_imp_zdiv_nonneg_iff)
  have h: "0 \<le> i div 60 div 60 \<and> i div 60 div 60 < 100" if "0 \<le> i" "i < 86400" for i :: int
    using that zdiv_mono1 [of i 86399 3600] by (simp add: pos_imp_zdiv_nonneg_iff flip: zdiv_zmult2_eq)
  have m: "i mod 60 < 100" "0 \<le> i mod 60" for i :: int using pos_mod_bound [of 60 i] by (auto intro: order_less_trans)
  have "s div 60 div 60 < s' div 60 div 60 \<or> s div 60 div 60 = s' div 60 div 60 \<and> s div 60 mod 60 < s' div 60 mod 60 \<or>
    s div 60 div 60 = s' div 60 div 60 \<and> s div 60 mod 60 = s' div 60 mod 60 \<and> s mod 60 < s' mod 60"
  proof -
    have "(0 :: int) < 60" by simp
    from less_div_mod [OF this, of s s'] b(2) consider "s div 60 < s' div 60" | "s div 60 = s' div 60" "s mod 60 < s' mod 60" by blast
    then show ?thesis using less_div_mod [OF \<open>0 < 60\<close>, of "s div 60" "s' div 60"] by cases (blast, metis)
  qed
  then show ?thesis
    unfolding time_text_seconds Let_def s_def [symmetric] s'_def [symmetric]
    by (intro clock_less) (use h [of s] h [of s'] b m in simp_all)
qed

lemma timestamp_less:
  assumes "0 \<le> a" "a < b" "b < MAX_DAYS * day_us"
  shows "create_utc_timestamp a < create_utc_timestamp b"
proof -
  have day: "0 < day_us" "day_us mod 1000000 = 0" by (simp_all add: day_us_def)
  have mm: "i mod day_us mod 1000000 = i mod 1000000" for i by (rule mod_mod_cancel) (simp add: day_us_def)
  have us: "0 \<le> i mod 1000000" "i mod 1000000 < 1000000" for i :: int by simp_all
  from assms(2) less_div_mod [OF day(1)] consider (day) "a div day_us < b div day_us"
    | (time) "a div day_us = b div day_us" "a mod day_us < b mod day_us" by blast
  then show ?thesis
  proof cases
    case day
    moreover have "0 \<le> a div day_us" using assms \<open>0 < day_us\<close> by (simp add: pos_imp_zdiv_nonneg_iff)
    moreover have "b div day_us < MAX_DAYS"
    proof (rule ccontr)
      assume "\<not> ?thesis"
      then have "MAX_DAYS * day_us \<le> b div day_us * day_us" using \<open>0 < day_us\<close> by (simp add: mult_right_mono)
      with assms(3) div_mult_mod_eq [of b day_us] pos_mod_sign [OF \<open>0 < day_us\<close>, of b] show False by linarith
    qed
    ultimately show ?thesis by (simp add: create_utc_timestamp_eq less_append_iff date_text_less)
  next
    case time
    with less_div_mod [of 1000000 "a mod day_us" "b mod day_us"] consider (sec) "a mod day_us div 1000000 < b mod day_us div 1000000"
      | (us) "a mod day_us div 1000000 = b mod day_us div 1000000" "a mod 1000000 < b mod 1000000" by (auto simp: mm)
    then show ?thesis
    proof cases
      case sec
      with time_text_less [of "a mod day_us" "b mod day_us"] day(1) time show ?thesis
        by (simp add: create_utc_timestamp_eq less_append_iff)
    next
      case us
      moreover have "time_text (a mod day_us) = time_text (b mod day_us)"
        by (simp only: time_text_seconds us(1))
      ultimately show ?thesis using time(1) by (simp add: create_utc_timestamp_eq less_append_iff pad_less_iff)
    qed
  qed
qed

text \<open>Timestamps of the same library compare as text in the order of time.\<close>

lemma timestamp_le_iff:
  assumes "0 \<le> a" "a < MAX_DAYS * day_us" "0 \<le> b" "b < MAX_DAYS * day_us"
  shows "create_utc_timestamp a \<le> create_utc_timestamp b \<longleftrightarrow> a \<le> b"
  using timestamp_less [of a b] timestamp_less [of b a] assms by (cases a b rule: linorder_cases) auto

lemma double_power:
  assumes "0 \<le> k" "k < 1024"
  shows "double (2 powi k) = Some (2 powi k)"
proof -
  have "binade (2 powi k) \<le> k \<and> k \<le> binade (2 powi k)"
    using binade_bounds [of "2 powi k"] power_int_strict_increasing [of k "binade (2 powi k)" "2 :: rat"]
      power_int_increasing [of "binade (2 powi k) + 1" k "2 :: rat"] zero_less_power_int [of "2 :: rat" k]
    by (cases "k < binade (2 powi k)"; cases "k \<le> binade (2 powi k)") auto
  moreover have "(2 :: rat) powi k < float_limit"
    unfolding float_limit_def using assms(2) by (intro power_int_strict_increasing) simp_all
  ultimately show ?thesis using assms by (simp add: double_def round_at_power Let_def)
qed

text \<open>Ticks up to the year 7307 give a date, and later ones a later date.\<close>

lemma ticks_to_datetime_mono:
  assumes "0 \<le> a" "a \<le> b" "b \<le> 2 ^ 61"
  obtains s t where "ticks_to_datetime (JInt a) = Some s" "ticks_to_datetime (JInt b) = Some t" "0 \<le> s" "s \<le> t" "t < MAX_DAYS * day_us"
proof -
  have "(of_int b :: rat) \<le> of_int (2 ^ 61)" using assms(3) by (simp only: of_int_le_iff)
  then have "(of_int b :: rat) \<le> 2 powi 61" by (simp add: power_int_def)
  then obtain v where v: "double (of_int b) = Some v" "v \<le> 2 powi 61"
    using assms double_mono [OF _ _ double_power, of "of_int b" 61] by auto
  then obtain u where u: "double (of_int a) = Some u" "0 \<le> u" "u \<le> v"
    using assms double_mono [of "of_int a" "of_int b"] by auto
  have "v / 10000000 \<le> 2 powi 38" using v(2) by (simp add: power_int_def)
  then obtain y where y: "double (v / 10000000) = Some y" "y \<le> 2 powi 38"
    using u double_mono [OF _ _ double_power, of "v / 10000000" 38] by auto
  then obtain x where x: "double (u / 10000000) = Some x" "0 \<le> x" "x \<le> y"
    using u double_mono [of "u / 10000000" "v / 10000000"] by auto
  have "timedelta_us (2 powi 38) = 274877906944000000" "timedelta_us 0 = 0"
    by (simp_all add: timedelta_us_def power_int_def double_def)
  with x y timedelta_us_mono [of 0 x] timedelta_us_mono [of x y] timedelta_us_mono [of y "2 powi 38"]
  have "0 \<le> timedelta_us x" "timedelta_us x \<le> timedelta_us y" "timedelta_us y < MAX_DAYS * day_us"
    by (simp_all add: MAX_DAYS_def day_us_def)
  with u v x y that show ?thesis by (simp add: ticks_to_datetime_def Let_def)
qed

text \<open>
  C26: The time of creation of a goal state passes through a binary floating point number of seconds and is then kept as
  text, and goal states are compared by that text. For any two counts of ticks up to the year 7307, the later count never has the smaller text.
\<close>

theorem later_ticks_later_timestamp:
  assumes "0 \<le> a" "a \<le> b" "b \<le> 2 ^ 61"
  shows "ticks_to_utc_timestamp (JInt a) \<le> ticks_to_utc_timestamp (JInt b)"
proof -
  from assms obtain s t where "ticks_to_datetime (JInt a) = Some s" "ticks_to_datetime (JInt b) = Some t" "0 \<le> s" "s \<le> t" "t < MAX_DAYS * day_us"
    by (rule ticks_to_datetime_mono)
  then show ?thesis by (simp add: ticks_to_utc_timestamp_def timestamp_le_iff)
qed

theorem later_ticks_later_timestamp_witness:
  "ticks_to_utc_timestamp (JInt 637405409304121230) \<le> ticks_to_utc_timestamp (JInt 637726657706205217)"
  using later_ticks_later_timestamp [of 637405409304121230 637726657706205217] by simp

end
