(* ===== verification/Ext_Goal_State.thy ===== *)
theory Ext_Goal_State
  imports Date_Time Restapi Url Flexible_Version
begin

text \<open>
  What the two forms of an extensions goal state share, from \<^verbatim>\<open>azurelinuxagent/common/protocol\<close>:
  the abstract class of \<^verbatim>\<open>extensions_goal_state.py\<close>, and the classes \<^verbatim>\<open>Extension\<close>, \<^verbatim>\<open>ExtensionSettings\<close>
  and \<^verbatim>\<open>VMAgentFamily\<close> of \<^verbatim>\<open>restapi.py\<close> as the parsers fill them. A vmSettings document is not
  checked against a schema, so an attribute that is copied out of it can be any JSON value.
\<close>

section \<open>Extensions and agent families\<close>

record gs_settings =
  gx_name :: json
  gx_sequence_number :: json
  gx_public_settings :: json
  gx_protected_settings :: json
  gx_certificate_thumbprint :: json
  gx_dependency_level :: json
  gx_state :: json

record gs_extension =
  ge_name :: json
  ge_version :: json
  ge_state :: json
  ge_settings :: "gs_settings list"
  ge_manifest_uris :: "json list"
  ge_supports_multi_config :: json
  ge_encoded_signature :: json
  ge_invalid_setting_reason :: "string option"

record gs_family =
  gf_name :: json
  gf_version :: json
  gf_from_version :: json
  gf_is_version_from_rsm :: json
  gf_is_vm_enabled_for_rsm_upgrades :: json
  gf_signatures :: "(string \<times> string) list"
  gf_uris :: "json list"

definition new_gs_settings :: gs_settings where
  "new_gs_settings = \<lparr>gx_name = JNull, gx_sequence_number = JNull, gx_public_settings = JNull, gx_protected_settings = JNull,
     gx_certificate_thumbprint = JNull, gx_dependency_level = JInt 0, gx_state = JStr Enabled\<rparr>"

definition new_gs_extension :: gs_extension where
  "new_gs_extension = \<lparr>ge_name = JNull, ge_version = JNull, ge_state = JNull, ge_settings = [], ge_manifest_uris = [],
     ge_supports_multi_config = JBool False, ge_encoded_signature = JStr '''', ge_invalid_setting_reason = None\<rparr>"

definition new_gs_family :: "json \<Rightarrow> gs_family" where
  "new_gs_family name = \<lparr>gf_name = name, gf_version = JNull, gf_from_version = JNull, gf_is_version_from_rsm = JNull,
     gf_is_vm_enabled_for_rsm_upgrades = JNull, gf_signatures = [], gf_uris = []\<rparr>"

definition ExtensionRequestedState_All :: "string list" where
  "ExtensionRequestedState_All = [Enabled, Disabled, Uninstall]"

section \<open>The surroundings of the parsers\<close>

text \<open>
  \<^verbatim>\<open>json.loads\<close>, what \<^verbatim>\<open>str\<close> makes of an exception and of a value, and the text of an etag or incarnation, where
  \<^verbatim>\<open>None\<close> prints as such.
\<close>

record doc_env =
  dc_loads :: "string \<Rightarrow> json res"
  dc_show :: "exn \<Rightarrow> string"
  dc_repr :: "json \<Rightarrow> string"

definition opt_json :: "string option \<Rightarrow> json" where
  "opt_json v = (case v of None \<Rightarrow> JNull | Some t \<Rightarrow> JStr t)"

definition GUID_ZERO :: string where
  "GUID_ZERO = ''00000000-0000-0000-0000-000000000000''"

definition string_to_id :: "json \<Rightarrow> json" where
  "string_to_id v = (if v = JNull \<or> v = JStr '''' then JStr GUID_ZERO else v)"

text \<open>The blob type after \<^verbatim>\<open>_do_common_validations\<close>.\<close>

definition valid_blob_type :: "json \<Rightarrow> json" where
  "valid_blob_type t = (if t \<in> set [JStr ''BlockBlob'', JStr ''PageBlob''] then t else JStr ''BlockBlob'')"

section \<open>Redaction\<close>

text \<open>\<^verbatim>\<open>text.replace(old, new)\<close>\<close>

definition py_replace :: "string \<Rightarrow> string \<Rightarrow> string \<Rightarrow> string" where
  "py_replace text old new = (if text = [] \<and> old = [] then new else join_with new (split_on old text))"

definition REDACTED :: string where "REDACTED = ''***REDACTED***''"

text \<open>
  The loop over the protected settings. \<open>Inl\<close> is the text returned at once when there is nothing to replace, \<open>Inr\<close> the
  text so far.
\<close>

fun redact_settings :: "doc_env \<Rightarrow> gs_settings list \<Rightarrow> string \<Rightarrow> (string + string) res" where
  "redact_settings env [] text = Inr (Inr text)"
| "redact_settings env (x # xs) text =
     (case gx_protected_settings x of
        JNull \<Rightarrow> redact_settings env xs text
      | JStr p \<Rightarrow> (let redacted = py_replace text p REDACTED in
          if redacted = text then Inr (Inl (''Could not redact protectedSettings for '' @ ustr (dc_repr env) (gx_name x)))
          else redact_settings env xs redacted)
      | _ \<Rightarrow> Inl TypeError)"

definition redact_query :: "string \<Rightarrow> string \<Rightarrow> string \<Rightarrow> string res" where
  "redact_query url message text = bindR (url_query url) (\<lambda>query.
     let redacted = py_replace text query REDACTED in if redacted = text then Inl (OtherError message) else Inr redacted)"

definition redaction_result :: "doc_env \<Rightarrow> (string + string) res \<Rightarrow> string" where
  "redaction_result env r = (case r of
     Inl e \<Rightarrow> ''Error redacting text: '' @ dc_show env e
   | Inr (Inl message) \<Rightarrow> message
   | Inr (Inr text) \<Rightarrow> text)"

section \<open>What redaction removes\<close>

text \<open>
  A secret can be told from the mark that replaces it: it has no star and is not a part of the word in the mark. Every
  base64 text of more than eight characters is one.
\<close>

definition secret :: "string \<Rightarrow> bool" where
  "secret p \<longleftrightarrow> p \<noteq> [] \<and> CHR ''*'' \<notin> set p \<and> \<not> contains ''REDACTED'' p"

lemma contains_iff: "contains s p \<longleftrightarrow> (\<exists>a b. s = a @ p @ b)"
proof (induction s)
  case (Cons c s)
  have "(\<exists>a b. c # s = a @ p @ b) \<longleftrightarrow> (\<exists>b. c # s = p @ b) \<or> (\<exists>a b. s = a @ p @ b)"
    by (metis append_Cons append_Nil list.exhaust list.inject)
  with Cons show ?case by (simp add: startswith_iff)
qed auto

lemma contains_trans: "contains s t \<Longrightarrow> contains t u \<Longrightarrow> contains s u"
  by (auto simp: contains_iff) (metis append.assoc)

lemma contains_at_mark:
  assumes "c \<notin> set p"
  shows "contains (a @ c # b) p \<longleftrightarrow> contains a p \<or> contains b p"
proof
  assume "contains (a @ c # b) p"
  then obtain x y where "a @ c # b = x @ p @ y" by (auto simp: contains_iff)
  then consider us where "x = a @ us" "c # b = us @ p @ y" | us where "a = x @ us" "us @ c # b = p @ y"
    by (auto simp: append_eq_append_conv2)
  then show "contains a p \<or> contains b p"
  proof cases
    case 1
    with assms show ?thesis by (cases us; cases p) (auto simp: contains_iff)
  next
    case 2
    from this(2) consider zs where "us = p @ zs" | zs where "p = us @ zs" "c # b = zs @ y" by (auto simp: append_eq_append_conv2)
    then show ?thesis
    proof cases
      case 1
      with 2(1) show ?thesis by (auto simp: contains_iff)
    next
      case z: 2
      with assms have "zs = []" by (cases zs) auto
      with z 2(1) have "a = x @ p @ []" by simp
      then show ?thesis unfolding contains_iff by blast
    qed
  qed
next
  assume "contains a p \<or> contains b p"
  then show "contains (a @ c # b) p" by (auto simp: contains_iff) (metis append.assoc append_Cons)+
qed

lemma split_on_prefix: "\<exists>r. s = hd (split_on sep s) @ r"
proof (induction sep s rule: split_on.induct)
  case (2 sep c s)
  then show ?case by (auto split: list.splits)
qed simp

lemma contains_char: "d \<in> set s \<Longrightarrow> contains s [d]"
  by (induction s) auto

lemma contains_drop: "contains (drop n s) y \<Longrightarrow> contains s y"
proof (induction s arbitrary: n)
  case (Cons c s)
  then show ?case by (cases n) auto
qed simp

lemma contains_empty [simp]: "contains s []"
  by (cases s) auto

lemma split_on_parts: "x \<in> set (split_on sep s) \<Longrightarrow> contains s x"
proof (induction sep s rule: split_on.induct)
  case (2 sep c s)
  show ?case
  proof (cases "sep = []")
    case True
    with 2(3) consider "x = []" | d where "x = [d]" "d \<in> set (c # s)" by auto
    then show ?thesis using contains_char by cases (simp_all del: contains.simps)
  next
    case sep: False
    show ?thesis
    proof (cases "startswith (c # s) sep")
      case True
      with sep 2(3) consider "x = []" | "x \<in> set (split_on sep (drop (length sep) (c # s)))" by auto
      then show ?thesis using 2(1) [OF sep True] contains_drop [of "length sep" "c # s" x] by cases (simp_all del: contains.simps)
    next
      case False
      obtain p ps where ps: "split_on sep s = p # ps" by (cases "split_on sep s") auto
      with split_on_prefix [of s sep] obtain r where "s = p @ r" by auto
      then have "contains (c # s) (c # p)" by (auto simp: startswith_iff)
      with 2(2, 3) sep False ps show ?thesis by auto
    qed
  qed
qed simp

lemma split_on_free: "sep \<noteq> [] \<Longrightarrow> x \<in> set (split_on sep s) \<Longrightarrow> \<not> contains x sep"
proof (induction sep s arbitrary: x rule: split_on.induct)
  case (2 sep c s)
  show ?case
  proof (cases "startswith (c # s) sep")
    case True
    with 2 show ?thesis by auto
  next
    case False
    obtain p ps where ps: "split_on sep s = p # ps" by (cases "split_on sep s") auto
    with split_on_prefix [of s sep] obtain r where "s = p @ r" by auto
    with False have "\<not> startswith (c # p) sep" by (auto simp: startswith_iff) (metis append.assoc append_Cons)
    with 2 False ps show ?thesis by auto
  qed
qed simp

lemma mark_free: "secret p \<Longrightarrow> contains (a @ REDACTED @ b) p \<longleftrightarrow> contains a p \<or> contains b p"
proof -
  assume "secret p"
  then have p: "CHR ''*'' \<notin> set p" "\<not> contains ''REDACTED'' p" "\<not> contains [] p" by (simp_all add: secret_def)
  have "a @ REDACTED @ b = a @ CHR ''*'' # [] @ CHR ''*'' # [] @ CHR ''*'' # ''REDACTED'' @ CHR ''*'' # [] @ CHR ''*'' # [] @ CHR ''*'' # b"
    by (simp add: REDACTED_def)
  then show ?thesis by (simp only: contains_at_mark [OF p(1)] p(2, 3) simp_thms)
qed

lemma join_marks: "secret p \<Longrightarrow> contains (join_with REDACTED xs) p \<Longrightarrow> \<exists>x\<in>set xs. contains x p"
proof (induction xs)
  case (Cons x xs)
  then show ?case by (cases xs) (auto simp: mark_free)
qed (simp add: secret_def)

lemma replace_keeps_away: "secret p \<Longrightarrow> \<not> contains text p \<Longrightarrow> \<not> contains (py_replace text q REDACTED) p"
proof -
  assume p: "secret p" "\<not> contains text p"
  have "\<not> contains x p" if "x \<in> set (split_on q text)" for x
    using p(2) contains_trans [OF split_on_parts [OF that]] by blast
  moreover have "\<not> contains REDACTED p" using mark_free [OF p(1), of "[]" "[]"] p(1) by (simp add: secret_def)
  ultimately show ?thesis using join_marks [OF p(1), of "split_on q text"] by (auto simp: py_replace_def)
qed

lemma replace_removes: "secret p \<Longrightarrow> \<not> contains (py_replace text p REDACTED) p"
  using join_marks [of p "split_on p text"] split_on_free by (auto simp: py_replace_def secret_def)

lemma redact_settings_removes:
  assumes "redact_settings env xs t = Inr (Inr redacted)" "secret p"
    and "\<not> contains t p \<or> (\<exists>x\<in>set xs. gx_protected_settings x = JStr p)"
  shows "\<not> contains redacted p"
  using assms
proof (induction env xs t rule: redact_settings.induct)
  case (2 env x xs t)
  show ?case
  proof (cases "gx_protected_settings x")
    case (JStr q)
    with 2 have "redact_settings env xs (py_replace t q REDACTED) = Inr (Inr redacted)"
      by (simp add: Let_def split: if_splits)
    with 2 JStr show ?thesis
      using replace_removes [of p t] replace_keeps_away [of p t q] by (auto simp: Let_def split: if_splits)
  qed (use 2 in auto)
qed simp

lemma redact_query_removes:
  assumes "redact_query url message text = Inr redacted" "secret p" "\<not> contains text p \<or> url_query url = Inr p"
  shows "\<not> contains redacted p"
  using assms replace_removes replace_keeps_away by (auto simp: redact_query_def bindR_eq_Inr Let_def split: if_splits)

definition redaction_failed :: "string \<Rightarrow> bool" where
  "redaction_failed t \<longleftrightarrow> startswith t ''Could not redact protectedSettings for '' \<or> startswith t ''Error redacting text: ''"

lemma redact_settings_message: "redact_settings env xs t = Inr (Inl message) \<Longrightarrow> startswith message ''Could not redact protectedSettings for ''"
proof (induction env xs t rule: redact_settings.induct)
  case (2 env x xs t)
  then show ?case by (cases "gx_protected_settings x") (auto simp: Let_def split: if_splits)
qed simp

lemma redaction_result_cases:
  assumes "\<And>message. r = Inr (Inl message) \<Longrightarrow> startswith message ''Could not redact protectedSettings for ''"
  obtains "redaction_failed (redaction_result env r)" | redacted where "r = Inr (Inr redacted)" "redaction_result env r = redacted"
  using assms that
  by (cases r; cases "projr r") (auto simp: redaction_failed_def redaction_result_def)

end
