(* ===== verification/Vm_Settings.thy ===== *)
theory Vm_Settings
  imports Ext_Goal_State
begin

text \<open>
  \<^verbatim>\<open>azurelinuxagent/common/protocol/extensions_goal_state_from_vm_settings.py\<close>: the goal state of the
  Fast Track pipeline, a JSON document whose keys come in any case. The record \<open>vm_settings\<close> holds the
  attributes of the class; the parsers are operations on it, because a failure reports the text as far as it can be
  redacted with the attributes set until then.
\<close>

section \<open>Keys in any case\<close>

text \<open>\<^verbatim>\<open>_CaseFoldedDict\<close>: of keys that differ in case only, the last one counts.\<close>

fun case_folded :: "json \<Rightarrow> json" where
  "case_folded (JObj d) = JObj (fold (\<lambda>(k, v). AList.update k v) (map (\<lambda>(k, v). (lower k, case_folded v)) d) [])"
| "case_folded (JList xs) = JList (map case_folded xs)"
| "case_folded j = j"

definition from_dict :: "json \<Rightarrow> json res" where
  "from_dict j = (case j of JObj d \<Rightarrow> Inr (case_folded j) | _ \<Rightarrow> Inl AttributeError)"

definition cf_get :: "json \<Rightarrow> string \<Rightarrow> json res" where
  "cf_get j key = py_get j (lower key)"

definition cf_index :: "json \<Rightarrow> string \<Rightarrow> json res" where
  "cf_index j key = py_index j (lower key)"

section \<open>The goal state\<close>

record vm_settings =
  vs_is_outdated :: bool
  vs_id :: string
  vs_etag :: string
  vs_svd_sequence_number :: json
  vs_hostga_plugin_correlation_id :: string
  vs_text :: string
  vs_host_ga_plugin_version :: flexible_version
  vs_schema_version :: flexible_version
  vs_activity_id :: json
  vs_correlation_id :: json
  vs_created_on_timestamp :: string
  vs_source :: json
  vs_status_upload_blob :: json
  vs_status_upload_blob_type :: json
  vs_required_features :: "json list"
  vs_on_hold :: json
  vs_agent_families :: "gs_family list"
  vs_extensions :: "gs_extension list"

definition version_0 :: flexible_version where
  "version_0 = numeric_version [0, 0, 0, 0]"

definition new_vm_settings :: "string \<Rightarrow> string \<Rightarrow> string \<Rightarrow> vm_settings" where
  "new_vm_settings etag json_text correlation_id =
     \<lparr>vs_is_outdated = False, vs_id = ''etag_'' @ etag, vs_etag = etag, vs_svd_sequence_number = JInt 0, vs_hostga_plugin_correlation_id = correlation_id,
      vs_text = json_text, vs_host_ga_plugin_version = version_0, vs_schema_version = version_0,
      vs_activity_id = JStr GUID_ZERO, vs_correlation_id = JStr GUID_ZERO, vs_created_on_timestamp = create_utc_timestamp 0,
      vs_source = JNull, vs_status_upload_blob = JNull, vs_status_upload_blob_type = JNull, vs_required_features = [],
      vs_on_hold = JBool False, vs_agent_families = [], vs_extensions = []\<rparr>"

definition redact_vm_settings :: "doc_env \<Rightarrow> vm_settings \<Rightarrow> (string + string) res" where
  "redact_vm_settings env vs =
     bindR (case vs_status_upload_blob vs of
              JNull \<Rightarrow> Inr (vs_text vs)
            | JStr url \<Rightarrow> redact_query url ''Could not redact the status upload blob'' (vs_text vs)
            | _ \<Rightarrow> Inl AttributeError)
       (redact_settings env (concat (map ge_settings (vs_extensions vs))))"

definition vs_get_redacted_text :: "doc_env \<Rightarrow> vm_settings \<Rightarrow> string" where
  "vs_get_redacted_text env vs = redaction_result env (redact_vm_settings env vs)"

section \<open>Parsing\<close>

text \<open>\<^verbatim>\<open>FlexibleVersion(v)\<close> for a value of the document.\<close>

fun json_version :: "json \<Rightarrow> flexible_version res" where
  "json_version (JStr t) = FlexibleVersion t"
| "json_version _ = Inl TypeError"

definition parse_simple_attributes :: "json \<Rightarrow> (vm_settings, unit) op" where
  "parse_simple_attributes doc =
     bindM (liftR (cf_get doc ''hostGAPluginVersion'')) (\<lambda>version.
     thenM (whenM (version \<noteq> JNull)
       (bindM (liftR (json_version version)) (\<lambda>v. modifyM (\<lambda>s. s\<lparr>vs_host_ga_plugin_version := v\<rparr>))))
    (bindM (liftR (cf_get doc ''activityId'')) (\<lambda>activity_id.
     bindM (liftR (cf_get doc ''correlationId'')) (\<lambda>correlation_id.
     bindM (liftR (cf_get doc ''inSvdSeqNo'')) (\<lambda>seq_no.
     bindM (liftR (cf_get doc ''extensionsLastModifiedTickCount'')) (\<lambda>ticks.
     thenM (modifyM (\<lambda>s. s\<lparr>vs_activity_id := string_to_id activity_id, vs_correlation_id := string_to_id correlation_id,
       vs_svd_sequence_number := string_to_id seq_no, vs_created_on_timestamp := ticks_to_utc_timestamp ticks\<rparr>))
    (bindM (liftR (cf_get doc ''vmSettingsSchemaVersion'')) (\<lambda>schema_version.
     thenM (whenM (schema_version \<noteq> JNull)
       (bindM (liftR (json_version schema_version)) (\<lambda>v. modifyM (\<lambda>s. s\<lparr>vs_schema_version := v\<rparr>))))
    (bindM (liftR (cf_get doc ''onHold'')) (\<lambda>on_hold.
     thenM (whenM (on_hold \<noteq> JNull) (modifyM (\<lambda>s. s\<lparr>vs_on_hold := on_hold\<rparr>)))
    (bindM (liftR (cf_get doc ''extensionGoalStatesSource'')) (\<lambda>source.
       modifyM (\<lambda>s. s\<lparr>vs_source := (if source = JNull then JStr ''UNKNOWN'' else source)\<rparr>)))))))))))))"

definition parse_status_upload_blob :: "json \<Rightarrow> (vm_settings, unit) op" where
  "parse_status_upload_blob doc =
     bindM (liftR (cf_get doc ''statusUploadBlob'')) (\<lambda>blob.
       if blob = JNull then modifyM (\<lambda>s. s\<lparr>vs_status_upload_blob := JNull, vs_status_upload_blob_type := JStr ''BlockBlob''\<rparr>)
       else bindM (liftR (cf_get blob ''value'')) (\<lambda>value.
            thenM (modifyM (\<lambda>s. s\<lparr>vs_status_upload_blob := value\<rparr>))
           (if value = JNull then raiseM (OtherError ''Missing statusUploadBlob.value'')
            else bindM (liftR (cf_get blob ''statusBlobType'')) (\<lambda>t.
              modifyM (\<lambda>s. s\<lparr>vs_status_upload_blob_type := (if t = JNull then JStr ''BlockBlob'' else t)\<rparr>)))))"

definition parse_required_features :: "json \<Rightarrow> (vm_settings, unit) op" where
  "parse_required_features doc =
     bindM (liftR (cf_get doc ''requiredFeatures'')) (\<lambda>features. case features of
       JNull \<Rightarrow> returnM ()
     | JList fs \<Rightarrow> forM fs (\<lambda>feature.
         bindM (liftR (cf_get feature ''name'')) (\<lambda>name.
           if name = JNull then raiseM (OtherError ''A required feature is missing the 'name' property'')
           else modifyM (\<lambda>s. s\<lparr>vs_required_features := vs_required_features s @ [name]\<rparr>)))
     | _ \<Rightarrow> raiseM (OtherError ''requiredFeatures should be an array''))"

subsection \<open>Agent families\<close>

fun add_signature_mappings :: "json list \<Rightarrow> (string \<times> string) list \<Rightarrow> (string \<times> string) list res" where
  "add_signature_mappings [] sigs = Inr sigs"
| "add_signature_mappings (m # ms) sigs =
     bindR (cf_get m ''version'') (\<lambda>version.
     bindR (cf_get m ''encodedSignature'') (\<lambda>signature.
       add_signature_mappings ms (case (version, signature) of (JStr v, JStr s) \<Rightarrow> AList.update v s sigs | _ \<Rightarrow> sigs)))"

definition iter_or_empty :: "json \<Rightarrow> json list res" where
  "iter_or_empty j = (if j = JNull then Inr [] else py_iter j)"

definition parse_family :: "json \<Rightarrow> gs_family res" where
  "parse_family family =
     bindR (cf_index family ''name'') (\<lambda>name.
     bindR (cf_get family ''version'') (\<lambda>version.
     bindR (cf_get family ''fromVersion'') (\<lambda>from_version.
     bindR (cf_get family ''isVersionFromRSM'') (\<lambda>from_rsm.
     bindR (cf_get family ''isVMEnabledForRSMUpgrades'') (\<lambda>rsm_upgrades.
     bindR (cf_get family ''uris'') (\<lambda>uris.
     bindR (cf_get family ''versionToSignatureMappings'') (\<lambda>mappings.
     bindR (iter_or_empty uris) (\<lambda>us.
     bindR (iter_or_empty mappings) (\<lambda>ms.
     bindR (add_signature_mappings ms []) (\<lambda>sigs.
       Inr ((new_gs_family name)\<lparr>gf_version := version, gf_from_version := from_version, gf_is_version_from_rsm := from_rsm,
         gf_is_vm_enabled_for_rsm_upgrades := rsm_upgrades, gf_uris := us, gf_signatures := sigs\<rparr>)))))))))))"

definition parse_agent_manifests :: "json \<Rightarrow> (vm_settings, unit) op" where
  "parse_agent_manifests doc =
     bindM (liftR (cf_get doc ''gaFamilies'')) (\<lambda>families. case families of
       JNull \<Rightarrow> returnM ()
     | JList fs \<Rightarrow> forM fs (\<lambda>family.
         bindM (liftR (parse_family family)) (\<lambda>f. modifyM (\<lambda>s. s\<lparr>vs_agent_families := vs_agent_families s @ [f]\<rparr>)))
     | _ \<Rightarrow> raiseM (OtherError ''gaFamilies should be an array''))"

subsection \<open>Extensions\<close>

definition loads_value :: "doc_env \<Rightarrow> json \<Rightarrow> json res" where
  "loads_value env v = (case v of JStr t \<Rightarrow> dc_loads env t | _ \<Rightarrow> Inl TypeError)"

definition parse_settings :: "doc_env \<Rightarrow> json \<Rightarrow> gs_extension \<Rightarrow> json \<Rightarrow> gs_settings res" where
  "parse_settings env extension_gs ext s =
     bindR (cf_get s ''publicSettings'') (\<lambda>public_text.
     bindR (if public_text = JNull then Inr JNull else loads_value env public_text) (\<lambda>public_settings.
     bindR (cf_get s ''protectedSettings'') (\<lambda>protected_settings.
     bindR (cf_get s ''protectedSettingsCertThumbprint'') (\<lambda>thumbprint.
       if thumbprint = JNull \<and> protected_settings \<noteq> JNull
       then Inl (OtherError ''The certificate thumbprint for protected settings is missing'')
       else let settings = new_gs_settings\<lparr>gx_public_settings := public_settings, gx_protected_settings := protected_settings,
                  gx_certificate_thumbprint := thumbprint\<rparr> in
         if truthy (ge_supports_multi_config ext)
         then bindR (cf_index s ''extensionName'') (\<lambda>name. bindR (cf_index s ''seqNo'') (\<lambda>seq_no. bindR (cf_index s ''extensionState'') (\<lambda>state.
                Inr (settings\<lparr>gx_name := name, gx_sequence_number := seq_no, gx_state := state\<rparr>))))
         else bindR (cf_index extension_gs ''settingsSeqNo'') (\<lambda>seq_no.
                Inr (settings\<lparr>gx_name := ge_name ext, gx_sequence_number := seq_no, gx_state := ge_state ext\<rparr>))))))"

definition parse_settings_list :: "doc_env \<Rightarrow> json \<Rightarrow> gs_extension \<Rightarrow> json \<Rightarrow> gs_settings list res" where
  "parse_settings_list env extension_gs ext settings_list = (case settings_list of
     JNull \<Rightarrow> Inr []
   | JList xs \<Rightarrow>
       if \<not> truthy (ge_supports_multi_config ext) \<and> length xs > 1
       then Inl (OtherError ''Single-config extension includes multiple settings'')
       else mapR (parse_settings env extension_gs ext) xs
   | _ \<Rightarrow> Inl (OtherError '''settings' should be an array''))"

text \<open>
  The keys of a dictionary: numbers are equal by value, and lists and dictionaries have no hash. In
  \<^verbatim>\<open>settings_by_name\<close> the last settings of a name remain.
\<close>

definition key_eq :: "json \<Rightarrow> json \<Rightarrow> bool" where
  "key_eq a b = (case (num_val a, num_val b) of (Some x, Some y) \<Rightarrow> x = y | _ \<Rightarrow> a = b)"

fun hashable :: "json \<Rightarrow> bool" where
  "hashable (JList _) = False"
| "hashable (JObj _) = False"
| "hashable _ = True"

fun last_index :: "('a \<Rightarrow> bool) \<Rightarrow> 'a list \<Rightarrow> nat option" where
  "last_index P [] = None"
| "last_index P (x # xs) = (case last_index P xs of Some i \<Rightarrow> Some (Suc i) | None \<Rightarrow> if P x then Some 0 else None)"

fun apply_dependencies :: "json list \<Rightarrow> gs_settings list \<Rightarrow> gs_settings list res" where
  "apply_dependencies [] settings = Inr settings"
| "apply_dependencies (d # ds) settings =
     bindR (cf_index d ''name'') (\<lambda>name.
       if \<not> hashable name then Inl TypeError
       else case last_index (\<lambda>x. key_eq (gx_name x) name) settings of
         None \<Rightarrow> Inl (OtherError ''Dependency does not correspond to any of the settings in the extension'')
       | Some i \<Rightarrow> bindR (cf_index d ''dependencyLevel'') (\<lambda>level.
           apply_dependencies ds (settings[i := (settings ! i)\<lparr>gx_dependency_level := level\<rparr>])))"

definition parse_dependency_level :: "json \<Rightarrow> gs_extension \<Rightarrow> gs_extension res" where
  "parse_dependency_level depends_on ext = (case depends_on of
     JList ds \<Rightarrow>
       if \<not> truthy (ge_supports_multi_config ext)
       then if length ds > 1 then Inl (OtherError ''dependsOn should be an array with exactly one item for single-config extensions'')
            else bindR (case ds of
                     [] \<Rightarrow> Inr (JInt 0)
                   | d # _ \<Rightarrow> bindR (cf_index d ''dependencyLevel'') (\<lambda>level. bindR (cf_get d ''dependsOnExtension'') (\<lambda>_. Inr level)))
                 (\<lambda>level. case ge_settings ext of
                     [] \<Rightarrow> Inr ext
                   | x # xs \<Rightarrow> Inr (ext\<lparr>ge_settings := x\<lparr>gx_dependency_level := level\<rparr> # xs\<rparr>))
       else if \<not> list_all (\<lambda>x. hashable (gx_name x)) (ge_settings ext) then Inl TypeError
       else bindR (apply_dependencies ds (ge_settings ext)) (\<lambda>settings. Inr (ext\<lparr>ge_settings := settings\<rparr>))
   | _ \<Rightarrow> Inl (OtherError ''dependsOn should be an array''))"

definition parse_locations :: "json \<Rightarrow> json list res" where
  "parse_locations extension_gs =
     bindR (cf_get extension_gs ''location'') (\<lambda>location.
     bindR (cf_get extension_gs ''failoverLocation'') (\<lambda>fail_over_location.
     bindR (cf_get extension_gs ''additionalLocations'') (\<lambda>additional_locations.
       let uris = (if location = JNull then [] else [location]) @ (if fail_over_location = JNull then [] else [fail_over_location]) in
       case additional_locations of
         JNull \<Rightarrow> Inr uris
       | JList locations \<Rightarrow> Inr (uris @ locations)
       | _ \<Rightarrow> Inl (OtherError ''additionalLocations should be an array''))))"

definition parse_extension_attributes :: "json \<Rightarrow> gs_extension res" where
  "parse_extension_attributes extension_gs =
     bindR (cf_index extension_gs ''name'') (\<lambda>name.
     bindR (cf_index extension_gs ''version'') (\<lambda>version.
     bindR (cf_index extension_gs ''state'') (\<lambda>state.
     bindR (cf_get extension_gs ''encodedSignature'') (\<lambda>signature.
       if state \<notin> set (map JStr ExtensionRequestedState_All) then Inl (OtherError ''Invalid extension state'')
       else bindR (cf_get extension_gs ''isMultiConfig'') (\<lambda>multi.
         bindR (parse_locations extension_gs) (\<lambda>uris.
           Inr (new_gs_extension\<lparr>ge_name := name, ge_version := version, ge_state := state,
             ge_encoded_signature := (if signature = JNull then JStr '''' else signature),
             ge_supports_multi_config := (if multi = JNull then JBool False else multi), ge_manifest_uris := uris\<rparr>)))))))"

definition parse_vm_extension :: "doc_env \<Rightarrow> json \<Rightarrow> gs_extension res" where
  "parse_vm_extension env extension_gs =
     bindR (parse_extension_attributes extension_gs) (\<lambda>ext.
     bindR (cf_get extension_gs ''settings'') (\<lambda>settings_list.
     bindR (parse_settings_list env extension_gs ext settings_list) (\<lambda>settings.
     bindR (cf_get extension_gs ''dependsOn'') (\<lambda>depends_on.
       let ext = ext\<lparr>ge_settings := settings\<rparr> in
       if depends_on = JNull then Inr ext else parse_dependency_level depends_on ext))))"

definition parse_vm_extensions :: "doc_env \<Rightarrow> json \<Rightarrow> (vm_settings, unit) op" where
  "parse_vm_extensions env doc =
     bindM (liftR (cf_get doc ''extensionGoalStates'')) (\<lambda>states. case states of
       JNull \<Rightarrow> returnM ()
     | JList gs \<Rightarrow> forM gs (\<lambda>extension_gs.
         bindM (liftR (parse_vm_extension env extension_gs)) (\<lambda>ext. modifyM (\<lambda>s. s\<lparr>vs_extensions := vs_extensions s @ [ext]\<rparr>)))
     | _ \<Rightarrow> raiseM (OtherError ''extension_goal_states should be an array''))"

subsection \<open>The document\<close>

definition parse_vm_settings :: "doc_env \<Rightarrow> string \<Rightarrow> (vm_settings, unit) op" where
  "parse_vm_settings env json_text =
     bindM (liftR (bindR (dc_loads env json_text) from_dict)) (\<lambda>doc.
     thenM (parse_simple_attributes doc)
    (thenM (parse_status_upload_blob doc)
    (thenM (parse_required_features doc)
    (thenM (parse_agent_manifests doc)
           (parse_vm_extensions env doc)))))"

definition create_from_vm_settings :: "doc_env \<Rightarrow> string \<Rightarrow> string \<Rightarrow> string \<Rightarrow> vm_settings res" where
  "create_from_vm_settings env etag json_text correlation_id =
     (case thenM (parse_vm_settings env json_text)
             (modifyM (\<lambda>s. s\<lparr>vs_status_upload_blob_type := valid_blob_type (vs_status_upload_blob_type s)\<rparr>))
             (new_vm_settings etag json_text correlation_id) of
        (Inr _, vs) \<Rightarrow> Inr vs
      | (Inl e, vs) \<Rightarrow>
          Inl (VmSettingsParseError (''Error parsing vmSettings [HGAP: '' @ version_str (vs_host_ga_plugin_version vs) @ '' Etag:'' @ etag @
                 '']: '' @ dc_show env e) etag (vs_get_redacted_text env vs)))"

definition MIN_HGAP_VERSION_FOR_EXT_SIGNATURE :: flexible_version where
  "MIN_HGAP_VERSION_FOR_EXT_SIGNATURE = numeric_version [1, 0, 8, 159]"

definition MIN_HGAP_VERSION_FOR_AGENT_SIGNATURE_MAPPING :: flexible_version where
  "MIN_HGAP_VERSION_FOR_AGENT_SIGNATURE_MAPPING = numeric_version [1, 0, 8, 177]"

definition supports_since :: "flexible_version \<Rightarrow> bool res \<Rightarrow> vm_settings \<Rightarrow> bool res" where
  "supports_since minimum is_confidential_vm vs =
     bindR (version_ge (vs_host_ga_plugin_version vs) minimum) (\<lambda>new_enough. if new_enough then is_confidential_vm else Inr False)"

definition vs_supports_encoded_signature :: "bool res \<Rightarrow> vm_settings \<Rightarrow> bool res" where
  "vs_supports_encoded_signature = supports_since MIN_HGAP_VERSION_FOR_EXT_SIGNATURE"

definition vs_supports_agent_signature_mapping :: "bool res \<Rightarrow> vm_settings \<Rightarrow> bool res" where
  "vs_supports_agent_signature_mapping = supports_since MIN_HGAP_VERSION_FOR_AGENT_SIGNATURE_MAPPING"

section \<open>Keys in any case\<close>

text \<open>A document with other keys in its dictionaries.\<close>

fun rekey :: "(string \<Rightarrow> string) \<Rightarrow> json \<Rightarrow> json" where
  "rekey f (JObj d) = JObj (map (\<lambda>(k, v). (f k, rekey f v)) d)"
| "rekey f (JList xs) = JList (map (rekey f) xs)"
| "rekey f j = j"

lemma case_folded_rekey:
  assumes "\<And>k. lower (f k) = lower k"
  shows "case_folded (rekey f j) = case_folded j"
  using assms
proof (induction f j rule: rekey.induct)
  case (1 f d)
  then have "map ((\<lambda>(k, v). (lower k, case_folded v)) \<circ> (\<lambda>(k, v). (f k, rekey f v))) d = map (\<lambda>(k, v). (lower k, case_folded v)) d"
    by auto
  then show ?case by (simp only: rekey.simps case_folded.simps map_map)
qed simp_all

lemma from_dict_rekey:
  assumes "\<And>k. lower (f k) = lower k"
  shows "from_dict (rekey f j) = from_dict j"
  using case_folded_rekey [OF assms, of j] by (cases j) (simp_all add: from_dict_def del: case_folded.simps)

text \<open>
  C38: The parser does not depend on the case of the keys of the document: whatever the host does to the case of
  them, at any depth, the goal state that comes out, or the failure, is the same.
\<close>

theorem key_case_irrelevant:
  assumes "\<And>k. lower (f k) = lower k"
    and "dc_loads env given = Inr doc" "dc_loads env recased = Inr (rekey f doc)"
  shows "parse_vm_settings env recased s = parse_vm_settings env given s"
  using assms(2, 3) by (simp add: parse_vm_settings_def from_dict_rekey [OF assms(1)])

section \<open>Well-formed extensions\<close>

text \<open>What the parser makes sure of for each extension.\<close>

definition well_formed :: "gs_extension \<Rightarrow> bool" where
  "well_formed ext \<longleftrightarrow>
     ge_state ext \<in> set (map JStr ExtensionRequestedState_All) \<and> ge_invalid_setting_reason ext = None \<and>
     (\<not> truthy (ge_supports_multi_config ext) \<longrightarrow> length (ge_settings ext) \<le> 1 \<and>
        list_all (\<lambda>x. gx_name x = ge_name ext \<and> gx_state x = ge_state ext) (ge_settings ext)) \<and>
     list_all (\<lambda>x. gx_protected_settings x \<noteq> JNull \<longrightarrow> gx_certificate_thumbprint x \<noteq> JNull) (ge_settings ext)"

lemma mapR_length: "mapR f xs = Inr ys \<Longrightarrow> length ys = length xs"
  by (simp add: mapR_Inr_iff list_all2_lengthD)

lemma parse_settings_Inr:
  assumes "parse_settings env g ext s = Inr x"
  shows "gx_protected_settings x \<noteq> JNull \<longrightarrow> gx_certificate_thumbprint x \<noteq> JNull"
    "\<not> truthy (ge_supports_multi_config ext) \<longrightarrow> gx_name x = ge_name ext \<and> gx_state x = ge_state ext"
  using assms by (auto simp: parse_settings_def bindR_eq_Inr Let_def split: if_splits)

lemma parse_settings_list_Inr:
  assumes "parse_settings_list env g ext j = Inr xs"
  shows "list_all (\<lambda>x. gx_protected_settings x \<noteq> JNull \<longrightarrow> gx_certificate_thumbprint x \<noteq> JNull) xs"
    "\<not> truthy (ge_supports_multi_config ext) \<longrightarrow> length xs \<le> 1 \<and>
       list_all (\<lambda>x. gx_name x = ge_name ext \<and> gx_state x = ge_state ext) xs"
proof -
  have "(\<forall>x\<in>set xs. \<exists>s. parse_settings env g ext s = Inr x) \<and> (truthy (ge_supports_multi_config ext) \<or> length xs \<le> 1)"
  proof (cases j)
    case (JList js)
    with assms have *: "mapR (parse_settings env g ext) js = Inr xs" "truthy (ge_supports_multi_config ext) \<or> length js \<le> 1"
      by (auto simp: parse_settings_list_def split: if_splits)
    with mapR_length [OF *(1)] mapR_Inr_in_set [OF *(1)] show ?thesis by auto
  qed (use assms in \<open>auto simp: parse_settings_list_def\<close>)
  then have parsed: "\<And>x. x \<in> set xs \<Longrightarrow> \<exists>s. parse_settings env g ext s = Inr x"
    and len: "truthy (ge_supports_multi_config ext) \<or> length xs \<le> 1" by auto
  show "list_all (\<lambda>x. gx_protected_settings x \<noteq> JNull \<longrightarrow> gx_certificate_thumbprint x \<noteq> JNull) xs"
    unfolding list_all_iff using parsed parse_settings_Inr(1) by meson
  show "\<not> truthy (ge_supports_multi_config ext) \<longrightarrow> length xs \<le> 1 \<and>
       list_all (\<lambda>x. gx_name x = ge_name ext \<and> gx_state x = ge_state ext) xs"
    unfolding list_all_iff using parsed parse_settings_Inr(2) len by meson
qed

text \<open>Dependencies change the levels of the settings and nothing else.\<close>

definition same_but_level :: "gs_settings \<Rightarrow> gs_settings \<Rightarrow> bool" where
  "same_but_level x y \<longleftrightarrow> (\<exists>level. y = x\<lparr>gx_dependency_level := level\<rparr>)"

lemma same_but_level_refl: "same_but_level x x"
  by (auto simp: same_but_level_def intro: exI [of _ "gx_dependency_level x"])

lemma same_but_level_update: "same_but_level x (x\<lparr>gx_dependency_level := level\<rparr>)"
  by (auto simp: same_but_level_def)

lemma same_but_level_trans: "same_but_level x y \<Longrightarrow> same_but_level y z \<Longrightarrow> same_but_level x z"
  by (auto simp: same_but_level_def)

lemma same_but_level_fields:
  "same_but_level x y \<Longrightarrow> gx_name y = gx_name x \<and> gx_state y = gx_state x \<and>
     gx_protected_settings y = gx_protected_settings x \<and> gx_certificate_thumbprint y = gx_certificate_thumbprint x"
  by (auto simp: same_but_level_def)

lemma apply_dependencies_Inr: "apply_dependencies ds xs = Inr ys \<Longrightarrow> list_all2 same_but_level xs ys"
proof (induction ds xs rule: apply_dependencies.induct)
  case (1 xs)
  then show ?case by (simp add: list_all2_refl same_but_level_refl)
next
  case (2 d ds xs)
  from 2(2) obtain name i level where *: "cf_index d ''name'' = Inr name" "hashable name"
    "last_index (\<lambda>x. key_eq (gx_name x) name) xs = Some i" "cf_index d ''dependencyLevel'' = Inr level"
    "apply_dependencies ds (xs[i := (xs ! i)\<lparr>gx_dependency_level := level\<rparr>]) = Inr ys"
    by (auto simp: bindR_eq_Inr split: if_splits option.splits)
  have "list_all2 same_but_level xs (xs[i := (xs ! i)\<lparr>gx_dependency_level := level\<rparr>])"
    by (cases "i < length xs") (simp_all add: list_all2_conv_all_nth nth_list_update same_but_level_refl same_but_level_update)
  moreover have "list_all2 same_but_level (xs[i := (xs ! i)\<lparr>gx_dependency_level := level\<rparr>]) ys"
    using 2(1) [OF *(1)] * by simp
  ultimately show ?case by (rule list_all2_trans [rotated]) (rule same_but_level_trans)
qed

lemma parse_dependency_level_Inr:
  assumes "parse_dependency_level j ext = Inr ext'"
  shows "\<exists>xs. list_all2 same_but_level (ge_settings ext) xs \<and> ext' = ext\<lparr>ge_settings := xs\<rparr>"
proof -
  obtain ds where j: "j = JList ds" using assms by (cases j) (simp_all add: parse_dependency_level_def)
  show ?thesis
  proof (cases "truthy (ge_supports_multi_config ext)")
    case True
    with assms j show ?thesis
      by (auto simp: parse_dependency_level_def bindR_eq_Inr dest: apply_dependencies_Inr split: if_splits)
  next
    case False
    with assms j obtain level where *: "(case ge_settings ext of [] \<Rightarrow> Inr ext
        | x # xs \<Rightarrow> Inr (ext\<lparr>ge_settings := x\<lparr>gx_dependency_level := level\<rparr> # xs\<rparr>)) = (Inr ext' :: gs_extension res)"
      by (auto simp: parse_dependency_level_def bindR_eq_Inr split: if_splits)
    show ?thesis
    proof (cases "ge_settings ext")
      case Nil
      with * show ?thesis by (intro exI [of _ "[]"]) simp
    next
      case (Cons x xs)
      with * show ?thesis
        by (intro exI [of _ "x\<lparr>gx_dependency_level := level\<rparr> # xs"]) (auto simp: list_all2_refl same_but_level_refl same_but_level_update)
    qed
  qed
qed

lemma list_all_same_but_level:
  assumes "list_all2 same_but_level xs ys" "list_all P xs" "\<And>x y. same_but_level x y \<Longrightarrow> P x \<Longrightarrow> P y"
  shows "list_all P ys"
  using assms by (induction rule: list_all2_induct) auto

lemma well_formed_levels:
  assumes "well_formed ext" "list_all2 same_but_level (ge_settings ext) xs"
  shows "well_formed (ext\<lparr>ge_settings := xs\<rparr>)"
proof -
  have "list_all (\<lambda>x. gx_protected_settings x \<noteq> JNull \<longrightarrow> gx_certificate_thumbprint x \<noteq> JNull) xs"
    using assms(1) by (intro list_all_same_but_level [OF assms(2)]) (auto simp: well_formed_def dest: same_but_level_fields)
  moreover have "list_all (\<lambda>x. gx_name x = ge_name ext \<and> gx_state x = ge_state ext) xs" if "\<not> truthy (ge_supports_multi_config ext)"
    using assms(1) that by (intro list_all_same_but_level [OF assms(2)]) (auto simp: well_formed_def dest: same_but_level_fields)
  ultimately show ?thesis using assms(1) list_all2_lengthD [OF assms(2)] by (simp add: well_formed_def)
qed

lemma parse_extension_attributes_Inr:
  assumes "parse_extension_attributes j = Inr ext"
  shows "ge_state ext \<in> set (map JStr ExtensionRequestedState_All)" "ge_invalid_setting_reason ext = None"
  using assms by (auto simp: parse_extension_attributes_def bindR_eq_Inr new_gs_extension_def split: if_splits)

lemma parse_vm_extension_well_formed:
  assumes "parse_vm_extension env j = Inr ext"
  shows "well_formed ext"
proof -
  from assms obtain base l settings d where base: "parse_extension_attributes j = Inr base"
    and settings: "parse_settings_list env j base l = Inr settings"
    and ext: "(if d = JNull then Inr (base\<lparr>ge_settings := settings\<rparr>) else parse_dependency_level d (base\<lparr>ge_settings := settings\<rparr>)) = Inr ext"
    by (auto simp: parse_vm_extension_def bindR_eq_Inr Let_def)
  have "well_formed (base\<lparr>ge_settings := settings\<rparr>)"
    using parse_extension_attributes_Inr [OF base] parse_settings_list_Inr [OF settings] by (simp add: well_formed_def)
  with ext show ?thesis
    using parse_dependency_level_Inr [of d "base\<lparr>ge_settings := settings\<rparr>" ext] well_formed_levels [of "base\<lparr>ge_settings := settings\<rparr>"]
    by (auto split: if_splits)
qed

section \<open>The document as a whole\<close>

lemma preserves_case_json [preserves_intros]:
  "(j = JNull \<Longrightarrow> preserves P n) \<Longrightarrow> (\<And>xs. j = JList xs \<Longrightarrow> preserves P (f xs)) \<Longrightarrow> preserves P m \<Longrightarrow>
   preserves P (case j of JNull \<Rightarrow> n | JList xs \<Rightarrow> f xs | _ \<Rightarrow> m)"
  by (cases j) simp_all

definition parse_attributes :: "json \<Rightarrow> (vm_settings, unit) op" where
  "parse_attributes doc = thenM (parse_simple_attributes doc) (thenM (parse_status_upload_blob doc)
     (thenM (parse_required_features doc) (parse_agent_manifests doc)))"

lemma attributes_keep_extensions: "preserves (\<lambda>s. vs_extensions s = es \<and> vs_text s = t) (parse_attributes doc)"
  unfolding parse_attributes_def parse_simple_attributes_def parse_status_upload_blob_def parse_required_features_def parse_agent_manifests_def
  by (intro preserves_intros) auto

lemma thenM_assoc: "thenM (thenM a b) c = thenM a (thenM b c)"
  by (auto simp: thenM_def bindM_def fun_eq_iff split: prod.splits sum.splits)

lemma parse_vm_settings_eq:
  "parse_vm_settings env json_text = bindM (liftR (bindR (dc_loads env json_text) from_dict)) (\<lambda>doc. thenM (parse_attributes doc) (parse_vm_extensions env doc))"
  by (simp add: parse_vm_settings_def parse_attributes_def thenM_assoc)

lemma forM_appends:
  assumes "forM js (\<lambda>j. bindM (liftR (parse_vm_extension env j)) (\<lambda>ext. modifyM (\<lambda>s. s\<lparr>vs_extensions := vs_extensions s @ [ext]\<rparr>))) s = (Inr a, t)"
  shows "\<exists>es. list_all2 (\<lambda>j e. parse_vm_extension env j = Inr e) js es \<and> vs_extensions t = vs_extensions s @ es"
  using assms
proof (induction js arbitrary: s)
  case (Cons j js)
  then obtain ext where ext: "parse_vm_extension env j = Inr ext" "forM js (\<lambda>j. bindM (liftR (parse_vm_extension env j))
      (\<lambda>ext. modifyM (\<lambda>s. s\<lparr>vs_extensions := vs_extensions s @ [ext]\<rparr>))) (s\<lparr>vs_extensions := vs_extensions s @ [ext]\<rparr>) = (Inr a, t)"
    by (auto simp: op_defs split: sum.splits)
  from Cons.IH [OF ext(2)] ext(1) show ?case by (auto simp: list_all2_Cons1)
qed (simp add: op_defs)

lemma bindM_liftR_simps: "bindM (liftR (Inr a)) f = f a" "bindM (liftR (Inl e)) f = raiseM e"
  by (simp_all add: bindM_def liftR_def raiseM_def)

lemma create_from_vm_settings_Inr:
  assumes "create_from_vm_settings env etag json_text cid = Inr vs"
  obtains doc u v where "bindR (dc_loads env json_text) from_dict = Inr doc"
    "parse_attributes doc (new_vm_settings etag json_text cid) = (Inr (), u)" "parse_vm_extensions env doc u = (Inr (), v)"
    "vs = v\<lparr>vs_status_upload_blob_type := valid_blob_type (vs_status_upload_blob_type v)\<rparr>"
proof -
  from assms obtain v where v: "parse_vm_settings env json_text (new_vm_settings etag json_text cid) = (Inr (), v)"
    "vs = v\<lparr>vs_status_upload_blob_type := valid_blob_type (vs_status_upload_blob_type v)\<rparr>"
    by (auto simp: create_from_vm_settings_def thenM_def bindM_def modifyM_def split: prod.splits sum.splits)
  from v(1) that v(2) show ?thesis
    unfolding parse_vm_settings_eq by (auto elim!: bindM_InrE thenM_InrE simp: liftR_def)
qed

text \<open>
  C24: A vmSettings document that is accepted has one extension in the goal state for every entry of its
  \<^verbatim>\<open>extensionGoalStates\<close>, in the same order. The requested state of each is one of the known ones, an extension that does not support multiple
  configurations has at most one, which carries the name and the state of the extension, and no protected settings come
  without the thumbprint of the certificate that decrypts them.
\<close>

theorem accepted_extensions_well_formed:
  assumes "create_from_vm_settings env etag json_text cid = Inr vs"
    and "dc_loads env json_text = Inr document" "cf_get (case_folded document) ''extensionGoalStates'' = Inr states"
  shows "case states of
      JList js \<Rightarrow> list_all2 (\<lambda>j e. parse_vm_extension env j = Inr e \<and> well_formed e) js (vs_extensions vs)
    | _ \<Rightarrow> vs_extensions vs = []"
proof -
  from assms(1) obtain doc u v where doc: "bindR (dc_loads env json_text) from_dict = Inr doc"
    and u: "parse_attributes doc (new_vm_settings etag json_text cid) = (Inr (), u)" and v: "parse_vm_extensions env doc u = (Inr (), v)"
    and vs: "vs = v\<lparr>vs_status_upload_blob_type := valid_blob_type (vs_status_upload_blob_type v)\<rparr>"
    by (rule create_from_vm_settings_Inr)
  have "vs_extensions u = []"
    using preservesD [OF attributes_keep_extensions [of "[]" json_text doc], of "new_vm_settings etag json_text cid"] u
    by (simp add: new_vm_settings_def)
  moreover have "cf_get doc ''extensionGoalStates'' = Inr states"
    using doc assms(2, 3) by (auto simp: from_dict_def simp del: case_folded.simps split: json.splits)
  ultimately show ?thesis
    using v vs by (cases states) (auto simp: parse_vm_extensions_def bindM_liftR_simps returnM_def raiseM_def
        dest!: forM_appends dest: parse_vm_extension_well_formed elim!: list_all2_mono)
qed

lemma forM_stops:
  assumes "list_all2 (\<lambda>j e. parse_vm_extension env j = Inr e) parsed es" "parse_vm_extension env failing = Inl e"
  shows "forM (parsed @ failing # others) (\<lambda>j. bindM (liftR (parse_vm_extension env j)) (\<lambda>ext. modifyM (\<lambda>s. s\<lparr>vs_extensions := vs_extensions s @ [ext]\<rparr>))) s =
    (Inl e, s\<lparr>vs_extensions := vs_extensions s @ es\<rparr>)"
  using assms(1)
proof (induction parsed es arbitrary: s rule: list_all2_induct)
  case Nil
  with assms(2) show ?case by (simp add: liftR_def thenM_def bindM_def)
next
  case (Cons j js e es)
  then show ?case by (simp add: liftR_def thenM_def bindM_def modifyM_def)
qed


subsection \<open>Examples\<close>

definition sample_settings_json :: "string \<Rightarrow> json" where
  "sample_settings_json state = JObj [(''extensionGoalStates'', JList [JObj [(''Name'', JStr ''Ext''), (''version'', JStr ''1.0''),
     (''state'', JStr state), (''settingsSeqNo'', JInt 3),
     (''settings'', JList [JObj [(''protectedSettings'', JStr ''MIIBsAYJKoZI''), (''protectedSettingsCertThumbprint'', JStr ''BD44'')]])]])]"

definition quote :: string where "quote = [CHR 0x22]"

definition sample_settings_text :: "string \<Rightarrow> string" where
  "sample_settings_text state = (let q = (\<lambda>t. quote @ t @ quote) in
     ''{'' @ q ''extensionGoalStates'' @ '':[{'' @ q ''Name'' @ '':'' @ q ''Ext'' @ '','' @ q ''version'' @ '':'' @ q ''1.0'' @ '','' @ q ''state'' @ '':'' @ q state @
     '','' @ q ''settingsSeqNo'' @ '':3,'' @ q ''settings'' @ '':[{'' @ q ''protectedSettings'' @ '':'' @ q ''MIIBsAYJKoZI'' @ '','' @
     q ''protectedSettingsCertThumbprint'' @ '':'' @ q ''BD44'' @ ''}]}]}'')"

definition sample_doc_env :: doc_env where
  "sample_doc_env = \<lparr>dc_loads = (\<lambda>t. if t = sample_settings_text ''enabled'' then Inr (sample_settings_json ''enabled'')
       else if t = sample_settings_text ''on'' then Inr (sample_settings_json ''on'')
       else if t = map lower_char (sample_settings_text ''enabled'') then Inr (rekey lower (sample_settings_json ''enabled''))
       else Inl ValueError),
     dc_show = (\<lambda>_. ''error''), dc_repr = (\<lambda>_. '''')\<rparr>"

theorem key_case_irrelevant_witness:
  "parse_vm_settings sample_doc_env (map lower_char (sample_settings_text ''enabled'')) (new_vm_settings ''7'' '''' '''') =
   parse_vm_settings sample_doc_env (sample_settings_text ''enabled'') (new_vm_settings ''7'' '''' '''')"
  by (rule key_case_irrelevant [of lower _ _ "sample_settings_json ''enabled''"]) (simp, code_simp, code_simp)

theorem accepted_extensions_well_formed_witness:
  "\<exists>vs e. create_from_vm_settings sample_doc_env ''7'' (sample_settings_text ''enabled'') ''c'' = Inr vs \<and> vs_extensions vs = [e] \<and> well_formed e"
proof -
  obtain vs where vs: "create_from_vm_settings sample_doc_env ''7'' (sample_settings_text ''enabled'') ''c'' = Inr vs"
  proof -
    have "succeeds (create_from_vm_settings sample_doc_env ''7'' (sample_settings_text ''enabled'') ''c'')" by code_simp
    then show ?thesis using that by (cases "create_from_vm_settings sample_doc_env ''7'' (sample_settings_text ''enabled'') ''c''") auto
  qed
  have d: "dc_loads sample_doc_env (sample_settings_text ''enabled'') = Inr (sample_settings_json ''enabled'')" by code_simp
  obtain js where js: "cf_get (case_folded (sample_settings_json ''enabled'')) ''extensionGoalStates'' = Inr (JList js)" "length js = 1"
    by (simp add: sample_settings_json_def cf_get_def lower_def lower_char_def)
  then obtain j where "js = [j]" by (auto simp: length_Suc_conv)
  with accepted_extensions_well_formed [OF vs d js(1)] vs show ?thesis by (auto simp: list_all2_Cons1)
qed


section \<open>Redaction\<close>

definition vs_secret :: "vm_settings \<Rightarrow> string \<Rightarrow> bool" where
  "vs_secret vs p \<longleftrightarrow> secret p \<and>
     ((\<exists>e\<in>set (vs_extensions vs). \<exists>x\<in>set (ge_settings e). gx_protected_settings x = JStr p) \<or>
      (\<exists>url. vs_status_upload_blob vs = JStr url \<and> url_query url = Inr p))"

lemma vm_settings_redacted:
  assumes "vs_secret vs p"
  shows "redaction_failed (vs_get_redacted_text env vs) \<or> \<not> contains (vs_get_redacted_text env vs) p"
proof -
  have "startswith message ''Could not redact protectedSettings for ''" if "redact_vm_settings env vs = Inr (Inl message)" for message
    using that redact_settings_message by (auto simp: redact_vm_settings_def bindR_eq_Inr simp del: startswith.simps split: json.splits)
  then consider "redaction_failed (vs_get_redacted_text env vs)"
    | redacted where "redact_vm_settings env vs = Inr (Inr redacted)" "vs_get_redacted_text env vs = redacted"
    unfolding vs_get_redacted_text_def by (rule redaction_result_cases)
  then show ?thesis
  proof cases
    case (2 redacted)
    from 2(1) obtain t where t: "(case vs_status_upload_blob vs of JNull \<Rightarrow> Inr (vs_text vs)
        | JStr url \<Rightarrow> redact_query url ''Could not redact the status upload blob'' (vs_text vs) | _ \<Rightarrow> Inl AttributeError) = Inr t"
      "redact_settings env (concat (map ge_settings (vs_extensions vs))) t = Inr (Inr redacted)"
      by (auto simp: redact_vm_settings_def bindR_eq_Inr)
    have "\<not> contains t p \<or> (\<exists>x\<in>set (concat (map ge_settings (vs_extensions vs))). gx_protected_settings x = JStr p)"
      using assms t(1) redact_query_removes [of _ _ _ t p] by (fastforce simp: vs_secret_def)
    with 2 t(2) assms redact_settings_removes show ?thesis unfolding vs_secret_def by blast
  qed blast
qed

end
