(* ===== verification/Ext_Config.thy ===== *)
theory Ext_Config
  imports Ext_Goal_State Xml File_System
begin

text \<open>
  \<^verbatim>\<open>azurelinuxagent/common/protocol/extensions_goal_state_from_extensions_config.py\<close>: the goal state of the Fabric
  pipeline, an XML document. The record \<open>extensions_config\<close> holds the attributes of the class. The parser of a plugin is an operation on
  the extension it fills, because what it has filled stays when the settings turn out to be invalid: an
  \<^verbatim>\<open>ExtensionsConfigError\<close> marks that extension, any other error fails the document. Whether the extensions are on
  hold is asked of the wire client between the two halves of the parser.
\<close>

record extensions_config =
  xc_id :: string
  xc_incarnation :: "string option"
  xc_is_outdated :: bool
  xc_text :: string
  xc_status_upload_blob :: "string option"
  xc_status_upload_blob_type :: "string option"
  xc_status_upload_blob_node :: "xml option"
  xc_artifacts_profile_blob_node :: "xml option"
  xc_required_features :: "string option list"
  xc_on_hold :: bool
  xc_activity_id :: json
  xc_correlation_id :: json
  xc_created_on_timestamp :: "string option"
  xc_agent_families :: "gs_family list"
  xc_extensions :: "gs_extension list"

definition new_extensions_config :: "string option \<Rightarrow> string \<Rightarrow> extensions_config" where
  "new_extensions_config incarnation xml_text =
     \<lparr>xc_id = ''incarnation_'' @ opt_text incarnation, xc_incarnation = incarnation, xc_is_outdated = False, xc_text = xml_text,
      xc_status_upload_blob = None, xc_status_upload_blob_type = None, xc_status_upload_blob_node = None,
      xc_artifacts_profile_blob_node = None, xc_required_features = [], xc_on_hold = False, xc_activity_id = JNull,
      xc_correlation_id = JNull, xc_created_on_timestamp = None, xc_agent_families = [], xc_extensions = []\<rparr>"

section \<open>Redaction\<close>

definition redact_url :: "string \<Rightarrow> xml option \<Rightarrow> string \<Rightarrow> string res" where
  "redact_url unredacted xml_node name = (case gettextxml xml_node of
     None \<Rightarrow> Inr unredacted
   | Some text_xml \<Rightarrow> redact_query text_xml (''Could not redact '' @ name) unredacted)"

definition redact_extensions_config :: "doc_env \<Rightarrow> extensions_config \<Rightarrow> (string + string) res" where
  "redact_extensions_config env xc =
     bindR (redact_url (xc_text xc) (xc_status_upload_blob_node xc) ''StatusUploadBlob'') (\<lambda>t.
     bindR (redact_url t (xc_artifacts_profile_blob_node xc) ''InVMArtifactsProfileBlob'')
       (redact_settings env (concat (map ge_settings (xc_extensions xc)))))"

definition xc_get_redacted_text :: "doc_env \<Rightarrow> extensions_config \<Rightarrow> string" where
  "xc_get_redacted_text env xc = redaction_result env (redact_extensions_config env xc)"

section \<open>Plugins\<close>

text \<open>An attribute of an element that is there; it is empty when it is missing.\<close>

definition attr :: "xml \<Rightarrow> string \<Rightarrow> string" where
  "attr node name = (case getattrib (Some node) name of None \<Rightarrow> '''' | Some v \<Rightarrow> v)"

definition parse_plugin :: "xml \<Rightarrow> (gs_extension, unit) op" where
  "parse_plugin plugin =
     thenM (modifyM (\<lambda>e. e\<lparr>ge_name := JStr (attr plugin ''name''), ge_version := JStr (attr plugin ''version''), ge_state := JStr (attr plugin ''state'')\<rparr>))
    (if attr plugin ''state'' = '''' then raiseM (ExtensionsConfigError ''Received empty Extensions.Plugins.Plugin.state, failing Handler'')
     else modifyM (\<lambda>e. e\<lparr>ge_encoded_signature := JStr (attr plugin ''encodedSignature''),
            ge_manifest_uris := ge_manifest_uris e @
              map JStr (filter (\<lambda>a. a \<noteq> '''') [attr plugin ''location'', attr plugin ''failoverlocation'']) @
              map (\<lambda>n. opt_json (gettext (Some n))) (findall (find_node (Some plugin) ''additionalLocations'') ''additionalLocation'')\<rparr>))"

definition get_dependency_level_from_node :: "xml option \<Rightarrow> int" where
  "get_dependency_level_from_node node = (case node of
     None \<Rightarrow> 0
   | Some n \<Rightarrow> (case int_of_text (attr n ''dependencyLevel'') of Inr i \<Rightarrow> i | Inl _ \<Rightarrow> 0))"

definition add_settings :: "gs_settings \<Rightarrow> (gs_extension, unit) op" where
  "add_settings x = modifyM (\<lambda>e. e\<lparr>ge_settings := ge_settings e @ [x]\<rparr>)"

definition parse_handler_settings :: "string \<Rightarrow> string \<Rightarrow> int \<Rightarrow> string \<Rightarrow> json \<Rightarrow> gs_settings res" where
  "parse_handler_settings seq_no name level state plugin_settings =
     bindR (py_index plugin_settings ''handlerSettings'') (\<lambda>handler_settings.
     bindR (int_of_text seq_no) (\<lambda>n.
     bindR (py_get handler_settings ''publicSettings'') (\<lambda>public_settings.
     bindR (py_get handler_settings ''protectedSettings'') (\<lambda>protected_settings.
     bindR (py_get handler_settings ''protectedSettingsCertThumbprint'') (\<lambda>thumbprint.
       Inr (new_gs_settings\<lparr>gx_name := JStr name, gx_state := JStr state, gx_sequence_number := JInt n,
         gx_public_settings := public_settings, gx_protected_settings := protected_settings,
         gx_dependency_level := JInt level, gx_certificate_thumbprint := thumbprint\<rparr>))))))"

definition parse_and_add_extension_settings :: "doc_env \<Rightarrow> xml \<Rightarrow> string \<Rightarrow> int \<Rightarrow> string \<Rightarrow> (gs_extension, unit) op" where
  "parse_and_add_extension_settings env settings_node name depends_on_level state =
     (let seq_no = attr settings_node ''seqNo'' in
      if seq_no = '''' then raiseM (ExtensionsConfigError (''SeqNo not specified for the Extension: '' @ name))
      else case (case gettext (Some settings_node) of None \<Rightarrow> Inl TypeError | Some t \<Rightarrow> dc_loads env t) of
        Inl e \<Rightarrow>
          if e = ValueError
          then add_settings (new_gs_settings\<lparr>gx_name := JStr name, gx_sequence_number := JStr seq_no, gx_state := JStr state,
                 gx_dependency_level := JInt depends_on_level\<rparr>)
          else raiseM e
      | Inr runtime_settings \<Rightarrow>
          bindM (liftR (bindR (py_index runtime_settings ''runtimeSettings'') py_iter)) (\<lambda>items.
            forM items (\<lambda>item. bindM (liftR (parse_handler_settings seq_no name depends_on_level state item)) add_settings)))"

definition ext_name_text :: "gs_extension \<Rightarrow> string" where
  "ext_name_text e = (case ge_name e of JStr t \<Rightarrow> t | _ \<Rightarrow> ''None'')"

definition parse_runtime_settings :: "doc_env \<Rightarrow> xml \<Rightarrow> xml \<Rightarrow> string \<Rightarrow> (gs_extension, unit) op" where
  "parse_runtime_settings env plugin_settings_node runtime_settings_node extension_name =
     (let nodes = findall (Some plugin_settings_node) ''DependsOn'' in
      if length nodes > 1
      then raiseM (ExtensionsConfigError ''Extension Handler can only have a single dependsOn node for Single config extensions'')
      else parse_and_add_extension_settings env runtime_settings_node extension_name
             (get_dependency_level_from_node (case nodes of [] \<Rightarrow> None | n # _ \<Rightarrow> Some n)) Enabled)"

fun parse_dependency_levels :: "xml list \<Rightarrow> (string \<times> int) list \<Rightarrow> (string \<times> int) list res" where
  "parse_dependency_levels [] levels = Inr levels"
| "parse_dependency_levels (n # ns) levels =
     (if attr n ''name'' = ''''
      then Inl (ExtensionsConfigError ''No Name not specified for DependsOn object in ExtensionRuntimeSettings for MultiConfig!'')
      else parse_dependency_levels ns (AList.update (attr n ''name'') (get_dependency_level_from_node (Some n)) levels))"

definition parse_extension_runtime_settings :: "doc_env \<Rightarrow> xml \<Rightarrow> xml list \<Rightarrow> (gs_extension, unit) op" where
  "parse_extension_runtime_settings env plugin_settings_node nodes =
     bindM (liftR (parse_dependency_levels (findall (Some plugin_settings_node) ''DependsOn'') [])) (\<lambda>levels.
     thenM (modifyM (\<lambda>e. e\<lparr>ge_supports_multi_config := JBool True\<rparr>))
       (forM nodes (\<lambda>node.
          let name = attr node ''name'' in
          if name = '''' then raiseM (ExtensionsConfigError ''Extension Name not specified for ExtensionRuntimeSettings for MultiConfig!'')
          else let state = (if attr node ''state'' = '''' then Enabled else lower (attr node ''state'')) in
            parse_and_add_extension_settings env node name (case map_of levels name of None \<Rightarrow> 0 | Some l \<Rightarrow> l) state)))"

definition parse_plugin_settings :: "doc_env \<Rightarrow> xml list \<Rightarrow> (gs_extension, unit) op" where
  "parse_plugin_settings env plugin_settings =
     bindM (getM (\<lambda>e. (ext_name_text e, ge_version e))) (\<lambda>(name, version).
     let named = filter (\<lambda>x. lower (attr x ''name'') = lower name) plugin_settings;
         settings = filter (\<lambda>x. JStr (attr x ''version'') = version) named
     in if named = [] then returnM ()
       else if length settings \<noteq> length named then raiseM (ExtensionsConfigError ''Extension PluginSettings Version Mismatch!'')
       else if length settings > 1 then raiseM (ExtensionsConfigError ''Multiple plugin settings found for the same extension'')
       else let node = hd settings;
                runtime = findall (Some node) ''RuntimeSettings'';
                ext_runtime = findall (Some node) ''ExtensionRuntimeSettings''
         in if runtime \<noteq> [] \<and> ext_runtime \<noteq> []
            then raiseM (ExtensionsConfigError ''Both RuntimeSettings and ExtensionRuntimeSettings found for the same extension'')
            else case runtime of
              r # rs \<Rightarrow> if rs \<noteq> [] then raiseM (ExtensionsConfigError ''Multiple RuntimeSettings found for the same extension'')
                        else parse_runtime_settings env node r name
            | [] \<Rightarrow> if ext_runtime \<noteq> [] then parse_extension_runtime_settings env node ext_runtime else returnM ())"

definition parse_plugin_extension :: "doc_env \<Rightarrow> xml list \<Rightarrow> xml \<Rightarrow> gs_extension res" where
  "parse_plugin_extension env plugin_settings plugin =
     (case thenM (parse_plugin plugin) (parse_plugin_settings env plugin_settings) new_gs_extension of
        (Inr _, ext) \<Rightarrow> Inr ext
      | (Inl (ExtensionsConfigError m), ext) \<Rightarrow> Inr (ext\<lparr>ge_invalid_setting_reason := Some (dc_show env (ExtensionsConfigError m))\<rparr>)
      | (Inl e, ext) \<Rightarrow> Inl e)"

definition parse_plugins :: "doc_env \<Rightarrow> xml \<Rightarrow> (extensions_config, unit) op" where
  "parse_plugins env doc =
     (let plugins = findall (find_node (Some doc) ''Plugins'') ''Plugin'';
          plugin_settings = findall (find_node (Some doc) ''PluginSettings'') ''Plugin''
      in forM plugins (\<lambda>plugin. bindM (liftR (parse_plugin_extension env plugin_settings plugin)) (\<lambda>ext.
           modifyM (\<lambda>s. s\<lparr>xc_extensions := xc_extensions s @ [ext]\<rparr>))))"

section \<open>The document\<close>

definition text_flag :: "string option \<Rightarrow> json" where
  "text_flag t = (case t of None \<Rightarrow> JNull | Some v \<Rightarrow> JBool (lower v = ''true''))"

definition add_ga_signature :: "xml \<Rightarrow> (string \<times> string) list \<Rightarrow> (string \<times> string) list" where
  "add_ga_signature n sigs = (case (findtext (Some n) ''Version'', findtext (Some n) ''EncodedSignature'') of
     (Some v, Some s) \<Rightarrow> AList.update v s sigs | _ \<Rightarrow> sigs)"

definition parse_ga_family :: "xml \<Rightarrow> gs_family" where
  "parse_ga_family n =
     (new_gs_family (opt_json (findtext (Some n) ''Name'')))\<lparr>
       gf_version := opt_json (findtext (Some n) ''Version''), gf_from_version := opt_json (findtext (Some n) ''FromVersion''),
       gf_is_version_from_rsm := text_flag (findtext (Some n) ''IsVersionFromRSM''),
       gf_is_vm_enabled_for_rsm_upgrades := text_flag (findtext (Some n) ''IsVMEnabledForRSMUpgrades''),
       gf_uris := map (\<lambda>u. opt_json (gettext (Some u))) (findall (find_node (Some n) ''Uris'') ''Uri''),
       gf_signatures := fold add_ga_signature (findall (find_node (Some n) ''VersionToSignatureMappings'') ''GASignature'') []\<rparr>"

text \<open>The document up to the question whether extensions are on hold, and what follows it.\<close>

definition parse_config :: "doc_env \<Rightarrow> xml \<Rightarrow> (extensions_config, unit) op" where
  "parse_config env doc =
     thenM (modifyM (\<lambda>s. s\<lparr>xc_agent_families := map parse_ga_family (findall (find_node (Some doc) ''GAFamilies'') ''GAFamily'')\<rparr>))
    (thenM (parse_plugins env doc)
    (let status_node = find_node (Some doc) ''StatusUploadBlob'' in
     modifyM (\<lambda>s. s\<lparr>
       xc_required_features := map (\<lambda>n. findtext (Some n) ''Name'') (findall (find_node (Some doc) ''RequiredFeatures'') ''RequiredFeature''),
       xc_status_upload_blob_node := status_node, xc_status_upload_blob := gettext status_node,
       xc_status_upload_blob_type := getattrib status_node ''statusBlobType'',
       xc_artifacts_profile_blob_node := find_node (Some doc) ''InVMArtifactsProfileBlob''\<rparr>)))"

definition parse_metadata :: "xml \<Rightarrow> bool \<Rightarrow> extensions_config \<Rightarrow> extensions_config" where
  "parse_metadata doc on_hold xc =
     (let meta = find_node (Some doc) ''InVMGoalStateMetaData'' in
      xc\<lparr>xc_on_hold := on_hold, xc_activity_id := string_to_id (opt_json (getattrib meta ''activityId'')),
         xc_correlation_id := string_to_id (opt_json (getattrib meta ''correlationId'')),
         xc_created_on_timestamp := Some (ticks_to_utc_timestamp (opt_json (getattrib meta ''createdOnTicks''))),
         xc_status_upload_blob_type := (case xc_status_upload_blob_type xc of
           Some t \<Rightarrow> if t \<in> set [''BlockBlob'', ''PageBlob''] then Some t else Some ''BlockBlob'' | None \<Rightarrow> Some ''BlockBlob'')\<rparr>)"

text \<open>\<^verbatim>\<open>_InVMArtifactsProfile\<close>: \<^verbatim>\<open>onHold\<close> may be a boolean or its text.\<close>

definition in_vm_artifacts_profile :: "doc_env \<Rightarrow> string \<Rightarrow> bool res" where
  "in_vm_artifacts_profile env profile =
     bindR (parse_json (dc_loads env) (Some profile)) (\<lambda>p. case p of
       None \<Rightarrow> Inl AttributeError
     | Some j \<Rightarrow> bindR (py_get j ''onHold'') (\<lambda>on_hold.
         if on_hold = JNull then Inr False
         else let t = lower (ustr (dc_repr env) on_hold) in
           if t = ''true'' then Inr True else if t = ''false'' then Inr False else Inl (OtherError ''Invalid value for onHold'')))"

definition config_error :: "doc_env \<Rightarrow> string option \<Rightarrow> exn \<Rightarrow> extensions_config \<Rightarrow> exn" where
  "config_error env incarnation e xc = ExtensionsConfigError (''Error parsing ExtensionsConfig (incarnation: '' @ opt_text incarnation @ ''): '' @
     dc_show env e @ newline @ xc_get_redacted_text env xc)"

section \<open>What the parser keeps\<close>

definition xc_secret :: "extensions_config \<Rightarrow> string \<Rightarrow> bool" where
  "xc_secret xc p \<longleftrightarrow> secret p \<and>
     ((\<exists>e\<in>set (xc_extensions xc). \<exists>x\<in>set (ge_settings e). gx_protected_settings x = JStr p) \<or>
      (\<exists>url. gettextxml (xc_status_upload_blob_node xc) = Some url \<and> url_query url = Inr p) \<or>
      (\<exists>url. gettextxml (xc_artifacts_profile_blob_node xc) = Some url \<and> url_query url = Inr p))"

lemma redact_url_removes:
  assumes "redact_url t node name = Inr redacted" "secret p"
    and "\<not> contains t p \<or> (\<exists>url. gettextxml node = Some url \<and> url_query url = Inr p)"
  shows "\<not> contains redacted p"
  using assms redact_query_removes [of _ _ t redacted p] by (auto simp: redact_url_def split: option.splits)

lemma extensions_config_redacted:
  assumes "xc_secret xc p"
  shows "redaction_failed (xc_get_redacted_text env xc) \<or> \<not> contains (xc_get_redacted_text env xc) p"
proof -
  have "startswith message ''Could not redact protectedSettings for ''" if "redact_extensions_config env xc = Inr (Inl message)" for message
    using that redact_settings_message by (auto simp: redact_extensions_config_def bindR_eq_Inr simp del: startswith.simps)
  then consider "redaction_failed (xc_get_redacted_text env xc)"
    | redacted where "redact_extensions_config env xc = Inr (Inr redacted)" "xc_get_redacted_text env xc = redacted"
    unfolding xc_get_redacted_text_def by (rule redaction_result_cases)
  then show ?thesis
  proof cases
    case (2 redacted)
    from 2(1) obtain t u where t: "redact_url (xc_text xc) (xc_status_upload_blob_node xc) ''StatusUploadBlob'' = Inr t"
      "redact_url t (xc_artifacts_profile_blob_node xc) ''InVMArtifactsProfileBlob'' = Inr u"
      "redact_settings env (concat (map ge_settings (xc_extensions xc))) u = Inr (Inr redacted)"
      by (auto simp: redact_extensions_config_def bindR_eq_Inr)
    have "\<not> contains u p \<or> (\<exists>x\<in>set (concat (map ge_settings (xc_extensions xc))). gx_protected_settings x = JStr p)"
      using assms redact_url_removes [OF t(1)] redact_url_removes [OF t(2)] by (fastforce simp: xc_secret_def)
    with 2 t(3) assms redact_settings_removes show ?thesis unfolding xc_secret_def by blast
  qed blast
qed

subsection \<open>Plugins\<close>

definition identity :: "gs_extension \<Rightarrow> json \<times> json \<times> json" where
  "identity e = (ge_name e, ge_version e, ge_state e)"

lemma preserves_bindM_pair [preserves_intros]:
  "preserves P m \<Longrightarrow> (\<And>a b. preserves P (f a b)) \<Longrightarrow> preserves P (bindM m (\<lambda>(a, b). f a b))"
  by (intro preserves_bindM) (auto split: prod.splits)

lemma preserves_case_list [preserves_intros]:
  "(xs = [] \<Longrightarrow> preserves P m) \<Longrightarrow> (\<And>y ys. xs = y # ys \<Longrightarrow> preserves P (f y ys)) \<Longrightarrow>
   preserves P (case xs of [] \<Rightarrow> m | y # ys \<Rightarrow> f y ys)"
  by (cases xs) simp_all

lemma settings_keep_identity: "preserves (\<lambda>e. identity e = i) (parse_and_add_extension_settings env node name level state)"
  unfolding parse_and_add_extension_settings_def add_settings_def Let_def
  by (auto intro!: preserves_intros simp: identity_def split: sum.split)

lemma plugin_settings_keep_identity: "preserves (\<lambda>e. identity e = i) (parse_plugin_settings env plugin_settings)"
proof -
  have "preserves (\<lambda>e. identity e = i) (parse_runtime_settings env n r name)" for n r name
    unfolding parse_runtime_settings_def Let_def by (intro preserves_intros settings_keep_identity)
  moreover have "preserves (\<lambda>e. identity e = i) (parse_extension_runtime_settings env n ns)" for n ns
    unfolding parse_extension_runtime_settings_def Let_def
    by (intro preserves_intros settings_keep_identity) (simp add: identity_def)
  ultimately show ?thesis
    unfolding parse_plugin_settings_def Let_def by (intro preserves_intros)
qed

lemma parse_plugin_identity:
  "identity (snd (parse_plugin plugin e)) = (JStr (attr plugin ''name''), JStr (attr plugin ''version''), JStr (attr plugin ''state''))"
  by (simp add: parse_plugin_def identity_def op_defs)

lemma parse_plugin_extension_identity:
  assumes "parse_plugin_extension env plugin_settings plugin = Inr ext"
  shows "identity ext = (JStr (attr plugin ''name''), JStr (attr plugin ''version''), JStr (attr plugin ''state''))"
proof -
  let ?m = "thenM (parse_plugin plugin) (parse_plugin_settings env plugin_settings)"
  have "identity (snd (?m new_gs_extension)) = (JStr (attr plugin ''name''), JStr (attr plugin ''version''), JStr (attr plugin ''state''))"
    using parse_plugin_identity [of plugin new_gs_extension] preservesD [OF plugin_settings_keep_identity]
    by (auto simp: thenM_def bindM_def split: prod.splits sum.splits)
  moreover have "identity (e\<lparr>ge_invalid_setting_reason := r\<rparr>) = identity e" for e r by (simp add: identity_def)
  ultimately show ?thesis
    using assms by (auto simp: parse_plugin_extension_def split: prod.splits sum.splits exn.splits)
qed


lemma settings_without_text:
  assumes "attr node ''seqNo'' \<noteq> ''''" "gettext (Some node) = None"
  shows "parse_and_add_extension_settings env node name level state e = (Inl TypeError, e)"
  using assms by (simp add: parse_and_add_extension_settings_def Let_def raiseM_def)

lemma forM_plugins_stop:
  assumes "list_all2 (\<lambda>plugin e. parse_plugin_extension env ps plugin = Inr e) parsed es" "parse_plugin_extension env ps failing = Inl e"
  shows "forM (parsed @ failing # others) (\<lambda>plugin. bindM (liftR (parse_plugin_extension env ps plugin)) (\<lambda>ext.
           modifyM (\<lambda>s. s\<lparr>xc_extensions := xc_extensions s @ [ext]\<rparr>))) s = (Inl e, s\<lparr>xc_extensions := xc_extensions s @ es\<rparr>)"
  using assms(1)
proof (induction parsed es arbitrary: s rule: list_all2_induct)
  case Nil
  with assms(2) show ?case by (simp add: liftR_def thenM_def bindM_def)
next
  case (Cons p ps e es)
  then show ?case by (simp add: liftR_def thenM_def bindM_def modifyM_def)
qed

text \<open>
  C40: A comment in the parser says that in case of invalid or no settings the extension is kept with its name and sequence number, so that it is reported
  at once. This holds for settings that are not JSON. Settings without any text raise a \<^verbatim>\<open>TypeError\<close>, which fails the whole
  document: of all its plugins only those before the failing one have become extensions.
\<close>

theorem settings_without_text_fail_document:
  assumes "findall (find_node (Some doc) ''Plugins'') ''Plugin'' = parsed @ plugin # others"
    and ps: "findall (find_node (Some doc) ''PluginSettings'') ''Plugin'' = ps"
    and "list_all2 (\<lambda>p e. parse_plugin_extension env ps p = Inr e) parsed es"
    and "attr plugin ''state'' \<noteq> ''''"
    and "filter (\<lambda>x. lower (attr x ''name'') = lower (attr plugin ''name'')) ps = [node]" "attr node ''version'' = attr plugin ''version''"
    and "findall (Some node) ''RuntimeSettings'' = [settings]" "findall (Some node) ''ExtensionRuntimeSettings'' = []"
    and "length (findall (Some node) ''DependsOn'') \<le> 1"
    and "attr settings ''seqNo'' \<noteq> ''''" "gettext (Some settings) = None"
  shows "parse_plugins env doc s = (Inl TypeError, s\<lparr>xc_extensions := xc_extensions s @ es\<rparr>)"
proof -
  have "\<exists>e. thenM (parse_plugin plugin) (parse_plugin_settings env ps) new_gs_extension = (Inl TypeError, e)"
    using assms(4-) by (simp add: parse_plugin_def parse_plugin_settings_def parse_runtime_settings_def ext_name_text_def Let_def
        thenM_def bindM_def modifyM_def getM_def settings_without_text)
  then have "parse_plugin_extension env ps plugin = Inl TypeError" by (auto simp: parse_plugin_extension_def)
  with forM_plugins_stop [OF assms(3), of plugin TypeError others s] show ?thesis by (simp add: parse_plugins_def assms(1) ps Let_def)
qed

subsection \<open>Examples\<close>

definition sample_plugin :: "string \<Rightarrow> string \<Rightarrow> xml" where
  "sample_plugin name state = Element ''Plugin'' [(''name'', name), (''version'', ''1.0''), (''state'', state)] []"

definition sample_plugin_settings :: "string \<Rightarrow> xml list \<Rightarrow> xml" where
  "sample_plugin_settings name settings = Element ''Plugin'' [(''name'', name), (''version'', ''1.0'')] [Element ''RuntimeSettings'' [(''seqNo'', ''2'')] settings]"

definition sample_config :: "xml list \<Rightarrow> xml list \<Rightarrow> xml" where
  "sample_config plugins settings = Element '''' [] [Element ''Extensions'' [] [Element ''Plugins'' [] plugins, Element ''PluginSettings'' [] settings]]"

definition sample_config_env :: doc_env where
  "sample_config_env = \<lparr>dc_loads = (\<lambda>t. if t = ''{}'' then Inr (JObj [(''runtimeSettings'', JList [JObj [(''handlerSettings'', JObj [(''publicSettings'', JStr ''p'')])]])])
       else Inl ValueError), dc_show = (\<lambda>_. ''error''), dc_repr = (\<lambda>_. '''')\<rparr>"


theorem settings_without_text_fail_document_witness:
  "\<exists>e. parse_plugins sample_config_env
     (sample_config [sample_plugin ''A'' ''enabled'', sample_plugin ''B'' ''enabled'', sample_plugin ''C'' ''enabled'']
        [sample_plugin_settings ''A'' [Text ''{}''], sample_plugin_settings ''B'' []]) (new_extensions_config None '''') =
   (Inl TypeError, (new_extensions_config None '''')\<lparr>xc_extensions := [e]\<rparr>)"
proof -
  let ?ps = "[sample_plugin_settings ''A'' [Text ''{}''], sample_plugin_settings ''B'' []]"
  let ?doc = "sample_config [sample_plugin ''A'' ''enabled'', sample_plugin ''B'' ''enabled'', sample_plugin ''C'' ''enabled''] ?ps"
  obtain e where e: "parse_plugin_extension sample_config_env ?ps (sample_plugin ''A'' ''enabled'') = Inr e"
  proof -
    have "succeeds (parse_plugin_extension sample_config_env ?ps (sample_plugin ''A'' ''enabled''))" by code_simp
    then show ?thesis using that by (cases "parse_plugin_extension sample_config_env ?ps (sample_plugin ''A'' ''enabled'')") auto
  qed
  have "parse_plugins sample_config_env ?doc (new_extensions_config None '''') =
    (Inl TypeError, (new_extensions_config None '''')\<lparr>xc_extensions := xc_extensions (new_extensions_config None '''') @ [e]\<rparr>)"
    by (rule settings_without_text_fail_document [of _ "[sample_plugin ''A'' ''enabled'']" "sample_plugin ''B'' ''enabled''" "[sample_plugin ''C'' ''enabled'']" ?ps _ _
          "sample_plugin_settings ''B'' []" "Element ''RuntimeSettings'' [(''seqNo'', ''2'')] []"]) (simp add: e | code_simp)+
  then show ?thesis by (auto simp: new_extensions_config_def)
qed

end
