(* ===== verification/History.thy ===== *)
theory History
  imports Net Date_Time Py_Sort
begin

text \<open>
  \<^verbatim>\<open>azurelinuxagent/common/utils/archive.py\<close>: the directory \<^verbatim>\<open>history\<close>, where each new goal state leaves its documents, the
  archiver that compresses all but the newest of them, and the limit on how many are kept. \<open>ctime\<close> is the time of
  creation of a path and \<open>zip\<close> what \<^verbatim>\<open>zipfile\<close> writes for a list of files. The clock of \<open>net\<close> counts from
  midnight of the first day of year 1.
\<close>

section \<open>Names\<close>

definition ARCHIVE_DIRECTORY_NAME :: string where "ARCHIVE_DIRECTORY_NAME = ''history''"
definition PLACEHOLDER_FILE_NAME :: string where "PLACEHOLDER_FILE_NAME = ''GoalState.1.xml''"
definition MAX_ARCHIVED_STATES :: nat where "MAX_ARCHIVED_STATES = 50"

text \<open>\<^verbatim>\<open>$\<close> matches at the end, and before a line feed at the end.\<close>

definition at_end :: "(string \<Rightarrow> bool) \<Rightarrow> string \<Rightarrow> bool" where
  "at_end m s = (m s \<or> s \<noteq> [] \<and> last s = CHR 0x0A \<and> m (butlast s))"

definition digits :: "string \<Rightarrow> bool" where
  "digits s \<longleftrightarrow> s \<noteq> [] \<and> list_all is_digit s"

definition numbered :: "string \<Rightarrow> string \<Rightarrow> string \<Rightarrow> bool" where
  "numbered prefix suffix s \<longleftrightarrow> startswith s prefix \<and> endswith s suffix \<and> length prefix + length suffix < length s \<and>
     digits (drop (length prefix) (take (length s - length suffix) s))"

text \<open>\<^verbatim>\<open>^(.*)\.(\d+)\.(suffix)$\<close> in any case.\<close>

definition numbered_any :: "string \<Rightarrow> string \<Rightarrow> bool" where
  "numbered_any suffix s = (let rest = take (length s - Suc (length suffix)) s in
     endswith (lower s) (''.'' @ suffix) \<and>
     (case rsplit1 (CHR ''.'') rest of Some (a, n) \<Rightarrow> digits n \<and> CHR 0x0A \<notin> set a | None \<Rightarrow> False))"

definition is_cached :: "string \<Rightarrow> bool" where
  "is_cached s = at_end (\<lambda>t. numbered ''VmSettings.'' ''.json'' t \<or> numbered_any ''agentsmanifest'' t \<or> numbered_any ''manifest.xml'' t \<or>
     numbered_any ''xml'' t \<or> lower t = ''hostingenvironmentconfig.xml'' \<or> lower t = ''remoteaccess.xml'' \<or>
     numbered ''waagent_status.'' ''.json'' t) s"

text \<open>
  The names of archived states: a time, optionally with a fraction, and optionally a tag of an incarnation
  and an etag; \<open>archive_rest\<close> is what follows such a name.
\<close>

fun match_shape :: "string \<Rightarrow> string \<Rightarrow> string option" where
  "match_shape [] s = Some s"
| "match_shape (p # ps) [] = None"
| "match_shape (p # ps) (c # s) =
     (if (if p = CHR ''d'' then is_digit c else if p = CHR '':'' then c = CHR '':'' \<or> c = CHR ''-'' else c = p) then match_shape ps s else None)"

definition drop_digits :: "string \<Rightarrow> string option" where
  "drop_digits s = (if s \<noteq> [] \<and> is_digit (hd s) then Some (dropWhile is_digit s) else None)"

definition drop_fraction :: "string \<Rightarrow> string" where
  "drop_fraction s = (if startswith s ''.'' then (case drop_digits (tl s) of Some r \<Rightarrow> r | None \<Rightarrow> s) else s)"

definition drop_tag :: "string \<Rightarrow> string" where
  "drop_tag s = (let t = (if startswith s ''_incarnation'' then drop 12 s else s);
                     u = dropWhile (\<lambda>c. c = CHR ''_'') t
     in if \<not> startswith t ''_'' then s
        else case (if startswith u ''status'' then Some (drop 6 u) else drop_digits u) of
          None \<Rightarrow> s
        | Some v \<Rightarrow> (if startswith v ''-'' then (case drop_digits (tl v) of Some w \<Rightarrow> w | None \<Rightarrow> v) else v))"

definition archive_rest :: "string \<Rightarrow> string option" where
  "archive_rest s = map_option (\<lambda>r. drop_tag (drop_fraction r)) (match_shape ''dddd-dd-ddTdd:dd:dd'' s)"

definition is_archive_directory :: "string \<Rightarrow> bool" where
  "is_archive_directory s = at_end (\<lambda>t. archive_rest t = Some '''') s"

definition is_archive_zip :: "string \<Rightarrow> bool" where
  "is_archive_zip s = at_end (\<lambda>t. archive_rest t = Some ''.zip'') s"

section \<open>The archiver\<close>

record history_env =
  he_ctime :: "path \<Rightarrow> int"
  he_zip :: "(string \<times> string) list \<Rightarrow> string res"

definition history_dir :: path where "history_dir = [ARCHIVE_DIRECTORY_NAME]"

text \<open>
  \<^verbatim>\<open>StateArchiver.__init__\<close>; the errors of a file system (\<^verbatim>\<open>IOError\<close>) are logged.
\<close>

definition new_state_archiver :: "io_env \<Rightarrow> ('a fs_scheme, unit) op" where
  "new_state_archiver io =
     bindM (getM (\<lambda>s. is_dir s history_dir)) (\<lambda>there.
       whenM (\<not> there) (tryM (mkdir io history_dir) (\<lambda>e. if is_OSError e then Some (returnM ()) else None)))"

definition newest_first :: "history_env \<Rightarrow> path list \<Rightarrow> path list" where
  "newest_first env = sort_by (\<lambda>a b. he_ctime env b < he_ctime env a)"

definition purge_legacy_goal_state_history :: "io_env \<Rightarrow> ('a fs_scheme, unit) op" where
  "purge_legacy_goal_state_history io =
     bindM (getM (\<lambda>s. list_dir s [])) (\<lambda>names.
       forM names (\<lambda>n. whenM (n \<noteq> PLACEHOLDER_FILE_NAME \<and> is_cached n)
         (tryM (remove_file io [n]) (\<lambda>e. if is_Exception e then Some (returnM ()) else None))))"

definition get_archive_states :: "history_env \<Rightarrow> 'a fs_scheme \<Rightarrow> (path \<times> bool) list" where
  "get_archive_states env s =
     (let names = list_dir s history_dir;
          states = concat (map (\<lambda>n. (if is_archive_directory n then [(history_dir @ [n], True)] else []) @
                                    (if is_archive_zip n then [(history_dir @ [n], False)] else [])) names)
      in sort_by (\<lambda>a b. he_ctime env (fst b) < he_ctime env (fst a)) states)"

definition add_suffix :: "path \<Rightarrow> string \<Rightarrow> path" where
  "add_suffix p suffix = butlast p @ [last p @ suffix]"

definition archive_directory :: "history_env \<Rightarrow> io_env \<Rightarrow> path \<Rightarrow> ('a fs_scheme, unit) op" where
  "archive_directory env io p =
     bindM (getM (\<lambda>s. (is_dir s p, map (\<lambda>n. (n, case map_of (fs_files s) (p @ [n]) of None \<Rightarrow> '''' | Some t \<Rightarrow> t)) (list_dir s p)))) (\<lambda>(dir, files).
       if \<not> dir then raiseM FileNotFoundError
       else case he_zip env files of
         Inl e \<Rightarrow> thenM (write_file io (add_suffix p ''.zip.tmp'') '''') (raiseM e)
       | Inr z \<Rightarrow> thenM (write_file io (add_suffix p ''.zip.tmp'') z)
                 (thenM (rename_file io (add_suffix p ''.zip.tmp'') (add_suffix p ''.zip''))
                        (rmtree io p)))"

definition archive :: "history_env \<Rightarrow> io_env \<Rightarrow> ('a fs_scheme, unit) op" where
  "archive env io =
     bindM (getM (get_archive_states env)) (\<lambda>states. forM (drop 1 states) (\<lambda>(p, dir). whenM dir (archive_directory env io p)))"

section \<open>The history of goal states\<close>

record history =
  hi_root :: path
  hi_errors :: bool

definition history_timestamp :: "int \<Rightarrow> string" where
  "history_timestamp now = (let t = now mod day_us in
     date_text (now div day_us) @ ''T'' @ pad 2 (t div 3600000000) @ ''-'' @ pad 2 (t div 60000000 mod 60) @ ''-'' @ pad 2 (t div 1000000 mod 60))"

definition purge_item :: "io_env \<Rightarrow> path \<Rightarrow> ('a fs_scheme, unit) op" where
  "purge_item io p = bindM (getM (\<lambda>s. is_file s p)) (\<lambda>file. if file then remove_file io p else rmtree io p)"

definition purge :: "history_env \<Rightarrow> io_env \<Rightarrow> ('a fs_scheme, unit) op" where
  "purge env io =
     tryM (bindM (getM (\<lambda>s. (path_exists s history_dir, map (\<lambda>n. history_dir @ [n]) (list_dir s history_dir)))) (\<lambda>(there, items).
             whenM there (forM (drop MAX_ARCHIVED_STATES (newest_first env items)) (purge_item io))))
       (\<lambda>e. if is_Exception e then Some (returnM ()) else None)"

definition new_history :: "history_env \<Rightarrow> io_env \<Rightarrow> int \<Rightarrow> string option \<Rightarrow> ('a fs_scheme, history) op" where
  "new_history env io now tag =
     thenM (purge env io)
       (returnM \<lparr>hi_root = history_dir @ [history_timestamp now @ (case tag of None \<Rightarrow> '''' | Some t \<Rightarrow> ''__'' @ t)], hi_errors = False\<rparr>)"

text \<open>\<^verbatim>\<open>tag_exists\<close>: the pattern is \<^verbatim>\<open>*_\<close> and the tag; hidden names do not match a star.\<close>

definition tag_exists :: "string \<Rightarrow> 'a fs_scheme \<Rightarrow> bool" where
  "tag_exists tag s = list_ex (\<lambda>n. \<not> startswith n ''.'' \<and> endswith n (''_'' @ tag)) (list_dir s history_dir)"

definition save :: "io_env \<Rightarrow> history \<Rightarrow> string \<Rightarrow> string \<Rightarrow> ('a fs_scheme, history) op" where
  "save io h data file_name =
     tryM (bindM (getM (\<lambda>s. path_exists s (hi_root h))) (\<lambda>there.
           thenM (whenM (\<not> there) (mkdir io (hi_root h)))
          (thenM (write_file io (hi_root h @ [file_name]) data) (returnM h))))
       (\<lambda>e. if is_Exception e then Some (returnM (h\<lparr>hi_errors := True\<rparr>)) else None)"

definition save_placeholder :: "io_env \<Rightarrow> ('a fs_scheme, unit) op" where
  "save_placeholder io =
     tryM (write_file io [PLACEHOLDER_FILE_NAME] ''<xml>empty placeholder file</xml>'') (\<lambda>e. if is_Exception e then Some (returnM ()) else None)"

definition save_goal_state :: "io_env \<Rightarrow> history \<Rightarrow> string \<Rightarrow> ('a fs_scheme, history) op" where
  "save_goal_state io h t = bindM (save io h t ''GoalState.xml'') (\<lambda>h'. thenM (save_placeholder io) (returnM h'))"

definition save_extensions_config :: "io_env \<Rightarrow> history \<Rightarrow> string \<Rightarrow> ('a fs_scheme, history) op" where
  "save_extensions_config io h t = save io h t ''ExtensionsConfig.xml''"

definition save_vm_settings :: "io_env \<Rightarrow> history \<Rightarrow> string \<Rightarrow> ('a fs_scheme, history) op" where
  "save_vm_settings io h t = save io h t ''VmSettings.json''"

definition save_remote_access :: "io_env \<Rightarrow> history \<Rightarrow> string \<Rightarrow> ('a fs_scheme, history) op" where
  "save_remote_access io h t = save io h t ''RemoteAccess.xml''"

definition save_certificates :: "io_env \<Rightarrow> history \<Rightarrow> string \<Rightarrow> ('a fs_scheme, history) op" where
  "save_certificates io h t = save io h t ''Certificates.json''"

definition save_hosting_env :: "io_env \<Rightarrow> history \<Rightarrow> string \<Rightarrow> ('a fs_scheme, history) op" where
  "save_hosting_env io h t = save io h t ''HostingEnvironmentConfig.xml''"

definition save_shared_conf :: "io_env \<Rightarrow> history \<Rightarrow> string \<Rightarrow> ('a fs_scheme, history) op" where
  "save_shared_conf io h t = save io h t ''SharedConfig.xml''"

definition save_manifest :: "io_env \<Rightarrow> history \<Rightarrow> string \<Rightarrow> string \<Rightarrow> ('a fs_scheme, history) op" where
  "save_manifest io h name t = save io h t (name @ ''.manifest.xml'')"

section \<open>What is kept\<close>

lemma in_tree_child: "q \<noteq> [] \<Longrightarrow> butlast q = h \<Longrightarrow> in_tree (h @ [n]) q \<longleftrightarrow> last q = n"
proof -
  assume "q \<noteq> []" "butlast q = h"
  then have "q = h @ [last q]" by (metis append_butlast_last_id)
  then show ?thesis by (metis append_eq_conv_conj in_tree_def last_snoc length_append_singleton order_refl take_all)
qed

lemma list_dir_drop_tree: "list_dir (drop_tree (h @ [n]) s) h = filter (\<lambda>m. m \<noteq> n) (list_dir s h)"
proof -
  define keep where "keep = (\<lambda>q :: path. \<not> in_tree (h @ [n]) q)"
  define child where "child = (\<lambda>q :: path. q \<noteq> [] \<and> butlast q = h)"
  have "map fst (filter (\<lambda>(q, _). \<not> in_tree (h @ [n]) q) fs) = filter keep (map fst fs)" for fs :: "(path \<times> string) list"
    by (induction fs) (auto simp: keep_def)
  then have "list_dir (drop_tree (h @ [n]) s) h = map last (filter child (filter keep (map fst (fs_files s) @ fs_dirs s)))"
    by (simp add: list_dir_def drop_tree_def child_def) (simp add: keep_def)
  moreover have "map last (filter child (filter keep xs)) = filter (\<lambda>m. m \<noteq> n) (map last (filter child xs))" for xs
    by (induction xs) (auto simp: keep_def child_def in_tree_child)
  ultimately show ?thesis by (simp only: list_dir_def child_def)
qed

lemma list_dir_drop_file:
  assumes "h @ [n] \<notin> set (fs_dirs s)"
  shows "list_dir (drop_file (h @ [n]) s) h = filter (\<lambda>m. m \<noteq> n) (list_dir s h)"
proof -
  have eq: "q = h @ [n] \<longleftrightarrow> last q = n" if "q \<noteq> []" "butlast q = h" for q
    using that by (metis append_butlast_last_id last_snoc)
  have "filter (\<lambda>q. q \<noteq> [] \<and> butlast q = h) (map fst (AList.delete (h @ [n]) fs)) =
      filter (\<lambda>q. last q \<noteq> n) (filter (\<lambda>q. q \<noteq> [] \<and> butlast q = h) (map fst fs))" for fs :: "(path \<times> string) list"
    by (induction fs) (auto simp: eq)
  moreover have "filter (\<lambda>q. q \<noteq> [] \<and> butlast q = h) (fs_dirs s) = filter (\<lambda>q. last q \<noteq> n) (filter (\<lambda>q. q \<noteq> [] \<and> butlast q = h) (fs_dirs s))"
    using assms eq by (auto intro!: filter_cong)
  ultimately show ?thesis by (simp add: list_dir_def drop_file_def filter_map comp_def)
qed

lemma purge_item_effect:
  assumes "\<And>p. io Remove p = None" "n \<in> set (list_dir s h)" "distinct (list_dir s h)"
  shows "\<exists>t. purge_item io (h @ [n]) s = (Inr (), t) \<and> list_dir t h = filter (\<lambda>m. m \<noteq> n) (list_dir s h)"
proof (cases "is_file s (h @ [n])")
  case True
  have "h @ [n] \<notin> set (fs_dirs s)"
  proof
    assume d: "h @ [n] \<in> set (fs_dirs s)"
    from True have "h @ [n] \<in> set (map fst (fs_files s))" by (auto simp: is_file_def dest: map_of_SomeD intro: rev_image_eqI)
    with d have "n \<in> set (map last (filter (\<lambda>q. q \<noteq> [] \<and> butlast q = h) (map fst (fs_files s))))"
      "n \<in> set (map last (filter (\<lambda>q. q \<noteq> [] \<and> butlast q = h) (fs_dirs s)))" by force+
    with assms(3) show False by (auto simp: list_dir_def)
  qed
  with True assms(1) show ?thesis
    by (simp add: purge_item_def remove_file_def io_check_def op_defs list_dir_drop_file)
next
  case False
  with assms(2) have "is_dir s (h @ [n])"
    by (auto simp: list_dir_def is_file_def is_dir_def map_of_eq_None_iff) (metis append_butlast_last_id imageI fst_conv)+
  with False assms(1) show ?thesis
    by (simp add: purge_item_def rmtree_def io_check_def op_defs list_dir_drop_tree)
qed

lemma purge_items_effect:
  assumes "\<And>p. io Remove p = None"
  shows "distinct ns \<Longrightarrow> set ns \<subseteq> set (list_dir s h) \<Longrightarrow> distinct (list_dir s h) \<Longrightarrow>
    \<exists>t. forM (map (\<lambda>n. h @ [n]) ns) (purge_item io) s = (Inr (), t) \<and> list_dir t h = filter (\<lambda>m. m \<notin> set ns) (list_dir s h)"
proof (induction ns arbitrary: s)
  case (Cons n ns)
  then obtain u where u: "purge_item io (h @ [n]) s = (Inr (), u)" "list_dir u h = filter (\<lambda>m. m \<noteq> n) (list_dir s h)"
    using purge_item_effect [of io n s h] assms by auto
  with Cons.prems have "set ns \<subseteq> set (list_dir u h)" "distinct (list_dir u h)" "distinct ns" by auto
  from Cons.IH [OF this(3, 1, 2)] u show ?case by (auto simp: thenM_def bindM_def intro!: filter_cong)
qed (simp add: op_defs)

interpretation newest: weak_order "\<lambda>_ :: path. True" "\<lambda>a b. he_ctime env b < he_ctime env a" for env
  by unfold_locales auto

text \<open>
  C27: When a new goal state opens its directory and every removal succeeds, at most fifty items are left in the history. The items left are those
  that come first in the order from the newest to the oldest, so that nothing that is kept is older than what is removed.
\<close>

theorem history_keeps_newest:
  assumes "\<And>p. io Remove p = None" "path_exists s history_dir" "distinct (list_dir s history_dir)"
    and items: "items = newest_first env (map (\<lambda>n. history_dir @ [n]) (list_dir s history_dir))"
  shows "length (list_dir (snd (purge env io s)) history_dir) \<le> MAX_ARCHIVED_STATES \<and>
    set (list_dir (snd (purge env io s)) history_dir) = last ` set (take MAX_ARCHIVED_STATES items) \<and>
    (\<forall>p\<in>set (take MAX_ARCHIVED_STATES items). \<forall>q\<in>set (drop MAX_ARCHIVED_STATES items). he_ctime env q \<le> he_ctime env p)"
proof -
  let ?kept = "map last (take MAX_ARCHIVED_STATES items)" and ?old = "map last (drop MAX_ARCHIVED_STATES items)"
  have mset: "mset items = mset (map (\<lambda>n. history_dir @ [n]) (list_dir s history_dir))" by (simp add: items newest_first_def)
  have names: "mset (map last items) = mset (list_dir s history_dir)"
    using arg_cong [OF mset, of "image_mset last"] by (simp add: image_mset.compositionality comp_def)
  then have "distinct (map last items)" using assms(3) by (metis mset_eq_imp_distinct_iff)
  then have split: "distinct ?kept" "distinct ?old" "set ?kept \<inter> set ?old = {}"
    by (metis append_take_drop_id distinct_append map_append)+
  have all: "set ?kept \<union> set ?old = set (list_dir s history_dir)"
    using arg_cong [OF names, of set_mset] by (metis append_take_drop_id map_append set_append set_mset_mset)
  have "p \<in> set items \<Longrightarrow> p = history_dir @ [last p]" for p
    using arg_cong [OF mset, of set_mset] by auto
  then have old: "map (\<lambda>n. history_dir @ [n]) ?old = drop MAX_ARCHIVED_STATES items"
    using in_set_dropD [of _ MAX_ARCHIVED_STATES items] by (auto intro!: map_idI [THEN trans] simp: comp_def)
  from purge_items_effect [of io ?old s history_dir] assms(1, 3) split all obtain t where
    t: "forM (drop MAX_ARCHIVED_STATES items) (purge_item io) s = (Inr (), t)" "list_dir t history_dir = filter (\<lambda>m. m \<notin> set ?old) (list_dir s history_dir)"
    unfolding old by blast
  then have "snd (purge env io s) = t"
    using assms(2) by (simp add: purge_def op_defs items)
  moreover have "set (filter (\<lambda>m. m \<notin> set ?old) (list_dir s history_dir)) = set ?kept" using all split by auto
  moreover have "length (filter (\<lambda>m. m \<notin> set ?old) (list_dir s history_dir)) = length ?kept"
    using calculation(2) assms(3) split(1) by (metis distinct_card distinct_filter)
  ultimately have "length (list_dir (snd (purge env io s)) history_dir) \<le> MAX_ARCHIVED_STATES"
    "set (list_dir (snd (purge env io s)) history_dir) = last ` set (take MAX_ARCHIVED_STATES items)"
    using t(2) by simp_all
  moreover have "sorted_wrt (\<lambda>a b. \<not> he_ctime env a < he_ctime env b) items"
    unfolding items newest_first_def by (rule newest.sorted_sort_by) simp
  then have "sorted_wrt (\<lambda>a b. \<not> he_ctime env a < he_ctime env b) (take MAX_ARCHIVED_STATES items @ drop MAX_ARCHIVED_STATES items)" by simp
  then have "\<forall>p\<in>set (take MAX_ARCHIVED_STATES items). \<forall>q\<in>set (drop MAX_ARCHIVED_STATES items). he_ctime env q \<le> he_ctime env p"
    by (simp only: sorted_wrt_append) (auto simp: not_less)
  ultimately show ?thesis by blast
qed

definition sample_history :: fs where
  "sample_history = \<lparr>fs_files = [([''history'', ''c.zip''], ''z'')], fs_dirs = [[''history''], [''history'', ''a''], [''history'', ''b'']]\<rparr>"

theorem history_keeps_newest_witness:
  "set (list_dir (snd (purge \<lparr>he_ctime = (\<lambda>p. int (length (last p))), he_zip = (\<lambda>_. Inr '''')\<rparr> (\<lambda>_ _. None) sample_history)) history_dir) = {''a'', ''b'', ''c.zip''}"
proof -
  let ?env = "\<lparr>he_ctime = (\<lambda>p :: path. int (length (last p))), he_zip = (\<lambda>_. Inr '''')\<rparr>"
  have "path_exists sample_history history_dir" "distinct (list_dir sample_history history_dir)" by code_simp+
  moreover have "last ` set (take MAX_ARCHIVED_STATES (newest_first ?env (map (\<lambda>n. history_dir @ [n]) (list_dir sample_history history_dir)))) = {''a'', ''b'', ''c.zip''}"
    by code_simp
  ultimately show ?thesis using history_keeps_newest [of "\<lambda>_ _. None" sample_history, OF refl _ _ refl, of ?env] by simp
qed

end
