(* ===== verification/Spec2Isabelle.thy ===== *)
theory Spec2Isabelle
  imports Agent_Update Ext_Safety Vm_Settings Ext_Config History
begin

text \<open>
  \<^bold>\<open>The Azure Linux Agent\<close> (\<^verbatim>\<open>src/azurelinuxagent\<close>) runs on a virtual machine, reads a goal state from
  the host, updates itself, downloads and runs extensions and reports their status. This development
  models the parts listed below and proves what makes them correct.

  \<^bold>\<open>Conventions.\<close> A Python function that changes no modelled state is a function into \<open>'a res\<close>
  (\<open>Inl\<close> an exception of the datatype \<open>exn\<close>, \<open>Inr\<close> the value); one that does is an operation
  \<open>('s, 'a) op\<close>, which returns the outcome and the new state, also when it raises. The combinators of
  \<open>Prelude\<close> are sequencing, \<^verbatim>\<open>try\<close>, \<^verbatim>\<open>finally\<close> and loops over lists. State that a class or module
  keeps is a record; what the code reads from its surroundings and does not control (commands, clock,
  network, failing system calls, Python's \<^verbatim>\<open>json\<close> and \<^verbatim>\<open>base64\<close>) is a record of parameters, so that
  the theorems hold for every behaviour of it. Log lines and telemetry events have no effect on the
  modelled state and are left out; so are the texts of messages where nothing depends on them. Text is a
  list of 8-bit characters.

  \<^bold>\<open>Theories.\<close>
  \<^item> \<open>Prelude\<close>, \<open>Py_Text\<close>, \<open>Py_Sort\<close>, \<open>Json\<close>: exceptions, operations with their rules for invariants
    (\<open>preserves\<close>) and weakest preconditions (\<open>wp\<close>), and the operations of Python on text, lists and
    parsed JSON documents, type errors included.
  \<^item> \<open>Flexible_Version\<close> (\<^verbatim>\<open>common/utils/flexible_version.py\<close>): parsing, printing, arithmetic and order of
    versions; printing and parsing are inverse, the order is total, and it is an interpretation of the
    interface \<open>weak_order\<close> that sorting relies on.
  \<^item> \<open>Text_Util\<close>, \<open>Rest_Util\<close>, \<open>Url\<close>, \<open>File_System\<close> (\<^verbatim>\<open>common/utils\<close>): bytes and text, the SSH and INI
    configuration editors, proxy selection, the HTTP retry loop (which terminates, is bounded, and
    outlives transient failures), URLs, and the library directory as a file system.
  \<^item> \<open>Date_Time\<close> (\<^verbatim>\<open>common/utils/timeutil.py\<close>), \<open>Xml\<close> (\<^verbatim>\<open>common/utils/textutil.py\<close>), \<open>Ext_Goal_State\<close>, \<open>Vm_Settings\<close>,
    \<open>Ext_Config\<close> (\<^verbatim>\<open>common/protocol/extensions_goal_state*.py\<close>): the JSON and the XML form of a goal state, parsed with every error, and
    redacted. Times of creation, which decide between two goal states, are compared as text, which agrees with their order in time; an
    accepted document has well-formed extensions only, and a redacted text has none of the secrets that were parsed.
  \<^item> \<open>History\<close> (\<^verbatim>\<open>common/utils/archive.py\<close>): the history directory of goal states, of which the fifty newest items are kept.
  \<^item> \<open>Restapi\<close> (\<^verbatim>\<open>common/protocol/restapi.py\<close>, \<^verbatim>\<open>common/datacontract.py\<close>): the data contracts of
    extension processing.
  \<^item> \<open>Ext_Status\<close> (\<^verbatim>\<open>ga/exthandlers.py\<close>): the status files of extensions; what is read is well typed, what is
    reported is bounded, and reading ends after five attempts.
  \<^item> \<open>Net\<close> (\<^verbatim>\<open>common/errorstate.py\<close>, \<^verbatim>\<open>common/protocol/healthservice.py\<close>), \<open>Host_Plugin\<close>
    (\<^verbatim>\<open>common/protocol/hostplugin.py\<close>), \<open>Wire_Client\<close>, \<open>Wire_Report\<close> (\<^verbatim>\<open>common/protocol/wire.py\<close>): the states \<open>fs\<close>, \<open>net\<close>,
    \<open>hgap\<close> and \<open>wire\<close> extend one another in this order. An error state refines the time of the first failure, a
    status reaches a page blob complete over either channel, a package is not expanded before its signature is
    verified, and telemetry is sent in order, complete and in bounded batches.
  \<^item> \<open>Policy_Engine\<close> (\<^verbatim>\<open>ga/policy/policy_engine.py\<close>): the policy document as it is validated, and the
    decisions read from it.
  \<^item> \<open>Handler_Manifest\<close>, \<open>Signature_Validation\<close> (\<^verbatim>\<open>ga/exthandlers.py\<close>, \<^verbatim>\<open>ga/signature_validation_util.py\<close>):
    accessors of a handler manifest; when signatures are validated and with what outcome.
  \<^item> \<open>Ext_Handler\<close>, \<open>Ext_Handlers\<close> (\<^verbatim>\<open>ga/exthandlers.py\<close>): \<^verbatim>\<open>ExtHandlerInstance\<close>, one version of an extension with its
    directory, state files and commands, and \<^verbatim>\<open>ExtHandlersHandler\<close>, which brings the extensions of a goal state to their requested states and
    reports on them. The states \<open>ext_world\<close> and \<open>ext_handlers\<close> extend \<open>wire\<close>; the commands handed to the operating system are the list
    \<open>x_launched\<close>, and what they do is a parameter. \<open>Ext_Safety\<close> has the properties: what the policy does not allow, what does not
    verify and what depends on a failure is not run, an unusable policy stops everything, and commands and extensions come in their
    order. The frame rules \<open>steady_intros\<close> for operations that launch nothing, and the rules \<open>climbs\<close> for the order of commands carry the
    proofs.
  \<^item> \<open>Guest_Agent\<close>, \<open>Agent_Update\<close> (\<^verbatim>\<open>ga/guestagent.py\<close>, \<^verbatim>\<open>ga/agent_update_handler.py\<close>,
    \<^verbatim>\<open>ga/*_version_updater.py\<close>): the agents on disk and a whole run of the update handler with both
    updaters, which are interpretations of one interface, \<open>version_updater\<close>. In
    \<^verbatim>\<open>AgentUpgradeExitException\<close> the message is reduced to the version to run next.

  \<^bold>\<open>Bounds.\<close> No fuel is used: the retry loops are proved to terminate with the measure of the attempts
  left, the division into pages with that of the bytes left, the wait for an extension that others depend on with the time left until its
  deadline (the clock does not go back and every round sleeps), and the search for the number of a settings file with the length of the text; everything
  else recurses on lists or text.

  \<^bold>\<open>Not modelled.\<close> Provisioning and the distribution specific code (\<^verbatim>\<open>pa\<close>, \<^verbatim>\<open>common/osutil\<close>), which is calls of system commands; cgroups and resource monitoring; telemetry; threads
  and their scheduling; log collection; the log of the commands of extensions and \<^verbatim>\<open>migrate_handler_state\<close>, which moves files of
  very old agents.
\<close>

text \<open>
  C23: The text of a goal state that is saved to the history, of either form, has no secret of the goal state: neither the protected settings of an
  extension nor the query (the SAS token) of the URL of the status blob or of the artifacts profile, unless the
  redaction failed, and then the text is a message instead. A secret is a text that cannot be confused with the mark that replaces it.
\<close>

theorem redacted_goal_state_has_no_secret:
  "(vs_secret vs p \<longrightarrow> redaction_failed (vs_get_redacted_text env vs) \<or> \<not> contains (vs_get_redacted_text env vs) p) \<and>
   (xc_secret xc q \<longrightarrow> redaction_failed (xc_get_redacted_text env xc) \<or> \<not> contains (xc_get_redacted_text env xc) q)"
  using vm_settings_redacted extensions_config_redacted by blast

definition sample_vm_settings :: vm_settings where
  "sample_vm_settings = (new_vm_settings ''1'' ''see https://a.b/c?sig=Zm9vYmFy and MIIBsAYJKoZI'' ''c'')\<lparr>
     vs_status_upload_blob := JStr ''https://a.b/c?sig=Zm9vYmFy'',
     vs_extensions := [new_gs_extension\<lparr>ge_settings := [new_gs_settings\<lparr>gx_protected_settings := JStr ''MIIBsAYJKoZI''\<rparr>]\<rparr>]\<rparr>"

definition sample_extensions_config :: extensions_config where
  "sample_extensions_config = (new_extensions_config (Some ''1'') ''<s>https://a.b/c?a=1&amp;sig=Zm9vYmFy</s>'')\<lparr>
     xc_status_upload_blob_node := Some (Element ''s'' [] [Text ''https://a.b/c?a=1&sig=Zm9vYmFy''])\<rparr>"

theorem redacted_goal_state_has_no_secret_witness:
  "\<not> contains (vs_get_redacted_text sample_doc_env sample_vm_settings) ''MIIBsAYJKoZI'' \<and>
   \<not> contains (xc_get_redacted_text sample_doc_env sample_extensions_config) ''a=1&amp;sig=Zm9vYmFy''"
proof -
  have "\<not> redaction_failed (vs_get_redacted_text sample_doc_env sample_vm_settings)"
    "\<not> redaction_failed (xc_get_redacted_text sample_doc_env sample_extensions_config)" by code_simp+
  moreover have "vs_secret sample_vm_settings ''MIIBsAYJKoZI''"
    unfolding vs_secret_def sample_vm_settings_def secret_def by (simp add: new_gs_extension_def)
  moreover have "gettextxml (xc_status_upload_blob_node sample_extensions_config) = Some ''https://a.b/c?a=1&amp;sig=Zm9vYmFy''"
    "url_query ''https://a.b/c?a=1&amp;sig=Zm9vYmFy'' = Inr ''a=1&amp;sig=Zm9vYmFy''" "secret ''a=1&amp;sig=Zm9vYmFy''" by code_simp+
  then have "xc_secret sample_extensions_config ''a=1&amp;sig=Zm9vYmFy''" unfolding xc_secret_def by blast
  ultimately show ?thesis
    using redacted_goal_state_has_no_secret [of sample_vm_settings "''MIIBsAYJKoZI''" sample_doc_env sample_extensions_config "''a=1&amp;sig=Zm9vYmFy''"] by blast
qed

end
